(* ===== verification/Prelude.thy ===== *)
theory Prelude
  imports Main "HOL-Library.Word" "HOL-Library.Numeral_Type" "HOL-Library.Type_Length"
begin

text \<open>
  Shared vocabulary of the development: Rust's machine integers and fixed-length arrays,
  little-endian byte order, slice writes, and the control operators in which the handlers
  are written (an \<open>assert!\<close>, an \<open>.expect(..)\<close> on an optional value, sequencing
  of steps that may panic).  The lemmas declared \<open>[simp]\<close> here, with the collections
  \<open>res_defs\<close> (the control operators) and \<open>wire\<close> (byte layouts), carry the
  component proofs.
\<close>

named_theorems res_defs "the control operators of the handlers"
named_theorems wire "equations on byte layouts"

section \<open>Machine integers\<close>

type_synonym u8 = "8 word"
type_synonym u32 = "32 word"
type_synonym u64 = "64 word"
type_synonym u128 = "128 word"

text \<open>
  \<open>to_le n w\<close> is the \<open>n\<close> low bytes of a word, least significant first, and
  \<open>from_le\<close> reads them back: \<open>u64::to_le_bytes\<close> is \<open>to_le 8\<close>.
\<close>

primrec to_le :: "nat \<Rightarrow> 'a::len word \<Rightarrow> u8 list" where
  "to_le 0 w = []"
| "to_le (Suc n) w = ucast w # to_le n (drop_bit 8 w)"

primrec from_le :: "u8 list \<Rightarrow> 'a::len word" where
  "from_le [] = 0"
| "from_le (b # bs) = or (ucast b) (push_bit 8 (from_le bs))"

lemma length_to_le [simp, wire]: "length (to_le n w) = n"
  by (induction n arbitrary: w) simp_all

lemma from_le_to_le_take: "from_le (to_le n w) = take_bit (8 * n) w"
proof (induction n arbitrary: w)
  case 0
  then show ?case by simp
next
  case (Suc n)
  show ?case
  proof (rule bit_eqI)
    fix k
    assume "possible_bit TYPE('a word) k"
    then have k: "k < LENGTH('a)" by simp
    show "bit (from_le (to_le (Suc n) w) :: 'a word) k = bit (take_bit (8 * Suc n) w) k"
    proof (cases "k < 8")
      case True
      with k show ?thesis
        by (simp add: Suc bit_or_iff bit_push_bit_iff bit_ucast_iff bit_take_bit_iff)
    next
      case False
      then obtain j where "k = 8 + j" by (metis le_Suc_ex not_less)
      with k show ?thesis
        by (simp add: Suc bit_or_iff bit_push_bit_iff bit_ucast_iff bit_take_bit_iff bit_drop_bit_eq)
    qed
  qed
qed

lemma from_le_to_le:
  fixes w :: "'a::len word"
  assumes "LENGTH('a) \<le> 8 * n"
  shows "from_le (to_le n w) = w"
  using assms by (simp add: from_le_to_le_take take_bit_word_eq_self)

lemma to_le_inject:
  fixes v w :: "'a::len word"
  assumes "LENGTH('a) \<le> 8 * n"
  shows "to_le n v = to_le n w \<longleftrightarrow> v = w"
  using assms by (metis from_le_to_le)

text \<open>
  The other direction, for a decoder: reading \<open>n\<close> bytes into a word of exactly
  \<open>8 * n\<close> bits and writing them out again gives the same bytes.
\<close>

lemma to_le_eqI:
  "length bs = n \<Longrightarrow> (\<And>k. k < n \<Longrightarrow> ucast (drop_bit (8 * k) w) = bs ! k) \<Longrightarrow> to_le n w = bs"
proof (induction bs arbitrary: n w)
  case Nil
  then show ?case by simp
next
  case (Cons b bs)
  then obtain m where m: "n = Suc m" by (cases n) auto
  have "to_le m (drop_bit 8 w) = bs"
  proof (rule Cons.IH)
    show "length bs = m" using Cons.prems(1) m by simp
    show "ucast (drop_bit (8 * k) (drop_bit 8 w)) = bs ! k" if "k < m" for k
      using Cons.prems(2)[of "Suc k"] that m by (simp add: add.commute)
  qed
  moreover have "ucast w = b" using Cons.prems(2)[of 0] m by simp
  ultimately show ?case using m by simp
qed

lemma bit_from_le:
  "bit (from_le bs :: 'a::len word) j \<longleftrightarrow>
     j < LENGTH('a) \<and> j div 8 < length bs \<and> bit (bs ! (j div 8)) (j mod 8)"
proof (induction bs arbitrary: j)
  case Nil
  then show ?case by simp
next
  case (Cons b bs)
  show ?case
  proof (cases "j < 8")
    case True
    then show ?thesis by (auto simp: bit_or_iff bit_push_bit_iff bit_ucast_iff)
  next
    case False
    then have "\<not> bit b j" by (simp add: bit_word_def not_less)
    moreover have "j div 8 = Suc ((j - 8) div 8)" and "(j - 8) mod 8 = j mod 8"
      using False by (auto simp: le_div_geq le_mod_geq not_less)
    ultimately show ?thesis
      using False by (auto simp: bit_or_iff bit_push_bit_iff bit_ucast_iff Cons)
  qed
qed

lemma to_le_from_le:
  assumes len: "length bs = n" and wid: "LENGTH('a::len) = 8 * n"
  shows "to_le n (from_le bs :: 'a word) = bs"
proof (rule to_le_eqI [OF len])
  fix k assume k: "k < n"
  show "ucast (drop_bit (8 * k) (from_le bs :: 'a word)) = bs ! k"
  proof (rule bit_eqI)
    fix j assume "possible_bit TYPE(8 word) j"
    then have j: "j < 8" by simp
    then have "(8 * k + j) div 8 = k" and "(8 * k + j) mod 8 = j" by simp_all
    moreover have "8 * k + j < LENGTH('a)" using j k wid by simp
    ultimately show "bit (ucast (drop_bit (8 * k) (from_le bs :: 'a word)) :: u8) j = bit (bs ! k) j"
      using j k len by (simp add: bit_ucast_iff bit_drop_bit_eq bit_from_le)
  qed
qed

section \<open>Fixed-length arrays\<close>

text \<open>
  Rust's \<open>[T; N]\<close>: a list whose length is fixed by the type.  \<open>[x; N]\<close> is
  \<open>arr_fill x\<close>; \<open>arr_pad\<close> copies a list to the front of a zeroed array (and would cut
  a longer one, which the code that uses it excludes first); \<open>arr_try_of\<close> is
  \<open>TryFrom<&[T]>\<close>, which fails unless the length is exactly \<open>N\<close>.
\<close>

typedef (overloaded) ('a, 'n::len) arr = "{xs :: 'a list. length xs = LENGTH('n)}"
  morphisms arr_list Abs_arr
  by (rule exI [of _ "replicate LENGTH('n) undefined"]) simp

setup_lifting type_definition_arr

lift_definition arr_fill :: "'a \<Rightarrow> ('a, 'n::len) arr" is "\<lambda>x. replicate LENGTH('n) x"
  by simp

lift_definition arr_pad :: "'a::zero list \<Rightarrow> ('a, 'n::len) arr"
  is "\<lambda>xs. take LENGTH('n) (xs @ replicate LENGTH('n) 0)"
  by simp

definition arr_try_of :: "'a::zero list \<Rightarrow> ('a, 'n::len) arr option" where
  "arr_try_of xs = (if length xs = LENGTH('n) then Some (arr_pad xs) else None)"

instantiation arr :: (equal, len) equal
begin

definition equal_arr :: "('a, 'b) arr \<Rightarrow> ('a, 'b) arr \<Rightarrow> bool" where
  "equal_arr a b \<longleftrightarrow> arr_list a = arr_list b"

instance
  by standard (simp add: equal_arr_def arr_list_inject)
end

type_synonym bytes32 = "(u8, 32) arr"

lemma length_arr_list [simp, wire]: "length (arr_list (a :: ('a, 'n::len) arr)) = LENGTH('n)"
  by transfer simp

lemma arr_list_eq_iff [simp]: "arr_list a = arr_list b \<longleftrightarrow> a = b"
  by (rule arr_list_inject)

lemma arr_list_fill [simp]: "arr_list (arr_fill x :: ('a, 'n::len) arr) = replicate LENGTH('n) x"
  by transfer simp

lemma arr_list_pad_exact [simp]:
  "length xs = LENGTH('n) \<Longrightarrow> arr_list (arr_pad xs :: ('a::zero, 'n::len) arr) = xs"
  by transfer simp

lemma arr_list_pad:
  "length xs \<le> LENGTH('n) \<Longrightarrow>
     arr_list (arr_pad xs :: ('a::zero, 'n::len) arr) = xs @ replicate (LENGTH('n) - length xs) 0"
  by transfer (simp add: min_def)

lemma arr_try_of_arr_list [simp]: "arr_try_of (arr_list a) = Some a"
  by (simp add: arr_try_of_def flip: arr_list_eq_iff)

lemma arr_try_of_Some_iff:
  "arr_try_of xs = Some (a :: ('a::zero, 'n::len) arr) \<longleftrightarrow> arr_list a = xs"
  by (auto simp: arr_try_of_def simp flip: arr_list_eq_iff)

lemma arr_fill_inject [simp]: "(arr_fill x :: ('a, 'n::len) arr) = arr_fill y \<longleftrightarrow> x = y"
  by (auto simp: replicate_eq_replicate simp flip: arr_list_eq_iff)

section \<open>Slice writes\<close>

text \<open>
  \<open>buf[at..at + src.len()].copy_from_slice(src)\<close> on a buffer long enough to hold it.
  The hashing code fills fixed-size buffers slice by slice; \<open>buf_write_tile\<close> says when the
  result is a plain concatenation.
\<close>

definition buf_write :: "nat \<Rightarrow> 'a list \<Rightarrow> 'a list \<Rightarrow> 'a list" where
  "buf_write at src buf = take at buf @ src @ drop (at + length src) buf"

lemma length_buf_write [simp]:
  "at + length src \<le> length buf \<Longrightarrow> length (buf_write at src buf) = length buf"
  by (simp add: buf_write_def)

lemma buf_write_tile:
  "length done_part = at \<Longrightarrow> n = length src + m \<Longrightarrow>
     buf_write at src (done_part @ replicate n z) = (done_part @ src) @ replicate m z"
  by (simp add: buf_write_def)

section \<open>Results and control\<close>

text \<open>
  A step of the guest either panics (\<open>Inl\<close> of the panic) or yields a value
  (\<open>Inr\<close>).  \<open>require c e k\<close> is \<open>assert!(c, e); k\<close>; \<open>expect v e k\<close>
  is \<open>let x = v.expect(e); k x\<close>; \<open>bind\<close> sequences a step that may itself panic.
\<close>

definition require :: "bool \<Rightarrow> 'e \<Rightarrow> 'e + 'a \<Rightarrow> 'e + 'a" where
  "require c e k = (if c then k else Inl e)"

definition expect :: "'b option \<Rightarrow> 'e \<Rightarrow> ('b \<Rightarrow> 'e + 'a) \<Rightarrow> 'e + 'a" where
  "expect v e k = (case v of None \<Rightarrow> Inl e | Some x \<Rightarrow> k x)"

definition bind :: "'e + 'b \<Rightarrow> ('b \<Rightarrow> 'e + 'a) \<Rightarrow> 'e + 'a" where
  "bind r k = (case r of Inl e \<Rightarrow> Inl e | Inr x \<Rightarrow> k x)"

lemmas control_defs [res_defs] = require_def expect_def bind_def

lemma require_True [simp]: "require True e k = k"
  and require_False [simp]: "require False e k = Inl e"
  by (simp_all add: require_def)

lemma expect_Some [simp]: "expect (Some x) e k = k x"
  and expect_None [simp]: "expect None e k = Inl e"
  by (simp_all add: expect_def)

lemma bind_Inr [simp]: "bind (Inr x) k = k x"
  and bind_Inl [simp]: "bind (Inl e) k = Inl e"
  by (simp_all add: bind_def)

lemma require_Inr_iff [simp]: "require c e k = Inr y \<longleftrightarrow> c \<and> k = Inr y"
  by (simp add: require_def)

lemma expect_Inr_iff [simp]: "expect v e k = Inr y \<longleftrightarrow> (\<exists>x. v = Some x \<and> k x = Inr y)"
  by (cases v) auto

lemma bind_Inr_iff [simp]: "bind r k = Inr y \<longleftrightarrow> (\<exists>x. r = Inr x \<and> k x = Inr y)"
  by (cases r) auto

lemma require_Inl_iff: "require c e k = Inl f \<longleftrightarrow> (if c then k = Inl f else e = f)"
  by (simp add: require_def)

lemma expect_Inl_iff:
  "expect v e k = Inl f \<longleftrightarrow> (case v of None \<Rightarrow> e = f | Some x \<Rightarrow> k x = Inl f)"
  by (cases v) auto

lemma bind_Inl_iff:
  "bind r k = Inl f \<longleftrightarrow> (case r of Inl e \<Rightarrow> e = f | Inr x \<Rightarrow> k x = Inl f)"
  by (cases r) auto

lemmas res_Inl_iffs = require_Inl_iff expect_Inl_iff bind_Inl_iff

text \<open>The steps after a check may rely on it, and a mapping of the outcome moves inward.\<close>

lemma require_cong: "c = c' \<Longrightarrow> (c' \<Longrightarrow> k = k') \<Longrightarrow> require c e k = require c' e k'"
  by (simp add: require_def)

lemma map_sum_require: "map_sum f g (require c e k) = require c (f e) (map_sum f g k)"
  and map_sum_expect: "map_sum f g (expect v e h) = expect v (f e) (\<lambda>x. map_sum f g (h x))"
  and map_sum_bind: "map_sum id g (bind r h) = bind r (\<lambda>x. map_sum id g (h x))"
  by (simp_all add: require_def expect_def bind_def split: option.split sum.split)

text \<open>\<open>iter().map(f).collect::<Result<Vec<_>>>()\<close>: the first error wins.\<close>

fun collect_map :: "('b \<Rightarrow> 'e + 'a) \<Rightarrow> 'b list \<Rightarrow> 'e + 'a list" where
  "collect_map f [] = Inr []"
| "collect_map f (x # xs) = bind (f x) (\<lambda>y. bind (collect_map f xs) (\<lambda>ys. Inr (y # ys)))"

lemma collect_map_Inr_iff:
  "collect_map f xs = Inr ys \<longleftrightarrow> list_all2 (\<lambda>x y. f x = Inr y) xs ys"
proof (induction xs arbitrary: ys)
  case Nil
  then show ?case by auto
next
  case (Cons x xs)
  show ?case
    by (cases "f x"; cases "collect_map f xs") (auto simp: bind_def list_all2_Cons1 simp flip: Cons.IH)
qed

lemma collect_map_Inr: "(\<And>x. x \<in> set xs \<Longrightarrow> f x = Inr (g x)) \<Longrightarrow> collect_map f xs = Inr (map g xs)"
  by (induction xs) simp_all

section \<open>Lists\<close>

text \<open>The handlers check how many accounts they got before they name them.\<close>

lemma length_eq_1: "length xs = Suc 0 \<longleftrightarrow> (\<exists>x. xs = [x])"
  by (cases xs) auto

lemma length_eq_2: "length xs = 2 \<longleftrightarrow> (\<exists>x y. xs = [x, y])"
  by (auto simp: numeral_2_eq_2 length_Suc_conv)

lemma length_eq_3: "length xs = 3 \<longleftrightarrow> (\<exists>x y z. xs = [x, y, z])"
  by (auto simp: numeral_3_eq_3 length_Suc_conv)

lemma length_ge_2: "2 \<le> length xs \<longleftrightarrow> (\<exists>x y zs. xs = x # y # zs)"
  by (cases xs; cases "tl xs") auto

lemmas length_eqs = length_eq_1 length_eq_2 length_eq_3 length_ge_2

text \<open>\<open>Vec::retain\<close> of everything but one value, and \<open>Vec::push\<close>.\<close>

definition retain_ne :: "'a \<Rightarrow> 'a list \<Rightarrow> 'a list" where
  "retain_ne x xs = filter (\<lambda>n. n \<noteq> x) xs"

definition push :: "'a list \<Rightarrow> 'a \<Rightarrow> 'a list" where
  "push xs x = xs @ [x]"

lemma set_retain_ne [simp]: "set (retain_ne x xs) = set xs - {x}"
  by (auto simp: retain_ne_def)

lemma set_push [simp]: "set (push xs x) = insert x (set xs)"
  by (simp add: push_def)

lemma length_push [simp]: "length (push xs x) = Suc (length xs)"
  by (simp add: push_def)

lemma length_retain_ne_le: "length (retain_ne x xs) \<le> length xs"
  by (simp add: retain_ne_def)

lemma retain_ne_id [simp]: "x \<notin> set xs \<Longrightarrow> retain_ne x xs = xs"
  by (auto simp: retain_ne_def filter_id_conv)

lemma distinct_retain_ne [simp]: "distinct xs \<Longrightarrow> distinct (retain_ne x xs)"
  by (simp add: retain_ne_def)

lemma distinct_push [simp]: "distinct (push xs x) \<longleftrightarrow> x \<notin> set xs \<and> distinct xs"
  by (auto simp: push_def)

lemma length_retain_ne_distinct:
  "distinct xs \<Longrightarrow> length (retain_ne x xs) = length xs - (if x \<in> set xs then 1 else 0)"
  by (induction xs) (auto simp: retain_ne_def filter_id_conv Suc_diff_le dest: length_pos_if_in_set
      split: if_splits)

lemma map_retain_ne_filter: "retain_ne (f x) (map f xs) = map f (filter (\<lambda>y. f y \<noteq> f x) xs)"
  by (simp add: retain_ne_def filter_map comp_def)

end
