(* ===== verification/Pms_Error.thy ===== *)
theory Pms_Error
  imports Prelude
begin

text \<open>
  The error strings of \<^verbatim>\<open>pms_core/src/error.rs\<close> and the ways a guest execution can end
  without a result.  A program of the execution zone fails by panicking; the panic message is
  what the client sees.  \<open>Pms e\<close> is a panic whose message carries one of the documented
  constants (an \<open>assert!\<close> with it, or an \<open>.expect\<close> on it); \<open>Expect m\<close> is any other
  \<open>.expect\<close> or \<open>assert!\<close> message; \<open>Overflow\<close> is Rust's arithmetic overflow panic, which
  exists only in builds with overflow checks; \<open>OutOfBounds\<close> is the panic of a slice index or
  range that lies outside the slice.
\<close>

datatype pms_error =
    ERR_ALREADY_INITIALIZED
  | ERR_BAD_THRESHOLD
  | ERR_DUPLICATE_MEMBER
  | ERR_STATE_MISMATCH
  | ERR_PROPOSAL_EXISTS
  | ERR_BAD_PROPOSAL_INDEX
  | ERR_BAD_AUTHORIZED_INDEX
  | ERR_PROPOSAL_MISMATCH
  | ERR_PROPOSAL_NOT_ACTIVE
  | ERR_MEMBER_NOT_AUTHORIZED
  | ERR_NOT_A_MEMBER
  | ERR_DUPLICATE_VOTE
  | ERR_DUPLICATE_REJECT
  | ERR_THRESHOLD_NOT_MET
  | ERR_BAD_TARGET_COUNT
  | ERR_BAD_ACCOUNT_COUNT

primrec err_str :: "pms_error \<Rightarrow> string" where
  "err_str ERR_ALREADY_INITIALIZED = ''PMS_E001: multisig state account is already initialized''"
| "err_str ERR_BAD_THRESHOLD = ''PMS_E002: invalid threshold for member count''"
| "err_str ERR_DUPLICATE_MEMBER = ''PMS_E003: duplicate member commitment''"
| "err_str ERR_STATE_MISMATCH = ''PMS_E004: multisig state does not match create_key''"
| "err_str ERR_PROPOSAL_EXISTS = ''PMS_E005: proposal account is already initialized''"
| "err_str ERR_BAD_PROPOSAL_INDEX = ''PMS_E006: proposal index is not the next index''"
| "err_str ERR_BAD_AUTHORIZED_INDEX = ''PMS_E007: authorized index out of range''"
| "err_str ERR_PROPOSAL_MISMATCH = ''PMS_E008: proposal does not match multisig or index''"
| "err_str ERR_PROPOSAL_NOT_ACTIVE = ''PMS_E009: proposal is not active''"
| "err_str ERR_MEMBER_NOT_AUTHORIZED = ''PMS_E010: member account is not authorized''"
| "err_str ERR_NOT_A_MEMBER = ''PMS_E011: not a member of this multisig''"
| "err_str ERR_DUPLICATE_VOTE = ''PMS_E012: duplicate vote nullifier (already approved)''"
| "err_str ERR_DUPLICATE_REJECT = ''PMS_E013: duplicate reject nullifier (already rejected)''"
| "err_str ERR_THRESHOLD_NOT_MET = ''PMS_E014: approval threshold not met''"
| "err_str ERR_BAD_TARGET_COUNT = ''PMS_E015: target account count mismatch''"
| "err_str ERR_BAD_ACCOUNT_COUNT = ''PMS_E016: unexpected number of accounts''"

datatype panic =
    Pms pms_error
  | Expect string
  | Overflow
  | OutOfBounds

text \<open>
  \<open>xs[i]\<close> and \<open>&xs[i..]\<close> on a slice: the element or the rest, or a panic.  On a list whose
  shape is known the simplifier computes both.
\<close>

definition index_at :: "'a list \<Rightarrow> nat \<Rightarrow> panic + 'a" where
  "index_at xs i = (if i < length xs then Inr (xs ! i) else Inl OutOfBounds)"

definition slice_from :: "'a list \<Rightarrow> nat \<Rightarrow> panic + 'a list" where
  "slice_from xs i = (if i \<le> length xs then Inr (drop i xs) else Inl OutOfBounds)"

lemma index_at_simps [simp]:
  "index_at [] i = Inl OutOfBounds"
  "index_at (x # xs) 0 = Inr x"
  "index_at (x # xs) (Suc i) = index_at xs i"
  "index_at (x # xs) (numeral v) = index_at xs (pred_numeral v)"
  by (simp_all add: index_at_def nth_Cons')

lemma slice_from_simps [simp]:
  "slice_from xs 0 = Inr xs"
  "slice_from (x # xs) (Suc i) = slice_from xs i"
  "slice_from (x # xs) (numeral v) = slice_from xs (pred_numeral v)"
  by (simp_all add: slice_from_def numeral_eq_Suc)

lemma index_at_Inr [simp]: "i < length xs \<Longrightarrow> index_at xs i = Inr (xs ! i)"
  and slice_from_Inr [simp]: "i \<le> length xs \<Longrightarrow> slice_from xs i = Inr (drop i xs)"
  by (simp_all add: index_at_def slice_from_def)

lemma index_at_Inr_iff: "index_at xs i = Inr x \<longleftrightarrow> i < length xs \<and> x = xs ! i"
  and slice_from_Inr_iff: "slice_from xs i = Inr ys \<longleftrightarrow> i \<le> length xs \<and> ys = drop i xs"
  by (auto simp: index_at_def slice_from_def)

text \<open>The eight-character code a client matches on (\<^verbatim>\<open>PMS_E012\<close> for a double vote).\<close>

definition err_code :: "pms_error \<Rightarrow> string" where
  "err_code e = take 8 (err_str e)"

text \<open>\<open>str::contains\<close>, with which the callers of the SDK look for a code in a message.\<close>

fun starts_with :: "string \<Rightarrow> string \<Rightarrow> bool" where
  "starts_with s [] = True"
| "starts_with [] (p # ps) = False"
| "starts_with (c # s) (p # ps) = (c = p \<and> starts_with s ps)"

fun str_contains :: "string \<Rightarrow> string \<Rightarrow> bool" where
  "str_contains [] pat = (pat = [])"
| "str_contains (c # cs) pat = (starts_with (c # cs) pat \<or> str_contains cs pat)"

text \<open>
  A pattern that starts with a character the rest of the text does not hold can only be found
  at the front.
\<close>

lemma starts_with_iff_take: "starts_with s pat \<longleftrightarrow> take (length pat) s = pat"
  by (induction s pat rule: starts_with.induct) auto

lemma str_contains_absent_head: "p \<notin> set s \<Longrightarrow> \<not> str_contains s (p # ps)"
  by (induction s) auto

lemma str_contains_front:
  "p \<notin> set s \<Longrightarrow> str_contains (c # s) (p # ps) \<longleftrightarrow> starts_with (c # s) (p # ps)"
  by (simp add: str_contains_absent_head)

lemma err_str_shape: "\<exists>t. err_str e = CHR ''P'' # t \<and> CHR ''P'' \<notin> set t"
  by (cases e) simp_all

lemma err_code_simps:
  "err_code ERR_ALREADY_INITIALIZED = ''PMS_E001''"
  "err_code ERR_BAD_THRESHOLD = ''PMS_E002''"
  "err_code ERR_DUPLICATE_MEMBER = ''PMS_E003''"
  "err_code ERR_STATE_MISMATCH = ''PMS_E004''"
  "err_code ERR_PROPOSAL_EXISTS = ''PMS_E005''"
  "err_code ERR_BAD_PROPOSAL_INDEX = ''PMS_E006''"
  "err_code ERR_BAD_AUTHORIZED_INDEX = ''PMS_E007''"
  "err_code ERR_PROPOSAL_MISMATCH = ''PMS_E008''"
  "err_code ERR_PROPOSAL_NOT_ACTIVE = ''PMS_E009''"
  "err_code ERR_MEMBER_NOT_AUTHORIZED = ''PMS_E010''"
  "err_code ERR_NOT_A_MEMBER = ''PMS_E011''"
  "err_code ERR_DUPLICATE_VOTE = ''PMS_E012''"
  "err_code ERR_DUPLICATE_REJECT = ''PMS_E013''"
  "err_code ERR_THRESHOLD_NOT_MET = ''PMS_E014''"
  "err_code ERR_BAD_TARGET_COUNT = ''PMS_E015''"
  "err_code ERR_BAD_ACCOUNT_COUNT = ''PMS_E016''"
  by (simp_all add: err_code_def)

lemma err_code_inject: "err_code e = err_code f \<longleftrightarrow> e = f"
  by (cases e; cases f; simp add: err_code_simps)

lemma length_err_code: "length (err_code e) = 8"
  by (cases e) (simp_all add: err_code_simps)

lemma err_str_has_code: "str_contains (err_str e) (err_code e)"
  by (cases e) (simp_all add: err_code_def)

text \<open>
  Every error constant carries a code of its own.  A client that looks for one error's
  code anywhere in the message of an error finds it exactly when the two are the same error,
  so the sixteen codes identify the sixteen failures.
\<close>

lemma err_code_identifies: "str_contains (err_str e) (err_code f) \<longleftrightarrow> e = f"
proof -
  obtain t where t: "err_str e = CHR ''P'' # t" "CHR ''P'' \<notin> set t"
    using err_str_shape by blast
  obtain ps where ps: "err_code f = CHR ''P'' # ps"
    using err_str_shape [of f] by (auto simp: err_code_def)
  have "str_contains (err_str e) (err_code f) \<longleftrightarrow> starts_with (err_str e) (err_code f)"
    unfolding t(1) ps by (rule str_contains_front [OF t(2)])
  also have "\<dots> \<longleftrightarrow> err_code e = err_code f"
    by (simp add: starts_with_iff_take length_err_code) (simp add: err_code_def)
  finally show ?thesis by (simp only: err_code_inject)
qed

end
