(* ===== verification/Pms_Types.thy ===== *)
theory Pms_Types
  imports Pms_Error
begin

text \<open>
  The data of \<^verbatim>\<open>pms_core/src/lib.rs\<close>: identifiers, the state of a multisig, a proposal with the
  action it will emit, and the instructions of the program.  Field names carry a prefix for
  their struct (\<open>ms_\<close> for \<open>MultisigState\<close>, \<open>pa_\<close> for \<open>ProposalAction\<close>, \<open>pr_\<close> for
  \<open>Proposal\<close>), since Isabelle's record selectors are global functions.
\<close>

section \<open>Identifiers of the platform\<close>

text \<open>
  \<open>ProgramId\<close> is \<open>[u32; 8]\<close>; \<open>AccountId\<close> and \<open>PdaSeed\<close> wrap 32 bytes
  (\<open>AccountId::new\<close>, \<open>AccountId::value\<close>, \<open>PdaSeed::new\<close>).
\<close>

type_synonym program_id = "(u32, 8) arr"

datatype account_id = AccountId (aid_value: bytes32)

datatype pda_seed = PdaSeed (seed_bytes: bytes32)

section \<open>State\<close>

definition MAX_MEMBERS :: nat where
  "MAX_MEMBERS = 16"

record multisig_state =
  ms_create_key :: bytes32
  ms_threshold :: u8
  ms_member_cms :: "bytes32 list"
  ms_transaction_index :: u64

record proposal_action =
  pa_target_program_id :: program_id
  pa_target_instruction_data :: "u32 list"
  pa_target_account_count :: u8
  pa_pda_seeds :: "bytes32 list"
  pa_authorized_indices :: "u8 list"

datatype proposal_status = Active | Executed | Rejected

record proposal =
  pr_index :: u64
  pr_multisig_create_key :: bytes32
  pr_action :: proposal_action
  pr_action_hash :: bytes32
  pr_vote_nullifiers :: "bytes32 list"
  pr_reject_nullifiers :: "bytes32 list"
  pr_status :: proposal_status

section \<open>Instructions\<close>

datatype instruction =
    CreateMultisig bytes32 u8 "bytes32 list"
      \<comment> \<open>create key, threshold, member commitments\<close>
  | Propose bytes32 u64 program_id "u32 list" u8 "bytes32 list" "u8 list"
      \<comment> \<open>create key, proposal index, and the five fields of the action, flattened\<close>
  | Approve bytes32 u64 bytes32
      \<comment> \<open>create key, proposal index, member salt\<close>
  | Reject bytes32 u64 bytes32
  | Execute bytes32 u64
  | InitVault bytes32 program_id

section \<open>The token program's instruction, as the guest mirrors it\<close>

text \<open>\<^verbatim>\<open>TokenInitializeAccount\<close> of \<^verbatim>\<open>multisig_program/src/init_vault.rs\<close>; only the last variant is emitted.\<close>

datatype token_initialize_account =
    Transfer u128
  | NewFungibleDefinition string u128
  | NewDefinitionWithMetadata u8
  | InitializeAccount

end
