(* ===== verification/Platform.thy ===== *)
theory Platform
  imports Pms_Types
begin

text \<open>
  What the program takes from outside the repository.  The account model and the messages of
  \<^verbatim>\<open>nssa_core\<close> are records with the fields that the code under \<^verbatim>\<open>src/\<close> names; everything else of an
  account (balance, nonce, owner) is one field of an arbitrary type \<open>'x\<close>, which the guest
  never looks into.  The functions the guest calls but does not define (hashing, PDA
  derivation, Borsh, the size limit of account data, the overflow mode of the build) are the
  fields of one record \<open>env\<close>, an argument of every definition that uses them.
\<close>

section \<open>Accounts and messages\<close>

record 'x account =
  acc_data :: "u8 list"
  acc_rest :: 'x

record 'x account_with_metadata =
  am_account_id :: account_id
  am_account :: "'x account"
  am_is_authorized :: bool

datatype claim = Pda pda_seed

record 'x account_post_state =
  ps_account :: "'x account"
  ps_claim :: "claim option"

definition post_new :: "'x account \<Rightarrow> 'x account_post_state" where
  "post_new a = \<lparr>ps_account = a, ps_claim = None\<rparr>"

definition post_new_claimed :: "'x account \<Rightarrow> claim \<Rightarrow> 'x account_post_state" where
  "post_new_claimed a c = \<lparr>ps_account = a, ps_claim = Some c\<rparr>"

record 'x chained_call =
  cc_program_id :: program_id
  cc_instruction_data :: "u32 list"
  cc_pre_states :: "'x account_with_metadata list"
  cc_pda_seeds :: "pda_seed list"

type_synonym 'x outcome = "panic + ('x account_post_state list \<times> 'x chained_call list)"

lemma post_new_simps [simp]:
  "ps_account (post_new a) = a" "ps_claim (post_new a) = None"
  by (simp_all add: post_new_def)

lemma post_new_claimed_simps [simp]:
  "ps_account (post_new_claimed a c) = a" "ps_claim (post_new_claimed a c) = Some c"
  by (simp_all add: post_new_claimed_def)

section \<open>The environment\<close>

text \<open>
  \<^item> \<open>hash_bytes\<close>: \<open>risc0_zkvm\<close>'s \<open>Impl::hash_bytes\<close>, a 32-byte digest;
  \<^item> \<open>sha2_digest\<close>: what \<open>sha2::Sha256\<close> finalises to after the given bytes;
  \<^item> \<open>for_public_pda\<close>: \<open>AccountId::for_public_pda\<close>;
  \<^item> \<open>account_default\<close>: \<open>Account::default()\<close>;
  \<^item> \<open>data_fits\<close>: whether \<open>Vec<u8>\<close> converts into account data;
  \<^item> \<open>to_vec_*\<close>, \<open>from_slice_*\<close>: Borsh's derived serialisers and deserialisers;
  \<^item> \<open>risc0_to_vec\<close>: \<open>risc0_zkvm::serde::to_vec\<close> at the mirrored token instruction;
  \<^item> \<open>overflow_checks\<close>, \<open>usize_bits\<close>: the arithmetic of the build.
\<close>

record 'x env =
  hash_bytes :: "u8 list \<Rightarrow> bytes32"
  sha2_digest :: "u8 list \<Rightarrow> bytes32"
  for_public_pda :: "program_id \<Rightarrow> pda_seed \<Rightarrow> account_id"
  account_default :: "'x account"
  data_fits :: "u8 list \<Rightarrow> bool"
  to_vec_state :: "multisig_state \<Rightarrow> u8 list option"
  from_slice_state :: "u8 list \<Rightarrow> multisig_state option"
  to_vec_proposal :: "proposal \<Rightarrow> u8 list option"
  from_slice_proposal :: "u8 list \<Rightarrow> proposal option"
  to_vec_action :: "proposal_action \<Rightarrow> u8 list option"
  from_slice_action :: "u8 list \<Rightarrow> proposal_action option"
  risc0_to_vec :: "token_initialize_account \<Rightarrow> u32 list option"
  overflow_checks :: bool
  usize_bits :: nat

text \<open>\<open>let d: Data = bytes.try_into().expect(m)\<close>, followed by storing \<open>d\<close>.\<close>

definition try_into_data :: "'x env \<Rightarrow> u8 list \<Rightarrow> u8 list option" where
  "try_into_data E bs = (if data_fits E bs then Some bs else None)"

lemma try_into_data_Some_iff [simp]:
  "try_into_data E bs = Some d \<longleftrightarrow> data_fits E bs \<and> d = bs"
  by (auto simp: try_into_data_def)

text \<open>Addition on \<open>u64\<close> and subtraction on \<open>usize\<close>, in either build mode.\<close>

definition add_u64 :: "'x env \<Rightarrow> u64 \<Rightarrow> u64 \<Rightarrow> panic + u64" where
  "add_u64 E a b =
     (if overflow_checks E \<and> unat a + unat b \<ge> 2 ^ 64 then Inl Overflow else Inr (a + b))"

definition sub_usize :: "'x env \<Rightarrow> nat \<Rightarrow> nat \<Rightarrow> panic + nat" where
  "sub_usize E a b =
     (if b \<le> a then Inr (a - b)
      else if overflow_checks E then Inl Overflow
      else Inr (2 ^ usize_bits E + a - b))"

lemma sub_usize_no_borrow [simp]: "b \<le> a \<Longrightarrow> sub_usize E a b = Inr (a - b)"
  by (simp add: sub_usize_def)

section \<open>Serialisers as an interface\<close>

text \<open>
  What the program relies on of Borsh: reading back what was written gives the value.  The
  lemmas of the locale are what the handlers use of it; the converse law holds for a canonical
  format, where nothing but the encoding of a value decodes to it.
\<close>

locale codec =
  fixes enc :: "'a \<Rightarrow> u8 list option"
    and dec :: "u8 list \<Rightarrow> 'a option"
  assumes dec_enc: "enc x = Some bs \<Longrightarrow> dec bs = Some x"
begin

lemma enc_inject: "enc x = Some bs \<Longrightarrow> enc y = Some bs \<Longrightarrow> x = y"
  by (metis dec_enc option.inject)

end

locale canonical_codec = codec +
  assumes enc_dec: "dec bs = Some x \<Longrightarrow> enc x = Some bs"
begin

lemma dec_iff_enc: "dec bs = Some x \<longleftrightarrow> enc x = Some bs"
  using enc_dec dec_enc by blast

end

text \<open>The documented behaviour of Borsh at the three types the program stores or hashes.\<close>

definition borsh_ok :: "'x env \<Rightarrow> bool" where
  "borsh_ok E \<longleftrightarrow>
     codec (to_vec_state E) (from_slice_state E) \<and>
     codec (to_vec_proposal E) (from_slice_proposal E) \<and>
     codec (to_vec_action E) (from_slice_action E)"

lemma borsh_okD [dest]:
  assumes "borsh_ok E"
  shows "to_vec_state E s = Some bs \<Longrightarrow> from_slice_state E bs = Some s"
    and "to_vec_proposal E p = Some bs \<Longrightarrow> from_slice_proposal E bs = Some p"
    and "to_vec_action E a = Some bs \<Longrightarrow> from_slice_action E bs = Some a"
  using assms by (auto simp: borsh_ok_def codec_def)

end
