(* ===== verification/Borsh_Layout.thy ===== *)
theory Borsh_Layout
  imports Platform
begin

text \<open>
  A concrete codec for the three Borsh-derived structs, following the published layout of the
  format: integers little-endian at their width, arrays as their bytes, a vector as its
  length in four bytes followed by its elements, a struct as its fields in order, an enum as
  the index of its variant.  It is what the codec fields of the environment are instantiated
  with: it meets the interface \<open>canonical_codec\<close>, so the laws the program relies on can
  hold, and witnesses evaluate it.
\<close>

section \<open>Writers and readers\<close>

text \<open>
  A writer yields the bytes of a value, or \<open>None\<close> where Borsh refuses (a vector too long for
  its length field); a reader takes a value off the front and hands back what is left.
\<close>

type_synonym 'a writer = "'a \<Rightarrow> u8 list option"
type_synonym 'a reader = "u8 list \<Rightarrow> ('a \<times> u8 list) option"

locale prefix_codec =
  fixes put :: "'a \<Rightarrow> u8 list option"
    and get :: "u8 list \<Rightarrow> ('a \<times> u8 list) option"
  assumes get_put: "put x = Some p \<Longrightarrow> get (p @ rest) = Some (x, rest)"
    and put_get: "get bs = Some (x, rest) \<Longrightarrow> \<exists>p. put x = Some p \<and> bs = p @ rest"
begin

lemma get_put_exact: "put x = Some p \<Longrightarrow> get p = Some (x, [])"
  using get_put [of x p "[]"] by simp

lemma put_get_exact: "get bs = Some (x, []) \<Longrightarrow> put x = Some bs"
  using put_get [of bs x "[]"] by auto

end

text \<open>\<open>from_slice\<close>: a reader that must use up its input.\<close>

definition from_slice :: "'a reader \<Rightarrow> u8 list \<Rightarrow> 'a option" where
  "from_slice get bs = (case get bs of Some (x, []) \<Rightarrow> Some x | _ \<Rightarrow> None)"

lemma canonical_from_slice:
  assumes "prefix_codec put get"
  shows "canonical_codec put (from_slice get)"
proof -
  note laws = prefix_codec.get_put_exact [OF assms] prefix_codec.put_get_exact [OF assms]
  show ?thesis
    by unfold_locales
      (auto simp: from_slice_def dest: laws split: option.splits prod.splits list.splits)
qed

section \<open>Fixed-width fields\<close>

definition put_word :: "nat \<Rightarrow> 'a::len word writer" where
  "put_word n w = Some (to_le n w)"

definition get_word :: "nat \<Rightarrow> 'a::len word reader" where
  "get_word n bs =
     (if length bs < n then None else Some (from_le (take n bs), drop n bs))"

lemma prefix_codec_word:
  assumes "LENGTH('a::len) = 8 * n"
  shows "prefix_codec (put_word n :: 'a word writer) (get_word n)"
proof
  show "put_word n x = Some p \<Longrightarrow> get_word n (p @ rest) = Some (x, rest)" for x :: "'a word" and p rest
    using assms by (auto simp: put_word_def get_word_def from_le_to_le)
  show "get_word n bs = Some (x, rest) \<Longrightarrow> \<exists>p. put_word n x = Some p \<and> bs = p @ rest"
    for x :: "'a word" and bs rest
    using assms by (auto simp: put_word_def get_word_def to_le_from_le split: if_splits)
qed

definition put_b32 :: "bytes32 writer" where
  "put_b32 a = Some (arr_list a)"

definition get_b32 :: "bytes32 reader" where
  "get_b32 bs =
     (case arr_try_of (take 32 bs) of None \<Rightarrow> None | Some a \<Rightarrow> Some (a, drop 32 bs))"

lemma prefix_codec_b32: "prefix_codec put_b32 get_b32"
proof
  show "put_b32 x = Some p \<Longrightarrow> get_b32 (p @ rest) = Some (x, rest)" for x p rest
    by (auto simp: put_b32_def get_b32_def)
  show "get_b32 bs = Some (x, rest) \<Longrightarrow> \<exists>p. put_b32 x = Some p \<and> bs = p @ rest" for bs x rest
    by (auto simp: put_b32_def get_b32_def arr_try_of_Some_iff split: option.splits)
qed

section \<open>Combinators\<close>

definition put_pair :: "'a writer \<Rightarrow> 'b writer \<Rightarrow> ('a \<times> 'b) writer" where
  "put_pair p q xy =
     (case p (fst xy) of None \<Rightarrow> None
      | Some a \<Rightarrow> (case q (snd xy) of None \<Rightarrow> None | Some b \<Rightarrow> Some (a @ b)))"

definition get_pair :: "'a reader \<Rightarrow> 'b reader \<Rightarrow> ('a \<times> 'b) reader" where
  "get_pair g h bs =
     (case g bs of None \<Rightarrow> None
      | Some (x, r) \<Rightarrow> (case h r of None \<Rightarrow> None | Some (y, r') \<Rightarrow> Some ((x, y), r')))"

lemma prefix_codec_pair:
  assumes "prefix_codec p g" and "prefix_codec q h"
  shows "prefix_codec (put_pair p q) (get_pair g h)"
proof
  show "put_pair p q x = Some b \<Longrightarrow> get_pair g h (b @ rest) = Some (x, rest)" for x b rest
    using prefix_codec.get_put [OF assms(1)] prefix_codec.get_put [OF assms(2)]
    by (auto simp: put_pair_def get_pair_def split: option.splits)
  show "get_pair g h bs = Some (x, rest) \<Longrightarrow> \<exists>b. put_pair p q x = Some b \<and> bs = b @ rest"
    for bs x rest
    by (auto simp: put_pair_def get_pair_def split: option.splits
        dest!: prefix_codec.put_get [OF assms(1)] prefix_codec.put_get [OF assms(2)])
qed

primrec put_all :: "'a writer \<Rightarrow> 'a list writer" where
  "put_all p [] = Some []"
| "put_all p (x # xs) =
     (case p x of None \<Rightarrow> None
      | Some a \<Rightarrow> (case put_all p xs of None \<Rightarrow> None | Some b \<Rightarrow> Some (a @ b)))"

primrec get_all :: "'a reader \<Rightarrow> nat \<Rightarrow> 'a list reader" where
  "get_all g 0 bs = Some ([], bs)"
| "get_all g (Suc n) bs =
     (case g bs of None \<Rightarrow> None
      | Some (x, r) \<Rightarrow>
          (case get_all g n r of None \<Rightarrow> None | Some (xs, r') \<Rightarrow> Some (x # xs, r')))"

lemma get_all_put_all:
  assumes "prefix_codec p g" and "put_all p xs = Some b"
  shows "get_all g (length xs) (b @ rest) = Some (xs, rest)"
  using assms(2) prefix_codec.get_put [OF assms(1)]
  by (induction xs arbitrary: b) (auto split: option.splits)

lemma put_all_get_all:
  assumes "prefix_codec p g" and "get_all g n bs = Some (xs, rest)"
  shows "length xs = n \<and> (\<exists>b. put_all p xs = Some b \<and> bs = b @ rest)"
  using assms(2)
proof (induction n arbitrary: bs xs)
  case 0
  then show ?case by simp
next
  case (Suc n)
  then obtain x r ys where "g bs = Some (x, r)" "get_all g n r = Some (ys, rest)" "xs = x # ys"
    by (auto split: option.splits)
  with Suc.IH [of r ys] show ?case
    by (auto dest!: prefix_codec.put_get [OF assms(1)])
qed

definition put_vec :: "'a writer \<Rightarrow> 'a list writer" where
  "put_vec p xs =
     (if int (length xs) < 2 ^ 32
      then map_option (\<lambda>b. to_le 4 (of_nat (length xs) :: u32) @ b) (put_all p xs)
      else None)"

definition get_vec :: "'a reader \<Rightarrow> 'a list reader" where
  "get_vec g bs =
     (case (get_word 4 :: u32 reader) bs of None \<Rightarrow> None
      | Some (n, r) \<Rightarrow> get_all g (unat n) r)"

lemma prefix_codec_vec:
  assumes pg: "prefix_codec p g"
  shows "prefix_codec (put_vec p) (get_vec g)"
proof
  show "put_vec p x = Some b \<Longrightarrow> get_vec g (b @ rest) = Some (x, rest)" for x b rest
    by (auto simp: put_vec_def get_vec_def get_word_def from_le_to_le unat_of_nat
        get_all_put_all [OF pg] split: if_splits)
  show "get_vec g bs = Some (x, rest) \<Longrightarrow> \<exists>b. put_vec p x = Some b \<and> bs = b @ rest"
    for bs x rest
  proof -
    assume "get_vec g bs = Some (x, rest)"
    then obtain n :: u32 and r where n: "get_word 4 bs = Some (n, r)"
      and r: "get_all g (unat n) r = Some (x, rest)"
      by (auto simp: get_vec_def split: option.splits)
    from put_all_get_all [OF pg r] obtain b where
      x: "length x = unat n" and b: "put_all p x = Some b" "r = b @ rest" by auto
    from n prefix_codec.put_get [OF prefix_codec_word [of 4, where 'a = 32]]
    have "bs = to_le 4 n @ r" by (auto simp: put_word_def)
    moreover have "int (length x) < 2 ^ 32" using x unsigned_less [of n, where 'a = int] by simp
    ultimately show ?thesis using x b by (simp add: put_vec_def)
  qed
qed

text \<open>A struct is a tuple of its fields, up to a bijection.\<close>

definition put_via :: "('a \<Rightarrow> 'b) \<Rightarrow> 'b writer \<Rightarrow> 'a writer" where
  "put_via f p x = p (f x)"

definition get_via :: "('b \<Rightarrow> 'a) \<Rightarrow> 'b reader \<Rightarrow> 'a reader" where
  "get_via h g bs = map_option (apfst h) (g bs)"

lemma prefix_codec_via:
  assumes "prefix_codec p g" and "\<And>x. h (f x) = x" and "\<And>y. f (h y) = y"
  shows "prefix_codec (put_via f p) (get_via h g)"
proof
  show "put_via f p x = Some b \<Longrightarrow> get_via h g (b @ rest) = Some (x, rest)" for x b rest
    using prefix_codec.get_put [OF assms(1)] assms(2) by (simp add: put_via_def get_via_def)
  show "get_via h g bs = Some (x, rest) \<Longrightarrow> \<exists>b. put_via f p x = Some b \<and> bs = b @ rest"
    for bs x rest
    using assms(3) by (auto simp: put_via_def get_via_def dest!: prefix_codec.put_get [OF assms(1)])
qed

section \<open>The three structs\<close>

text \<open>\<open>MultisigState\<close>.\<close>

type_synonym state_tuple = "bytes32 \<times> u8 \<times> bytes32 list \<times> u64"

definition state_fields :: "multisig_state \<Rightarrow> state_tuple" where
  "state_fields s = (ms_create_key s, ms_threshold s, ms_member_cms s, ms_transaction_index s)"

definition state_of_fields :: "state_tuple \<Rightarrow> multisig_state" where
  "state_of_fields = (\<lambda>(ck, th, cms, ti).
     \<lparr>ms_create_key = ck, ms_threshold = th, ms_member_cms = cms, ms_transaction_index = ti\<rparr>)"

definition put_state :: "multisig_state writer" where
  "put_state = put_via state_fields
     (put_pair put_b32 (put_pair (put_word 1) (put_pair (put_vec put_b32) (put_word 8))))"

definition get_state :: "multisig_state reader" where
  "get_state = get_via state_of_fields
     (get_pair get_b32 (get_pair (get_word 1) (get_pair (get_vec get_b32) (get_word 8))))"

text \<open>\<open>ProposalAction\<close>; a \<open>ProgramId\<close> is eight words of four bytes each.\<close>

definition put_program_id :: "program_id writer" where
  "put_program_id a = put_all (put_word 4) (arr_list a)"

definition get_program_id :: "program_id reader" where
  "get_program_id bs =
     (case get_all (get_word 4 :: u32 reader) 8 bs of None \<Rightarrow> None
      | Some (ws, r) \<Rightarrow> Some (arr_pad ws, r))"

type_synonym action_tuple = "program_id \<times> u32 list \<times> u8 \<times> bytes32 list \<times> u8 list"

definition action_fields :: "proposal_action \<Rightarrow> action_tuple" where
  "action_fields a = (pa_target_program_id a, pa_target_instruction_data a,
     pa_target_account_count a, pa_pda_seeds a, pa_authorized_indices a)"

definition action_of_fields :: "action_tuple \<Rightarrow> proposal_action" where
  "action_of_fields = (\<lambda>(pid, ins, n, seeds, idx).
     \<lparr>pa_target_program_id = pid, pa_target_instruction_data = ins, pa_target_account_count = n,
      pa_pda_seeds = seeds, pa_authorized_indices = idx\<rparr>)"

definition put_action :: "proposal_action writer" where
  "put_action = put_via action_fields
     (put_pair put_program_id (put_pair (put_vec (put_word 4)) (put_pair (put_word 1)
       (put_pair (put_vec put_b32) (put_vec (put_word 1))))))"

definition get_action :: "proposal_action reader" where
  "get_action = get_via action_of_fields
     (get_pair get_program_id (get_pair (get_vec (get_word 4)) (get_pair (get_word 1)
       (get_pair (get_vec get_b32) (get_vec (get_word 1))))))"

text \<open>\<open>ProposalStatus\<close> is one byte, the index of the variant.\<close>

primrec put_status :: "proposal_status writer" where
  "put_status Active = Some [0]"
| "put_status Executed = Some [1]"
| "put_status Rejected = Some [2]"

definition get_status :: "proposal_status reader" where
  "get_status bs =
     (case bs of [] \<Rightarrow> None
      | b # r \<Rightarrow> (if b = 0 then Some (Active, r) else if b = 1 then Some (Executed, r)
                 else if b = 2 then Some (Rejected, r) else None))"

type_synonym proposal_tuple =
  "u64 \<times> bytes32 \<times> proposal_action \<times> bytes32 \<times> bytes32 list \<times> bytes32 list \<times> proposal_status"

definition proposal_fields :: "proposal \<Rightarrow> proposal_tuple" where
  "proposal_fields p = (pr_index p, pr_multisig_create_key p, pr_action p, pr_action_hash p,
     pr_vote_nullifiers p, pr_reject_nullifiers p, pr_status p)"

definition proposal_of_fields :: "proposal_tuple \<Rightarrow> proposal" where
  "proposal_of_fields = (\<lambda>(i, ck, a, h, vs, rs, st).
     \<lparr>pr_index = i, pr_multisig_create_key = ck, pr_action = a, pr_action_hash = h,
      pr_vote_nullifiers = vs, pr_reject_nullifiers = rs, pr_status = st\<rparr>)"

definition put_proposal :: "proposal writer" where
  "put_proposal = put_via proposal_fields
     (put_pair (put_word 8) (put_pair put_b32 (put_pair put_action (put_pair put_b32
       (put_pair (put_vec put_b32) (put_pair (put_vec put_b32) put_status))))))"

definition get_proposal :: "proposal reader" where
  "get_proposal = get_via proposal_of_fields
     (get_pair (get_word 8) (get_pair get_b32 (get_pair get_action (get_pair get_b32
       (get_pair (get_vec get_b32) (get_pair (get_vec get_b32) get_status))))))"

section \<open>They meet the interface\<close>

lemma prefix_codec_state: "prefix_codec put_state get_state"
  unfolding put_state_def get_state_def
  by (intro prefix_codec_via prefix_codec_pair prefix_codec_b32 prefix_codec_word prefix_codec_vec)
    (auto simp: state_fields_def state_of_fields_def)

lemma prefix_codec_program_id: "prefix_codec put_program_id get_program_id"
proof
  have w: "prefix_codec (put_word 4 :: u32 writer) (get_word 4)"
    by (rule prefix_codec_word) simp
  show "put_program_id x = Some p \<Longrightarrow> get_program_id (p @ rest) = Some (x, rest)" for x p rest
    using get_all_put_all [OF w, of "arr_list x" p rest]
    by (simp add: put_program_id_def get_program_id_def flip: arr_list_eq_iff)
  show "get_program_id bs = Some (x, rest) \<Longrightarrow> \<exists>p. put_program_id x = Some p \<and> bs = p @ rest"
    for bs x rest
    by (auto simp: put_program_id_def get_program_id_def split: option.splits
        dest!: put_all_get_all [OF w])
qed

lemma prefix_codec_action: "prefix_codec put_action get_action"
  unfolding put_action_def get_action_def
  by (intro prefix_codec_via prefix_codec_pair prefix_codec_b32 prefix_codec_word prefix_codec_vec
      prefix_codec_program_id)
    (auto simp: action_fields_def action_of_fields_def)

lemma prefix_codec_status: "prefix_codec put_status get_status"
proof
  show "put_status x = Some p \<Longrightarrow> get_status (p @ rest) = Some (x, rest)" for x p rest
    by (cases x) (auto simp: get_status_def)
  show "get_status bs = Some (x, rest) \<Longrightarrow> \<exists>p. put_status x = Some p \<and> bs = p @ rest" for bs x rest
    by (auto simp: get_status_def split: list.splits if_splits)
qed

lemma prefix_codec_proposal: "prefix_codec put_proposal get_proposal"
  unfolding put_proposal_def get_proposal_def
  by (intro prefix_codec_via prefix_codec_pair prefix_codec_b32 prefix_codec_word prefix_codec_vec
      prefix_codec_action prefix_codec_status)
    (auto simp: proposal_fields_def proposal_of_fields_def)

interpretation state_wire: prefix_codec put_state get_state
  by (rule prefix_codec_state)

interpretation proposal_wire: prefix_codec put_proposal get_proposal
  by (rule prefix_codec_proposal)

interpretation action_wire: prefix_codec put_action get_action
  by (rule prefix_codec_action)

interpretation state_codec: canonical_codec put_state "from_slice get_state"
  by (rule canonical_from_slice) (rule prefix_codec_state)

interpretation proposal_codec: canonical_codec put_proposal "from_slice get_proposal"
  by (rule canonical_from_slice) (rule prefix_codec_proposal)

interpretation action_codec: canonical_codec put_action "from_slice get_action"
  by (rule canonical_from_slice) (rule prefix_codec_action)

lemma borsh_ok_layout:
  assumes "to_vec_state E = put_state" "from_slice_state E = from_slice get_state"
    and "to_vec_proposal E = put_proposal" "from_slice_proposal E = from_slice get_proposal"
    and "to_vec_action E = put_action" "from_slice_action E = from_slice get_action"
  shows "borsh_ok E"
  unfolding borsh_ok_def assms
  by (intro conjI state_codec.codec_axioms proposal_codec.codec_axioms action_codec.codec_axioms)

section \<open>Sizes\<close>

text \<open>
  The bytes of a state grow by 32 per member, so the bound on members bounds the account:
  45 bytes besides the commitments, 557 for a full multisig.
\<close>

lemma length_put_all:
  "put_all p xs = Some b \<Longrightarrow> (\<And>x c. p x = Some c \<Longrightarrow> length c = k) \<Longrightarrow> length b = k * length xs"
  by (induction xs arbitrary: b) (auto split: option.splits)

lemma length_put_vec_b32: "put_vec put_b32 xs = Some b \<Longrightarrow> length b = 4 + 32 * length xs"
  using length_put_all [of put_b32 xs _ 32] by (auto simp: put_vec_def put_b32_def split: if_splits)

lemma length_put_vec_word: "put_vec (put_word n) xs = Some b \<Longrightarrow> length b = 4 + n * length xs"
  using length_put_all [of "put_word n" xs _ n] by (auto simp: put_vec_def put_word_def split: if_splits)

lemma put_all_total: "(\<And>x. \<exists>b. p x = Some b) \<Longrightarrow> \<exists>b. put_all p xs = Some b"
proof (induction xs)
  case (Cons x xs)
  then obtain b c where "p x = Some b" and "put_all p xs = Some c" by blast
  then show ?case by simp
qed simp

lemma put_vec_total:
  assumes "int (length xs) < 2 ^ 32" and "\<And>x. \<exists>b. p x = Some b"
  obtains b where "put_vec p xs = Some b"
  using assms put_all_total [of p xs] by (auto simp: put_vec_def)

lemma length_put_state: "put_state s = Some b \<Longrightarrow> length b = 45 + 32 * length (ms_member_cms s)"
  by (auto simp: put_state_def put_via_def put_pair_def state_fields_def put_word_def put_b32_def
      dest: length_put_vec_b32 split: option.splits)

lemma put_state_total:
  assumes "int (length (ms_member_cms s)) < 2 ^ 32"
  obtains b where "put_state s = Some b"
proof -
  obtain c where "put_vec put_b32 (ms_member_cms s) = Some c"
    by (rule put_vec_total [OF assms, of put_b32]) (simp_all add: put_b32_def)
  then show ?thesis
    using that by (simp add: put_state_def put_via_def put_pair_def state_fields_def put_word_def put_b32_def)
qed

definition action_size :: "proposal_action \<Rightarrow> nat" where
  "action_size a = 45 + 4 * length (pa_target_instruction_data a) + 32 * length (pa_pda_seeds a) +
     length (pa_authorized_indices a)"

lemma put_action_total:
  assumes "int (action_size a) < 2 ^ 32"
  obtains b where "put_action a = Some b" and "length b = action_size a"
proof -
  have small: "int (length (pa_target_instruction_data a)) < 2 ^ 32"
    "int (length (pa_pda_seeds a)) < 2 ^ 32" "int (length (pa_authorized_indices a)) < 2 ^ 32"
    using assms by (simp_all add: action_size_def)
  obtain b1 where b1: "put_all (put_word 4) (arr_list (pa_target_program_id a)) = Some b1"
    using put_all_total [of "put_word 4"] by (auto simp: put_word_def)
  obtain b2 where b2: "put_vec (put_word 4) (pa_target_instruction_data a) = Some b2"
    by (rule put_vec_total [OF small(1), of "put_word 4"]) (simp_all add: put_word_def)
  obtain b3 where b3: "put_vec put_b32 (pa_pda_seeds a) = Some b3"
    by (rule put_vec_total [OF small(2), of put_b32]) (simp_all add: put_b32_def)
  obtain b4 where b4: "put_vec (put_word 1) (pa_authorized_indices a) = Some b4"
    by (rule put_vec_total [OF small(3), of "put_word 1"]) (simp_all add: put_word_def)
  have "length b1 = 32"
    using length_put_all [OF b1, of 4] by (simp add: put_word_def length_arr_list)
  then show ?thesis
    using b1 b2 b3 b4 length_put_vec_word [OF b2] length_put_vec_b32 [OF b3] length_put_vec_word [OF b4]
    by (intro that [of "b1 @ b2 @ to_le 1 (pa_target_account_count a) @ b3 @ b4"])
      (simp_all add: put_action_def put_via_def put_pair_def action_fields_def put_word_def
        put_program_id_def action_size_def)
qed

definition proposal_size :: "proposal \<Rightarrow> nat" where
  "proposal_size p = 81 + action_size (pr_action p) + 32 * length (pr_vote_nullifiers p) +
     32 * length (pr_reject_nullifiers p)"

lemma put_proposal_total:
  assumes "int (proposal_size p) < 2 ^ 32"
  obtains b where "put_proposal p = Some b" and "length b = proposal_size p"
proof -
  have small: "int (length (pr_vote_nullifiers p)) < 2 ^ 32"
    "int (length (pr_reject_nullifiers p)) < 2 ^ 32" "int (action_size (pr_action p)) < 2 ^ 32"
    using assms by (simp_all add: proposal_size_def)
  obtain b1 where b1: "put_vec put_b32 (pr_vote_nullifiers p) = Some b1"
    by (rule put_vec_total [OF small(1), of put_b32]) (simp_all add: put_b32_def)
  obtain b2 where b2: "put_vec put_b32 (pr_reject_nullifiers p) = Some b2"
    by (rule put_vec_total [OF small(2), of put_b32]) (simp_all add: put_b32_def)
  obtain b3 where b3: "put_action (pr_action p) = Some b3" "length b3 = action_size (pr_action p)"
    by (rule put_action_total [OF small(3)])
  obtain b4 where b4: "put_status (pr_status p) = Some b4" "length b4 = 1"
    by (cases "pr_status p") auto
  show ?thesis
    using b1 b2 b3 b4 length_put_vec_b32 [OF b1] length_put_vec_b32 [OF b2]
    by (intro that [of "to_le 8 (pr_index p) @ arr_list (pr_multisig_create_key p) @ b3 @
          arr_list (pr_action_hash p) @ b1 @ b2 @ b4"])
      (simp_all add: put_proposal_def put_via_def put_pair_def proposal_fields_def put_word_def
        put_b32_def proposal_size_def)
qed

end
