(* ===== verification/Pms_Hash.thy ===== *)
theory Pms_Hash
  imports Platform
begin

text \<open>
  The hashing of \<^verbatim>\<open>pms_core/src/lib.rs\<close>: domain tags, member commitments, vote and reject
  nullifiers and the action hash.  The definitions fill the fixed-size buffers slice by slice
  as the code does; the lemmas give the bytes that reach the hash function, called preimages
  here, and show that a preimage determines everything that went into it.  Nothing is assumed
  of the hash function: where two hashes agree, either the inputs agree or the two preimages
  named in the statement are a collision.
\<close>

section \<open>Digests and domain tags\<close>

definition sha256 :: "'x env \<Rightarrow> u8 list \<Rightarrow> bytes32" where
  "sha256 E bs = hash_bytes E bs"

definition as_bytes :: "string \<Rightarrow> u8 list" where
  "as_bytes s = map (\<lambda>c. of_nat (of_char c)) s"

text \<open>\<open>dst\<close> zero-pads a tag to 32 bytes and panics on a longer one.\<close>

definition dst :: "string \<Rightarrow> panic + bytes32" where
  "dst tag =
     (let src = as_bytes tag in
      require (length src \<le> 32) (Expect ''domain tag exceeds 32 bytes'')
        (Inr (arr_pad (buf_write 0 src (replicate 32 0)))))"

text \<open>The tag of a panic-free call.\<close>

definition tag32 :: "string \<Rightarrow> bytes32" where
  "tag32 tag = arr_pad (as_bytes tag)"

lemma length_as_bytes [simp]: "length (as_bytes s) = length s"
  by (simp add: as_bytes_def)

lemma dst_short [simp]: "length tag \<le> 32 \<Longrightarrow> dst tag = Inr (tag32 tag)"
  by (simp add: dst_def tag32_def buf_write_def arr_list_pad flip: arr_list_eq_iff)

section \<open>Member commitments\<close>

definition member_commitment :: "'x env \<Rightarrow> bytes32 \<Rightarrow> account_id \<Rightarrow> panic + bytes32" where
  "member_commitment E salt member_account_id =
     bind (dst ''/PMS/v0.1/MemberCommitment/'') (\<lambda>d.
       let bytes = replicate 96 0;
           bytes = buf_write 0 (arr_list d) bytes;
           bytes = buf_write 32 (arr_list salt) bytes;
           bytes = buf_write 64 (arr_list (aid_value member_account_id)) bytes
       in Inr (sha256 E bytes))"

section \<open>Vote and reject nullifiers\<close>

definition nullifier_with_dst ::
  "'x env \<Rightarrow> string \<Rightarrow> bytes32 \<Rightarrow> account_id \<Rightarrow> u64 \<Rightarrow> bytes32 \<Rightarrow> panic + bytes32" where
  "nullifier_with_dst E tag salt multisig_account_id proposal_index ahash =
     bind (dst tag) (\<lambda>d.
       let bytes = replicate 136 0;
           bytes = buf_write 0 (arr_list d) bytes;
           bytes = buf_write 32 (arr_list salt) bytes;
           bytes = buf_write 64 (arr_list (aid_value multisig_account_id)) bytes;
           bytes = buf_write 96 (to_le 8 proposal_index) bytes;
           bytes = buf_write 104 (arr_list ahash) bytes
       in Inr (sha256 E bytes))"

definition vote_nullifier :: "'x env \<Rightarrow> bytes32 \<Rightarrow> account_id \<Rightarrow> u64 \<Rightarrow> bytes32 \<Rightarrow> panic + bytes32" where
  "vote_nullifier E salt multisig_account_id proposal_index ahash =
     nullifier_with_dst E ''/PMS/v0.1/VoteNullifier/'' salt multisig_account_id proposal_index ahash"

definition reject_nullifier :: "'x env \<Rightarrow> bytes32 \<Rightarrow> account_id \<Rightarrow> u64 \<Rightarrow> bytes32 \<Rightarrow> panic + bytes32" where
  "reject_nullifier E salt multisig_account_id proposal_index ahash =
     nullifier_with_dst E ''/PMS/v0.1/RejectNullifier/'' salt multisig_account_id proposal_index ahash"

section \<open>The action hash\<close>

definition action_hash :: "'x env \<Rightarrow> proposal_action \<Rightarrow> panic + bytes32" where
  "action_hash E action =
     bind (dst ''/PMS/v0.1/ActionHash/'') (\<lambda>d.
       expect (to_vec_action E action) (Expect ''action serialization is infallible'') (\<lambda>ser.
         Inr (sha256 E (arr_list d @ ser))))"

section \<open>Preimages\<close>

definition commitment_preimage :: "bytes32 \<Rightarrow> account_id \<Rightarrow> u8 list" where
  "commitment_preimage salt a =
     arr_list (tag32 ''/PMS/v0.1/MemberCommitment/'') @ arr_list salt @ arr_list (aid_value a)"

definition nullifier_preimage :: "string \<Rightarrow> bytes32 \<Rightarrow> account_id \<Rightarrow> u64 \<Rightarrow> bytes32 \<Rightarrow> u8 list" where
  "nullifier_preimage tag salt m i h =
     arr_list (tag32 tag) @ arr_list salt @ arr_list (aid_value m) @ to_le 8 i @ arr_list h"

abbreviation vote_preimage :: "bytes32 \<Rightarrow> account_id \<Rightarrow> u64 \<Rightarrow> bytes32 \<Rightarrow> u8 list" where
  "vote_preimage \<equiv> nullifier_preimage ''/PMS/v0.1/VoteNullifier/''"

abbreviation reject_preimage :: "bytes32 \<Rightarrow> account_id \<Rightarrow> u64 \<Rightarrow> bytes32 \<Rightarrow> u8 list" where
  "reject_preimage \<equiv> nullifier_preimage ''/PMS/v0.1/RejectNullifier/''"

text \<open>The hashes as total functions of their inputs, which is what the panicking ones compute.\<close>

definition member_cm :: "'x env \<Rightarrow> bytes32 \<Rightarrow> account_id \<Rightarrow> bytes32" where
  "member_cm E salt a = hash_bytes E (commitment_preimage salt a)"

definition vote_nf :: "'x env \<Rightarrow> account_id \<Rightarrow> u64 \<Rightarrow> bytes32 \<Rightarrow> bytes32 \<Rightarrow> bytes32" where
  "vote_nf E m i h salt = hash_bytes E (vote_preimage salt m i h)"

definition reject_nf :: "'x env \<Rightarrow> account_id \<Rightarrow> u64 \<Rightarrow> bytes32 \<Rightarrow> bytes32 \<Rightarrow> bytes32" where
  "reject_nf E m i h salt = hash_bytes E (reject_preimage salt m i h)"

lemma buf_fill3:
  "length a = 32 \<Longrightarrow> length b = 32 \<Longrightarrow> length c = 32 \<Longrightarrow>
     buf_write 64 c (buf_write 32 b (buf_write 0 a (replicate 96 (0 :: u8)))) = a @ b @ c"
  by (simp add: buf_write_def)

lemma buf_fill5:
  "length a = 32 \<Longrightarrow> length b = 32 \<Longrightarrow> length c = 32 \<Longrightarrow> length d = 8 \<Longrightarrow> length e = 32 \<Longrightarrow>
     buf_write 104 e (buf_write 96 d (buf_write 64 c (buf_write 32 b (buf_write 0 a
       (replicate 136 (0 :: u8)))))) = a @ b @ c @ d @ e"
  by (simp add: buf_write_def)

lemma member_commitment_eq [simp]: "member_commitment E salt a = Inr (member_cm E salt a)"
  by (simp add: member_commitment_def member_cm_def sha256_def commitment_preimage_def buf_fill3)

lemma nullifier_with_dst_eq:
  "length tag \<le> 32 \<Longrightarrow>
     nullifier_with_dst E tag salt m i h = Inr (hash_bytes E (nullifier_preimage tag salt m i h))"
  by (simp add: nullifier_with_dst_def sha256_def nullifier_preimage_def buf_fill5)

lemma vote_nullifier_eq [simp]: "vote_nullifier E salt m i h = Inr (vote_nf E m i h salt)"
  by (simp add: vote_nullifier_def vote_nf_def nullifier_with_dst_eq)

lemma reject_nullifier_eq [simp]: "reject_nullifier E salt m i h = Inr (reject_nf E m i h salt)"
  by (simp add: reject_nullifier_def reject_nf_def nullifier_with_dst_eq)

lemma action_hash_eq:
  "action_hash E a =
     (case to_vec_action E a of None \<Rightarrow> Inl (Expect ''action serialization is infallible'')
      | Some ser \<Rightarrow> Inr (hash_bytes E (arr_list (tag32 ''/PMS/v0.1/ActionHash/'') @ ser)))"
  by (simp add: action_hash_def sha256_def split: option.splits)

section \<open>A preimage determines its inputs\<close>

lemma byte_of_char_inject: "(of_nat (of_char c) :: u8) = of_nat (of_char d) \<longleftrightarrow> c = d"
proof
  assume "(of_nat (of_char c) :: u8) = of_nat (of_char d)"
  then have "unat (of_nat (of_char c) :: u8) = unat (of_nat (of_char d) :: u8)" by simp
  then have "(of_char c :: nat) = of_char d"
    by (simp add: unat_of_nat)
  then show "c = d" by simp
qed simp

lemma as_bytes_inject: "as_bytes s = as_bytes t \<longleftrightarrow> s = t"
  unfolding as_bytes_def by (rule inj_map_eq_map) (simp add: inj_def byte_of_char_inject)

definition nul_free :: "string \<Rightarrow> bool" where
  "nul_free s \<longleftrightarrow> (0 :: u8) \<notin> set (as_bytes s)"

lemma takeWhile_padded: "nul_free s \<Longrightarrow> takeWhile (\<lambda>b. b \<noteq> 0) (as_bytes s @ replicate n 0) = as_bytes s"
  by (auto simp: nul_free_def takeWhile_append takeWhile_replicate intro: takeWhile_eq_all_conv [THEN iffD2])

lemma tag32_inject:
  assumes "nul_free s" "nul_free t" "length s \<le> 32" "length t \<le> 32"
  shows "tag32 s = tag32 t \<longleftrightarrow> s = t"
proof
  assume "tag32 s = tag32 t"
  then have "as_bytes s @ replicate (32 - length s) 0 = as_bytes t @ replicate (32 - length t) 0"
    using assms(3,4) by (simp add: tag32_def arr_list_pad flip: arr_list_eq_iff)
  then have "as_bytes s = as_bytes t"
    by (metis takeWhile_padded assms(1,2))
  then show "s = t" by (simp add: as_bytes_inject)
qed simp

lemma hash_tags_nul_free:
  "nul_free ''/PMS/v0.1/MemberCommitment/''" "nul_free ''/PMS/v0.1/VoteNullifier/''"
  "nul_free ''/PMS/v0.1/RejectNullifier/''" "nul_free ''/PMS/v0.1/ActionHash/''"
  by (simp_all add: nul_free_def as_bytes_def)

lemma append_eq_same_length:
  "length a = length b \<Longrightarrow> a @ xs = b @ ys \<longleftrightarrow> a = b \<and> xs = ys"
  by simp

lemma commitment_preimage_inject:
  "commitment_preimage s a = commitment_preimage t b \<longleftrightarrow> s = t \<and> a = b"
  by (auto simp: commitment_preimage_def append_eq_same_length account_id.expand)

lemma nullifier_preimage_inject:
  "nullifier_preimage tag s m i h = nullifier_preimage tag' s' m' i' h' \<longleftrightarrow>
     tag32 tag = tag32 tag' \<and> s = s' \<and> m = m' \<and> i = i' \<and> h = h'"
  by (auto simp: nullifier_preimage_def append_eq_same_length to_le_inject account_id.expand)

lemma vote_reject_tags_differ:
  "tag32 ''/PMS/v0.1/VoteNullifier/'' \<noteq> tag32 ''/PMS/v0.1/RejectNullifier/''"
  by (simp add: tag32_inject hash_tags_nul_free)

lemma vote_reject_preimage_differ: "vote_preimage s m i h \<noteq> reject_preimage s' m' i' h'"
  by (simp add: nullifier_preimage_inject vote_reject_tags_differ)

lemma length_commitment_preimage [simp]: "length (commitment_preimage s a) = 96"
  by (simp add: commitment_preimage_def)

lemma length_nullifier_preimage [simp]: "length (nullifier_preimage tag s m i h) = 136"
  by (simp add: nullifier_preimage_def)

section \<open>Collisions\<close>

text \<open>Two different inputs with the same digest: an explicit pair, never mere existence.\<close>

definition collision :: "'x env \<Rightarrow> u8 list \<Rightarrow> u8 list \<Rightarrow> bool" where
  "collision E x y \<longleftrightarrow> x \<noteq> y \<and> hash_bytes E x = hash_bytes E y"

text \<open>
  C35: a nullifier binds everything that goes into it, and the two kinds live in separate
  domains.  Two vote nullifiers, or two reject nullifiers, are equal exactly when salt,
  multisig account, proposal index and action hash are all equal, or when their two 136-byte
  preimages are a collision of the hash function; a vote nullifier equals a reject nullifier
  only on a collision, whatever went into them.  So a vote cannot be replayed for another
  proposal, multisig account or action, nor as the other kind of vote.
\<close>

theorem nullifiers_bind:
  "(vote_nullifier E s m i h = vote_nullifier E s' m' i' h' \<longleftrightarrow>
     (s = s' \<and> m = m' \<and> i = i' \<and> h = h') \<or>
     collision E (vote_preimage s m i h) (vote_preimage s' m' i' h')) \<and>
   (reject_nullifier E s m i h = reject_nullifier E s' m' i' h' \<longleftrightarrow>
     (s = s' \<and> m = m' \<and> i = i' \<and> h = h') \<or>
     collision E (reject_preimage s m i h) (reject_preimage s' m' i' h')) \<and>
   (vote_nullifier E s m i h = reject_nullifier E s' m' i' h' \<longleftrightarrow>
     collision E (vote_preimage s m i h) (reject_preimage s' m' i' h'))"
  by (auto simp: vote_nf_def reject_nf_def collision_def nullifier_preimage_inject
      vote_reject_tags_differ)

text \<open>
  A member commitment binds salt and account: one commitment has one opening, or the two
  96-byte preimages collide.
\<close>

lemma member_commitment_binds:
  "member_commitment E s a = member_commitment E t b \<longleftrightarrow>
     (s = t \<and> a = b) \<or> collision E (commitment_preimage s a) (commitment_preimage t b)"
  by (auto simp: member_cm_def collision_def commitment_preimage_inject)

definition action_preimage :: "'x env \<Rightarrow> proposal_action \<Rightarrow> u8 list" where
  "action_preimage E a =
     arr_list (tag32 ''/PMS/v0.1/ActionHash/'') @ (case to_vec_action E a of None \<Rightarrow> [] | Some b \<Rightarrow> b)"

lemma to_vec_action_inject:
  assumes "borsh_ok E" and "to_vec_action E a = Some x" and "to_vec_action E b = Some x"
  shows "a = b"
  using assms codec.enc_inject [of "to_vec_action E" "from_slice_action E" a x b]
  by (simp add: borsh_ok_def)

text \<open>
  The action hash binds the action.  Whenever both actions serialise, equal hashes mean
  equal actions or a collision between the two tagged serialisations.
\<close>

lemma action_hash_binds:
  assumes "borsh_ok E" and "action_hash E a = Inr h" and "action_hash E b = Inr h"
  shows "a = b \<or> collision E (action_preimage E a) (action_preimage E b)"
proof -
  obtain x y where x: "to_vec_action E a = Some x" and y: "to_vec_action E b = Some y"
    using assms(2,3) by (auto simp: action_hash_eq split: option.splits)
  then have "hash_bytes E (action_preimage E a) = hash_bytes E (action_preimage E b)"
    using assms(2,3) by (simp add: action_hash_eq action_preimage_def)
  moreover have "a = b" if "x = y"
    using that x y assms(1) to_vec_action_inject by blast
  ultimately show ?thesis using x y by (auto simp: collision_def action_preimage_def)
qed

end
