(* ===== verification/Pms_State.thy ===== *)
theory Pms_State
  imports Pms_Hash
begin

text \<open>
  The methods of \<open>MultisigState\<close> and \<open>Proposal\<close> (\<^verbatim>\<open>pms_core/src/lib.rs\<close>), the well-formedness
  invariants the program keeps of them, and what \<open>is_dead\<close> decides.
\<close>

section \<open>MultisigState\<close>

definition multisig_state_new :: "bytes32 \<Rightarrow> u8 \<Rightarrow> bytes32 list \<Rightarrow> multisig_state" where
  "multisig_state_new create_key threshold member_cms =
     \<lparr>ms_create_key = create_key, ms_threshold = threshold, ms_member_cms = member_cms,
      ms_transaction_index = 0\<rparr>"

definition member_count :: "multisig_state \<Rightarrow> nat" where
  "member_count s = length (ms_member_cms s)"

definition is_member_cm :: "multisig_state \<Rightarrow> bytes32 \<Rightarrow> bool" where
  "is_member_cm s cm = List.member (ms_member_cms s) cm"

lemma is_member_cm_iff [simp]: "is_member_cm s cm \<longleftrightarrow> cm \<in> set (ms_member_cms s)"
  by (simp add: is_member_cm_def)

text \<open>A state as \<open>CreateMultisig\<close> makes it: 1 \<open>\<le>\<close> M \<open>\<le>\<close> N \<open>\<le>\<close> 16, no commitment twice.\<close>

definition wf_state :: "multisig_state \<Rightarrow> bool" where
  "wf_state s \<longleftrightarrow>
     1 \<le> unat (ms_threshold s) \<and> unat (ms_threshold s) \<le> member_count s \<and>
     member_count s \<le> MAX_MEMBERS \<and> distinct (ms_member_cms s)"

section \<open>Proposal\<close>

definition proposal_new :: "'x env \<Rightarrow> u64 \<Rightarrow> bytes32 \<Rightarrow> proposal_action \<Rightarrow> panic + proposal" where
  "proposal_new E index multisig_create_key action =
     bind (action_hash E action) (\<lambda>ahash.
       Inr \<lparr>pr_index = index, pr_multisig_create_key = multisig_create_key, pr_action = action,
            pr_action_hash = ahash, pr_vote_nullifiers = [], pr_reject_nullifiers = [],
            pr_status = Active\<rparr>)"

definition approval_count :: "proposal \<Rightarrow> nat" where
  "approval_count p = length (pr_vote_nullifiers p)"

definition has_threshold :: "proposal \<Rightarrow> u8 \<Rightarrow> bool" where
  "has_threshold p threshold \<longleftrightarrow> length (pr_vote_nullifiers p) \<ge> unat threshold"

definition is_dead :: "'x env \<Rightarrow> proposal \<Rightarrow> u8 \<Rightarrow> nat \<Rightarrow> panic + bool" where
  "is_dead E p threshold n =
     bind (sub_usize E n (length (pr_reject_nullifiers p))) (\<lambda>left.
       Inr (left < unat threshold))"

text \<open>
  A proposal as \<open>Propose\<close> makes it: the stored hash is the hash of the stored action, and every
  authorised index is below the account count.
\<close>

definition wf_proposal :: "'x env \<Rightarrow> proposal \<Rightarrow> bool" where
  "wf_proposal E p \<longleftrightarrow>
     action_hash E (pr_action p) = Inr (pr_action_hash p) \<and>
     (\<forall>idx \<in> set (pa_authorized_indices (pr_action p)). idx < pa_target_account_count (pr_action p))"

lemma proposal_new_Inr:
  "proposal_new E i k a = Inr p \<longleftrightarrow>
     (\<exists>h. action_hash E a = Inr h \<and>
       p = \<lparr>pr_index = i, pr_multisig_create_key = k, pr_action = a, pr_action_hash = h,
            pr_vote_nullifiers = [], pr_reject_nullifiers = [], pr_status = Active\<rparr>)"
  by (auto simp: proposal_new_def)

lemma is_dead_no_borrow:
  "length (pr_reject_nullifiers p) \<le> n \<Longrightarrow>
     is_dead E p thr n = Inr (n - length (pr_reject_nullifiers p) < unat thr)"
  by (simp add: is_dead_def)

text \<open>
  \<open>is_dead\<close> is the condition the documentation gives.  With at most N rejections and a
  threshold at most N it neither panics nor wraps, and holds exactly when more than N - M
  members rejected, that is when fewer than M members are left to approve.
\<close>

lemma is_dead_iff_unreachable:
  assumes "unat thr \<le> n" and "length (pr_reject_nullifiers p) \<le> n"
  shows "is_dead E p thr n = Inr (n - unat thr < length (pr_reject_nullifiers p))"
  using assms by (auto simp: is_dead_no_borrow)

text \<open>
  Outside that range the build mode shows: with overflow checks the subtraction panics, without
  them it wraps to a number far above any threshold and the proposal counts as alive.
\<close>

lemma is_dead_borrow:
  assumes "n < length (pr_reject_nullifiers p)"
  shows "is_dead E p thr n =
    (if overflow_checks E then Inl Overflow
     else Inr (2 ^ usize_bits E + n - length (pr_reject_nullifiers p) < unat thr))"
  using assms by (simp add: is_dead_def sub_usize_def)

section \<open>What an account holds\<close>

text \<open>
  The handlers recognise a multisig state or a proposal by what an account's data decodes to:
  a state for the given \<open>create_key\<close>, a proposal for the given \<open>create_key\<close> and index.
\<close>

definition holds_state :: "'x env \<Rightarrow> 'x account_with_metadata \<Rightarrow> bytes32 \<Rightarrow> multisig_state \<Rightarrow> bool" where
  "holds_state E acc k s \<longleftrightarrow>
     from_slice_state E (acc_data (am_account acc)) = Some s \<and> ms_create_key s = k"

definition holds_proposal ::
  "'x env \<Rightarrow> 'x account_with_metadata \<Rightarrow> bytes32 \<Rightarrow> u64 \<Rightarrow> proposal \<Rightarrow> bool" where
  "holds_proposal E acc k i p \<longleftrightarrow>
     from_slice_proposal E (acc_data (am_account acc)) = Some p \<and>
     pr_multisig_create_key p = k \<and> pr_index p = i"

lemma holds_state_unique: "holds_state E acc k s \<Longrightarrow> holds_state E acc k t \<Longrightarrow> s = t"
  by (simp add: holds_state_def)

lemma holds_proposal_unique: "holds_proposal E acc k i p \<Longrightarrow> holds_proposal E acc k i q \<Longrightarrow> p = q"
  by (simp add: holds_proposal_def)

end
