(* ===== verification/Pms_Pda.thy ===== *)
theory Pms_Pda
  imports Pms_Hash
begin

text \<open>
  PDA derivation of \<^verbatim>\<open>pms_core/src/lib.rs\<close>: the seed of a program-derived account is the
  SHA-256 (here the \<open>sha2\<close> crate's, a second parameter of the environment) of 32-byte parts, a
  zero-padded tag first; the platform turns program and seed into an account id.
\<close>

definition STATE_PDA_TAG :: string where
  "STATE_PDA_TAG = ''pms_state''"

definition PROPOSAL_PDA_TAG :: string where
  "PROPOSAL_PDA_TAG = ''pms_proposal''"

definition VAULT_PDA_TAG :: string where
  "VAULT_PDA_TAG = ''pms_vault''"

lemmas pda_tags = STATE_PDA_TAG_def PROPOSAL_PDA_TAG_def VAULT_PDA_TAG_def

definition seed_u64 :: "u64 \<Rightarrow> bytes32" where
  "seed_u64 value = arr_pad (buf_write 0 (to_le 8 value) (replicate 32 0))"

text \<open>The hasher accumulates the seeds in order; \<open>finalize\<close> digests what it has seen.\<close>

fun update_all :: "u8 list \<Rightarrow> bytes32 list \<Rightarrow> u8 list" where
  "update_all hasher [] = hasher"
| "update_all hasher (seed # seeds) = update_all (hasher @ arr_list seed) seeds"

definition combine_seeds :: "'x env \<Rightarrow> bytes32 list \<Rightarrow> bytes32" where
  "combine_seeds E seeds = sha2_digest E (update_all [] seeds)"

definition multisig_state_pda_seed :: "'x env \<Rightarrow> bytes32 \<Rightarrow> panic + pda_seed" where
  "multisig_state_pda_seed E create_key =
     bind (dst STATE_PDA_TAG) (\<lambda>tag. Inr (PdaSeed (combine_seeds E [tag, create_key])))"

definition proposal_pda_seed :: "'x env \<Rightarrow> bytes32 \<Rightarrow> u64 \<Rightarrow> panic + pda_seed" where
  "proposal_pda_seed E create_key proposal_index =
     bind (dst PROPOSAL_PDA_TAG) (\<lambda>tag.
       Inr (PdaSeed (combine_seeds E [tag, create_key, seed_u64 proposal_index])))"

definition vault_pda_seed_bytes :: "'x env \<Rightarrow> bytes32 \<Rightarrow> panic + bytes32" where
  "vault_pda_seed_bytes E create_key =
     bind (dst VAULT_PDA_TAG) (\<lambda>tag. Inr (combine_seeds E [tag, create_key]))"

definition vault_pda_seed :: "'x env \<Rightarrow> bytes32 \<Rightarrow> panic + pda_seed" where
  "vault_pda_seed E create_key =
     bind (dst VAULT_PDA_TAG) (\<lambda>tag. Inr (PdaSeed (combine_seeds E [tag, create_key])))"

definition compute_multisig_state_pda :: "'x env \<Rightarrow> program_id \<Rightarrow> bytes32 \<Rightarrow> panic + account_id" where
  "compute_multisig_state_pda E pid create_key =
     bind (multisig_state_pda_seed E create_key) (\<lambda>seed. Inr (for_public_pda E pid seed))"

definition compute_proposal_pda :: "'x env \<Rightarrow> program_id \<Rightarrow> bytes32 \<Rightarrow> u64 \<Rightarrow> panic + account_id" where
  "compute_proposal_pda E pid create_key proposal_index =
     bind (proposal_pda_seed E create_key proposal_index) (\<lambda>seed. Inr (for_public_pda E pid seed))"

definition compute_vault_pda :: "'x env \<Rightarrow> program_id \<Rightarrow> bytes32 \<Rightarrow> panic + account_id" where
  "compute_vault_pda E pid create_key =
     bind (vault_pda_seed E create_key) (\<lambda>seed. Inr (for_public_pda E pid seed))"

section \<open>The bytes that are hashed\<close>

text \<open>What a PDA of the program is for, with the arguments it is derived from.\<close>

datatype pda_kind = StatePda bytes32 | ProposalPda bytes32 u64 | VaultPda bytes32

fun pda_preimage :: "pda_kind \<Rightarrow> u8 list" where
  "pda_preimage (StatePda k) = arr_list (tag32 STATE_PDA_TAG) @ arr_list k"
| "pda_preimage (ProposalPda k i) =
     arr_list (tag32 PROPOSAL_PDA_TAG) @ arr_list k @ arr_list (seed_u64 i)"
| "pda_preimage (VaultPda k) = arr_list (tag32 VAULT_PDA_TAG) @ arr_list k"

fun pda_seed_of :: "'x env \<Rightarrow> pda_kind \<Rightarrow> panic + pda_seed" where
  "pda_seed_of E (StatePda k) = multisig_state_pda_seed E k"
| "pda_seed_of E (ProposalPda k i) = proposal_pda_seed E k i"
| "pda_seed_of E (VaultPda k) = vault_pda_seed E k"

lemma update_all_concat: "update_all h seeds = h @ concat (map arr_list seeds)"
  by (induction h seeds rule: update_all.induct) simp_all

lemma pda_seed_of_eq: "pda_seed_of E p = Inr (PdaSeed (sha2_digest E (pda_preimage p)))"
  by (cases p)
    (simp_all add: multisig_state_pda_seed_def proposal_pda_seed_def vault_pda_seed_def
      combine_seeds_def update_all_concat pda_tags)

lemmas pda_seed_eqs [simp] =
  pda_seed_of_eq [of _ "StatePda k" for k, simplified pda_seed_of.simps]
  pda_seed_of_eq [of _ "ProposalPda k i" for k i, simplified pda_seed_of.simps]
  pda_seed_of_eq [of _ "VaultPda k" for k, simplified pda_seed_of.simps]

lemma vault_pda_seed_bytes_eq [simp]:
  "vault_pda_seed_bytes E k = Inr (sha2_digest E (pda_preimage (VaultPda k)))"
  by (simp add: vault_pda_seed_bytes_def combine_seeds_def update_all_concat pda_tags)

lemma seed_u64_inject: "seed_u64 i = seed_u64 j \<longleftrightarrow> i = j"
  by (simp add: seed_u64_def buf_write_def to_le_inject flip: arr_list_eq_iff)

lemma pda_tags_nul_free: "nul_free STATE_PDA_TAG" "nul_free PROPOSAL_PDA_TAG" "nul_free VAULT_PDA_TAG"
  by (simp_all add: pda_tags nul_free_def as_bytes_def)

lemma pda_tags_differ:
  "tag32 STATE_PDA_TAG \<noteq> tag32 PROPOSAL_PDA_TAG"
  "tag32 STATE_PDA_TAG \<noteq> tag32 VAULT_PDA_TAG"
  "tag32 PROPOSAL_PDA_TAG \<noteq> tag32 VAULT_PDA_TAG"
  using pda_tags_nul_free by (simp_all add: tag32_inject pda_tags)

lemma pda_preimage_inject: "pda_preimage p = pda_preimage q \<longleftrightarrow> p = q"
  using pda_tags_differ
  by (cases p; cases q) (auto simp: append_eq_same_length seed_u64_inject)

text \<open>
  C36: the seeds of the program's PDAs are separate per kind, per \<open>create_key\<close> and per proposal
  index.  State, proposal and vault seeds never panic, and two of them agree only if kind and
  arguments agree, or if the two byte strings named here collide under SHA-256.
\<close>

theorem pda_seeds_separate:
  "(\<exists>s. pda_seed_of E p = Inr s) \<and>
   (pda_seed_of E p = pda_seed_of E q \<longleftrightarrow>
      p = q \<or> (pda_preimage p \<noteq> pda_preimage q \<and>
        sha2_digest E (pda_preimage p) = sha2_digest E (pda_preimage q)))"
  by (auto simp: pda_seed_of_eq pda_preimage_inject)

text \<open>
  The seed bytes an action stores for the vault (\<open>vault_pda_seed_bytes\<close>, used by the CLI) are
  the seed of the vault account itself, so authorising them authorises exactly the account that
  \<open>compute_vault_pda\<close> names.
\<close>

lemma vault_seed_bytes_address_vault:
  "\<exists>b. vault_pda_seed_bytes E k = Inr b \<and> vault_pda_seed E k = Inr (PdaSeed b) \<and>
     compute_vault_pda E pid k = Inr (for_public_pda E pid (PdaSeed b))"
  by (simp add: compute_vault_pda_def del: pda_preimage.simps)

end
