(* ===== verification/Create_Multisig.thy ===== *)
theory Create_Multisig
  imports Pms_State Pms_Pda
begin

text \<open>
  The CreateMultisig handler (\<^verbatim>\<open>multisig_program/src/create_multisig.rs\<close>): exactly which calls
  it accepts, with which result; which error every other call gets; and that the state it
  writes is well formed.
\<close>

text \<open>
  The loop over \<open>member_cms.iter().enumerate()\<close>: \<open>seen\<close> is \<open>member_cms[..i]\<close> and the rest is
  still to come.
\<close>

fun check_duplicates :: "bytes32 list \<Rightarrow> bytes32 list \<Rightarrow> panic + unit" where
  "check_duplicates seen [] = Inr ()"
| "check_duplicates seen (cm # rest) =
     require (\<not> List.member seen cm) (Pms ERR_DUPLICATE_MEMBER)
       (check_duplicates (seen @ [cm]) rest)"

definition create_multisig_handle ::
  "'x env \<Rightarrow> 'x account_with_metadata list \<Rightarrow> bytes32 \<Rightarrow> u8 \<Rightarrow> bytes32 list \<Rightarrow> 'x outcome" where
  "create_multisig_handle E accounts create_key threshold member_cms =
     require (length accounts = 1) (Pms ERR_BAD_ACCOUNT_COUNT) (
     bind (index_at accounts 0) (\<lambda>state_account.
     require (am_account state_account = account_default E) (Pms ERR_ALREADY_INITIALIZED) (
     let n = length member_cms in
     require (threshold \<ge> 1 \<and> unat threshold \<le> n \<and> n \<le> MAX_MEMBERS) (Pms ERR_BAD_THRESHOLD) (
     bind (check_duplicates [] member_cms) (\<lambda>_.
     let state = multisig_state_new create_key threshold member_cms in
     expect (to_vec_state E state) (Expect ''state serialization is infallible'') (\<lambda>bytes.
     expect (try_into_data E bytes) (Expect ''state fits in account data'') (\<lambda>d.
     let state_post = (am_account state_account)\<lparr>acc_data := d\<rparr> in
     bind (multisig_state_pda_seed E create_key) (\<lambda>seed.
     Inr ([post_new_claimed state_post (Pda seed)], [])))))))))"

section \<open>The loop\<close>

lemma check_duplicates_eq:
  "check_duplicates seen cms =
     (if distinct cms \<and> set seen \<inter> set cms = {} then Inr () else Inl (Pms ERR_DUPLICATE_MEMBER))"
  by (induction seen cms rule: check_duplicates.induct) (auto simp: require_def)

lemma check_duplicates_Inr [simp]: "check_duplicates [] cms = Inr u \<longleftrightarrow> distinct cms"
  by (simp add: check_duplicates_eq)

section \<open>Acceptance\<close>

definition valid_members :: "u8 \<Rightarrow> bytes32 list \<Rightarrow> bool" where
  "valid_members threshold cms \<longleftrightarrow>
     1 \<le> unat threshold \<and> unat threshold \<le> length cms \<and> length cms \<le> MAX_MEMBERS \<and> distinct cms"

lemma one_le_u8 [simp]: "(1 :: u8) \<le> t \<longleftrightarrow> 1 \<le> unat t"
  by (simp add: word_le_nat_alt)

lemma wf_state_new: "wf_state (multisig_state_new k t cms) \<longleftrightarrow> valid_members t cms"
  by (simp add: wf_state_def valid_members_def multisig_state_new_def member_count_def)

text \<open>
  C19: CreateMultisig accepts exactly one kind of call: a single account equal to the default
  account, a threshold with 1 <= M <= N <= 16, no commitment twice, and a state that serialises
  into account data.  The result is that account with the new state as its data and nothing
  else changed, claimed as the state PDA of the \<open>create_key\<close>, and no chained call.
\<close>

theorem create_multisig_accepts_iff:
  "create_multisig_handle E accounts k t cms = Inr (posts, calls) \<longleftrightarrow>
     (\<exists>acc bytes. accounts = [acc] \<and> am_account acc = account_default E \<and> valid_members t cms \<and>
        to_vec_state E (multisig_state_new k t cms) = Some bytes \<and> data_fits E bytes \<and>
        posts = [post_new_claimed ((am_account acc)\<lparr>acc_data := bytes\<rparr>)
                   (Pda (PdaSeed (sha2_digest E (pda_preimage (StatePda k)))))] \<and>
        calls = [])"
  by (auto simp: create_multisig_handle_def valid_members_def length_eqs Let_def
      simp del: pda_preimage.simps)

lemma create_multisig_handle_InrE:
  assumes "create_multisig_handle E accounts k t cms = Inr (posts, calls)"
  obtains acc bytes where "accounts = [acc]" and "am_account acc = account_default E"
    and "valid_members t cms" and "to_vec_state E (multisig_state_new k t cms) = Some bytes"
    and "data_fits E bytes"
    and "posts = [post_new_claimed ((am_account acc)\<lparr>acc_data := bytes\<rparr>)
           (Pda (PdaSeed (sha2_digest E (pda_preimage (StatePda k)))))]"
    and "calls = []"
  using assms
  by (auto simp: create_multisig_handle_def valid_members_def length_eqs Let_def
      simp del: pda_preimage.simps)

text \<open>
  Which error a refused CreateMultisig reports.  The checks run in the order account
  count, uninitialised account, threshold, duplicates, and each code is reported exactly when
  its check is the first to fail.
\<close>

lemma create_multisig_errors:
  "(create_multisig_handle E accounts k t cms = Inl (Pms ERR_BAD_ACCOUNT_COUNT) \<longleftrightarrow>
      length accounts \<noteq> 1) \<and>
   (create_multisig_handle E accounts k t cms = Inl (Pms ERR_ALREADY_INITIALIZED) \<longleftrightarrow>
      (\<exists>acc. accounts = [acc] \<and> am_account acc \<noteq> account_default E)) \<and>
   (create_multisig_handle E accounts k t cms = Inl (Pms ERR_BAD_THRESHOLD) \<longleftrightarrow>
      (\<exists>acc. accounts = [acc] \<and> am_account acc = account_default E \<and>
         \<not> (1 \<le> unat t \<and> unat t \<le> length cms \<and> length cms \<le> MAX_MEMBERS))) \<and>
   (create_multisig_handle E accounts k t cms = Inl (Pms ERR_DUPLICATE_MEMBER) \<longleftrightarrow>
      (\<exists>acc. accounts = [acc] \<and> am_account acc = account_default E \<and>
         1 \<le> unat t \<and> unat t \<le> length cms \<and> length cms \<le> MAX_MEMBERS \<and> \<not> distinct cms))"
proof (cases "\<exists>acc. accounts = [acc]")
  case False
  then have "length accounts \<noteq> 1" by (simp add: length_eqs)
  then show ?thesis by (auto simp: create_multisig_handle_def)
next
  case True
  then show ?thesis
    by (elim exE, intro conjI)
      (simp_all add: create_multisig_handle_def Let_def res_Inl_iffs check_duplicates_eq
        split: option.split, blast)
qed

text \<open>
  The account that CreateMultisig writes decodes to a well-formed state, the one asked for,
  with the proposal counter at zero.
\<close>

lemma create_multisig_establishes_wf:
  assumes "borsh_ok E" and "create_multisig_handle E accounts k t cms = Inr (posts, calls)"
  shows "\<exists>s. from_slice_state E (acc_data (ps_account (posts ! 0))) = Some s \<and> wf_state s \<and>
     s = \<lparr>ms_create_key = k, ms_threshold = t, ms_member_cms = cms, ms_transaction_index = 0\<rparr>"
proof -
  obtain bytes where b: "to_vec_state E (multisig_state_new k t cms) = Some bytes"
    and v: "valid_members t cms" and p: "acc_data (ps_account (posts ! 0)) = bytes"
    using assms(2) by (elim create_multisig_handle_InrE) simp
  have "from_slice_state E bytes = Some (multisig_state_new k t cms)"
    using assms(1) b by auto
  with p v show ?thesis by (auto simp: wf_state_new multisig_state_new_def [symmetric])
qed

end
