(* ===== verification/Propose_Handler.thy ===== *)
theory Propose_Handler
  imports Pms_State Pms_Pda
begin

text \<open>
  The Propose handler (\<^verbatim>\<open>multisig_program/src/propose.rs\<close>): it bumps the proposal counter of the
  state and writes a fresh proposal into an uninitialised account.  The theorems give the exact
  acceptance condition and result, the error of every refused call, the meaning of the written
  accounts after decoding, and the behaviour of the counter at the end of its range.
\<close>

text \<open>The loop over \<open>action.authorized_indices\<close>.\<close>

fun check_indices :: "u8 list \<Rightarrow> u8 \<Rightarrow> panic + unit" where
  "check_indices [] n = Inr ()"
| "check_indices (idx # rest) n =
     require (idx < n) (Pms ERR_BAD_AUTHORIZED_INDEX) (check_indices rest n)"

definition propose_handle ::
  "'x env \<Rightarrow> 'x account_with_metadata list \<Rightarrow> bytes32 \<Rightarrow> u64 \<Rightarrow> proposal_action \<Rightarrow> 'x outcome" where
  "propose_handle E accounts create_key proposal_index action =
     require (length accounts = 2) (Pms ERR_BAD_ACCOUNT_COUNT) (
     bind (index_at accounts 0) (\<lambda>state_account.
     bind (index_at accounts 1) (\<lambda>proposal_account.
     expect (from_slice_state E (acc_data (am_account state_account))) (Pms ERR_STATE_MISMATCH) (\<lambda>state.
     require (ms_create_key state = create_key) (Pms ERR_STATE_MISMATCH) (
     require (am_account proposal_account = account_default E) (Pms ERR_PROPOSAL_EXISTS) (
     bind (add_u64 E (ms_transaction_index state) 1) (\<lambda>next_index.
     require (proposal_index = next_index) (Pms ERR_BAD_PROPOSAL_INDEX) (
     bind (check_indices (pa_authorized_indices action) (pa_target_account_count action)) (\<lambda>_.
     let state' = state\<lparr>ms_transaction_index := proposal_index\<rparr> in
     bind (proposal_new E proposal_index create_key action) (\<lambda>proposal.
     expect (to_vec_state E state') (Expect ''state serialization is infallible'') (\<lambda>state_bytes.
     expect (try_into_data E state_bytes) (Expect ''state fits in account data'') (\<lambda>state_data.
     let state_post = (am_account state_account)\<lparr>acc_data := state_data\<rparr> in
     expect (to_vec_proposal E proposal) (Expect ''proposal serialization is infallible'') (\<lambda>prop_bytes.
     expect (try_into_data E prop_bytes) (Expect ''proposal fits in account data'') (\<lambda>prop_data.
     let proposal_post = (am_account proposal_account)\<lparr>acc_data := prop_data\<rparr> in
     bind (proposal_pda_seed E create_key proposal_index) (\<lambda>seed.
     Inr ([post_new state_post, post_new_claimed proposal_post (Pda seed)], []))))))))))))))))"

lemma check_indices_eq:
  "check_indices idxs n =
     (if \<forall>i \<in> set idxs. i < n then Inr () else Inl (Pms ERR_BAD_AUTHORIZED_INDEX))"
  by (induction idxs n rule: check_indices.induct) (auto simp: require_def)

lemma check_indices_Inr [simp]: "check_indices idxs n = Inr u \<longleftrightarrow> (\<forall>i \<in> set idxs. i < n)"
  by (simp add: check_indices_eq)

section \<open>Acceptance\<close>

definition fresh_proposal :: "u64 \<Rightarrow> bytes32 \<Rightarrow> proposal_action \<Rightarrow> bytes32 \<Rightarrow> proposal" where
  "fresh_proposal i k a h =
     \<lparr>pr_index = i, pr_multisig_create_key = k, pr_action = a, pr_action_hash = h,
      pr_vote_nullifiers = [], pr_reject_nullifiers = [], pr_status = Active\<rparr>"

text \<open>
  C18: Propose accepts exactly the calls with two accounts, a decodable state for the
  \<open>create_key\<close> in the first, the default account in the second, the next index of the counter
  and authorised indices below the account count.  It returns the state with the counter
  advanced and the fresh proposal, claimed as the proposal PDA, and no chained call; nobody
  need be authorised.
\<close>

theorem propose_accepts_iff:
  "propose_handle E accounts k i a = Inr (posts, calls) \<longleftrightarrow>
     (\<exists>sa pa s h sb pb. accounts = [sa, pa] \<and> holds_state E sa k s \<and>
        am_account pa = account_default E \<and>
        add_u64 E (ms_transaction_index s) 1 = Inr i \<and>
        list_all (\<lambda>idx. idx < pa_target_account_count a) (pa_authorized_indices a) \<and>
        action_hash E a = Inr h \<and>
        to_vec_state E (s\<lparr>ms_transaction_index := i\<rparr>) = Some sb \<and> data_fits E sb \<and>
        to_vec_proposal E (fresh_proposal i k a h) = Some pb \<and> data_fits E pb \<and>
        posts = [post_new ((am_account sa)\<lparr>acc_data := sb\<rparr>),
                 post_new_claimed ((am_account pa)\<lparr>acc_data := pb\<rparr>)
                   (Pda (PdaSeed (sha2_digest E (pda_preimage (ProposalPda k i)))))] \<and>
        calls = [])"
  by (auto simp: propose_handle_def holds_state_def fresh_proposal_def proposal_new_Inr
      length_eqs Let_def list_all_iff simp del: pda_preimage.simps)

text \<open>The elimination rule that the other proofs on accepted proposals start from.\<close>

lemma propose_handle_InrE:
  assumes "propose_handle E accounts k i a = Inr (posts, calls)"
  obtains sa pa s h sb pb where "accounts = [sa, pa]" and "holds_state E sa k s"
    and "am_account pa = account_default E" and "add_u64 E (ms_transaction_index s) 1 = Inr i"
    and "\<forall>idx \<in> set (pa_authorized_indices a). idx < pa_target_account_count a"
    and "action_hash E a = Inr h"
    and "to_vec_state E (s\<lparr>ms_transaction_index := i\<rparr>) = Some sb" and "data_fits E sb"
    and "to_vec_proposal E (fresh_proposal i k a h) = Some pb" and "data_fits E pb"
    and "posts = [post_new ((am_account sa)\<lparr>acc_data := sb\<rparr>),
           post_new_claimed ((am_account pa)\<lparr>acc_data := pb\<rparr>)
             (Pda (PdaSeed (sha2_digest E (pda_preimage (ProposalPda k i)))))]"
    and "calls = []"
  using assms
  by (auto simp: propose_handle_def holds_state_def fresh_proposal_def proposal_new_Inr
      length_eqs Let_def simp del: pda_preimage.simps)

section \<open>Errors\<close>

text \<open>
  Which error a refused Propose reports, in the order of the checks: account count, state,
  uninitialised proposal account, next index, authorised indices.
\<close>

lemma propose_errors:
  "(propose_handle E accounts k i a = Inl (Pms ERR_BAD_ACCOUNT_COUNT) \<longleftrightarrow> length accounts \<noteq> 2) \<and>
   (propose_handle E [sa, pa] k i a = Inl (Pms ERR_STATE_MISMATCH) \<longleftrightarrow>
      \<not> (\<exists>s. holds_state E sa k s)) \<and>
   (propose_handle E [sa, pa] k i a = Inl (Pms ERR_PROPOSAL_EXISTS) \<longleftrightarrow>
      (\<exists>s. holds_state E sa k s) \<and> am_account pa \<noteq> account_default E) \<and>
   (propose_handle E [sa, pa] k i a = Inl (Pms ERR_BAD_PROPOSAL_INDEX) \<longleftrightarrow>
      (\<exists>s n. holds_state E sa k s \<and> am_account pa = account_default E \<and>
         add_u64 E (ms_transaction_index s) 1 = Inr n \<and> i \<noteq> n)) \<and>
   (propose_handle E [sa, pa] k i a = Inl (Pms ERR_BAD_AUTHORIZED_INDEX) \<longleftrightarrow>
      (\<exists>s. holds_state E sa k s \<and> am_account pa = account_default E \<and>
         add_u64 E (ms_transaction_index s) 1 = Inr i \<and>
         list_ex (\<lambda>idx. pa_target_account_count a \<le> idx) (pa_authorized_indices a)))"
proof (intro conjI)
  show "propose_handle E accounts k i a = Inl (Pms ERR_BAD_ACCOUNT_COUNT) \<longleftrightarrow> length accounts \<noteq> 2"
    by (simp add: propose_handle_def Let_def res_Inl_iffs check_indices_eq proposal_new_def
        action_hash_eq add_u64_def split: option.split)
qed (simp add: propose_handle_def Let_def res_Inl_iffs check_indices_eq proposal_new_def
  action_hash_eq holds_state_def add_u64_def list_ex_iff not_less split: option.split; auto)+

section \<open>Effect\<close>

text \<open>
  What an accepted Propose leaves on the chain, read back.  The first account holds the same
  state with the counter at the new index, so members, threshold and well-formedness are
  kept; the second holds a well-formed active proposal with that index, the given action and
  no votes.
\<close>

lemma propose_effect:
  assumes "borsh_ok E" and "propose_handle E [sa, pa] k i a = Inr (posts, calls)"
  shows "\<exists>s p. from_slice_state E (acc_data (am_account sa)) = Some s \<and>
     from_slice_state E (acc_data (ps_account (posts ! 0))) = Some (s\<lparr>ms_transaction_index := i\<rparr>) \<and>
     (wf_state (s\<lparr>ms_transaction_index := i\<rparr>) \<longleftrightarrow> wf_state s) \<and>
     from_slice_proposal E (acc_data (ps_account (posts ! 1))) = Some p \<and>
     wf_proposal E p \<and> pr_index p = i \<and> pr_multisig_create_key p = k \<and> pr_action p = a \<and>
     pr_vote_nullifiers p = [] \<and> pr_reject_nullifiers p = [] \<and> pr_status p = Active"
proof -
  obtain s h sb pb where s: "from_slice_state E (acc_data (am_account sa)) = Some s"
    and idx: "\<forall>idx \<in> set (pa_authorized_indices a). idx < pa_target_account_count a"
    and h: "action_hash E a = Inr h"
    and sb: "to_vec_state E (s\<lparr>ms_transaction_index := i\<rparr>) = Some sb"
    and pb: "to_vec_proposal E (fresh_proposal i k a h) = Some pb"
    and posts: "acc_data (ps_account (posts ! 0)) = sb" "acc_data (ps_account (posts ! 1)) = pb"
    using assms(2) by (elim propose_handle_InrE) (auto simp: holds_state_def)
  have "from_slice_state E sb = Some (s\<lparr>ms_transaction_index := i\<rparr>)"
    and "from_slice_proposal E pb = Some (fresh_proposal i k a h)"
    using borsh_okD [OF assms(1)] sb pb by auto
  with s idx h posts show ?thesis
    by (auto simp: fresh_proposal_def wf_proposal_def wf_state_def member_count_def)
qed

text \<open>
  The proposal counter.  An accepted index is one above the counter as a number, except at
  the end of the range in a build without overflow checks, where the only accepted index is 0;
  with overflow checks a full counter accepts no proposal at all.
\<close>

lemma propose_counter_step:
  assumes "propose_handle E [sa, pa] k i a = Inr (posts, calls)"
    and "from_slice_state E (acc_data (am_account sa)) = Some s"
  shows "if ms_transaction_index s = - 1 then \<not> overflow_checks E \<and> i = 0
     else unat i = unat (ms_transaction_index s) + 1"
proof -
  have add: "add_u64 E (ms_transaction_index s) 1 = Inr i"
    using assms by (elim propose_handle_InrE) (auto simp: holds_state_def)
  show ?thesis
  proof (cases "ms_transaction_index s = - 1")
    case True
    then show ?thesis using add by (auto simp: add_u64_def unsigned_minus_1_eq_mask mask_eq_exp_minus_1 split: if_splits)
  next
    case False
    then have "i = ms_transaction_index s + 1" "1 + ms_transaction_index s \<noteq> 0"
      using add by (auto simp: add_u64_def add_eq_0_iff split: if_splits)
    then show ?thesis using False by (simp add: unatSuc add.commute)
  qed
qed

end
