(* ===== verification/Vote_Side.thy ===== *)
theory Vote_Side
  imports Pms_State
begin

text \<open>
  The contract Approve and Reject share.  Each of the two records a nullifier of the voter on
  its own list, takes the voter's nullifier off the other list, and leaves the rest of the
  proposal alone.  The locale states that contract for one side; what follows from it for
  repeated votes, switched votes and the voters behind the lists is proved once, and both
  handlers' updates interpret it.
\<close>

definition same_proposal :: "proposal \<Rightarrow> proposal \<Rightarrow> bool" where
  "same_proposal p q \<longleftrightarrow>
     pr_index p = pr_index q \<and> pr_multisig_create_key p = pr_multisig_create_key q \<and>
     pr_action p = pr_action q \<and> pr_action_hash p = pr_action_hash q"

lemma same_proposalD:
  "same_proposal p q \<Longrightarrow> pr_index p = pr_index q"
  "same_proposal p q \<Longrightarrow> pr_multisig_create_key p = pr_multisig_create_key q"
  "same_proposal p q \<Longrightarrow> pr_action p = pr_action q"
  "same_proposal p q \<Longrightarrow> pr_action_hash p = pr_action_hash q"
  by (simp_all add: same_proposal_def)

lemma same_proposal_sym: "same_proposal p q \<Longrightarrow> same_proposal q p"
  by (simp add: same_proposal_def)

lemma same_proposal_trans [trans]: "same_proposal p q \<Longrightarrow> same_proposal q r \<Longrightarrow> same_proposal p r"
  by (simp add: same_proposal_def)

lemma proposal_eqI:
  fixes p q :: proposal
  assumes "same_proposal p q" and "pr_vote_nullifiers p = pr_vote_nullifiers q"
    and "pr_reject_nullifiers p = pr_reject_nullifiers q" and "pr_status p = pr_status q"
  shows "p = q"
  using assms by (cases p; cases q) (simp add: same_proposal_def)

lemma retain_ne_map_inj:
  assumes "inj_on f (insert v (set xs))"
  shows "retain_ne (f v) (map f xs) = map f (retain_ne v xs)"
proof -
  have "\<forall>x \<in> set xs. f x = f v \<longleftrightarrow> x = v" using assms by (auto simp: inj_on_def)
  then show ?thesis by (induction xs) (auto simp: retain_ne_def)
qed

lemma retain_ne_commute: "retain_ne x (retain_ne y xs) = retain_ne y (retain_ne x xs)"
  by (simp add: retain_ne_def conj_commute)

lemma retain_ne_push: "x \<noteq> y \<Longrightarrow> retain_ne x (push xs y) = push (retain_ne x xs) y"
  by (simp add: retain_ne_def push_def)

lemma push_neq: "push xs x \<noteq> xs"
  by (simp add: push_def)

lemma push_push: "push (push xs x) y = xs @ [x, y]"
  by (simp add: push_def)

lemma push_map: "push (map f xs) (f x) = map f (push xs x)"
  by (simp add: push_def)

locale vote_side =
  fixes mine :: "proposal \<Rightarrow> bytes32 list"
    and other :: "proposal \<Rightarrow> bytes32 list"
    and mine_nf :: "bytes32 \<Rightarrow> bytes32"
    and other_nf :: "bytes32 \<Rightarrow> bytes32"
    and cast :: "bytes32 \<Rightarrow> proposal \<Rightarrow> proposal"
  assumes mine_cast: "mine (cast salt p) = push (mine p) (mine_nf salt)"
    and other_cast: "other (cast salt p) = retain_ne (other_nf salt) (other p)"
    and cast_same: "same_proposal (cast salt p) p"
    and cast_status: "pr_status (cast salt p) = pr_status p"
begin

lemma cast_recorded: "mine_nf salt \<in> set (mine (cast salt p))"
  by (simp add: mine_cast)

lemma length_mine_cast: "length (mine (cast salt p)) = Suc (length (mine p))"
  by (simp add: mine_cast)

text \<open>
  The voters behind the lists: if the lists are the images of voters \<open>V\<close> on this side and \<open>R\<close>
  on the other, a voter whose nullifier is not recorded is not among \<open>V\<close>, and the vote adds
  the voter to \<open>V\<close> and takes this voter, and no other, off \<open>R\<close>.
\<close>

lemma new_voter: "mine p = map mine_nf V \<Longrightarrow> mine_nf salt \<notin> set (mine p) \<Longrightarrow> salt \<notin> set V"
  by auto

lemma cast_voters:
  assumes "mine p = map mine_nf V" and "other p = map other_nf R"
    and "inj_on other_nf (insert salt (set R))"
  shows "mine (cast salt p) = map mine_nf (push V salt)"
    and "other (cast salt p) = map other_nf (retain_ne salt R)"
  using assms by (simp_all add: mine_cast other_cast push_map retain_ne_map_inj)

text \<open>
  Two votes on the same side.  A vote never leaves the proposal as it was; in either order the two
  leave the same proposal, the same other list and the same nullifiers on their own list, where
  only the order of the last two tells which came first.
\<close>

lemma cast_changes: "cast salt p \<noteq> p"
  using mine_cast [of salt p] push_neq by metis

lemma cast_cast:
  "mine (cast salt' (cast salt p)) = mine p @ [mine_nf salt, mine_nf salt']"
  "other (cast salt' (cast salt p)) = other (cast salt (cast salt' p))"
  "same_proposal (cast salt' (cast salt p)) (cast salt (cast salt' p))"
  "pr_status (cast salt' (cast salt p)) = pr_status p"
  by (simp_all add: mine_cast push_push other_cast retain_ne_commute cast_status)
    (meson cast_same same_proposal_sym same_proposal_trans)

end

end
