(* ===== verification/Approve_Handler.thy ===== *)
theory Approve_Handler
  imports Vote_Side
begin

text \<open>
  The Approve handler and the two routines it shares with Reject
  (\<^verbatim>\<open>multisig_program/src/approve.rs\<close>): \<open>common_vote_checks\<close> (account shape, authorisation,
  membership, proposal consistency) and \<open>finalize_vote\<close> (the three post states).  The theorems
  give the exact acceptance condition and result of an approval, the error of every refused
  one, and the rules on double votes and switched votes.
\<close>

definition common_vote_checks ::
  "'x env \<Rightarrow> 'x account_with_metadata list \<Rightarrow> bytes32 \<Rightarrow> u64 \<Rightarrow> bytes32 \<Rightarrow>
     panic + ('x account_with_metadata \<times> 'x account_with_metadata \<times> 'x account_with_metadata \<times>
       multisig_state \<times> proposal)" where
  "common_vote_checks E accounts create_key proposal_index member_salt =
     require (length accounts = 3) (Pms ERR_BAD_ACCOUNT_COUNT) (
     bind (index_at accounts 0) (\<lambda>state_account.
     bind (index_at accounts 1) (\<lambda>proposal_account.
     bind (index_at accounts 2) (\<lambda>member_account.
     require (am_is_authorized member_account) (Pms ERR_MEMBER_NOT_AUTHORIZED) (
     expect (from_slice_state E (acc_data (am_account state_account))) (Pms ERR_STATE_MISMATCH) (\<lambda>state.
     require (ms_create_key state = create_key) (Pms ERR_STATE_MISMATCH) (
     bind (member_commitment E member_salt (am_account_id member_account)) (\<lambda>cm.
     require (is_member_cm state cm) (Pms ERR_NOT_A_MEMBER) (
     expect (from_slice_proposal E (acc_data (am_account proposal_account))) (Pms ERR_PROPOSAL_MISMATCH) (\<lambda>proposal.
     require (pr_multisig_create_key proposal = ms_create_key state \<and> pr_index proposal = proposal_index)
       (Pms ERR_PROPOSAL_MISMATCH) (
     require (pr_status proposal = Active) (Pms ERR_PROPOSAL_NOT_ACTIVE) (
     Inr (state_account, proposal_account, member_account, state, proposal)))))))))))))"

definition finalize_vote ::
  "'x env \<Rightarrow> 'x account_with_metadata \<Rightarrow> 'x account_with_metadata \<Rightarrow> 'x account_with_metadata \<Rightarrow>
     multisig_state \<Rightarrow> proposal \<Rightarrow> 'x outcome" where
  "finalize_vote E state_account proposal_account member_account state proposal =
     expect (to_vec_proposal E proposal) (Expect ''proposal serialization is infallible'') (\<lambda>bytes.
     expect (try_into_data E bytes) (Expect ''proposal fits in account data'') (\<lambda>d.
     let proposal_post = (am_account proposal_account)\<lparr>acc_data := d\<rparr> in
     Inr ([post_new (am_account state_account), post_new proposal_post,
           post_new (am_account member_account)], [])))"

definition approve_handle ::
  "'x env \<Rightarrow> 'x account_with_metadata list \<Rightarrow> bytes32 \<Rightarrow> u64 \<Rightarrow> bytes32 \<Rightarrow> 'x outcome" where
  "approve_handle E accounts create_key proposal_index member_salt =
     bind (common_vote_checks E accounts create_key proposal_index member_salt)
       (\<lambda>(state_account, proposal_account, member_account, state, proposal).
     bind (vote_nullifier E member_salt (am_account_id state_account) proposal_index
             (pr_action_hash proposal)) (\<lambda>nullifier.
     require (\<not> List.member (pr_vote_nullifiers proposal) nullifier) (Pms ERR_DUPLICATE_VOTE) (
     bind (reject_nullifier E member_salt (am_account_id state_account) proposal_index
             (pr_action_hash proposal)) (\<lambda>this_members_rejection.
     let proposal = proposal\<lparr>pr_reject_nullifiers :=
           retain_ne this_members_rejection (pr_reject_nullifiers proposal)\<rparr>;
         proposal = proposal\<lparr>pr_vote_nullifiers := push (pr_vote_nullifiers proposal) nullifier\<rparr> in
     finalize_vote E state_account proposal_account member_account state proposal))))"

section \<open>The common checks\<close>

text \<open>What the shared checks establish about the three accounts.\<close>

definition vote_ready ::
  "'x env \<Rightarrow> bytes32 \<Rightarrow> u64 \<Rightarrow> bytes32 \<Rightarrow> 'x account_with_metadata \<Rightarrow> 'x account_with_metadata \<Rightarrow>
     'x account_with_metadata \<Rightarrow> multisig_state \<Rightarrow> proposal \<Rightarrow> bool" where
  "vote_ready E k i salt sa pa ma s p \<longleftrightarrow>
     am_is_authorized ma \<and> holds_state E sa k s \<and>
     member_cm E salt (am_account_id ma) \<in> set (ms_member_cms s) \<and>
     holds_proposal E pa k i p \<and> pr_status p = Active"

lemma common_vote_checks_Inr:
  "common_vote_checks E accounts k i salt = Inr r \<longleftrightarrow>
     (\<exists>sa pa ma s p. accounts = [sa, pa, ma] \<and> vote_ready E k i salt sa pa ma s p \<and>
        r = (sa, pa, ma, s, p))"
  by (auto simp: common_vote_checks_def vote_ready_def holds_state_def holds_proposal_def
      length_eqs Let_def)

lemma vote_ready_ex:
  assumes "vote_ready E k i salt sa pa ma s p"
  shows "(\<exists>s' p'. vote_ready E k i salt sa pa ma s' p' \<and> Q s' p') \<longleftrightarrow> Q s p"
proof
  assume "\<exists>s' p'. vote_ready E k i salt sa pa ma s' p' \<and> Q s' p'"
  then obtain s' p' where "vote_ready E k i salt sa pa ma s' p'" and q: "Q s' p'" by blast
  with assms have "s' = s" "p' = p"
    by (simp_all add: vote_ready_def holds_state_def holds_proposal_def)
  with q show "Q s p" by simp
qed (use assms in blast)

lemma common_vote_checks_ready [simp]:
  "vote_ready E k i salt sa pa ma s p \<Longrightarrow>
     common_vote_checks E [sa, pa, ma] k i salt = Inr (sa, pa, ma, s, p)"
  by (simp add: common_vote_checks_Inr)

lemma finalize_vote_Inr:
  "finalize_vote E sa pa ma s p = Inr (posts, calls) \<longleftrightarrow>
     (\<exists>b. to_vec_proposal E p = Some b \<and> data_fits E b \<and> calls = [] \<and>
        posts = [post_new (am_account sa), post_new ((am_account pa)\<lparr>acc_data := b\<rparr>),
                 post_new (am_account ma)])"
  by (auto simp: finalize_vote_def)

lemma finalize_vote_no_Pms: "finalize_vote E sa pa ma s p \<noteq> Inl (Pms e)"
  by (auto simp: finalize_vote_def res_Inl_iffs split: option.split)

section \<open>Approval\<close>

text \<open>The effect of an accepted approval on the proposal, at its stored action hash \<open>h\<close>.\<close>

definition approve_update ::
  "'x env \<Rightarrow> account_id \<Rightarrow> u64 \<Rightarrow> bytes32 \<Rightarrow> bytes32 \<Rightarrow> proposal \<Rightarrow> proposal" where
  "approve_update E m i h salt p =
     p\<lparr>pr_reject_nullifiers := retain_ne (reject_nf E m i h salt) (pr_reject_nullifiers p),
       pr_vote_nullifiers := push (pr_vote_nullifiers p) (vote_nf E m i h salt)\<rparr>"

interpretation approve_side: vote_side pr_vote_nullifiers pr_reject_nullifiers
    "vote_nf E m i h" "reject_nf E m i h" "approve_update E m i h" for E m i h
  by unfold_locales (simp_all add: approve_update_def same_proposal_def)

text \<open>
  C15: Approve accepts exactly the calls with three accounts in which the third is authorised,
  its id and the salt open a commitment of the state in the first, the second holds the active
  proposal, and the vote nullifier is not recorded yet.  The result passes state and member
  account through, writes the proposal with the nullifier appended and the member's own
  rejection retracted, and calls nobody.
\<close>

theorem approve_accepts_iff:
  "approve_handle E accounts k i salt = Inr (posts, calls) \<longleftrightarrow>
     (\<exists>sa pa ma s p b. accounts = [sa, pa, ma] \<and> vote_ready E k i salt sa pa ma s p \<and>
        vote_nf E (am_account_id sa) i (pr_action_hash p) salt \<notin> set (pr_vote_nullifiers p) \<and>
        to_vec_proposal E (approve_update E (am_account_id sa) i (pr_action_hash p) salt p) = Some b \<and>
        data_fits E b \<and> calls = [] \<and>
        posts = [post_new (am_account sa), post_new ((am_account pa)\<lparr>acc_data := b\<rparr>),
                 post_new (am_account ma)])"
  by (auto simp: approve_handle_def common_vote_checks_Inr finalize_vote_Inr approve_update_def
      Let_def)

lemma approve_handle_InrE:
  assumes "approve_handle E accounts k i salt = Inr (posts, calls)"
  obtains sa pa ma s p b where "accounts = [sa, pa, ma]" and "vote_ready E k i salt sa pa ma s p"
    and "vote_nf E (am_account_id sa) i (pr_action_hash p) salt \<notin> set (pr_vote_nullifiers p)"
    and "to_vec_proposal E (approve_update E (am_account_id sa) i (pr_action_hash p) salt p) = Some b"
    and "data_fits E b" and "calls = []"
    and "posts = [post_new (am_account sa), post_new ((am_account pa)\<lparr>acc_data := b\<rparr>),
                 post_new (am_account ma)]"
  using assms
  by (auto simp: approve_handle_def common_vote_checks_Inr finalize_vote_Inr approve_update_def
      Let_def)

lemma common_vote_checks_Inl:
  "common_vote_checks E [sa, pa, ma] k i salt = Inl (Pms e) \<longleftrightarrow>
     (if \<not> am_is_authorized ma then e = ERR_MEMBER_NOT_AUTHORIZED
      else if \<not> (\<exists>s. holds_state E sa k s) then e = ERR_STATE_MISMATCH
      else if \<not> (\<exists>s. holds_state E sa k s \<and> member_cm E salt (am_account_id ma) \<in> set (ms_member_cms s))
      then e = ERR_NOT_A_MEMBER
      else if \<not> (\<exists>p. holds_proposal E pa k i p) then e = ERR_PROPOSAL_MISMATCH
      else (\<exists>p. holds_proposal E pa k i p \<and> pr_status p \<noteq> Active) \<and> e = ERR_PROPOSAL_NOT_ACTIVE)"
  by (auto simp: common_vote_checks_def holds_state_def holds_proposal_def Let_def res_Inl_iffs
      split: option.split)

lemma approve_handle_ready:
  assumes "vote_ready E k i salt sa pa ma s p"
  shows "approve_handle E [sa, pa, ma] k i salt =
    (if vote_nf E (am_account_id sa) i (pr_action_hash p) salt \<in> set (pr_vote_nullifiers p)
     then Inl (Pms ERR_DUPLICATE_VOTE)
     else finalize_vote E sa pa ma s (approve_update E (am_account_id sa) i (pr_action_hash p) salt p))"
  using assms by (simp add: approve_handle_def require_def approve_update_def Let_def)

lemma approve_handle_not_ready:
  assumes "\<And>s p. \<not> vote_ready E k i salt sa pa ma s p"
  shows "approve_handle E [sa, pa, ma] k i salt = Inl (Pms e) \<longleftrightarrow>
    common_vote_checks E [sa, pa, ma] k i salt = Inl (Pms e)"
  using assms
  by (cases "common_vote_checks E [sa, pa, ma] k i salt")
    (auto simp: approve_handle_def common_vote_checks_Inr)

lemma approve_error_iff:
  "approve_handle E [sa, pa, ma] k i salt = Inl (Pms e) \<longleftrightarrow>
     common_vote_checks E [sa, pa, ma] k i salt = Inl (Pms e) \<or>
     (\<exists>s p. vote_ready E k i salt sa pa ma s p \<and> e = ERR_DUPLICATE_VOTE \<and>
        vote_nf E (am_account_id sa) i (pr_action_hash p) salt \<in> set (pr_vote_nullifiers p))"
proof (cases "\<exists>s p. vote_ready E k i salt sa pa ma s p")
  case True
  then obtain s p where r: "vote_ready E k i salt sa pa ma s p" by blast
  show ?thesis
    unfolding vote_ready_ex [OF r] by (simp add: approve_handle_ready [OF r] finalize_vote_no_Pms
        common_vote_checks_ready [OF r] eq_commute [of e])
next
  case False
  then show ?thesis by (simp add: approve_handle_not_ready)
qed

text \<open>
  C37: which error a refused Approve reports, in the order of the checks: account count,
  authorisation of the member account, state for the \<open>create_key\<close>, membership, proposal of that
  multisig and index, active status, and last the duplicate nullifier.
\<close>

theorem approve_errors:
  "(approve_handle E accounts k i salt = Inl (Pms ERR_BAD_ACCOUNT_COUNT) \<longleftrightarrow> length accounts \<noteq> 3) \<and>
   (approve_handle E [sa, pa, ma] k i salt = Inl (Pms ERR_MEMBER_NOT_AUTHORIZED) \<longleftrightarrow>
      \<not> am_is_authorized ma) \<and>
   (approve_handle E [sa, pa, ma] k i salt = Inl (Pms ERR_STATE_MISMATCH) \<longleftrightarrow>
      am_is_authorized ma \<and> (\<nexists>s. holds_state E sa k s)) \<and>
   (approve_handle E [sa, pa, ma] k i salt = Inl (Pms ERR_NOT_A_MEMBER) \<longleftrightarrow>
      am_is_authorized ma \<and>
      (\<exists>s. holds_state E sa k s \<and> member_cm E salt (am_account_id ma) \<notin> set (ms_member_cms s))) \<and>
   (approve_handle E [sa, pa, ma] k i salt = Inl (Pms ERR_PROPOSAL_MISMATCH) \<longleftrightarrow>
      am_is_authorized ma \<and>
      (\<exists>s. holds_state E sa k s \<and> member_cm E salt (am_account_id ma) \<in> set (ms_member_cms s)) \<and>
      (\<nexists>p. holds_proposal E pa k i p)) \<and>
   (approve_handle E [sa, pa, ma] k i salt = Inl (Pms ERR_PROPOSAL_NOT_ACTIVE) \<longleftrightarrow>
      am_is_authorized ma \<and>
      (\<exists>s. holds_state E sa k s \<and> member_cm E salt (am_account_id ma) \<in> set (ms_member_cms s)) \<and>
      (\<exists>p. holds_proposal E pa k i p \<and> pr_status p \<noteq> Active)) \<and>
   (approve_handle E [sa, pa, ma] k i salt = Inl (Pms ERR_DUPLICATE_VOTE) \<longleftrightarrow>
      (\<exists>s p. vote_ready E k i salt sa pa ma s p \<and>
         vote_nf E (am_account_id sa) i (pr_action_hash p) salt \<in> set (pr_vote_nullifiers p)))"
proof (intro conjI)
  show "approve_handle E accounts k i salt = Inl (Pms ERR_BAD_ACCOUNT_COUNT) \<longleftrightarrow> length accounts \<noteq> 3"
  proof (cases "length accounts = 3")
    case True
    then obtain a b c where "accounts = [a, b, c]" by (auto simp: length_eqs)
    then show ?thesis by (simp add: approve_error_iff common_vote_checks_Inl)
  next
    case False
    then show ?thesis by (simp add: approve_handle_def common_vote_checks_def)
  qed
qed (auto simp: approve_error_iff common_vote_checks_Inl dest: holds_state_unique)

section \<open>What an approval does to the votes\<close>

text \<open>The account with its post state put in, as the next transaction sees it.\<close>

definition with_post :: "'x account_with_metadata \<Rightarrow> 'x account_post_state \<Rightarrow> 'x account_with_metadata" where
  "with_post acc post = acc\<lparr>am_account := ps_account post\<rparr>"

lemma with_post_simps [simp]:
  "am_account (with_post acc post) = ps_account post"
  "am_account_id (with_post acc post) = am_account_id acc"
  "am_is_authorized (with_post acc post) = am_is_authorized acc"
  by (simp_all add: with_post_def)

lemma approve_next:
  assumes "borsh_ok E" and "approve_handle E [sa, pa, ma] k i salt = Inr (posts, calls)"
  obtains s p where "vote_ready E k i salt sa pa ma s p"
    and "vote_nf E (am_account_id sa) i (pr_action_hash p) salt \<notin> set (pr_vote_nullifiers p)"
    and "holds_proposal E (with_post pa (posts ! 1)) k i
           (approve_update E (am_account_id sa) i (pr_action_hash p) salt p)"
    and "ps_account (posts ! 0) = am_account sa" and "ps_account (posts ! 2) = am_account ma"
proof -
  obtain s p b where r: "vote_ready E k i salt sa pa ma s p"
    and n: "vote_nf E (am_account_id sa) i (pr_action_hash p) salt \<notin> set (pr_vote_nullifiers p)"
    and b: "to_vec_proposal E (approve_update E (am_account_id sa) i (pr_action_hash p) salt p) = Some b"
    and posts: "posts = [post_new (am_account sa), post_new ((am_account pa)\<lparr>acc_data := b\<rparr>),
                 post_new (am_account ma)]"
    using assms(2) by (elim approve_handle_InrE) auto
  have "holds_proposal E (with_post pa (posts ! 1)) k i
           (approve_update E (am_account_id sa) i (pr_action_hash p) salt p)"
    using borsh_okD(2) [OF assms(1) b] r posts
    by (auto simp: holds_proposal_def vote_ready_def approve_update_def)
  with r n posts show ?thesis by (intro that) auto
qed

text \<open>
  A vote cannot be cast twice.  After an accepted approval, the same salt and member account
  against the updated proposal is refused as a duplicate, whatever was in the proposal before.
\<close>

lemma approve_twice_refused:
  assumes "borsh_ok E" and "approve_handle E [sa, pa, ma] k i salt = Inr (posts, calls)"
  shows "approve_handle E [with_post sa (posts ! 0), with_post pa (posts ! 1), with_post ma (posts ! 2)]
    k i salt = Inl (Pms ERR_DUPLICATE_VOTE)"
proof (rule approve_next [OF assms])
  fix s :: multisig_state and p :: proposal
  let ?n = "vote_nf E (am_account_id sa) i (pr_action_hash p) salt"
  let ?q = "approve_update E (am_account_id sa) i (pr_action_hash p) salt p"
  assume r: "vote_ready E k i salt sa pa ma s p"
    and q: "holds_proposal E (with_post pa (posts ! 1)) k i ?q"
    and same: "ps_account (posts ! 0) = am_account sa"
  have "vote_ready E k i salt (with_post sa (posts ! 0)) (with_post pa (posts ! 1))
          (with_post ma (posts ! 2)) s ?q"
    using r q same by (auto simp: vote_ready_def holds_state_def approve_update_def)
  moreover have "pr_action_hash ?q = pr_action_hash p"
    by (rule same_proposalD [OF approve_side.cast_same])
  moreover have "?n \<in> set (pr_vote_nullifiers ?q)"
    by (rule approve_side.cast_recorded)
  ultimately show ?thesis by (simp add: approve_handle_ready)
qed

text \<open>
  What an accepted approval does to the recorded votes, read back from the chain.  The
  voter's nullifier is appended and nobody else's approval moves; the voter's own rejection, if
  any, is gone and nobody else's is; the proposal is otherwise the same and still active.
\<close>

lemma approve_effect:
  assumes "borsh_ok E" and "approve_handle E [sa, pa, ma] k i salt = Inr (posts, calls)"
  shows "\<exists>p q n r. holds_proposal E pa k i p \<and> holds_proposal E (with_post pa (posts ! 1)) k i q \<and>
     same_proposal q p \<and> pr_status q = Active \<and>
     vote_nullifier E salt (am_account_id sa) i (pr_action_hash p) = Inr n \<and>
     reject_nullifier E salt (am_account_id sa) i (pr_action_hash p) = Inr r \<and>
     n \<notin> set (pr_vote_nullifiers p) \<and> pr_vote_nullifiers q = pr_vote_nullifiers p @ [n] \<and>
     pr_reject_nullifiers q = filter (\<lambda>x. x \<noteq> r) (pr_reject_nullifiers p)"
proof (rule approve_next [OF assms])
  fix s :: multisig_state and p :: proposal
  assume "vote_ready E k i salt sa pa ma s p"
    and "vote_nf E (am_account_id sa) i (pr_action_hash p) salt \<notin> set (pr_vote_nullifiers p)"
    and "holds_proposal E (with_post pa (posts ! 1)) k i
           (approve_update E (am_account_id sa) i (pr_action_hash p) salt p)"
  then show ?thesis
    by (intro exI conjI; (assumption | simp add: vote_ready_def))
      (auto simp: approve_update_def same_proposal_def push_def retain_ne_def)
qed

end
