(* ===== verification/Reject_Handler.thy ===== *)
theory Reject_Handler
  imports Approve_Handler
begin

text \<open>
  The Reject handler (\<^verbatim>\<open>multisig_program/src/reject.rs\<close>): the mirror image of Approve under the
  other domain tag, followed by the test whether the proposal can still reach its threshold.
\<close>

definition reject_handle ::
  "'x env \<Rightarrow> 'x account_with_metadata list \<Rightarrow> bytes32 \<Rightarrow> u64 \<Rightarrow> bytes32 \<Rightarrow> 'x outcome" where
  "reject_handle E accounts create_key proposal_index member_salt =
     bind (common_vote_checks E accounts create_key proposal_index member_salt)
       (\<lambda>(state_account, proposal_account, member_account, state, proposal).
     bind (reject_nullifier E member_salt (am_account_id state_account) proposal_index
             (pr_action_hash proposal)) (\<lambda>nullifier.
     require (\<not> List.member (pr_reject_nullifiers proposal) nullifier) (Pms ERR_DUPLICATE_REJECT) (
     bind (vote_nullifier E member_salt (am_account_id state_account) proposal_index
             (pr_action_hash proposal)) (\<lambda>this_members_vote.
     let proposal = proposal\<lparr>pr_vote_nullifiers :=
           retain_ne this_members_vote (pr_vote_nullifiers proposal)\<rparr>;
         proposal = proposal\<lparr>pr_reject_nullifiers := push (pr_reject_nullifiers proposal) nullifier\<rparr> in
     bind (is_dead E proposal (ms_threshold state) (member_count state)) (\<lambda>dead.
     let proposal = (if dead then proposal\<lparr>pr_status := Rejected\<rparr> else proposal) in
     finalize_vote E state_account proposal_account member_account state proposal)))))"

section \<open>Rejection\<close>

definition reject_update ::
  "'x env \<Rightarrow> account_id \<Rightarrow> u64 \<Rightarrow> bytes32 \<Rightarrow> bytes32 \<Rightarrow> proposal \<Rightarrow> proposal" where
  "reject_update E m i h salt p =
     p\<lparr>pr_vote_nullifiers := retain_ne (vote_nf E m i h salt) (pr_vote_nullifiers p),
       pr_reject_nullifiers := push (pr_reject_nullifiers p) (reject_nf E m i h salt)\<rparr>"

definition close_if :: "bool \<Rightarrow> proposal \<Rightarrow> proposal" where
  "close_if dead p = (if dead then p\<lparr>pr_status := Rejected\<rparr> else p)"

lemma close_if_simps [simp]:
  "pr_index (close_if d p) = pr_index p"
  "pr_multisig_create_key (close_if d p) = pr_multisig_create_key p"
  "pr_action (close_if d p) = pr_action p"
  "pr_action_hash (close_if d p) = pr_action_hash p"
  "pr_vote_nullifiers (close_if d p) = pr_vote_nullifiers p"
  "pr_reject_nullifiers (close_if d p) = pr_reject_nullifiers p"
  "pr_status (close_if d p) = (if d then Rejected else pr_status p)"
  by (simp_all add: close_if_def)

interpretation reject_side: vote_side pr_reject_nullifiers pr_vote_nullifiers
    "reject_nf E m i h" "vote_nf E m i h" "reject_update E m i h" for E m i h
  by unfold_locales (simp_all add: reject_update_def same_proposal_def)

text \<open>
  C16: Reject accepts exactly the calls that pass the checks it shares with Approve, whose
  reject nullifier is not recorded yet, and whose count of the members left does not underflow.
  It appends the reject nullifier, retracts the member's own approval, closes the proposal when
  the rest can no longer reach the threshold, passes the other two accounts through and calls
  nobody.
\<close>

theorem reject_accepts_iff:
  "reject_handle E accounts k i salt = Inr (posts, calls) \<longleftrightarrow>
     (\<exists>sa pa ma s p dead b. accounts = [sa, pa, ma] \<and> vote_ready E k i salt sa pa ma s p \<and>
        reject_nf E (am_account_id sa) i (pr_action_hash p) salt \<notin> set (pr_reject_nullifiers p) \<and>
        is_dead E (reject_update E (am_account_id sa) i (pr_action_hash p) salt p)
          (ms_threshold s) (member_count s) = Inr dead \<and>
        to_vec_proposal E
          (close_if dead (reject_update E (am_account_id sa) i (pr_action_hash p) salt p)) = Some b \<and>
        data_fits E b \<and> calls = [] \<and>
        posts = [post_new (am_account sa), post_new ((am_account pa)\<lparr>acc_data := b\<rparr>),
                 post_new (am_account ma)])"
  by (auto simp: reject_handle_def common_vote_checks_Inr finalize_vote_Inr reject_update_def
      close_if_def Let_def)

lemma reject_handle_InrE:
  assumes "reject_handle E accounts k i salt = Inr (posts, calls)"
  obtains sa pa ma s p dead b where "accounts = [sa, pa, ma]" and "vote_ready E k i salt sa pa ma s p"
    and "reject_nf E (am_account_id sa) i (pr_action_hash p) salt \<notin> set (pr_reject_nullifiers p)"
    and "is_dead E (reject_update E (am_account_id sa) i (pr_action_hash p) salt p)
          (ms_threshold s) (member_count s) = Inr dead"
    and "to_vec_proposal E
          (close_if dead (reject_update E (am_account_id sa) i (pr_action_hash p) salt p)) = Some b"
    and "data_fits E b" and "calls = []"
    and "posts = [post_new (am_account sa), post_new ((am_account pa)\<lparr>acc_data := b\<rparr>),
                 post_new (am_account ma)]"
  using assms
  by (auto simp: reject_handle_def common_vote_checks_Inr finalize_vote_Inr Let_def
      simp flip: reject_update_def close_if_def)

lemma reject_handle_ready:
  assumes "vote_ready E k i salt sa pa ma s p"
  shows "reject_handle E [sa, pa, ma] k i salt =
    (let q = reject_update E (am_account_id sa) i (pr_action_hash p) salt p in
     if reject_nf E (am_account_id sa) i (pr_action_hash p) salt \<in> set (pr_reject_nullifiers p)
     then Inl (Pms ERR_DUPLICATE_REJECT)
     else bind (is_dead E q (ms_threshold s) (member_count s)) (\<lambda>dead.
       finalize_vote E sa pa ma s (close_if dead q)))"
  using assms
  by (simp add: reject_handle_def require_def reject_update_def close_if_def Let_def cong: if_cong)

lemma is_dead_no_Pms: "is_dead E p t n \<noteq> Inl (Pms e)"
  by (auto simp: is_dead_def sub_usize_def res_Inl_iffs)

lemma reject_error_iff:
  "reject_handle E [sa, pa, ma] k i salt = Inl (Pms e) \<longleftrightarrow>
     common_vote_checks E [sa, pa, ma] k i salt = Inl (Pms e) \<or>
     (\<exists>s p. vote_ready E k i salt sa pa ma s p \<and> e = ERR_DUPLICATE_REJECT \<and>
        reject_nf E (am_account_id sa) i (pr_action_hash p) salt \<in> set (pr_reject_nullifiers p))"
proof (cases "\<exists>s p. vote_ready E k i salt sa pa ma s p")
  case True
  then obtain s p where r: "vote_ready E k i salt sa pa ma s p" by blast
  show ?thesis
    unfolding vote_ready_ex [OF r]
    by (auto simp: reject_handle_ready [OF r] common_vote_checks_ready [OF r] Let_def
        finalize_vote_no_Pms bind_Inl_iff is_dead_no_Pms split: sum.splits)
next
  case False
  then show ?thesis
    by (cases "common_vote_checks E [sa, pa, ma] k i salt")
      (auto simp: reject_handle_def common_vote_checks_Inr)
qed

lemma reject_overflow:
  assumes "reject_handle E [sa, pa, ma] k i salt = Inl Overflow"
  obtains s p where "vote_ready E k i salt sa pa ma s p"
    and "reject_nf E (am_account_id sa) i (pr_action_hash p) salt \<notin> set (pr_reject_nullifiers p)"
    and "member_count s < Suc (length (pr_reject_nullifiers p))"
proof (cases "common_vote_checks E [sa, pa, ma] k i salt")
  case (Inl e)
  then have "e \<noteq> Overflow"
    by (auto simp: common_vote_checks_def Let_def res_Inl_iffs split: if_splits option.splits)
  then show ?thesis using assms Inl by (simp add: reject_handle_def)
next
  case (Inr r)
  then obtain s p where ready: "vote_ready E k i salt sa pa ma s p"
    by (auto simp: common_vote_checks_Inr)
  have "finalize_vote E sa pa ma s q \<noteq> Inl Overflow" for q
    by (auto simp: finalize_vote_def res_Inl_iffs split: option.split)
  then show ?thesis
    using assms that [OF ready] unfolding reject_handle_ready [OF ready] Let_def
    by (auto simp: bind_Inl_iff is_dead_def sub_usize_def reject_update_def
        split: if_splits sum.splits)
qed

text \<open>
  Approve and Reject refuse for the same reasons.  On the same accounts and arguments they
  report the same documented error, except that a repeated vote is E012 for one and E013 for
  the other, and each of these means that the nullifier of its own side is already recorded.
\<close>

lemma reject_errors_mirror_approve:
  "(e \<noteq> ERR_DUPLICATE_VOTE \<and> e \<noteq> ERR_DUPLICATE_REJECT \<and>
      reject_handle E [sa, pa, ma] k i salt = Inl (Pms e) \<longleftrightarrow>
    e \<noteq> ERR_DUPLICATE_VOTE \<and> e \<noteq> ERR_DUPLICATE_REJECT \<and>
      approve_handle E [sa, pa, ma] k i salt = Inl (Pms e)) \<and>
   reject_handle E [sa, pa, ma] k i salt \<noteq> Inl (Pms ERR_DUPLICATE_VOTE) \<and>
   (reject_handle E [sa, pa, ma] k i salt = Inl (Pms ERR_DUPLICATE_REJECT) \<longleftrightarrow>
      (\<exists>s p. vote_ready E k i salt sa pa ma s p \<and>
         reject_nf E (am_account_id sa) i (pr_action_hash p) salt \<in> set (pr_reject_nullifiers p)))"
  by (auto simp: reject_error_iff approve_error_iff common_vote_checks_Inl)

lemma reject_next:
  assumes "borsh_ok E" and "reject_handle E [sa, pa, ma] k i salt = Inr (posts, calls)"
  obtains s p dead where "vote_ready E k i salt sa pa ma s p"
    and "reject_nf E (am_account_id sa) i (pr_action_hash p) salt \<notin> set (pr_reject_nullifiers p)"
    and "is_dead E (reject_update E (am_account_id sa) i (pr_action_hash p) salt p)
          (ms_threshold s) (member_count s) = Inr dead"
    and "holds_proposal E (with_post pa (posts ! 1)) k i
           (close_if dead (reject_update E (am_account_id sa) i (pr_action_hash p) salt p))"
    and "ps_account (posts ! 0) = am_account sa" and "ps_account (posts ! 2) = am_account ma"
proof -
  obtain s p dead b where r: "vote_ready E k i salt sa pa ma s p"
    and n: "reject_nf E (am_account_id sa) i (pr_action_hash p) salt \<notin> set (pr_reject_nullifiers p)"
    and d: "is_dead E (reject_update E (am_account_id sa) i (pr_action_hash p) salt p)
          (ms_threshold s) (member_count s) = Inr dead"
    and b: "to_vec_proposal E
          (close_if dead (reject_update E (am_account_id sa) i (pr_action_hash p) salt p)) = Some b"
    and posts: "posts = [post_new (am_account sa), post_new ((am_account pa)\<lparr>acc_data := b\<rparr>),
                 post_new (am_account ma)]"
    using assms(2) by (elim reject_handle_InrE) auto
  have "holds_proposal E (with_post pa (posts ! 1)) k i
           (close_if dead (reject_update E (am_account_id sa) i (pr_action_hash p) salt p))"
    using borsh_okD(2) [OF assms(1) b] r posts
    by (auto simp: holds_proposal_def vote_ready_def reject_update_def)
  with r n d posts show ?thesis by (intro that) auto
qed

text \<open>
  C21: what an accepted rejection does to the recorded votes, read back from the chain: the
  voter's reject nullifier is appended, the voter's own approval and no other is retracted, and
  the proposal becomes Rejected exactly when, counting this rejection, more than N - M
  rejections are recorded (for at most N of them and M at most N).
\<close>

theorem reject_effect:
  assumes "borsh_ok E" and "reject_handle E [sa, pa, ma] k i salt = Inr (posts, calls)"
    and "holds_state E sa k s" and "wf_state s"
    and "holds_proposal E pa k i p" and "length (pr_reject_nullifiers p) < member_count s"
  shows "\<exists>q n r. holds_proposal E (with_post pa (posts ! 1)) k i q \<and> same_proposal q p \<and>
     reject_nullifier E salt (am_account_id sa) i (pr_action_hash p) = Inr n \<and>
     vote_nullifier E salt (am_account_id sa) i (pr_action_hash p) = Inr r \<and>
     pr_reject_nullifiers q = pr_reject_nullifiers p @ [n] \<and>
     pr_vote_nullifiers q = filter (\<lambda>x. x \<noteq> r) (pr_vote_nullifiers p) \<and>
     pr_status q = (if member_count s - unat (ms_threshold s) < length (pr_reject_nullifiers q)
                    then Rejected else Active)"
proof (rule reject_next [OF assms(1,2)])
  fix s' :: multisig_state and p' :: proposal and dead
  assume r: "vote_ready E k i salt sa pa ma s' p'"
    and d: "is_dead E (reject_update E (am_account_id sa) i (pr_action_hash p') salt p')
          (ms_threshold s') (member_count s') = Inr dead"
    and q: "holds_proposal E (with_post pa (posts ! 1)) k i
           (close_if dead (reject_update E (am_account_id sa) i (pr_action_hash p') salt p'))"
  have eqs: "s' = s" "p' = p" and act: "pr_status p = Active"
    using r assms(3,5) by (auto simp: vote_ready_def dest: holds_state_unique holds_proposal_unique)
  let ?q = "reject_update E (am_account_id sa) i (pr_action_hash p) salt p"
  have len: "length (pr_reject_nullifiers ?q) = Suc (length (pr_reject_nullifiers p))"
    by (rule reject_side.length_mine_cast)
  have "dead \<longleftrightarrow> member_count s - unat (ms_threshold s) < length (pr_reject_nullifiers ?q)"
    using d assms(4,6) len is_dead_no_borrow [of ?q "member_count s" E "ms_threshold s"]
    unfolding eqs wf_state_def by auto
  with q act show ?thesis unfolding eqs
    by (intro exI [of _ "close_if dead ?q"])
      (auto simp: reject_update_def same_proposal_def push_def retain_ne_def)
qed

end
