(* ===== verification/Execute_Handler.thy ===== *)
theory Execute_Handler
  imports Approve_Handler
begin

text \<open>
  The Execute handler (\<^verbatim>\<open>multisig_program/src/execute.rs\<close>): once the threshold is met it marks the
  proposal executed and emits the stored call, granting authority to the listed targets.
\<close>

text \<open>The closure of \<open>target_accounts.iter().enumerate().map(..)\<close>; \<open>i as u8\<close> keeps the low byte.\<close>

definition authorize_target ::
  "u8 list \<Rightarrow> nat \<times> 'x account_with_metadata \<Rightarrow> 'x account_with_metadata" where
  "authorize_target indices = (\<lambda>(i, acc).
     if List.member indices (of_nat i) then acc\<lparr>am_is_authorized := True\<rparr> else acc)"

definition execute_handle ::
  "'x env \<Rightarrow> 'x account_with_metadata list \<Rightarrow> bytes32 \<Rightarrow> u64 \<Rightarrow> 'x outcome" where
  "execute_handle E accounts create_key proposal_index =
     require (length accounts \<ge> 2) (Pms ERR_BAD_ACCOUNT_COUNT) (
     bind (index_at accounts 0) (\<lambda>state_account.
     bind (index_at accounts 1) (\<lambda>proposal_account.
     bind (slice_from accounts 2) (\<lambda>target_accounts.
     expect (from_slice_state E (acc_data (am_account state_account))) (Pms ERR_STATE_MISMATCH) (\<lambda>state.
     require (ms_create_key state = create_key) (Pms ERR_STATE_MISMATCH) (
     expect (from_slice_proposal E (acc_data (am_account proposal_account))) (Pms ERR_PROPOSAL_MISMATCH) (\<lambda>proposal.
     require (pr_multisig_create_key proposal = ms_create_key state \<and> pr_index proposal = proposal_index)
       (Pms ERR_PROPOSAL_MISMATCH) (
     require (pr_status proposal = Active) (Pms ERR_PROPOSAL_NOT_ACTIVE) (
     require (has_threshold proposal (ms_threshold state)) (Pms ERR_THRESHOLD_NOT_MET) (
     require (length target_accounts = unat (pa_target_account_count (pr_action proposal)))
       (Pms ERR_BAD_TARGET_COUNT) (
     let proposal' = proposal\<lparr>pr_status := Executed\<rparr>;
         action = pr_action proposal';
         chained_pre_states =
           map (authorize_target (pa_authorized_indices action)) (enumerate 0 target_accounts);
         chained_call = \<lparr>cc_program_id = pa_target_program_id action,
           cc_instruction_data = pa_target_instruction_data action,
           cc_pre_states = chained_pre_states,
           cc_pda_seeds = map PdaSeed (pa_pda_seeds action)\<rparr> in
     expect (to_vec_proposal E proposal') (Expect ''proposal serialization is infallible'') (\<lambda>bytes.
     expect (try_into_data E bytes) (Expect ''proposal fits in account data'') (\<lambda>d.
     let proposal_post = (am_account proposal_account)\<lparr>acc_data := d\<rparr>;
         post_states = [post_new (am_account state_account), post_new proposal_post] @
           map (\<lambda>target. post_new (am_account target)) target_accounts in
     Inr (post_states, [chained_call]))))))))))))))"

section \<open>Acceptance\<close>

definition executable ::
  "'x env \<Rightarrow> bytes32 \<Rightarrow> u64 \<Rightarrow> 'x account_with_metadata \<Rightarrow> 'x account_with_metadata \<Rightarrow>
     multisig_state \<Rightarrow> proposal \<Rightarrow> bool" where
  "executable E k i sa pa s p \<longleftrightarrow> holds_state E sa k s \<and> holds_proposal E pa k i p \<and>
     pr_status p = Active \<and> unat (ms_threshold s) \<le> length (pr_vote_nullifiers p)"

definition call_of :: "proposal_action \<Rightarrow> 'x account_with_metadata list \<Rightarrow> 'x chained_call" where
  "call_of a targets = \<lparr>cc_program_id = pa_target_program_id a,
     cc_instruction_data = pa_target_instruction_data a,
     cc_pre_states = map (authorize_target (pa_authorized_indices a)) (enumerate 0 targets),
     cc_pda_seeds = map PdaSeed (pa_pda_seeds a)\<rparr>"

text \<open>
  C17: Execute accepts exactly the calls whose first two accounts hold a state for the
  \<open>create_key\<close> and the active proposal, with at least M vote nullifiers recorded and as many
  target accounts as the action names.  It marks the proposal executed, leaves every other
  account as it was, and emits one call: the one stored in the proposal.
\<close>

theorem execute_accepts_iff:
  "execute_handle E accounts k i = Inr (posts, calls) \<longleftrightarrow>
     (\<exists>sa pa targets s p b. accounts = sa # pa # targets \<and> executable E k i sa pa s p \<and>
        length targets = unat (pa_target_account_count (pr_action p)) \<and>
        to_vec_proposal E (p\<lparr>pr_status := Executed\<rparr>) = Some b \<and> data_fits E b \<and>
        posts = post_new (am_account sa) # post_new ((am_account pa)\<lparr>acc_data := b\<rparr>) #
                map (\<lambda>t. post_new (am_account t)) targets \<and>
        calls = [call_of (pr_action p) targets])"
  by (auto simp: execute_handle_def executable_def holds_state_def holds_proposal_def
      has_threshold_def call_of_def length_eqs Let_def)

lemma execute_handle_InrE:
  assumes "execute_handle E accounts k i = Inr (posts, calls)"
  obtains sa pa targets s p b where "accounts = sa # pa # targets" and "executable E k i sa pa s p"
    and "length targets = unat (pa_target_account_count (pr_action p))"
    and "to_vec_proposal E (p\<lparr>pr_status := Executed\<rparr>) = Some b" and "data_fits E b"
    and "posts = post_new (am_account sa) # post_new ((am_account pa)\<lparr>acc_data := b\<rparr>) #
                map (\<lambda>t. post_new (am_account t)) targets"
    and "calls = [call_of (pr_action p) targets]"
  using assms
  by (auto simp: execute_handle_def executable_def holds_state_def holds_proposal_def
      has_threshold_def call_of_def length_eqs Let_def)

lemma execute_handle_executable:
  assumes "executable E k i sa pa s p"
    and "length targets = unat (pa_target_account_count (pr_action p))"
    and "to_vec_proposal E (p\<lparr>pr_status := Executed\<rparr>) = Some b" and "data_fits E b"
  shows "execute_handle E (sa # pa # targets) k i =
    Inr (post_new (am_account sa) # post_new ((am_account pa)\<lparr>acc_data := b\<rparr>) #
           map (\<lambda>t. post_new (am_account t)) targets, [call_of (pr_action p) targets])"
  using assms
  by (simp add: execute_handle_def executable_def holds_state_def holds_proposal_def
      has_threshold_def call_of_def Let_def)

lemma execute_not_active:
  assumes "holds_state E sa k s" and "holds_proposal E pa k i p" and "pr_status p \<noteq> Active"
  shows "execute_handle E (sa # pa # ts) k i = Inl (Pms ERR_PROPOSAL_NOT_ACTIVE)"
  using assms by (simp add: execute_handle_def Let_def holds_state_def holds_proposal_def)

text \<open>
  Which error a refused Execute reports, in the order of the checks: account count, state,
  proposal, active status, threshold, number of targets.
\<close>

lemma execute_errors:
  "(execute_handle E accounts k i = Inl (Pms ERR_BAD_ACCOUNT_COUNT) \<longleftrightarrow> length accounts < 2) \<and>
   (execute_handle E (sa # pa # ts) k i = Inl (Pms ERR_STATE_MISMATCH) \<longleftrightarrow>
      (\<nexists>s. holds_state E sa k s)) \<and>
   (execute_handle E (sa # pa # ts) k i = Inl (Pms ERR_PROPOSAL_MISMATCH) \<longleftrightarrow>
      (\<exists>s. holds_state E sa k s) \<and> (\<nexists>p. holds_proposal E pa k i p)) \<and>
   (execute_handle E (sa # pa # ts) k i = Inl (Pms ERR_PROPOSAL_NOT_ACTIVE) \<longleftrightarrow>
      (\<exists>s p. holds_state E sa k s \<and> holds_proposal E pa k i p \<and> pr_status p \<noteq> Active)) \<and>
   (execute_handle E (sa # pa # ts) k i = Inl (Pms ERR_THRESHOLD_NOT_MET) \<longleftrightarrow>
      (\<exists>s p. holds_state E sa k s \<and> holds_proposal E pa k i p \<and> pr_status p = Active \<and>
         length (pr_vote_nullifiers p) < unat (ms_threshold s))) \<and>
   (execute_handle E (sa # pa # ts) k i = Inl (Pms ERR_BAD_TARGET_COUNT) \<longleftrightarrow>
      (\<exists>s p. executable E k i sa pa s p \<and>
         length ts \<noteq> unat (pa_target_account_count (pr_action p))))"
proof (intro conjI)
  show "execute_handle E accounts k i = Inl (Pms ERR_BAD_ACCOUNT_COUNT) \<longleftrightarrow> length accounts < 2"
  proof (cases "2 \<le> length accounts")
    case True
    then obtain x y zs where "accounts = x # y # zs" by (auto simp: length_eqs)
    then show ?thesis
      by (simp add: execute_handle_def Let_def res_Inl_iffs split: option.split)
  qed (simp add: execute_handle_def)
qed (simp add: execute_handle_def Let_def res_Inl_iffs holds_state_def holds_proposal_def
  executable_def has_threshold_def split: option.split; auto)+

section \<open>The emitted call\<close>

lemma of_nat_u8_mem_iff:
  assumes "j < 256"
  shows "(of_nat j :: u8) \<in> set idxs \<longleftrightarrow> j \<in> unat ` set idxs"
proof
  assume "(of_nat j :: u8) \<in> set idxs"
  moreover have "unat (of_nat j :: u8) = j" using assms by (simp add: unat_of_nat)
  ultimately show "j \<in> unat ` set idxs" by (metis image_eqI)
next
  assume "j \<in> unat ` set idxs"
  then show "(of_nat j :: u8) \<in> set idxs" by auto
qed

text \<open>
  C22: the call grants authority to exactly the listed targets.  The account at position j of
  the emitted call is the j-th target, authorised if it came authorised or if j is one of the
  action's authorised indices, and otherwise unchanged; the truncating cast of the position to
  one byte never confuses two targets.
\<close>

theorem execute_authorizes_exactly:
  assumes "execute_handle E (sa # pa # targets) k i = Inr (posts, calls)"
    and "holds_proposal E pa k i p" and "j < length targets"
  shows "length (cc_pre_states (calls ! 0)) = length targets \<and>
    am_account_id (cc_pre_states (calls ! 0) ! j) = am_account_id (targets ! j) \<and>
    am_account (cc_pre_states (calls ! 0) ! j) = am_account (targets ! j) \<and>
    (am_is_authorized (cc_pre_states (calls ! 0) ! j) \<longleftrightarrow>
       am_is_authorized (targets ! j) \<or> j \<in> unat ` set (pa_authorized_indices (pr_action p)))"
proof -
  obtain s p' where "executable E k i sa pa s p'"
    and len: "length targets = unat (pa_target_account_count (pr_action p'))"
    and calls: "calls = [call_of (pr_action p') targets]"
    using assms(1) by (elim execute_handle_InrE) auto
  then have p: "p' = p"
    using assms(2) by (auto simp: executable_def dest: holds_proposal_unique)
  have "j < 256"
    using assms(3) len unsigned_less [of "pa_target_account_count (pr_action p')", where 'a = nat]
    by simp
  then show ?thesis
    using assms(3) unfolding calls p
    by (auto simp: call_of_def authorize_target_def nth_enumerate_eq of_nat_u8_mem_iff)
qed

text \<open>
  A proposal executes at most once.  After an accepted Execute the proposal account is not
  active any more, so any further Execute on it is refused, with whatever targets.
\<close>

lemma execute_twice_refused:
  assumes "borsh_ok E" and "execute_handle E (sa # pa # targets) k i = Inr (posts, calls)"
  shows "execute_handle E (with_post sa (posts ! 0) # with_post pa (posts ! 1) # targets') k i =
    Inl (Pms ERR_PROPOSAL_NOT_ACTIVE)"
proof -
  obtain s p b where e: "executable E k i sa pa s p"
    and b: "to_vec_proposal E (p\<lparr>pr_status := Executed\<rparr>) = Some b"
    and posts: "posts = post_new (am_account sa) # post_new ((am_account pa)\<lparr>acc_data := b\<rparr>) #
                map (\<lambda>t. post_new (am_account t)) targets"
    using assms(2) by (elim execute_handle_InrE) auto
  have "holds_state E (with_post sa (posts ! 0)) k s"
    using e posts by (auto simp: executable_def holds_state_def)
  moreover have "holds_proposal E (with_post pa (posts ! 1)) k i (p\<lparr>pr_status := Executed\<rparr>)"
    using borsh_okD(2) [OF assms(1) b] e posts by (auto simp: executable_def holds_proposal_def)
  ultimately show ?thesis by (rule execute_not_active) simp
qed

end
