(* ===== verification/Init_Vault.thy ===== *)
theory Init_Vault
  imports Pms_State Pms_Pda
begin

text \<open>
  The InitVault handler (\<^verbatim>\<open>multisig_program/src/init_vault.rs\<close>): it changes no account itself
  and asks the token program to initialise the vault, authorised by the vault's PDA seed.
\<close>

definition token_initialize_account_instruction :: token_initialize_account where
  "token_initialize_account_instruction = InitializeAccount"

definition init_vault_handle ::
  "'x env \<Rightarrow> 'x account_with_metadata list \<Rightarrow> bytes32 \<Rightarrow> program_id \<Rightarrow> 'x outcome" where
  "init_vault_handle E accounts create_key token_program_id =
     require (length accounts = 2) (Pms ERR_BAD_ACCOUNT_COUNT) (
     bind (index_at accounts 0) (\<lambda>definition_account.
     bind (index_at accounts 1) (\<lambda>vault_account.
     require (am_account vault_account = account_default E) (Pms ERR_PROPOSAL_EXISTS) (
     bind (vault_pda_seed E create_key) (\<lambda>vault_seed.
     let authorized_vault = vault_account\<lparr>am_is_authorized := True\<rparr> in
     expect (risc0_to_vec E token_initialize_account_instruction)
       (Expect ''instruction serialization is infallible'') (\<lambda>instruction_data.
     let chained_call = \<lparr>cc_program_id = token_program_id,
           cc_instruction_data = instruction_data,
           cc_pre_states = [definition_account, authorized_vault],
           cc_pda_seeds = [vault_seed]\<rparr> in
     Inr ([post_new (am_account definition_account), post_new (am_account vault_account)],
          [chained_call])))))))"

section \<open>Acceptance\<close>

definition vault_call ::
  "'x env \<Rightarrow> bytes32 \<Rightarrow> program_id \<Rightarrow> u32 list \<Rightarrow> 'x account_with_metadata \<Rightarrow>
     'x account_with_metadata \<Rightarrow> 'x chained_call" where
  "vault_call E k token words da va = \<lparr>cc_program_id = token, cc_instruction_data = words,
     cc_pre_states = [da, va\<lparr>am_is_authorized := True\<rparr>],
     cc_pda_seeds = [PdaSeed (sha2_digest E (pda_preimage (VaultPda k)))]\<rparr>"

lemma init_vault_handle_InrE:
  assumes "init_vault_handle E accounts k token = Inr (posts, calls)"
  obtains da va words where "accounts = [da, va]" and "am_account va = account_default E"
    and "risc0_to_vec E InitializeAccount = Some words"
    and "posts = [post_new (am_account da), post_new (am_account va)]"
    and "calls = [vault_call E k token words da va]"
  using assms
  by (auto simp: init_vault_handle_def vault_call_def token_initialize_account_instruction_def
      length_eqs Let_def simp del: pda_preimage.simps)

text \<open>
  C20: InitVault passes both accounts through and emits one call.  It accepts exactly the calls
  with two accounts whose second is the default account; the emitted call goes to the given
  token program with the encoding of \<open>InitializeAccount\<close>, the definition account as it came,
  the vault authorised, and one PDA seed, the vault seed of the \<open>create_key\<close>.  A vault that is
  already initialised is refused with the code documented for proposals, E005.
\<close>

theorem init_vault_accepts_iff:
  "(init_vault_handle E accounts k token = Inr (posts, calls) \<longleftrightarrow>
     (\<exists>da va words. accounts = [da, va] \<and> am_account va = account_default E \<and>
        risc0_to_vec E InitializeAccount = Some words \<and>
        posts = [post_new (am_account da), post_new (am_account va)] \<and>
        calls = [vault_call E k token words da va])) \<and>
   (init_vault_handle E accounts k token = Inl (Pms ERR_BAD_ACCOUNT_COUNT) \<longleftrightarrow>
      length accounts \<noteq> 2) \<and>
   (init_vault_handle E accounts k token = Inl (Pms ERR_PROPOSAL_EXISTS) \<longleftrightarrow>
      (\<exists>da va. accounts = [da, va] \<and> am_account va \<noteq> account_default E))"
proof (intro conjI)
  show "init_vault_handle E accounts k token = Inr (posts, calls) \<longleftrightarrow>
     (\<exists>da va words. accounts = [da, va] \<and> am_account va = account_default E \<and>
        risc0_to_vec E InitializeAccount = Some words \<and>
        posts = [post_new (am_account da), post_new (am_account va)] \<and>
        calls = [vault_call E k token words da va])"
    by (auto simp: init_vault_handle_def vault_call_def token_initialize_account_instruction_def
        length_eqs Let_def simp del: pda_preimage.simps)
  show "init_vault_handle E accounts k token = Inl (Pms ERR_BAD_ACCOUNT_COUNT) \<longleftrightarrow>
      length accounts \<noteq> 2"
  proof (cases "length accounts = 2")
    case True
    then obtain da va where "accounts = [da, va]" by (auto simp: length_eqs)
    then show ?thesis
      by (simp add: init_vault_handle_def Let_def res_Inl_iffs del: pda_preimage.simps split: option.split)
  qed (simp add: init_vault_handle_def)
  show "init_vault_handle E accounts k token = Inl (Pms ERR_PROPOSAL_EXISTS) \<longleftrightarrow>
      (\<exists>da va. accounts = [da, va] \<and> am_account va \<noteq> account_default E)"
  proof (cases "length accounts = 2")
    case True
    then obtain da va where "accounts = [da, va]" by (auto simp: length_eqs)
    then show ?thesis
      by (simp add: init_vault_handle_def Let_def res_Inl_iffs del: pda_preimage.simps split: option.split)
  qed (auto simp: init_vault_handle_def)
qed

text \<open>
  The vault that InitVault initialises is the vault of the multisig.  When the vault account
  passed in is the one the program's address derivation gives, the seed in the emitted call
  derives exactly that account's id, under which the platform grants the authorisation; the
  definition account goes along as it came, and the instruction is the encoding of
  \<open>InitializeAccount\<close>.
\<close>

lemma init_vault_authorizes_own_vault:
  assumes "init_vault_handle E [da, va] k token = Inr (posts, calls)"
    and "compute_vault_pda E self k = Inr (am_account_id va)"
  shows "\<exists>call. calls = [call] \<and> cc_program_id call = token \<and>
     risc0_to_vec E InitializeAccount = Some (cc_instruction_data call) \<and>
     map (for_public_pda E self) (cc_pda_seeds call) = [am_account_id va] \<and>
     cc_pre_states call = [da, va\<lparr>am_is_authorized := True\<rparr>]"
proof -
  obtain words where "calls = [vault_call E k token words da va]"
    and "risc0_to_vec E InitializeAccount = Some words"
    using assms(1) by (elim init_vault_handle_InrE) simp
  moreover have "for_public_pda E self (PdaSeed (sha2_digest E (pda_preimage (VaultPda k)))) =
      am_account_id va"
    using assms(2) by (simp add: compute_vault_pda_def del: pda_preimage.simps)
  ultimately show ?thesis by (simp add: vault_call_def del: pda_preimage.simps)
qed

end
