(* ===== verification/Dispatch.thy ===== *)
theory Dispatch
  imports Create_Multisig Propose_Handler Reject_Handler Execute_Handler Init_Vault
begin

text \<open>
  The dispatch of the program: \<open>process\<close> of \<^verbatim>\<open>multisig_program/src/lib.rs\<close> and the guest entry
  point \<^verbatim>\<open>methods/guest/src/bin/private_multisig.rs\<close>.  The theorems are about every instruction
  at once: which accounts change and how, which claims and calls are emitted, and what of its
  inputs the program looks at.
\<close>

fun process :: "'x env \<Rightarrow> 'x account_with_metadata list \<Rightarrow> instruction \<Rightarrow> 'x outcome" where
  "process E accounts (CreateMultisig create_key threshold member_cms) =
     create_multisig_handle E accounts create_key threshold member_cms"
| "process E accounts (Propose create_key proposal_index target_program_id target_instruction_data
       target_account_count pda_seeds authorized_indices) =
     (let action = \<lparr>pa_target_program_id = target_program_id,
            pa_target_instruction_data = target_instruction_data,
            pa_target_account_count = target_account_count,
            pa_pda_seeds = pda_seeds,
            pa_authorized_indices = authorized_indices\<rparr> in
      propose_handle E accounts create_key proposal_index action)"
| "process E accounts (Approve create_key proposal_index member_salt) =
     approve_handle E accounts create_key proposal_index member_salt"
| "process E accounts (Reject create_key proposal_index member_salt) =
     reject_handle E accounts create_key proposal_index member_salt"
| "process E accounts (Execute create_key proposal_index) =
     execute_handle E accounts create_key proposal_index"
| "process E accounts (InitVault create_key token_program_id) =
     init_vault_handle E accounts create_key token_program_id"

section \<open>The guest entry point\<close>

text \<open>
  \<open>'c\<close> is the platform's type of the caller, which the guest only copies.  The pair that
  \<open>read_nssa_inputs\<close> yields is the argument, and the written \<open>ProgramOutput\<close> the result.
\<close>

record ('x, 'c) program_input =
  in_self_program_id :: program_id
  in_caller_program_id :: 'c
  in_pre_states :: "'x account_with_metadata list"
  in_instruction :: instruction

record ('x, 'c) program_output =
  out_self_program_id :: program_id
  out_caller_program_id :: 'c
  out_instruction_words :: "u32 list"
  out_pre_states :: "'x account_with_metadata list"
  out_post_states :: "'x account_post_state list"
  out_chained_calls :: "'x chained_call list"

definition guest_main ::
  "'x env \<Rightarrow> ('x, 'c) program_input \<times> u32 list \<Rightarrow> panic + ('x, 'c) program_output" where
  "guest_main E = (\<lambda>(input, instruction_words).
     bind (process E (in_pre_states input) (in_instruction input)) (\<lambda>(post_states, chained_calls).
       Inr \<lparr>out_self_program_id = in_self_program_id input,
            out_caller_program_id = in_caller_program_id input,
            out_instruction_words = instruction_words,
            out_pre_states = in_pre_states input,
            out_post_states = post_states,
            out_chained_calls = chained_calls\<rparr>))"

section \<open>What an instruction may change\<close>

text \<open>
  The positions whose data an instruction writes, the claim it attaches to a position, and how
  many calls it emits.
\<close>

fun writes :: "instruction \<Rightarrow> nat list" where
  "writes (CreateMultisig k t cms) = [0]"
| "writes (Propose k i tp ti tn seeds idxs) = [0, 1]"
| "writes (Approve k i salt) = [1]"
| "writes (Reject k i salt) = [1]"
| "writes (Execute k i) = [1]"
| "writes (InitVault k token) = []"

fun claims :: "'x env \<Rightarrow> instruction \<Rightarrow> nat \<Rightarrow> claim option" where
  "claims E (CreateMultisig k t cms) j =
     (if j = 0 then Some (Pda (PdaSeed (sha2_digest E (pda_preimage (StatePda k))))) else None)"
| "claims E (Propose k i tp ti tn seeds idxs) j =
     (if j = 1 then Some (Pda (PdaSeed (sha2_digest E (pda_preimage (ProposalPda k i))))) else None)"
| "claims E (Approve k i salt) j = None"
| "claims E (Reject k i salt) j = None"
| "claims E (Execute k i) j = None"
| "claims E (InitVault k token) j = None"

fun calls_of :: "instruction \<Rightarrow> nat" where
  "calls_of (Execute k i) = 1"
| "calls_of (InitVault k token) = 1"
| "calls_of _ = 0"

text \<open>One post state, compared with the account it belongs to.\<close>

definition post_ok ::
  "bool \<Rightarrow> claim option \<Rightarrow> 'x account_with_metadata \<Rightarrow> 'x account_post_state \<Rightarrow> bool" where
  "post_ok written c acc post \<longleftrightarrow>
     acc_rest (ps_account post) = acc_rest (am_account acc) \<and>
     (written \<or> ps_account post = am_account acc) \<and> ps_claim post = c"

lemma post_ok_new [simp]: "post_ok w c acc (post_new (am_account acc)) \<longleftrightarrow> c = None"
  by (auto simp: post_ok_def)

lemma post_ok_data [simp]: "post_ok True c acc (post_new ((am_account acc)\<lparr>acc_data := d\<rparr>)) \<longleftrightarrow> c = None"
  by (auto simp: post_ok_def)

lemma post_ok_claimed [simp]:
  "post_ok True c acc (post_new_claimed ((am_account acc)\<lparr>acc_data := d\<rparr>) q) \<longleftrightarrow> c = Some q"
  by (auto simp: post_ok_def)

definition posts_ok ::
  "'x env \<Rightarrow> instruction \<Rightarrow> 'x account_with_metadata list \<Rightarrow> 'x account_post_state list \<Rightarrow> bool" where
  "posts_ok E ins accounts posts \<longleftrightarrow> length posts = length accounts \<and>
     list_all (\<lambda>j. post_ok (List.member (writes ins) j) (claims E ins j) (accounts ! j) (posts ! j))
       [0..<length accounts]"

lemma posts_ok_cases:
  "posts_ok E ins [a] [p] \<longleftrightarrow> post_ok (0 \<in> set (writes ins)) (claims E ins 0) a p"
  "posts_ok E ins [a, b] [p, q] \<longleftrightarrow> post_ok (0 \<in> set (writes ins)) (claims E ins 0) a p \<and>
     post_ok (1 \<in> set (writes ins)) (claims E ins 1) b q"
  "posts_ok E ins [a, b, c] [p, q, r] \<longleftrightarrow> post_ok (0 \<in> set (writes ins)) (claims E ins 0) a p \<and>
     post_ok (1 \<in> set (writes ins)) (claims E ins 1) b q \<and>
     post_ok (2 \<in> set (writes ins)) (claims E ins 2) c r"
  by (auto simp: posts_ok_def upt_rec numeral_2_eq_2)

lemma posts_ok_targets:
  assumes "post_ok False None sa p" and "post_ok True None pa q"
  shows "posts_ok E (Execute k i) (sa # pa # ts) (p # q # map (\<lambda>t. post_new (am_account t)) ts)"
  using assms by (auto simp: posts_ok_def list_all_iff nth_Cons' post_ok_def le_Suc_eq)

lemma process_posts:
  assumes "process E accounts ins = Inr (posts, calls)"
  shows "posts_ok E ins accounts posts \<and> length calls = calls_of ins"
proof (cases ins)
  case CreateMultisig
  with assms show ?thesis
    by (auto simp: posts_ok_cases post_ok_def simp del: pda_preimage.simps
        elim!: create_multisig_handle_InrE)
next
  case Propose
  with assms show ?thesis
    by (auto simp: posts_ok_cases post_ok_def Let_def simp del: pda_preimage.simps
        elim!: propose_handle_InrE)
next
  case Approve
  with assms show ?thesis by (auto simp: posts_ok_cases elim!: approve_handle_InrE)
next
  case Reject
  with assms show ?thesis by (auto simp: posts_ok_cases elim!: reject_handle_InrE)
next
  case Execute
  with assms show ?thesis by (auto intro!: posts_ok_targets elim!: execute_handle_InrE)
next
  case InitVault
  with assms show ?thesis by (auto simp: posts_ok_cases post_ok_def elim!: init_vault_handle_InrE)
qed

text \<open>
  C23: what an execution of the guest may do to the chain, for every instruction.  The output
  has one post state per account passed in; owner, balance and nonce of every account are kept,
  and the data too except at the positions the instruction writes (the state for
  CreateMultisig and Propose, the proposal for Propose, Approve, Reject and Execute, none for
  InitVault); only the two creating instructions claim an account, each the PDA of its own
  seed; and only Execute and InitVault emit a call, exactly one.
\<close>

theorem guest_changes:
  assumes "guest_main E (input, words) = Inr out"
  shows "length (out_post_states out) = length (in_pre_states input) \<and>
     (\<forall>j < length (in_pre_states input).
        let acc = am_account (in_pre_states input ! j); post = out_post_states out ! j in
        acc_rest (ps_account post) = acc_rest acc \<and>
        (ps_account post = acc \<or> j \<in> set (writes (in_instruction input))) \<and>
        ps_claim post = claims E (in_instruction input) j) \<and>
     length (out_chained_calls out) = calls_of (in_instruction input) \<and>
     out_pre_states out = in_pre_states input \<and> out_instruction_words out = words"
proof -
  obtain posts calls where "process E (in_pre_states input) (in_instruction input) = Inr (posts, calls)"
    and out: "out_post_states out = posts" "out_chained_calls out = calls"
      "out_pre_states out = in_pre_states input" "out_instruction_words out = words"
    using assms by (auto simp: guest_main_def)
  then have "posts_ok E (in_instruction input) (in_pre_states input) posts"
    and "length calls = calls_of (in_instruction input)"
    using process_posts by blast+
  then show ?thesis
    unfolding out by (auto simp: posts_ok_def post_ok_def list_all_iff Let_def)
qed

section \<open>How the guest can fail\<close>

text \<open>
  The documented errors each instruction can report, and what it would store: the state it
  writes into the first account, the proposal it writes into the second, and the action it
  hashes.
\<close>

definition vote_errors :: "pms_error list" where
  "vote_errors = [ERR_BAD_ACCOUNT_COUNT, ERR_MEMBER_NOT_AUTHORIZED, ERR_STATE_MISMATCH,
     ERR_NOT_A_MEMBER, ERR_PROPOSAL_MISMATCH, ERR_PROPOSAL_NOT_ACTIVE]"

fun errors_of :: "instruction \<Rightarrow> pms_error list" where
  "errors_of (CreateMultisig k t cms) =
     [ERR_BAD_ACCOUNT_COUNT, ERR_ALREADY_INITIALIZED, ERR_BAD_THRESHOLD, ERR_DUPLICATE_MEMBER]"
| "errors_of (Propose k i tp ti tn seeds idxs) =
     [ERR_BAD_ACCOUNT_COUNT, ERR_STATE_MISMATCH, ERR_PROPOSAL_EXISTS, ERR_BAD_PROPOSAL_INDEX,
      ERR_BAD_AUTHORIZED_INDEX]"
| "errors_of (Approve k i salt) = ERR_DUPLICATE_VOTE # vote_errors"
| "errors_of (Reject k i salt) = ERR_DUPLICATE_REJECT # vote_errors"
| "errors_of (Execute k i) =
     [ERR_BAD_ACCOUNT_COUNT, ERR_STATE_MISMATCH, ERR_PROPOSAL_MISMATCH, ERR_PROPOSAL_NOT_ACTIVE,
      ERR_THRESHOLD_NOT_MET, ERR_BAD_TARGET_COUNT]"
| "errors_of (InitVault k token) = [ERR_BAD_ACCOUNT_COUNT, ERR_PROPOSAL_EXISTS]"

definition state_at :: "'x env \<Rightarrow> 'x account_with_metadata list \<Rightarrow> multisig_state option" where
  "state_at E accounts = from_slice_state E (acc_data (am_account (accounts ! 0)))"

definition proposal_at :: "'x env \<Rightarrow> 'x account_with_metadata list \<Rightarrow> proposal option" where
  "proposal_at E accounts = from_slice_proposal E (acc_data (am_account (accounts ! 1)))"

fun state_to_write :: "'x env \<Rightarrow> 'x account_with_metadata list \<Rightarrow> instruction \<Rightarrow> multisig_state option" where
  "state_to_write E accounts (CreateMultisig k t cms) = Some (multisig_state_new k t cms)"
| "state_to_write E accounts (Propose k i tp ti tn seeds idxs) =
     map_option (\<lambda>s. s\<lparr>ms_transaction_index := i\<rparr>) (state_at E accounts)"
| "state_to_write E accounts _ = None"

fun action_to_hash :: "instruction \<Rightarrow> proposal_action option" where
  "action_to_hash (Propose k i tp ti tn seeds idxs) =
     Some \<lparr>pa_target_program_id = tp, pa_target_instruction_data = ti, pa_target_account_count = tn,
           pa_pda_seeds = seeds, pa_authorized_indices = idxs\<rparr>"
| "action_to_hash _ = None"

text \<open>The proposal a rejection by \<open>salt\<close> leaves, closed if it is dead.\<close>

definition rejected_form ::
  "'x env \<Rightarrow> account_id \<Rightarrow> u64 \<Rightarrow> bytes32 \<Rightarrow> multisig_state \<Rightarrow> proposal \<Rightarrow> proposal option" where
  "rejected_form E m i salt s p =
     (let q = reject_update E m i (pr_action_hash p) salt p in
      case is_dead E q (ms_threshold s) (member_count s) of
        Inl _ \<Rightarrow> None | Inr dead \<Rightarrow> Some (close_if dead q))"

fun proposal_to_write :: "'x env \<Rightarrow> 'x account_with_metadata list \<Rightarrow> instruction \<Rightarrow> proposal option" where
  "proposal_to_write E accounts (Propose k i tp ti tn seeds idxs) =
     (let a = \<lparr>pa_target_program_id = tp, pa_target_instruction_data = ti, pa_target_account_count = tn,
           pa_pda_seeds = seeds, pa_authorized_indices = idxs\<rparr> in
      case action_hash E a of Inl _ \<Rightarrow> None | Inr h \<Rightarrow> Some (fresh_proposal i k a h))"
| "proposal_to_write E accounts (Approve k i salt) =
     map_option (\<lambda>p. approve_update E (am_account_id (accounts ! 0)) i (pr_action_hash p) salt p)
       (proposal_at E accounts)"
| "proposal_to_write E accounts (Reject k i salt) =
     Option.bind (state_at E accounts) (\<lambda>s. Option.bind (proposal_at E accounts)
       (rejected_form E (am_account_id (accounts ! 0)) i salt s))"
| "proposal_to_write E accounts (Execute k i) =
     map_option (\<lambda>p. p\<lparr>pr_status := Executed\<rparr>) (proposal_at E accounts)"
| "proposal_to_write E accounts _ = None"

text \<open>
  The panics that are not documented errors, each with its cause: the very value that did not
  serialise, or whose bytes the platform has no room for; and the two counts that overflow.
\<close>

definition env_fault :: "'x env \<Rightarrow> 'x account_with_metadata list \<Rightarrow> instruction \<Rightarrow> string \<Rightarrow> bool" where
  "env_fault E accounts ins m \<longleftrightarrow>
     (\<exists>s. state_to_write E accounts ins = Some s \<and>
        (m = ''state serialization is infallible'' \<and> to_vec_state E s = None \<or>
         m = ''state fits in account data'' \<and> (\<exists>b. to_vec_state E s = Some b \<and> \<not> data_fits E b))) \<or>
     (\<exists>p. proposal_to_write E accounts ins = Some p \<and>
        (m = ''proposal serialization is infallible'' \<and> to_vec_proposal E p = None \<or>
         m = ''proposal fits in account data'' \<and> (\<exists>b. to_vec_proposal E p = Some b \<and> \<not> data_fits E b))) \<or>
     (\<exists>a. action_to_hash ins = Some a \<and>
        m = ''action serialization is infallible'' \<and> to_vec_action E a = None) \<or>
     (\<exists>k token. ins = InitVault k token \<and>
        m = ''instruction serialization is infallible'' \<and> risc0_to_vec E InitializeAccount = None)"

fun count_overflows :: "'x env \<Rightarrow> 'x account_with_metadata list \<Rightarrow> instruction \<Rightarrow> bool" where
  "count_overflows E accounts (Propose k i tp ti tn seeds idxs) \<longleftrightarrow>
     (\<exists>s. state_at E accounts = Some s \<and> ms_transaction_index s = - 1)"
| "count_overflows E accounts (Reject k i salt) \<longleftrightarrow>
     (\<exists>s p. state_at E accounts = Some s \<and> proposal_at E accounts = Some p \<and>
        member_count s \<le> length (pr_reject_nullifiers p))"
| "count_overflows E accounts _ \<longleftrightarrow> False"

fun accounted :: "'x env \<Rightarrow> 'x account_with_metadata list \<Rightarrow> instruction \<Rightarrow> panic \<Rightarrow> bool" where
  "accounted E accounts ins (Pms e) \<longleftrightarrow> e \<in> set (errors_of ins)"
| "accounted E accounts ins (Expect m) \<longleftrightarrow> env_fault E accounts ins m"
| "accounted E accounts ins Overflow \<longleftrightarrow> overflow_checks E \<and> count_overflows E accounts ins"
| "accounted E accounts ins OutOfBounds \<longleftrightarrow> False"

text \<open>\<open>panics_ok A r\<close>: if the step \<open>r\<close> panics, its panic is one of \<open>A\<close>.\<close>

definition panics_ok :: "(panic \<Rightarrow> bool) \<Rightarrow> panic + 'b \<Rightarrow> bool" where
  "panics_ok A r \<longleftrightarrow> (case r of Inl e \<Rightarrow> A e | Inr _ \<Rightarrow> True)"

lemma panics_ok_Inr: "panics_ok A (Inr x)"
  by (simp add: panics_ok_def)

lemma panics_ok_require: "A e \<Longrightarrow> (c \<Longrightarrow> panics_ok A k) \<Longrightarrow> panics_ok A (require c e k)"
  by (simp add: require_def panics_ok_def)

lemma panics_ok_expect:
  "(v = None \<Longrightarrow> A e) \<Longrightarrow> (\<And>x. v = Some x \<Longrightarrow> panics_ok A (k x)) \<Longrightarrow> panics_ok A (expect v e k)"
  by (cases v) (simp_all add: panics_ok_def)

lemma panics_ok_bind:
  "panics_ok A r \<Longrightarrow> (\<And>x. r = Inr x \<Longrightarrow> panics_ok A (k x)) \<Longrightarrow> panics_ok A (bind r k)"
  by (cases r) (simp_all add: panics_ok_def)

lemma panics_ok_steps:
  "j < length xs \<Longrightarrow> panics_ok A (index_at xs j)"
  "j \<le> length xs \<Longrightarrow> panics_ok A (slice_from xs j)"
  "A (Pms ERR_DUPLICATE_MEMBER) \<Longrightarrow> panics_ok A (check_duplicates seen cms)"
  "A (Pms ERR_BAD_AUTHORIZED_INDEX) \<Longrightarrow> panics_ok A (check_indices idxs cnt)"
  "panics_ok A (multisig_state_pda_seed E k)" "panics_ok A (proposal_pda_seed E k i)"
  "panics_ok A (vault_pda_seed E k)" "panics_ok A (member_commitment E salt acc)"
  by (auto simp: check_duplicates_eq check_indices_eq panics_ok_def simp del: pda_preimage.simps)

lemma panics_ok_add:
  "(overflow_checks E \<Longrightarrow> a = - 1 \<Longrightarrow> A Overflow) \<Longrightarrow> panics_ok A (add_u64 E a 1)"
proof -
  have "a = - 1" if "2 ^ 64 \<le> unat a + 1"
  proof -
    have "unat a = 2 ^ 64 - 1" using that unsigned_less [of a, where 'a = nat] by simp
    then show ?thesis
      by (simp add: word_unat_eq_iff unsigned_minus_1_eq_mask mask_eq_exp_minus_1)
  qed
  then show "(overflow_checks E \<Longrightarrow> a = - 1 \<Longrightarrow> A Overflow) \<Longrightarrow> ?thesis"
    by (auto simp: add_u64_def panics_ok_def)
qed

lemma try_into_data_None: "try_into_data E b = None \<longleftrightarrow> \<not> data_fits E b"
  by (simp add: try_into_data_def)

lemmas panics_ok_intros =
  panics_ok_Inr panics_ok_require panics_ok_expect panics_ok_bind panics_ok_steps panics_ok_add

lemma accounted_finalize:
  assumes "proposal_to_write E accounts ins = Some p"
  shows "panics_ok (accounted E accounts ins) (finalize_vote E sa pa ma s p)"
  unfolding finalize_vote_def Let_def
  by (intro panics_ok_intros) (use assms in \<open>auto simp: env_fault_def try_into_data_None\<close>)

lemma accounted_common:
  assumes "set vote_errors \<subseteq> set (errors_of ins)"
  shows "panics_ok (accounted E accounts ins) (common_vote_checks E accounts k i salt)"
  unfolding common_vote_checks_def
  by (intro panics_ok_intros) (use assms in \<open>auto simp: vote_errors_def\<close>)

lemma accounted_approve:
  "panics_ok (accounted E accounts (Approve k i salt)) (approve_handle E accounts k i salt)"
proof (cases "common_vote_checks E accounts k i salt")
  case (Inl e)
  then show ?thesis
    using accounted_common [of "Approve k i salt" E accounts k i salt]
    by (auto simp: approve_handle_def panics_ok_def)
next
  case (Inr r)
  then obtain sa pa ma s p where a: "accounts = [sa, pa, ma]" and r: "vote_ready E k i salt sa pa ma s p"
    by (auto simp: common_vote_checks_Inr)
  then have "proposal_at E accounts = Some p"
    by (simp add: proposal_at_def vote_ready_def holds_proposal_def)
  then show ?thesis
    unfolding a approve_handle_ready [OF r]
    by (auto intro: accounted_finalize simp: panics_ok_def [of _ "Inl (Pms _)"])
qed

lemma accounted_reject:
  "panics_ok (accounted E accounts (Reject k i salt)) (reject_handle E accounts k i salt)"
proof (cases "common_vote_checks E accounts k i salt")
  case (Inl e)
  then show ?thesis
    using accounted_common [of "Reject k i salt" E accounts k i salt]
    by (auto simp: reject_handle_def panics_ok_def)
next
  case (Inr r)
  then obtain sa pa ma s p where a: "accounts = [sa, pa, ma]" and r: "vote_ready E k i salt sa pa ma s p"
    by (auto simp: common_vote_checks_Inr)
  let ?q = "reject_update E (am_account_id sa) i (pr_action_hash p) salt p"
  let ?A = "accounted E accounts (Reject k i salt)"
  have at: "state_at E accounts = Some s" "proposal_at E accounts = Some p"
    using a r by (simp_all add: state_at_def proposal_at_def vote_ready_def holds_proposal_def holds_state_def)
  have "panics_ok ?A (is_dead E ?q (ms_threshold s) (member_count s))"
    using at by (auto simp: panics_ok_def is_dead_def sub_usize_def reject_update_def)
  moreover have "panics_ok ?A (finalize_vote E sa pa ma s (close_if dead ?q))"
    if "is_dead E ?q (ms_threshold s) (member_count s) = Inr dead" for dead
    using at a that by (intro accounted_finalize) (simp add: rejected_form_def Let_def)
  ultimately show ?thesis
    unfolding a reject_handle_ready [OF r] Let_def
    by (auto intro: panics_ok_bind simp: panics_ok_def [of _ "Inl (Pms _)"])
qed

lemma accounted_create:
  "panics_ok (accounted E accounts (CreateMultisig k t cms)) (create_multisig_handle E accounts k t cms)"
  unfolding create_multisig_handle_def Let_def
  by (intro panics_ok_intros) (auto simp: env_fault_def try_into_data_None)

lemma accounted_propose:
  assumes ins_def: "ins = Propose k i tp ti tn seeds idxs"
    and a_def: "a = \<lparr>pa_target_program_id = tp, pa_target_instruction_data = ti,
      pa_target_account_count = tn, pa_pda_seeds = seeds, pa_authorized_indices = idxs\<rparr>"
  shows "panics_ok (accounted E accounts ins) (propose_handle E accounts k i a)"
proof -
  have "panics_ok (accounted E accounts ins) (proposal_new E i k a)"
    by (auto simp: proposal_new_def action_hash_eq panics_ok_def env_fault_def ins_def a_def
        split: option.split)
  moreover have "proposal_to_write E accounts ins = Some p" if "proposal_new E i k a = Inr p" for p
    using that by (auto simp: proposal_new_Inr fresh_proposal_def ins_def a_def Let_def)
  ultimately show ?thesis
    unfolding propose_handle_def Let_def
    by (intro panics_ok_intros)
      (auto simp: env_fault_def try_into_data_None index_at_Inr_iff state_at_def ins_def)
qed

lemma accounted_execute:
  "panics_ok (accounted E accounts (Execute k i)) (execute_handle E accounts k i)"
  unfolding execute_handle_def Let_def
  by (intro panics_ok_intros)
    (auto simp: env_fault_def try_into_data_None index_at_Inr_iff proposal_at_def)

lemma accounted_init_vault:
  "panics_ok (accounted E accounts (InitVault k token)) (init_vault_handle E accounts k token)"
  unfolding init_vault_handle_def Let_def
  by (intro panics_ok_intros)
    (auto simp: env_fault_def token_initialize_account_instruction_def)

text \<open>
  C24: every way the guest can fail is accounted for.  An instruction that panics does so with
  one of its own documented errors; or by an arithmetic overflow, in a build with overflow
  checks, when the proposal counter is full or a proposal carries as many rejections as there
  are members already; or because the very state, proposal, action or token instruction it
  handles did not serialise or does not fit in account data, with the message that says so.  It
  never indexes its accounts out of bounds, whatever list of accounts it is given, and the
  assertion on the length of a domain tag never fails.
\<close>

theorem process_panics_accounted:
  "case process E accounts ins of
     Inr _ \<Rightarrow> True
   | Inl (Pms e) \<Rightarrow> e \<in> set (errors_of ins)
   | Inl Overflow \<Rightarrow> overflow_checks E \<and> count_overflows E accounts ins
   | Inl (Expect m) \<Rightarrow> env_fault E accounts ins m
   | Inl OutOfBounds \<Rightarrow> False"
proof -
  have "panics_ok (accounted E accounts ins) (process E accounts ins)"
    by (cases ins) (simp_all only: process.simps Let_def accounted_create accounted_propose [OF refl refl]
        accounted_approve accounted_reject accounted_execute accounted_init_vault)
  then show ?thesis
    by (auto simp: panics_ok_def split: sum.splits panic.splits)
qed

section \<open>What the program looks at\<close>

fun is_vote :: "instruction \<Rightarrow> bool" where
  "is_vote (Approve k i salt) = True"
| "is_vote (Reject k i salt) = True"
| "is_vote _ = False"

lemma execute_posts_by_accounts:
  assumes "map am_account accounts = map am_account accounts'"
  shows "map_sum id fst (execute_handle E accounts k i) = map_sum id fst (execute_handle E accounts' k i)"
proof (cases "2 \<le> length accounts")
  case True
  then obtain sa pa ts where a: "accounts = sa # pa # ts" by (auto simp: length_eqs)
  with assms obtain sb pb us where b: "accounts' = sb # pb # us"
    and eq: "am_account sb = am_account sa" "am_account pb = am_account pa"
      "map am_account us = map am_account ts"
    by (auto simp: Cons_eq_map_conv)
  have "length us = length ts"
    and "map (\<lambda>t. post_new (am_account t)) us = map (\<lambda>t. post_new (am_account t)) ts"
    using arg_cong [OF eq(3), of length] arg_cong [OF eq(3), of "map post_new"]
    by (simp_all add: comp_def)
  then show ?thesis
    unfolding a b by (simp add: execute_handle_def Let_def map_sum_require map_sum_expect eq)
next
  case False
  moreover have "length accounts' = length accounts"
    using assms by (rule map_eq_imp_length_eq [symmetric])
  ultimately show ?thesis by (simp add: execute_handle_def)
qed

text \<open>
  Outside of votes the program decides by account contents alone.  CreateMultisig, Propose,
  Execute and InitVault give the same post states, or the same error, on any other list of
  accounts with the same contents, whatever the ids and authorisation flags: anyone may send
  them, and nothing in the handlers ties the state or proposal account to its derived address.
\<close>

lemma process_by_contents:
  assumes "\<not> is_vote ins" and "map am_account accounts = map am_account accounts'"
  shows "map_sum id fst (process E accounts ins) = map_sum id fst (process E accounts' ins)"
proof -
  have len: "length accounts' = length accounts"
    using assms(2) by (rule map_eq_imp_length_eq [symmetric])
  have nth: "am_account (accounts' ! j) = am_account (accounts ! j)" if "j < length accounts" for j
    using assms(2) that len by (metis nth_map)
  have one: "length accounts = Suc 0 \<Longrightarrow> am_account (accounts' ! 0) = am_account (accounts ! 0)"
    and two: "length accounts = 2 \<Longrightarrow> am_account (accounts' ! 0) = am_account (accounts ! 0)"
      "length accounts = 2 \<Longrightarrow> am_account (accounts' ! Suc 0) = am_account (accounts ! Suc 0)"
    by (simp_all add: nth)
  show ?thesis
  proof (cases ins)
    case CreateMultisig
    then show ?thesis using one len
      by (simp add: create_multisig_handle_def Let_def cong: require_cong)
  next
    case Propose
    then show ?thesis using two len
      by (simp add: propose_handle_def Let_def cong: require_cong)
  next
    case Execute
    then show ?thesis by (simp only: process.simps execute_posts_by_accounts [OF assms(2)])
  next
    case InitVault
    then show ?thesis using two len
      by (cases "length accounts = 2")
        (auto simp: init_vault_handle_def Let_def require_def expect_def split: option.split)
  qed (use assms(1) in simp_all)
qed

end
