(* ===== verification/Ballot.thy ===== *)
theory Ballot
  imports Pms_Types
begin

text \<open>
  The abstract specification of one proposal: a ballot of \<open>n\<close> seats with threshold \<open>m\<close>.  It
  knows who stands for and against, in the order of the votes, and whether the vote is still
  open.  The last word of a voter counts; a voter stands on one side at most.  The protocol
  theory shows that the accounts on the chain, nullifiers and all, implement this.
\<close>

datatype 'v event = Yes 'v | No 'v | Exec

record 'v ballot =
  bl_yes :: "'v list"
  bl_no :: "'v list"
  bl_status :: proposal_status

definition ballot_new :: "'v ballot" where
  "ballot_new = \<lparr>bl_yes = [], bl_no = [], bl_status = Active\<rparr>"

text \<open>When an event is admitted, and what it does.\<close>

fun admits :: "nat \<Rightarrow> 'v ballot \<Rightarrow> 'v event \<Rightarrow> bool" where
  "admits m b (Yes v) \<longleftrightarrow> bl_status b = Active \<and> v \<notin> set (bl_yes b)"
| "admits m b (No v) \<longleftrightarrow> bl_status b = Active \<and> v \<notin> set (bl_no b)"
| "admits m b Exec \<longleftrightarrow> bl_status b = Active \<and> m \<le> length (bl_yes b)"

fun ballot_step :: "nat \<Rightarrow> nat \<Rightarrow> 'v ballot \<Rightarrow> 'v event \<Rightarrow> 'v ballot" where
  "ballot_step n m b (Yes v) =
     b\<lparr>bl_yes := push (bl_yes b) v, bl_no := retain_ne v (bl_no b)\<rparr>"
| "ballot_step n m b (No v) =
     b\<lparr>bl_yes := retain_ne v (bl_yes b), bl_no := push (bl_no b) v,
       bl_status := if n - m < Suc (length (bl_no b)) then Rejected else bl_status b\<rparr>"
| "ballot_step n m b Exec = b\<lparr>bl_status := Executed\<rparr>"

fun ballot_run :: "nat \<Rightarrow> nat \<Rightarrow> 'v ballot \<Rightarrow> 'v event list \<Rightarrow> 'v ballot" where
  "ballot_run n m b [] = b"
| "ballot_run n m b (e # es) = ballot_run n m (ballot_step n m b e) es"

text \<open>Whether every event of a sequence is admitted in its turn.\<close>

fun admitted :: "nat \<Rightarrow> nat \<Rightarrow> 'v ballot \<Rightarrow> 'v event list \<Rightarrow> bool" where
  "admitted n m b [] \<longleftrightarrow> True"
| "admitted n m b (e # es) \<longleftrightarrow> admits m b e \<and> admitted n m (ballot_step n m b e) es"

text \<open>A voter's last word in a sequence of events: for, against or none.\<close>

fun last_word :: "'v \<Rightarrow> 'v event list \<Rightarrow> bool option \<Rightarrow> bool option" where
  "last_word v [] w = w"
| "last_word v (Yes u # es) w = last_word v es (if u = v then Some True else w)"
| "last_word v (No u # es) w = last_word v es (if u = v then Some False else w)"
| "last_word v (Exec # es) w = last_word v es w"

lemma ballot_run_append [simp]:
  "ballot_run n m b (es @ fs) = ballot_run n m (ballot_run n m b es) fs"
  by (induction es arbitrary: b) simp_all

lemma admitted_append [simp]:
  "admitted n m b (es @ fs) \<longleftrightarrow> admitted n m b es \<and> admitted n m (ballot_run n m b es) fs"
  by (induction es arbitrary: b) auto

lemma last_word_append: "last_word v (es @ fs) w = last_word v fs (last_word v es w)"
  by (induction v es w rule: last_word.induct) auto

section \<open>Last word counts\<close>

definition stands :: "'v ballot \<Rightarrow> 'v \<Rightarrow> bool option" where
  "stands b v = (if v \<in> set (bl_yes b) then Some True
                 else if v \<in> set (bl_no b) then Some False else None)"

definition tidy :: "'v ballot \<Rightarrow> bool" where
  "tidy b \<longleftrightarrow> distinct (bl_yes b @ bl_no b)"

lemma tidy_new [simp]: "tidy ballot_new"
  by (simp add: tidy_def ballot_new_def)

lemma tidy_step: "tidy b \<Longrightarrow> admits m b e \<Longrightarrow> tidy (ballot_step n m b e)"
  by (cases e) (auto simp: tidy_def)

lemma tidy_run: "tidy b \<Longrightarrow> admitted n m b es \<Longrightarrow> tidy (ballot_run n m b es)"
  by (induction es arbitrary: b) (auto intro: tidy_step)

lemma stands_step:
  "tidy b \<Longrightarrow> admits m b e \<Longrightarrow> stands (ballot_step n m b e) v = last_word v [e] (stands b v)"
  by (cases e) (auto simp: tidy_def stands_def)

lemma stands_run:
  "tidy b \<Longrightarrow> admitted n m b es \<Longrightarrow> stands (ballot_run n m b es) v = last_word v es (stands b v)"
proof (induction es arbitrary: b)
  case Nil
  then show ?case by simp
next
  case (Cons e es)
  then have "stands (ballot_run n m (ballot_step n m b e) es) v =
      last_word v es (stands (ballot_step n m b e) v)"
    by (auto intro: tidy_step)
  then show ?case
    using Cons.prems last_word_append [of v "[e]" es] by (simp add: stands_step)
qed

lemma in_yes_iff:
  assumes "admitted n m ballot_new es"
  shows "v \<in> set (bl_yes (ballot_run n m ballot_new es)) \<longleftrightarrow> last_word v es None = Some True"
    and "v \<in> set (bl_no (ballot_run n m ballot_new es)) \<longleftrightarrow> last_word v es None = Some False"
  using stands_run [OF tidy_new assms, of v] tidy_run [OF tidy_new assms]
  by (auto simp: stands_def ballot_new_def tidy_def split: if_splits)

section \<open>A closed ballot stays closed\<close>

lemma admits_active: "admits m b e \<Longrightarrow> bl_status b = Active"
  by (cases e) auto

lemma admitted_closed: "bl_status b \<noteq> Active \<Longrightarrow> admitted n m b es \<Longrightarrow> es = []"
  by (cases es) (auto dest: admits_active)

lemma run_status_active:
  "admitted n m b es \<Longrightarrow> bl_status (ballot_run n m b es) = Active \<Longrightarrow> Exec \<notin> set es"
proof (induction es arbitrary: b)
  case (Cons e es)
  show ?case
  proof (cases "e = Exec")
    case True
    then have "bl_status (ballot_step n m b e) \<noteq> Active" by simp
    with Cons.prems have "es = []" by (auto dest: admitted_closed)
    then show ?thesis using True Cons.prems by simp
  next
    case False
    then show ?thesis using Cons by auto
  qed
qed simp

lemma exec_is_last:
  assumes "admitted n m b (es @ Exec # fs)"
  shows "fs = []" and "Exec \<notin> set es" and "m \<le> length (bl_yes (ballot_run n m b es))"
proof -
  have "admitted n m (ballot_step n m (ballot_run n m b es) Exec) fs"
    using assms by simp
  then show "fs = []" by (rule admitted_closed [rotated]) simp
  have "bl_status (ballot_run n m b es) = Active" using assms by simp
  then show "Exec \<notin> set es" using assms run_status_active by auto
  show "m \<le> length (bl_yes (ballot_run n m b es))" using assms by simp
qed

section \<open>A ballot is rejected only when it is lost\<close>

text \<open>
  The status agrees with the count: rejected exactly if more than \<open>n - m\<close> voters stand against,
  so that fewer than \<open>m\<close> of \<open>n\<close> seats are left.
\<close>

definition counted :: "nat \<Rightarrow> nat \<Rightarrow> 'v ballot \<Rightarrow> bool" where
  "counted n m b \<longleftrightarrow> bl_status b \<noteq> Executed \<and> (bl_status b = Rejected \<longleftrightarrow> n - m < length (bl_no b))"

lemma counted_new [simp]: "counted n m ballot_new"
  by (simp add: counted_def ballot_new_def)

lemma counted_step:
  assumes "counted n m b" and "admits t b e" and "e \<noteq> Exec"
  shows "counted n m (ballot_step n m b e)"
  using assms length_retain_ne_le [of _ "bl_no b"]
  by (cases e) (auto simp: counted_def not_less intro: le_trans)

lemma counted_run:
  "counted n m b \<Longrightarrow> admitted n m b es \<Longrightarrow> Exec \<notin> set es \<Longrightarrow> counted n m (ballot_run n m b es)"
  by (induction es arbitrary: b) (auto intro: counted_step)

end
