(* ===== verification/Protocol.thy ===== *)
theory Protocol
  imports Dispatch Ballot
begin

text \<open>
  The life of one proposal on the chain.  A step is a successful execution of the guest on the
  multisig's state account, the proposal account and any further accounts, with any
  instruction at all; the platform stores the post states.  The theory shows that whatever the
  instructions, the two accounts implement the abstract ballot: the proposal account holds the
  image of the ballot under the nullifier functions.  Nothing is assumed of the hash function
  but that the byte strings hashed in the run at hand do not collide.
\<close>

section \<open>Steps and runs\<close>

type_synonym 'x config = "'x account_with_metadata \<times> 'x account_with_metadata"

text \<open>
  A label records the instruction, the accounts after the first two, and the emitted calls;
  \<open>OnState\<close> is the opening of another proposal of the same multisig.
\<close>

datatype 'x label =
    OnProposal instruction "'x account_with_metadata list" "'x chained_call list"
  | OnState instruction

inductive step :: "'x env \<Rightarrow> 'x config \<Rightarrow> 'x label \<Rightarrow> 'x config \<Rightarrow> bool" for E where
  on_proposal: "process E (sa # pa # rest) ins = Inr (posts, calls) \<Longrightarrow>
    step E (sa, pa) (OnProposal ins rest calls) (with_post sa (posts ! 0), with_post pa (posts ! 1))"
| on_state: "process E [sa, qa] (Propose k j tp ti tn seeds idxs) = Inr (posts, calls) \<Longrightarrow>
    step E (sa, pa) (OnState (Propose k j tp ti tn seeds idxs)) (with_post sa (posts ! 0), pa)"

inductive_cases step_on_proposalE: "step E (sa, pa) (OnProposal ins rest calls) c"
inductive_cases step_on_stateE: "step E (sa, pa) (OnState ins) c"

inductive run :: "'x env \<Rightarrow> 'x config \<Rightarrow> 'x label list \<Rightarrow> 'x config \<Rightarrow> bool" for E c where
  run_start: "run E c [] c"
| run_step: "run E c tr d \<Longrightarrow> step E d l e \<Longrightarrow> run E c (tr @ [l]) e"

inductive_simps run_Nil [simp]: "run E c [] d"

lemma run_append: "run E d us e \<Longrightarrow> run E c tr d \<Longrightarrow> run E c (tr @ us) e"
  by (induction rule: run.induct) (auto simp flip: append_assoc intro: run.run_step)

lemma run_snocE:
  assumes "run E c (tr @ [l]) e"
  obtains d where "run E c tr d" and "step E d l e"
  using assms by (cases rule: run.cases) auto

lemma run_appendE:
  assumes "run E c (tr @ us) e"
  obtains d where "run E c tr d"
  using assms
proof (induction us arbitrary: e thesis rule: rev_induct)
  case Nil
  then show ?case by simp
next
  case (snoc u us)
  then show ?case by (metis append_assoc run_snocE)
qed

section \<open>Votes of a run\<close>

fun events_of :: "'x label \<Rightarrow> bytes32 event list" where
  "events_of (OnProposal (Approve k i salt) rest calls) = [Yes salt]"
| "events_of (OnProposal (Reject k i salt) rest calls) = [No salt]"
| "events_of (OnProposal (Execute k i) rest calls) = [Exec]"
| "events_of _ = []"

text \<open>The openings used in votes: the salt, and the id of the member account.\<close>

fun voters_of :: "'x label \<Rightarrow> (bytes32 \<times> account_id) list" where
  "voters_of (OnProposal (Approve k i salt) rest calls) = map (\<lambda>a. (salt, am_account_id a)) rest"
| "voters_of (OnProposal (Reject k i salt) rest calls) = map (\<lambda>a. (salt, am_account_id a)) rest"
| "voters_of _ = []"

definition events :: "'x label list \<Rightarrow> bytes32 event list" where
  "events tr = concat (map events_of tr)"

definition voters :: "'x label list \<Rightarrow> (bytes32 \<times> account_id) list" where
  "voters tr = concat (map voters_of tr)"

lemma events_simps [simp]: "events [] = []" "events (tr @ us) = events tr @ events us"
    "events [l] = events_of l"
  and voters_simps [simp]: "voters [] = []" "voters (tr @ us) = voters tr @ voters us"
    "voters [l] = voters_of l"
  by (simp_all add: events_def voters_def)

section \<open>Collisions\<close>

text \<open>
  The strings hashed on behalf of the voters of a run, at multisig account \<open>m\<close>, proposal
  index \<open>i\<close> and action hash \<open>h\<close>.
\<close>

definition hashed :: "account_id \<Rightarrow> u64 \<Rightarrow> bytes32 \<Rightarrow> (bytes32 \<times> account_id) list \<Rightarrow> u8 list list" where
  "hashed m i h vs = concat (map (\<lambda>(salt, a).
     [commitment_preimage salt a, vote_preimage salt m i h, reject_preimage salt m i h]) vs)"

definition collision_free :: "'x env \<Rightarrow> u8 list list \<Rightarrow> bool" where
  "collision_free E bs \<longleftrightarrow>
     list_all (\<lambda>x. list_all (\<lambda>y. hash_bytes E x = hash_bytes E y \<longrightarrow> x = y) bs) bs"

lemma collision_free_iff: "collision_free E bs \<longleftrightarrow> inj_on (hash_bytes E) (set bs)"
  by (auto simp: collision_free_def list_all_iff inj_on_def)

lemma hashed_append [simp]: "hashed m i h (vs @ ws) = hashed m i h vs @ hashed m i h ws"
  by (simp add: hashed_def)

lemma collision_free_prefix: "collision_free E (bs @ cs) \<Longrightarrow> collision_free E bs"
  by (auto simp: collision_free_iff inj_on_def)

lemma hashedI:
  assumes "(salt, a) \<in> set vs"
  shows "commitment_preimage salt a \<in> set (hashed m i h vs)"
    and "vote_preimage salt m i h \<in> set (hashed m i h vs)"
    and "reject_preimage salt m i h \<in> set (hashed m i h vs)"
  using assms by (auto simp: hashed_def intro!: bexI [of _ "(salt, a)"])

lemma collision_freeD:
  "collision_free E bs \<Longrightarrow> hash_bytes E x = hash_bytes E y \<Longrightarrow> x \<in> set bs \<Longrightarrow> y \<in> set bs \<Longrightarrow> x = y"
  unfolding collision_free_iff by (rule inj_onD)

lemma collision_free_neq:
  "collision_free E bs \<Longrightarrow> x \<in> set bs \<Longrightarrow> y \<in> set bs \<Longrightarrow> x \<noteq> y \<Longrightarrow> hash_bytes E x \<noteq> hash_bytes E y"
  by (blast dest: collision_freeD)

lemma collision_free_nf:
  assumes "collision_free E (hashed m i h vs)"
  shows "inj_on (vote_nf E m i h) (fst ` set vs)" and "inj_on (reject_nf E m i h) (fst ` set vs)"
proof -
  have "vote_preimage s m i h = vote_preimage t m i h"
    if "(s, a) \<in> set vs" "(t, b) \<in> set vs" "vote_nf E m i h s = vote_nf E m i h t" for s a t b
    using collision_freeD [OF assms that(3) [unfolded vote_nf_def]] that(1,2) by (blast intro: hashedI)
  then show "inj_on (vote_nf E m i h) (fst ` set vs)"
    by (auto intro!: inj_onI simp: nullifier_preimage_inject)
  have "reject_preimage s m i h = reject_preimage t m i h"
    if "(s, a) \<in> set vs" "(t, b) \<in> set vs" "reject_nf E m i h s = reject_nf E m i h t" for s a t b
    using collision_freeD [OF assms that(3) [unfolded reject_nf_def]] that(1,2) by (blast intro: hashedI)
  then show "inj_on (reject_nf E m i h) (fst ` set vs)"
    by (auto intro!: inj_onI simp: nullifier_preimage_inject)
qed

lemma collision_free_cm:
  assumes "collision_free E (hashed m i h vs)" and "(s, a) \<in> set vs" and "(t, b) \<in> set vs"
    and "member_cm E s a = member_cm E t b"
  shows "s = t \<and> a = b"
  using collision_freeD [OF assms(1) assms(4) [unfolded member_cm_def]] assms(2,3)
  by (simp add: commitment_preimage_inject hashedI)

text \<open>
  Voters with different salts open different commitments, so a group of salts stands for at
  least as many commitments.
\<close>

definition commitments_of :: "'x env \<Rightarrow> (bytes32 \<times> account_id) list \<Rightarrow> bytes32 set \<Rightarrow> bytes32 set" where
  "commitments_of E vs X = {member_cm E s a |s a. (s, a) \<in> set vs \<and> s \<in> X}"

lemma card_commitments_of:
  assumes free: "collision_free E (hashed m i h vs)" and sub: "X \<subseteq> fst ` set vs"
  shows "card X \<le> card (commitments_of E vs X)"
proof -
  from sub have "\<forall>s \<in> X. \<exists>a. (s, a) \<in> set vs" by fastforce
  then obtain acc where acc: "(s, acc s) \<in> set vs" if "s \<in> X" for s
    using bchoice [of X "\<lambda>s a. (s, a) \<in> set vs"] by blast
  have "inj_on (\<lambda>s. member_cm E s (acc s)) X"
    by (rule inj_onI) (use collision_free_cm [OF free] acc in blast)
  moreover have "(\<lambda>s. member_cm E s (acc s)) ` X \<subseteq> commitments_of E vs X"
    using acc by (auto simp: commitments_of_def)
  moreover have "finite (commitments_of E vs X)"
    by (rule finite_subset [of _ "(\<lambda>(s, a). member_cm E s a) ` set vs"])
      (auto simp: commitments_of_def)
  ultimately show ?thesis by (meson card_inj_on_le)
qed

section \<open>Refinement\<close>

text \<open>
  The platform, as far as the protocol relies on it: serialisers that read back what they
  wrote, and a default account that holds neither a state nor a proposal.
\<close>

definition platform_ok :: "'x env \<Rightarrow> bool" where
  "platform_ok E \<longleftrightarrow> borsh_ok E \<and> from_slice_state E (acc_data (account_default E)) = None \<and>
     from_slice_proposal E (acc_data (account_default E)) = None"

lemma platform_ok_borsh [simp]: "platform_ok E \<Longrightarrow> borsh_ok E"
  by (simp add: platform_ok_def)

lemma platform_ok_not_default:
  assumes "platform_ok E"
  shows "from_slice_state E (acc_data a) = Some s \<Longrightarrow> a \<noteq> account_default E"
    and "from_slice_proposal E (acc_data a) = Some p \<Longrightarrow> a \<noteq> account_default E"
  using assms by (auto simp: platform_ok_def)

text \<open>The proposal that stands for a ballot: the identity of \<open>p0\<close>, with nullifiers for voters.\<close>

definition concretize :: "'x env \<Rightarrow> account_id \<Rightarrow> proposal \<Rightarrow> bytes32 ballot \<Rightarrow> proposal" where
  "concretize E m p0 b = p0\<lparr>
     pr_vote_nullifiers := map (vote_nf E m (pr_index p0) (pr_action_hash p0)) (bl_yes b),
     pr_reject_nullifiers := map (reject_nf E m (pr_index p0) (pr_action_hash p0)) (bl_no b),
     pr_status := bl_status b\<rparr>"

lemma concretize_simps [simp]:
  "pr_index (concretize E m p b) = pr_index p"
  "pr_multisig_create_key (concretize E m p b) = pr_multisig_create_key p"
  "pr_action (concretize E m p b) = pr_action p"
  "pr_action_hash (concretize E m p b) = pr_action_hash p"
  "pr_vote_nullifiers (concretize E m p b) =
     map (vote_nf E m (pr_index p) (pr_action_hash p)) (bl_yes b)"
  "pr_reject_nullifiers (concretize E m p b) =
     map (reject_nf E m (pr_index p) (pr_action_hash p)) (bl_no b)"
  "pr_status (concretize E m p b) = bl_status b"
  by (simp_all add: concretize_def)

text \<open>The two accounts implement the ballot \<open>b\<close>, at some value of the proposal counter.\<close>

definition implements ::
  "'x env \<Rightarrow> multisig_state \<Rightarrow> proposal \<Rightarrow> 'x config \<Rightarrow> bytes32 ballot \<Rightarrow> bool" where
  "implements E s p = (\<lambda>(sa, pa) b.
     (\<exists>x. holds_state E sa (ms_create_key s) (s\<lparr>ms_transaction_index := x\<rparr>)) \<and>
     holds_proposal E pa (ms_create_key s) (pr_index p) (concretize E (am_account_id sa) p b))"

lemma implements_keys:
  assumes "implements E s p (sa, pa) b" and "holds_state E sa k t" and "holds_proposal E pa k i q"
  obtains x where "k = ms_create_key s" and "i = pr_index p"
    and "t = s\<lparr>ms_transaction_index := x\<rparr>" and "q = concretize E (am_account_id sa) p b"
  using assms by (auto simp: implements_def holds_state_def holds_proposal_def)

lemma implements_not_default:
  assumes "implements E s p (sa, pa) b" and "platform_ok E"
  shows "am_account pa \<noteq> account_default E"
  using assms by (auto simp: implements_def holds_proposal_def platform_ok_def)

lemma same_cast_concretize:
  "same_proposal q (concretize E m p b) \<Longrightarrow> same_proposal q (concretize E m p c)"
  by (simp add: same_proposal_def)

lemma approve_update_concretize:
  assumes "inj_on (reject_nf E m (pr_index p) (pr_action_hash p)) (insert v (set (bl_no b)))"
  shows "approve_update E m (pr_index p) (pr_action_hash p) v (concretize E m p b) =
    concretize E m p (ballot_step n t b (Yes v))"
  using approve_side.cast_voters [of "concretize E m p b" E m "pr_index p" "pr_action_hash p" "bl_yes b" "bl_no b" v]
    assms
  by (intro proposal_eqI same_cast_concretize [OF approve_side.cast_same])
    (simp_all add: approve_side.cast_status)

lemma reject_update_concretize:
  assumes "inj_on (vote_nf E m (pr_index p) (pr_action_hash p)) (insert v (set (bl_yes b)))"
  shows "close_if (n - t < Suc (length (bl_no b)))
      (reject_update E m (pr_index p) (pr_action_hash p) v (concretize E m p b)) =
    concretize E m p (ballot_step n t b (No v))"
  using reject_side.cast_voters [of "concretize E m p b" E m "pr_index p" "pr_action_hash p" "bl_no b" "bl_yes b" v]
    reject_side.cast_same [of E m "pr_index p" "pr_action_hash p" v "concretize E m p b"] assms
  by (intro proposal_eqI) (simp_all add: same_proposal_def reject_side.cast_status)

text \<open>An accepted vote comes with one more account, an authorised one that opens a commitment.\<close>

lemma vote_opens:
  assumes I: "implements E s p (sa, pa) b"
    and ok: "approve_handle E (sa # pa # rest) k i v = Inr (posts, calls) \<or>
      reject_handle E (sa # pa # rest) k i v = Inr (posts, calls)"
  obtains ma where "rest = [ma]" and "am_is_authorized ma"
    and "member_cm E v (am_account_id ma) \<in> set (ms_member_cms s)" and "calls = []"
proof -
  from ok obtain ma s' p' where r: "vote_ready E k i v sa pa ma s' p'" and "rest = [ma]" "calls = []"
    by (auto elim: approve_handle_InrE reject_handle_InrE)
  moreover have "ms_member_cms s' = ms_member_cms s"
    using I r by (auto simp: vote_ready_def implements_def holds_state_def)
  ultimately show ?thesis using that by (simp add: vote_ready_def)
qed

text \<open>One accepted vote on the implementing accounts is an admitted vote of the ballot.\<close>

lemma approve_implements:
  assumes E: "platform_ok E" and I: "implements E s p (sa, pa) b"
    and ok: "approve_handle E (sa # pa # rest) k i v = Inr (posts, calls)"
    and inj: "inj_on (reject_nf E (am_account_id sa) (pr_index p) (pr_action_hash p))
      (insert v (set (bl_no b)))"
  shows "admits t b (Yes v) \<and>
    implements E s p (with_post sa (posts ! 0), with_post pa (posts ! 1)) (ballot_step n t b (Yes v))"
proof -
  obtain ma where rest: "rest = [ma]" using vote_opens [OF I disjI1 [OF ok]] .
  from ok have ok': "approve_handle E [sa, pa, ma] k i v = Inr (posts, calls)" by (simp add: rest)
  show ?thesis
  proof (rule approve_next [OF platform_ok_borsh [OF E] ok'])
    fix s' :: multisig_state and p' :: proposal
    assume r: "vote_ready E k i v sa pa ma s' p'"
      and new: "vote_nf E (am_account_id sa) i (pr_action_hash p') v \<notin> set (pr_vote_nullifiers p')"
      and next_p: "holds_proposal E (with_post pa (posts ! 1)) k i
           (approve_update E (am_account_id sa) i (pr_action_hash p') v p')"
      and same: "ps_account (posts ! 0) = am_account sa"
    obtain x where eqs: "k = ms_create_key s" "i = pr_index p" "s' = s\<lparr>ms_transaction_index := x\<rparr>"
        "p' = concretize E (am_account_id sa) p b"
      using implements_keys [OF I, of k s' i p'] r unfolding vote_ready_def by blast
    have "v \<notin> set (bl_yes b)" by (rule approve_side.new_voter [OF _ new]) (simp add: eqs)
    then show ?thesis
      using r next_p same
      by (auto simp: eqs vote_ready_def implements_def holds_state_def
          approve_update_concretize [OF inj, of n t])
  qed
qed

lemma reject_implements:
  assumes E: "platform_ok E" and I: "implements E s p (sa, pa) b"
    and ok: "reject_handle E (sa # pa # rest) k i v = Inr (posts, calls)"
    and inj: "inj_on (vote_nf E (am_account_id sa) (pr_index p) (pr_action_hash p))
      (insert v (set (bl_yes b)))"
    and room: "v \<notin> set (bl_no b) \<Longrightarrow> Suc (length (bl_no b)) \<le> member_count s"
    and wf: "wf_state s"
  shows "admits t b (No v) \<and>
    implements E s p (with_post sa (posts ! 0), with_post pa (posts ! 1))
      (ballot_step (member_count s) (unat (ms_threshold s)) b (No v))"
proof -
  obtain ma where rest: "rest = [ma]" using vote_opens [OF I disjI2 [OF ok]] .
  from ok have ok': "reject_handle E [sa, pa, ma] k i v = Inr (posts, calls)" by (simp add: rest)
  show ?thesis
  proof (rule reject_next [OF platform_ok_borsh [OF E] ok'])
    fix s' :: multisig_state and p' :: proposal and dead
    assume r: "vote_ready E k i v sa pa ma s' p'"
      and new: "reject_nf E (am_account_id sa) i (pr_action_hash p') v \<notin> set (pr_reject_nullifiers p')"
      and dead: "is_dead E (reject_update E (am_account_id sa) i (pr_action_hash p') v p')
          (ms_threshold s') (member_count s') = Inr dead"
      and next_p: "holds_proposal E (with_post pa (posts ! 1)) k i
           (close_if dead (reject_update E (am_account_id sa) i (pr_action_hash p') v p'))"
      and same: "ps_account (posts ! 0) = am_account sa"
    obtain x where eqs: "k = ms_create_key s" "i = pr_index p" "s' = s\<lparr>ms_transaction_index := x\<rparr>"
        "p' = concretize E (am_account_id sa) p b"
      using implements_keys [OF I, of k s' i p'] r unfolding vote_ready_def by blast
    have v: "v \<notin> set (bl_no b)" by (rule reject_side.new_voter [OF _ new]) (simp add: eqs)
    have "dead \<longleftrightarrow> member_count s - unat (ms_threshold s) < Suc (length (bl_no b))"
      using dead room [OF v] wf
      by (auto simp: eqs is_dead_no_borrow reject_update_def member_count_def wf_state_def)
    then show ?thesis
      using r next_p same v
      by (auto simp: eqs vote_ready_def implements_def holds_state_def
          reject_update_concretize [OF inj, symmetric] simp del: ballot_step.simps)
  qed
qed

lemma execute_implements:
  assumes E: "platform_ok E" and I: "implements E s p (sa, pa) b"
    and ok: "execute_handle E (sa # pa # rest) k i = Inr (posts, calls)"
  shows "admits (unat (ms_threshold s)) b Exec \<and>
    implements E s p (with_post sa (posts ! 0), with_post pa (posts ! 1)) (ballot_step n t b Exec) \<and>
    length rest = unat (pa_target_account_count (pr_action p)) \<and> calls = [call_of (pr_action p) rest]"
  using ok
proof (cases rule: execute_handle_InrE)
  case (1 sa' pa' targets s' p' bs)
  then have acc: "sa' = sa" "pa' = pa" "targets = rest" by simp_all
  obtain x where eqs: "k = ms_create_key s" "i = pr_index p" "s' = s\<lparr>ms_transaction_index := x\<rparr>"
      "p' = concretize E (am_account_id sa) p b"
    using implements_keys [OF I, of k s' i p'] 1(2) unfolding executable_def acc by blast
  have dec: "from_slice_proposal E bs = Some (p'\<lparr>pr_status := Executed\<rparr>)"
    using borsh_okD(2) [OF platform_ok_borsh [OF E] 1(4)] .
  then show ?thesis
    using 1 by (auto simp: acc eqs executable_def implements_def holds_state_def holds_proposal_def
        concretize_def)
qed

lemma on_state_implements:
  assumes E: "platform_ok E" and I: "implements E s p (sa, pa) b"
    and ok: "propose_handle E [sa, qa] k j a = Inr (posts, calls)"
  shows "implements E s p (with_post sa (posts ! 0), pa) b"
  using ok
proof (cases rule: propose_handle_InrE)
  case (1 sa' qa' s' h sb pb)
  then have "sa' = sa" by simp
  with 1 I obtain x where "s' = s\<lparr>ms_transaction_index := x\<rparr>"
    by (auto simp: implements_def holds_state_def)
  moreover have "from_slice_state E sb = Some (s'\<lparr>ms_transaction_index := j\<rparr>)"
    using borsh_okD(1) [OF platform_ok_borsh [OF E] 1(7)] .
  ultimately show ?thesis
    using 1 I by (auto simp: implements_def holds_state_def)
qed

section \<open>Every run implements its ballot\<close>

definition opened :: "'x env \<Rightarrow> multisig_state \<Rightarrow> (bytes32 \<times> account_id) list \<Rightarrow> bool" where
  "opened E s vs \<longleftrightarrow> list_all (\<lambda>(salt, a). member_cm E salt a \<in> set (ms_member_cms s)) vs"

lemma opened_append [simp]: "opened E s (vs @ ws) \<longleftrightarrow> opened E s vs \<and> opened E s ws"
  by (simp add: opened_def)

text \<open>The ballot of a run: N seats and threshold M from the state, and the run's votes.\<close>

definition ballot_of :: "multisig_state \<Rightarrow> bytes32 event list \<Rightarrow> bytes32 ballot" where
  "ballot_of s es = ballot_run (member_count s) (unat (ms_threshold s)) ballot_new es"

definition valid_events :: "multisig_state \<Rightarrow> bytes32 event list \<Rightarrow> bool" where
  "valid_events s es \<longleftrightarrow> admitted (member_count s) (unat (ms_threshold s)) ballot_new es"

text \<open>Distinct voters who opened commitments of the state are at most as many as its members.\<close>

lemma card_voters_le:
  assumes "collision_free E (hashed m i h vs)" and "opened E s vs" and "X \<subseteq> fst ` set vs"
  shows "card X \<le> member_count s"
proof -
  have "commitments_of E vs X \<subseteq> set (ms_member_cms s)"
    using assms(2) by (auto simp: commitments_of_def opened_def list_all_iff)
  then have "card (commitments_of E vs X) \<le> card (set (ms_member_cms s))"
    by (rule card_mono [OF finite_set])
  then show ?thesis
    using card_commitments_of [OF assms(1,3)] card_length [of "ms_member_cms s"]
    by (simp add: member_count_def)
qed

definition tracks ::
  "'x env \<Rightarrow> multisig_state \<Rightarrow> proposal \<Rightarrow> 'x config \<Rightarrow> (bytes32 \<times> account_id) list \<Rightarrow>
     bytes32 ballot \<Rightarrow> bool" where
  "tracks E s p c vs b \<longleftrightarrow> implements E s p c b \<and> opened E s vs \<and> tidy b \<and>
     set (bl_yes b) \<union> set (bl_no b) \<subseteq> fst ` set vs"

lemma ballot_run_Single [simp]: "ballot_run n m b [e] = ballot_step n m b e"
  and admitted_Single [simp]: "admitted n m b [e] \<longleftrightarrow> admits m b e"
  by simp_all

lemma tracks_approve:
  assumes E: "platform_ok E" and T: "tracks E s p (sa, pa) vs b"
    and ok: "approve_handle E (sa # pa # rest) k i v = Inr (posts, calls)"
    and free: "collision_free E (hashed (am_account_id sa) (pr_index p) (pr_action_hash p)
      (vs @ map (\<lambda>a. (v, am_account_id a)) rest))"
  shows "admits t b (Yes v) \<and> tracks E s p (with_post sa (posts ! 0), with_post pa (posts ! 1))
      (vs @ map (\<lambda>a. (v, am_account_id a)) rest) (ballot_step n t b (Yes v))"
proof -
  have I: "implements E s p (sa, pa) b" using T by (simp add: tracks_def)
  obtain ma where rest: "rest = [ma]" and mem: "member_cm E v (am_account_id ma) \<in> set (ms_member_cms s)"
    using vote_opens [OF I disjI1 [OF ok]] .
  have sub: "insert v (set (bl_no b)) \<subseteq> fst ` set (vs @ map (\<lambda>a. (v, am_account_id a)) rest)"
    using T by (auto simp: tracks_def rest)
  from approve_implements [OF E I ok inj_on_subset [OF collision_free_nf(2) [OF free] sub]]
  have "admits t b (Yes v)"
    and "implements E s p (with_post sa (posts ! 0), with_post pa (posts ! 1)) (ballot_step n t b (Yes v))"
    by blast+
  then show ?thesis
    using T mem tidy_step [of b t "Yes v" n] by (auto simp: tracks_def rest opened_def)
qed

lemma tracks_reject:
  assumes E: "platform_ok E" and wf: "wf_state s" and T: "tracks E s p (sa, pa) vs b"
    and ok: "reject_handle E (sa # pa # rest) k i v = Inr (posts, calls)"
    and free: "collision_free E (hashed (am_account_id sa) (pr_index p) (pr_action_hash p)
      (vs @ map (\<lambda>a. (v, am_account_id a)) rest))"
  shows "admits t b (No v) \<and> tracks E s p (with_post sa (posts ! 0), with_post pa (posts ! 1))
      (vs @ map (\<lambda>a. (v, am_account_id a)) rest)
      (ballot_step (member_count s) (unat (ms_threshold s)) b (No v))"
proof -
  let ?vs = "vs @ map (\<lambda>a. (v, am_account_id a)) rest"
  have I: "implements E s p (sa, pa) b" using T by (simp add: tracks_def)
  obtain ma where rest: "rest = [ma]" and mem: "member_cm E v (am_account_id ma) \<in> set (ms_member_cms s)"
    using vote_opens [OF I disjI2 [OF ok]] .
  have sub: "insert v (set (bl_yes b)) \<subseteq> fst ` set ?vs"
    and sub': "insert v (set (bl_no b)) \<subseteq> fst ` set ?vs"
    using T by (auto simp: tracks_def rest)
  have op: "opened E s ?vs" using T mem by (simp add: tracks_def opened_def rest)
  have "Suc (length (bl_no b)) \<le> member_count s" if "v \<notin> set (bl_no b)"
    using card_voters_le [OF free op sub'] T that distinct_card [of "bl_no b"]
    by (simp add: tracks_def tidy_def)
  from reject_implements [OF E I ok inj_on_subset [OF collision_free_nf(1) [OF free] sub] this wf]
  have "admits t b (No v)"
    and "implements E s p (with_post sa (posts ! 0), with_post pa (posts ! 1))
      (ballot_step (member_count s) (unat (ms_threshold s)) b (No v))"
    by blast+
  then show ?thesis
    using T op by (auto simp: tracks_def tidy_def rest)
qed

lemma tracks_execute:
  assumes E: "platform_ok E" and T: "tracks E s p (sa, pa) vs b"
    and ok: "execute_handle E (sa # pa # rest) k i = Inr (posts, calls)"
  shows "admits (unat (ms_threshold s)) b Exec \<and>
    tracks E s p (with_post sa (posts ! 0), with_post pa (posts ! 1)) vs (ballot_step n t b Exec)"
  using execute_implements [OF E _ ok, of s p b n t] T tidy_step [of b "unat (ms_threshold s)" Exec n]
  by (auto simp: tracks_def tidy_def)

text \<open>
  What the first two accounts hold excludes the instructions that need other accounts there.
\<close>

lemma no_creation:
  assumes E: "platform_ok E" and I: "implements E s p (sa, pa) b"
    and ok: "process E (sa # pa # rest) ins = Inr (posts, calls)"
  shows "is_vote ins \<or> (\<exists>k i. ins = Execute k i)"
  using ok implements_not_default [OF I E]
  by (cases ins) (auto simp: Let_def elim!: create_multisig_handle_InrE propose_handle_InrE
      init_vault_handle_InrE)

lemma tracks_step:
  assumes E: "platform_ok E" and wf: "wf_state s" and T: "tracks E s p c vs b"
    and st: "step E c l d"
    and free: "collision_free E (hashed (am_account_id (fst c)) (pr_index p) (pr_action_hash p)
      (vs @ voters_of l))"
  shows "am_account_id (fst d) = am_account_id (fst c) \<and>
    admitted (member_count s) (unat (ms_threshold s)) b (events_of l) \<and>
    tracks E s p d (vs @ voters_of l)
      (ballot_run (member_count s) (unat (ms_threshold s)) b (events_of l))"
  using st
proof (cases rule: step.cases)
  case (on_proposal sa pa rest ins posts calls)
  have T': "tracks E s p (sa, pa) vs b" using T on_proposal by simp
  then have "is_vote ins \<or> (\<exists>k i. ins = Execute k i)"
    using no_creation [OF E _ on_proposal(4), of s p b] by (simp add: tracks_def)
  then show ?thesis
  proof (elim disjE exE)
    assume "is_vote ins"
    then consider k i v where "ins = Approve k i v" | k i v where "ins = Reject k i v"
      by (cases ins) auto
    then show ?thesis
    proof cases
      case 1
      then show ?thesis
        using tracks_approve [OF E T', of rest] on_proposal free by simp
    next
      case 2
      then show ?thesis
        using tracks_reject [OF E wf T', of rest] on_proposal free by simp
    qed
  next
    fix k i assume "ins = Execute k i"
    then show ?thesis using tracks_execute [OF E T', of rest] on_proposal by simp
  qed
next
  case (on_state sa qa k j tp ti tn seeds idxs posts calls pa)
  then show ?thesis
    using T on_state_implements [OF E, of s p sa pa b] by (auto simp: tracks_def Let_def)
qed

text \<open>The protocol invariant, by induction on the run.\<close>

lemma run_tracks:
  assumes E: "platform_ok E" and wf: "wf_state s" and r: "run E c tr d"
    and start: "implements E s p c ballot_new"
    and free: "collision_free E (hashed (am_account_id (fst c)) (pr_index p) (pr_action_hash p) (voters tr))"
  shows "am_account_id (fst d) = am_account_id (fst c) \<and> valid_events s (events tr) \<and>
    tracks E s p d (voters tr) (ballot_of s (events tr))"
  using r free
proof (induction rule: run.induct)
  case run_start
  then show ?case
    using start by (simp add: tracks_def opened_def valid_events_def ballot_of_def ballot_new_def tidy_def)
next
  case (run_step tr d l e)
  have free': "collision_free E (hashed (am_account_id (fst c)) (pr_index p) (pr_action_hash p) (voters tr))"
    using run_step.prems by (auto intro: collision_free_prefix)
  note IH = run_step.IH [OF free']
  then have "collision_free E (hashed (am_account_id (fst d)) (pr_index p) (pr_action_hash p)
      (voters tr @ voters_of l))"
    using run_step.prems by simp
  with tracks_step [OF E wf _ run_step.hyps(2), of p "voters tr" "ballot_of s (events tr)"] IH show ?case
    by (simp add: valid_events_def ballot_of_def)
qed

end
