(* ===== verification/Safety.thy ===== *)
theory Safety
  imports Protocol
begin

text \<open>
  What the protocol promises of a proposal, from the Propose that opens it: refinement of the
  abstract ballot, the threshold behind every execution, a single execution, the meaning of
  Rejected, the range of the counters, and success once the threshold is reached.
\<close>

section \<open>Opening\<close>

inductive proposed :: "'x env \<Rightarrow> multisig_state \<Rightarrow> proposal \<Rightarrow> 'x config \<Rightarrow> bool" for E s where
  propose: "process E [sa, pa] (Propose k i tp ti tn seeds idxs) = Inr (posts, calls) \<Longrightarrow>
    holds_state E sa k s \<Longrightarrow> wf_state s \<Longrightarrow>
    proposal_new E i k \<lparr>pa_target_program_id = tp, pa_target_instruction_data = ti,
      pa_target_account_count = tn, pa_pda_seeds = seeds, pa_authorized_indices = idxs\<rparr> = Inr p \<Longrightarrow>
    proposed E s p (with_post sa (posts ! 0), with_post pa (posts ! 1))"

lemma proposed_implements:
  assumes "platform_ok E" and "proposed E s p c"
  shows "wf_state s" and "implements E s p c ballot_new"
proof -
  show "wf_state s" using assms(2) by (auto elim: proposed.cases)
  from assms(2) show "implements E s p c ballot_new"
  proof cases
    case (propose sa pa k i tp ti tn seeds idxs posts calls)
    from propose(2) obtain s' h sb pb where
      "holds_state E sa k s'" "to_vec_state E (s'\<lparr>ms_transaction_index := i\<rparr>) = Some sb"
      "action_hash E \<lparr>pa_target_program_id = tp, pa_target_instruction_data = ti,
        pa_target_account_count = tn, pa_pda_seeds = seeds, pa_authorized_indices = idxs\<rparr> = Inr h"
      "to_vec_proposal E (fresh_proposal i k \<lparr>pa_target_program_id = tp,
        pa_target_instruction_data = ti, pa_target_account_count = tn, pa_pda_seeds = seeds,
        pa_authorized_indices = idxs\<rparr> h) = Some pb"
      "acc_data (ps_account (posts ! 0)) = sb" "acc_data (ps_account (posts ! 1)) = pb"
      by (auto simp: Let_def elim!: propose_handle_InrE)
    with propose(1,3,5) borsh_okD(1,2) [OF platform_ok_borsh [OF assms(1)]] show ?thesis
      by (auto simp: implements_def holds_state_def holds_proposal_def proposal_new_Inr
          fresh_proposal_def concretize_def ballot_new_def)
  qed
qed

text \<open>A run from an opened proposal, and what is assumed of the hash function on it.\<close>

definition sound_run :: "'x env \<Rightarrow> multisig_state \<Rightarrow> proposal \<Rightarrow> 'x config \<Rightarrow> 'x label list \<Rightarrow> bool" where
  "sound_run E s p c tr \<longleftrightarrow> platform_ok E \<and> proposed E s p c \<and>
     collision_free E (hashed (am_account_id (fst c)) (pr_index p) (pr_action_hash p) (voters tr))"

lemma sound_run_prefix: "sound_run E s p c (tr @ us) \<Longrightarrow> sound_run E s p c tr"
  by (auto simp: sound_run_def intro: collision_free_prefix)

lemma sound_run_tracks:
  assumes "sound_run E s p c tr" and "run E c tr d"
  shows "am_account_id (fst d) = am_account_id (fst c)" and "valid_events s (events tr)"
    and "tracks E s p d (voters tr) (ballot_of s (events tr))" and "wf_state s" and "platform_ok E"
proof -
  have E: "platform_ok E" and g: "proposed E s p c"
    and free: "collision_free E (hashed (am_account_id (fst c)) (pr_index p) (pr_action_hash p) (voters tr))"
    using assms(1) by (auto simp: sound_run_def)
  note start = proposed_implements [OF E g]
  show "am_account_id (fst d) = am_account_id (fst c)" and "valid_events s (events tr)"
    and "tracks E s p d (voters tr) (ballot_of s (events tr))"
    using run_tracks [OF E start(1) assms(2) start(2) free] by auto
  show "wf_state s" and "platform_ok E" by (fact start(1), fact E)
qed

section \<open>Refinement\<close>

text \<open>
  C2: the two accounts implement the abstract ballot.  After any run of successful executions,
  the votes of the run are admitted by the ballot one by one; the proposal account holds the
  opened proposal with exactly the nullifiers of the ballot's voters, in their order, and its
  status; and the state account holds the same members and threshold.
\<close>

theorem run_refines_ballot:
  assumes "sound_run E s p c tr" and "run E c tr (sa, pa)"
  shows "valid_events s (events tr) \<and>
    from_slice_proposal E (acc_data (am_account pa)) =
      Some (concretize E (am_account_id sa) p (ballot_of s (events tr))) \<and>
    (\<exists>x. from_slice_state E (acc_data (am_account sa)) = Some (s\<lparr>ms_transaction_index := x\<rparr>))"
  using sound_run_tracks [OF assms]
  by (auto simp: tracks_def implements_def holds_state_def holds_proposal_def)

section \<open>Who stands where\<close>

definition standing :: "bool \<Rightarrow> bytes32 event list \<Rightarrow> bytes32 set" where
  "standing side es = {v. last_word v es None = Some side}"

lemma standing_ballot:
  assumes "valid_events s es"
  shows "standing True es = set (bl_yes (ballot_of s es))"
    and "standing False es = set (bl_no (ballot_of s es))"
  using in_yes_iff [OF assms [unfolded valid_events_def]] by (auto simp: standing_def ballot_of_def)

lemma tidy_ballot_of: "valid_events s es \<Longrightarrow> tidy (ballot_of s es)"
  unfolding valid_events_def ballot_of_def by (rule tidy_run) simp_all

lemma card_standing:
  assumes "valid_events s es"
  shows "card (standing True es) = length (bl_yes (ballot_of s es))"
    and "card (standing False es) = length (bl_no (ballot_of s es))"
  using tidy_ballot_of [OF assms] by (auto simp: standing_ballot [OF assms] tidy_def distinct_card)

section \<open>Safety\<close>

lemma run_split:
  assumes "run E c (us @ l # ws) d"
  obtains e f where "run E c us e" and "step E e l f"
proof -
  have "run E c ((us @ [l]) @ ws) d" using assms by simp
  then obtain f where "run E c (us @ [l]) f" by (rule run_appendE)
  then show ?thesis using that by (elim run_snocE)
qed

lemma sound_run_split:
  assumes "sound_run E s p c (us @ l # ws)" and "run E c (us @ l # ws) d"
  obtains e f where "sound_run E s p c us" and "run E c us e" and "step E e l f"
  using assms sound_run_prefix by (metis run_split)

text \<open>
  C1: an execution has M members behind it.  Whenever a run contains an Execute, then at that
  point at least M different salts stand for the proposal, each with an approval as its last
  word, and they opened at least M different commitments, all in the member list; and the call
  that is emitted is the one stored when the proposal was made, with the accounts passed in as
  its targets.
\<close>

theorem execution_needs_threshold:
  assumes "sound_run E s p c (us @ OnProposal (Execute k i) rest calls # ws)"
    and "run E c (us @ OnProposal (Execute k i) rest calls # ws) d"
  shows "unat (ms_threshold s) \<le> card (standing True (events us)) \<and>
    unat (ms_threshold s) \<le> card (commitments_of E (voters us) (standing True (events us))) \<and>
    commitments_of E (voters us) (standing True (events us)) \<subseteq> set (ms_member_cms s) \<and>
    calls = [call_of (pr_action p) rest] \<and>
    length rest = unat (pa_target_account_count (pr_action p))"
proof -
  obtain e f where us: "sound_run E s p c us" "run E c us e"
    and st: "step E e (OnProposal (Execute k i) rest calls) f"
    using sound_run_split [OF assms] .
  obtain sa pa where e: "e = (sa, pa)" by (cases e)
  note T = sound_run_tracks [OF us]
  have I: "implements E s p (sa, pa) (ballot_of s (events us))" using T(3) e by (simp add: tracks_def)
  from st obtain posts where ok: "execute_handle E (sa # pa # rest) k i = Inr (posts, calls)"
    unfolding e by (auto elim: step_on_proposalE)
  note X = execute_implements [OF T(5) I ok]
  have m: "unat (ms_threshold s) \<le> card (standing True (events us))"
    using X by (simp add: card_standing [OF T(2)])
  have "standing True (events us) \<subseteq> fst ` set (voters us)"
    using T(3) by (auto simp: tracks_def standing_ballot [OF T(2)])
  with us(1) have "card (standing True (events us)) \<le>
      card (commitments_of E (voters us) (standing True (events us)))"
    by (auto simp: sound_run_def intro: card_commitments_of)
  moreover have "commitments_of E (voters us) (standing True (events us)) \<subseteq> set (ms_member_cms s)"
    using T(3) by (auto simp: tracks_def opened_def list_all_iff commitments_of_def)
  ultimately show ?thesis using m X by auto
qed

text \<open>
  C3: a proposal executes at most once and is closed by it.  In any run an Execute is preceded
  by no other Execute and followed by no vote and no Execute.
\<close>

theorem single_execution:
  assumes "sound_run E s p c (us @ OnProposal (Execute k i) rest calls # ws)"
    and "run E c (us @ OnProposal (Execute k i) rest calls # ws) d"
  shows "Exec \<notin> set (events us) \<and> events ws = []"
proof -
  have "valid_events s (events us @ Exec # events ws)"
    using sound_run_tracks(2) [OF assms] by (simp add: events_def)
  then show ?thesis
    using exec_is_last unfolding valid_events_def by blast
qed

text \<open>
  C6: Rejected means lost.  After any run in which the proposal is not executed, it is Rejected
  exactly when more than N - M voters stand against it, so that fewer than M of the N members
  are left; otherwise it is still Active.
\<close>

theorem rejected_iff_lost:
  assumes "sound_run E s p c tr" and "run E c tr (sa, pa)" and "Exec \<notin> set (events tr)"
    and "holds_proposal E pa k i q"
  shows "(pr_status q = Rejected \<longleftrightarrow>
      member_count s - unat (ms_threshold s) < card (standing False (events tr))) \<and>
    pr_status q \<noteq> Executed"
proof -
  note T = sound_run_tracks [OF assms(1,2)]
  have "counted (member_count s) (unat (ms_threshold s)) (ballot_of s (events tr))"
    using T(2) assms(3) unfolding valid_events_def ballot_of_def by (intro counted_run) simp_all
  moreover have "q = concretize E (am_account_id sa) p (ballot_of s (events tr))"
    using T(3) assms(4) by (simp add: tracks_def implements_def holds_proposal_def)
  ultimately show ?thesis by (simp add: counted_def card_standing [OF T(2)])
qed

text \<open>
  C10: the counters stay in range.  After any run at most N nullifiers are recorded in all,
  approvals and rejections together, and none of them twice.
\<close>

theorem nullifiers_bounded:
  assumes "sound_run E s p c tr" and "run E c tr (sa, pa)" and "holds_proposal E pa k i q"
  shows "length (pr_vote_nullifiers q) + length (pr_reject_nullifiers q) \<le> member_count s \<and>
    distinct (pr_vote_nullifiers q) \<and> distinct (pr_reject_nullifiers q)"
proof -
  note T = sound_run_tracks [OF assms(1,2)]
  let ?b = "ballot_of s (events tr)"
  let ?free = "collision_free E (hashed (am_account_id sa) (pr_index p) (pr_action_hash p) (voters tr))"
  have q: "q = concretize E (am_account_id sa) p ?b"
    using T(3) assms(3) by (simp add: tracks_def implements_def holds_proposal_def)
  have free: ?free using assms(1) T(1) by (simp add: sound_run_def)
  have sub: "set (bl_yes ?b @ bl_no ?b) \<subseteq> fst ` set (voters tr)" and op: "opened E s (voters tr)"
    and d: "distinct (bl_yes ?b @ bl_no ?b)"
    using T(3) by (auto simp: tracks_def tidy_def)
  have "length (bl_yes ?b @ bl_no ?b) \<le> member_count s"
    using card_voters_le [OF free op sub] distinct_card [OF d] by simp
  moreover have "inj_on (vote_nf E (am_account_id sa) (pr_index p) (pr_action_hash p)) (set (bl_yes ?b))"
    and "inj_on (reject_nf E (am_account_id sa) (pr_index p) (pr_action_hash p)) (set (bl_no ?b))"
    using collision_free_nf [OF free] sub by (auto intro: inj_on_subset)
  ultimately show ?thesis using d by (simp add: q distinct_map)
qed

text \<open>
  Whoever may reject after a run finds a rejection still open: each recorded rejection stands
  for a member of its own, and the new voter is none of them.
\<close>

lemma rejection_left:
  assumes "sound_run E s p c tr" and "run E c tr (sa, pa)"
    and free: "collision_free E (hashed (am_account_id sa) (pr_index p) (pr_action_hash p)
      (voters tr @ [(salt, am_account_id ma)]))"
    and r: "vote_ready E k i salt sa pa ma s' p'"
    and new: "reject_nf E (am_account_id sa) i (pr_action_hash p') salt \<notin> set (pr_reject_nullifiers p')"
  shows "length (pr_reject_nullifiers p') < member_count s'"
proof -
  note T = sound_run_tracks [OF assms(1,2)]
  let ?b = "ballot_of s (events tr)" and ?vs = "voters tr @ [(salt, am_account_id ma)]"
  have "implements E s p (sa, pa) ?b" using T(3) by (simp add: tracks_def)
  with r obtain x where eqs: "i = pr_index p" "s' = s\<lparr>ms_transaction_index := x\<rparr>"
      "p' = concretize E (am_account_id sa) p ?b"
    by (auto simp: vote_ready_def implements_def holds_state_def holds_proposal_def)
  have op: "opened E s ?vs"
    using T(3) r eqs by (simp add: tracks_def opened_def vote_ready_def)
  have sub: "set (salt # bl_no ?b) \<subseteq> fst ` set ?vs" using T(3) by (auto simp: tracks_def)
  have "distinct (salt # bl_no ?b)" using T(3) new eqs by (auto simp: tracks_def tidy_def)
  from card_voters_le [OF free op sub] distinct_card [OF this] show ?thesis
    by (simp add: eqs member_count_def)
qed

text \<open>
  C9: the subtraction in \<open>is_dead\<close> never underflows on a proposal that was opened and voted on
  through the program.  A further Reject, by whichever account and salt, never ends in an
  overflow panic; and one that passes the checks, in a build with or without overflow checks,
  counts at most N rejections with its own and closes the proposal exactly when N minus that
  count, as an integer, is below M: nothing wraps.
\<close>

theorem reject_never_underflows:
  assumes "sound_run E s p c tr" and "run E c tr (sa, pa)"
    and "collision_free E (hashed (am_account_id sa) (pr_index p) (pr_action_hash p)
      (voters tr @ [(salt, am_account_id ma)]))"
  shows "reject_handle E [sa, pa, ma] k i salt \<noteq> Inl Overflow \<and>
    (\<forall>s' q. vote_ready E k i salt sa pa ma s' q \<and>
        reject_nf E (am_account_id sa) i (pr_action_hash q) salt \<notin> set (pr_reject_nullifiers q) \<longrightarrow>
      (let q' = reject_update E (am_account_id sa) i (pr_action_hash q) salt q;
           left = int (member_count s') - int (length (pr_reject_nullifiers q')) in
       0 \<le> left \<and>
       reject_handle E [sa, pa, ma] k i salt =
         finalize_vote E sa pa ma s' (close_if (left < int (unat (ms_threshold s'))) q')))"
proof (intro conjI allI impI)
  show "reject_handle E [sa, pa, ma] k i salt \<noteq> Inl Overflow"
    using rejection_left [OF assms] by (metis reject_overflow not_less_eq)
next
  fix s' :: multisig_state and q :: proposal
  assume a: "vote_ready E k i salt sa pa ma s' q \<and>
    reject_nf E (am_account_id sa) i (pr_action_hash q) salt \<notin> set (pr_reject_nullifiers q)"
  then have r: "vote_ready E k i salt sa pa ma s' q" by blast
  let ?q = "reject_update E (am_account_id sa) i (pr_action_hash q) salt q"
  have diff: "n - l < t \<longleftrightarrow> int n - int l < int t" if "l \<le> n" for n l t :: nat
    using that by linarith
  have "length (pr_reject_nullifiers ?q) \<le> member_count s'"
    using rejection_left [OF assms r] a by (simp add: reject_update_def)
  moreover from this have "is_dead E ?q (ms_threshold s') (member_count s') =
      Inr (int (member_count s') - int (length (pr_reject_nullifiers ?q)) < int (unat (ms_threshold s')))"
    by (simp only: is_dead_no_borrow diff)
  ultimately show "let q' = ?q; left = int (member_count s') - int (length (pr_reject_nullifiers q')) in
      0 \<le> left \<and> reject_handle E [sa, pa, ma] k i salt =
        finalize_vote E sa pa ma s' (close_if (left < int (unat (ms_threshold s'))) q')"
    using a by (simp add: reject_handle_ready [OF r])
qed

end
