(* ===== verification/Liveness.thy ===== *)
theory Liveness
  imports Safety
begin

text \<open>
  Success: M members with distinct salts can always carry a fresh proposal to execution, as
  long as the proposal account has room for their nullifiers.
\<close>

text \<open>Approvals one after the other, each on the accounts the previous one left.\<close>

fun approve_all ::
  "'x env \<Rightarrow> bytes32 \<Rightarrow> u64 \<Rightarrow> 'x config \<Rightarrow> (bytes32 \<times> 'x account_with_metadata) list \<Rightarrow>
     panic + 'x config" where
  "approve_all E k i c [] = Inr c"
| "approve_all E k i (sa, pa) ((salt, ma) # ms) =
     bind (process E [sa, pa, ma] (Approve k i salt)) (\<lambda>(posts, calls).
       approve_all E k i (with_post sa (posts ! 0), with_post pa (posts ! 1)) ms)"

text \<open>The proposal account has room for \<open>n\<close> approvals.\<close>

definition room_for :: "'x env \<Rightarrow> proposal \<Rightarrow> nat \<Rightarrow> bool" where
  "room_for E p n \<longleftrightarrow> (\<forall>ys st. length ys \<le> n \<longrightarrow>
     (\<exists>b. to_vec_proposal E (p\<lparr>pr_vote_nullifiers := ys, pr_status := st\<rparr>) = Some b \<and> data_fits E b))"

lemma room_for_concretize:
  assumes "room_for E p n" and "pr_reject_nullifiers p = []" and "bl_no b = []"
    and "length (bl_yes b) \<le> n"
  obtains bs where "to_vec_proposal E (concretize E m p b) = Some bs" and "data_fits E bs"
proof -
  have "concretize E m p b = p\<lparr>pr_vote_nullifiers := pr_vote_nullifiers (concretize E m p b),
      pr_status := bl_status b\<rparr>"
    using assms(2,3) by (simp add: concretize_def)
  moreover have "length (pr_vote_nullifiers (concretize E m p b)) \<le> n" using assms(4) by simp
  ultimately show ?thesis using assms(1) that unfolding room_for_def by metis
qed

lemma approve_succeeds:
  assumes E: "platform_ok E" and I: "implements E s p (sa, pa) b" and act: "bl_status b = Active"
    and none: "bl_no b = []" "pr_reject_nullifiers p = []"
    and ma: "am_is_authorized ma" "member_cm E v (am_account_id ma) \<in> set (ms_member_cms s)"
    and new: "v \<notin> set (bl_yes b)"
    and inj: "inj_on (vote_nf E (am_account_id sa) (pr_index p) (pr_action_hash p)) (insert v (set (bl_yes b)))"
    and room: "room_for E p n" "length (bl_yes b) < n"
  shows "\<exists>posts. process E [sa, pa, ma] (Approve (ms_create_key s) (pr_index p) v) = Inr (posts, []) \<and>
    implements E s p (with_post sa (posts ! 0), with_post pa (posts ! 1)) (ballot_step k t b (Yes v))"
proof -
  let ?q = "concretize E (am_account_id sa) p b" and ?b = "ballot_step k t b (Yes v)"
  from I obtain x where r: "vote_ready E (ms_create_key s) (pr_index p) v sa pa ma
      (s\<lparr>ms_transaction_index := x\<rparr>) ?q"
    using ma act by (auto simp: implements_def vote_ready_def)
  have "vote_nf E (am_account_id sa) (pr_index p) (pr_action_hash p) v \<notin> set (pr_vote_nullifiers ?q)"
    using inj new by (auto simp: inj_on_def)
  moreover have upd: "approve_update E (am_account_id sa) (pr_index p) (pr_action_hash p) v ?q =
      concretize E (am_account_id sa) p ?b"
    using none by (intro approve_update_concretize) simp
  moreover obtain bs where "to_vec_proposal E (concretize E (am_account_id sa) p ?b) = Some bs"
    and "data_fits E bs"
    using room none by (elim room_for_concretize [where b = ?b]) simp_all
  ultimately have ok: "approve_handle E [sa, pa, ma] (ms_create_key s) (pr_index p) v =
      Inr ([post_new (am_account sa), post_new ((am_account pa)\<lparr>acc_data := bs\<rparr>),
        post_new (am_account ma)], [])"
    by (simp add: approve_handle_ready [OF r] finalize_vote_Inr)
  have "inj_on (reject_nf E (am_account_id sa) (pr_index p) (pr_action_hash p)) (insert v (set (bl_no b)))"
    using none by simp
  from approve_implements [OF E I ok this] ok show ?thesis by auto
qed

lemma approve_all_succeeds:
  assumes E: "platform_ok E" and none: "pr_reject_nullifiers p = []"
    and ms: "list_all (\<lambda>(v, ma). am_is_authorized ma \<and>
      member_cm E v (am_account_id ma) \<in> set (ms_member_cms s)) ms"
  shows "implements E s p (sa, pa) b \<Longrightarrow> bl_status b = Active \<Longrightarrow> bl_no b = [] \<Longrightarrow>
    distinct (bl_yes b @ map fst ms) \<Longrightarrow>
    inj_on (vote_nf E (am_account_id sa) (pr_index p) (pr_action_hash p)) (set (bl_yes b @ map fst ms)) \<Longrightarrow>
    room_for E p (length (bl_yes b) + length ms) \<Longrightarrow>
    \<exists>sa' pa'. approve_all E (ms_create_key s) (pr_index p) (sa, pa) ms = Inr (sa', pa') \<and>
      am_account_id sa' = am_account_id sa \<and>
      implements E s p (sa', pa') (b\<lparr>bl_yes := bl_yes b @ map fst ms\<rparr>)"
  using ms
proof (induction ms arbitrary: sa pa b)
  case Nil
  then show ?case by simp
next
  case (Cons m ms)
  obtain v ma where m: "m = (v, ma)" by (cases m)
  have ins: "inj_on (vote_nf E (am_account_id sa) (pr_index p) (pr_action_hash p)) (insert v (set (bl_yes b)))"
    using Cons.prems(5) m by (auto intro: inj_on_subset)
  from approve_succeeds [OF E Cons.prems(1,2,3) none _ _ _ ins Cons.prems(6), of ma 0 0] Cons.prems m
  obtain posts where ok: "process E [sa, pa, ma] (Approve (ms_create_key s) (pr_index p) v) = Inr (posts, [])"
    and I: "implements E s p (with_post sa (posts ! 0), with_post pa (posts ! 1))
      (ballot_step 0 0 b (Yes v))"
    by auto
  let ?b = "b\<lparr>bl_yes := push (bl_yes b) v\<rparr>"
  have step: "ballot_step 0 0 b (Yes v) = ?b" using Cons.prems(3) by (cases b) simp
  have "\<exists>sa' pa'. approve_all E (ms_create_key s) (pr_index p)
        (with_post sa (posts ! 0), with_post pa (posts ! 1)) ms = Inr (sa', pa') \<and>
      am_account_id sa' = am_account_id (with_post sa (posts ! 0)) \<and>
      implements E s p (sa', pa') (?b\<lparr>bl_yes := bl_yes ?b @ map fst ms\<rparr>)"
    using I [unfolded step] Cons.prems m by (intro Cons.IH) (simp_all add: push_def)
  then show ?case using ok by (simp add: m push_def)
qed

text \<open>Such a sequence of approvals is a run of the protocol.\<close>

definition approvals ::
  "bytes32 \<Rightarrow> u64 \<Rightarrow> (bytes32 \<times> 'x account_with_metadata) list \<Rightarrow> 'x label list" where
  "approvals k i ms = map (\<lambda>(v, ma). OnProposal (Approve k i v) [ma] []) ms"

lemma approvals_simps [simp]:
  "events (approvals k i ms) = map (\<lambda>m. Yes (fst m)) ms"
  "voters (approvals k i ms) = map (\<lambda>(v, ma). (v, am_account_id ma)) ms"
  by (induction ms) (auto simp: approvals_def events_def voters_def)

lemma approve_all_run:
  "approve_all E k i c ms = Inr d \<Longrightarrow> run E c (approvals k i ms) d"
proof (induction E k i c ms rule: approve_all.induct)
  case (1 E k i c)
  then show ?case by (simp add: approvals_def)
next
  case (2 E k i sa pa v ma ms)
  then obtain posts calls where ok: "process E [sa, pa, ma] (Approve k i v) = Inr (posts, calls)"
    and rest: "approve_all E k i (with_post sa (posts ! 0), with_post pa (posts ! 1)) ms = Inr d"
    by auto
  have "calls = []" using ok by (auto elim: approve_handle_InrE)
  with on_proposal [OF ok] have "step E (sa, pa) (OnProposal (Approve k i v) [ma] [])
      (with_post sa (posts ! 0), with_post pa (posts ! 1))"
    by simp
  then have "run E (sa, pa) [OnProposal (Approve k i v) [ma] []]
      (with_post sa (posts ! 0), with_post pa (posts ! 1))"
    using run_step [OF run_start] by fastforce
  from run_append [OF "2.IH" [OF rest] this] show ?case by (simp add: approvals_def)
qed

text \<open>
  M members can always execute.  Take a freshly opened proposal, M openings with distinct salts
  of commitments in the member list, each with its account authorised, no collision among the
  strings hashed for them, and room for M nullifiers.  Then all M approvals are accepted one
  after the other, and the Execute that follows emits the stored call.
\<close>

lemma members_can_execute:
  assumes E: "platform_ok E" and c: "proposed E s p (sa, pa)"
    and ms: "list_all (\<lambda>(v, ma). am_is_authorized ma \<and>
      member_cm E v (am_account_id ma) \<in> set (ms_member_cms s)) ms"
    and m: "length ms = unat (ms_threshold s)" "distinct (map fst ms)"
    and free: "collision_free E (hashed (am_account_id sa) (pr_index p) (pr_action_hash p)
      (map (\<lambda>(v, ma). (v, am_account_id ma)) ms))"
    and room: "room_for E p (length ms)"
    and ts: "length ts = unat (pa_target_account_count (pr_action p))"
  shows "\<exists>sa' pa' posts.
    approve_all E (ms_create_key s) (pr_index p) (sa, pa) ms = Inr (sa', pa') \<and>
    process E (sa' # pa' # ts) (Execute (ms_create_key s) (pr_index p)) =
      Inr (posts, [call_of (pr_action p) ts])"
proof -
  from c have none: "pr_reject_nullifiers p = []"
    by (auto simp: proposal_new_Inr elim!: proposed.cases)
  have "inj_on (vote_nf E (am_account_id sa) (pr_index p) (pr_action_hash p)) (fst ` set ms)"
    using collision_free_nf(1) [OF free] by (auto simp: image_image case_prod_beta)
  with approve_all_succeeds [OF E none ms proposed_implements(2) [OF E c]] m(2) room
  obtain sa' pa' where run: "approve_all E (ms_create_key s) (pr_index p) (sa, pa) ms = Inr (sa', pa')"
    and I: "implements E s p (sa', pa') (ballot_new\<lparr>bl_yes := map fst ms\<rparr>)"
    by (auto simp: ballot_new_def)
  let ?b = "ballot_new\<lparr>bl_yes := map fst ms\<rparr>"
  let ?q = "concretize E (am_account_id sa') p ?b"
  from I obtain x where
    "executable E (ms_create_key s) (pr_index p) sa' pa' (s\<lparr>ms_transaction_index := x\<rparr>) ?q"
    using m(1) by (auto simp: executable_def implements_def ballot_new_def)
  note go = execute_handle_executable [OF this]
  have done_q: "concretize E (am_account_id sa') p (?b\<lparr>bl_status := Executed\<rparr>) =
      ?q\<lparr>pr_status := Executed\<rparr>"
    by (simp add: concretize_def)
  obtain bs where
    "to_vec_proposal E (concretize E (am_account_id sa') p (?b\<lparr>bl_status := Executed\<rparr>)) = Some bs"
    and "data_fits E bs"
    by (rule room_for_concretize [OF room none, of "?b\<lparr>bl_status := Executed\<rparr>"])
      (simp_all add: ballot_new_def)
  with go [of ts bs] ts run show ?thesis unfolding done_q by auto
qed

end
