(* ===== verification/Sample.thy ===== *)
theory Sample
  imports Borsh_Layout Liveness
begin

text \<open>
  A concrete platform and a concrete 2-of-3 multisig on it, in the manner of the fixture of
  \<^verbatim>\<open>multisig_program/src/test_support.rs\<close>: the Borsh layout for the serialisers, seven sampled
  bytes for a digest, and accounts up to 100 KiB.  The lemmas evaluate the
  handlers on it; the theorems of the development are applied to it.
\<close>

section \<open>The platform\<close>

fun byte_at :: "u8 list \<Rightarrow> nat \<Rightarrow> u8" where
  "byte_at [] n = 0"
| "byte_at (b # bs) 0 = b"
| "byte_at (b # bs) (Suc n) = byte_at bs n"

definition digest :: "u8 list \<Rightarrow> bytes32" where
  "digest bs = arr_pad (map (byte_at bs) [4, 10, 32, 64, 76, 96, 104])"

fun encode_token_instruction :: "token_initialize_account \<Rightarrow> u32 list option" where
  "encode_token_instruction InitializeAccount = Some [3]"
| "encode_token_instruction _ = None"

definition sample :: "nat env" where
  "sample = \<lparr>hash_bytes = digest, sha2_digest = digest,
     for_public_pda = (\<lambda>pid seed. AccountId (seed_bytes seed)),
     account_default = \<lparr>acc_data = [], acc_rest = 0\<rparr>,
     data_fits = (\<lambda>d. int (length d) \<le> 102400),
     to_vec_state = put_state, from_slice_state = from_slice get_state,
     to_vec_proposal = put_proposal, from_slice_proposal = from_slice get_proposal,
     to_vec_action = put_action, from_slice_action = from_slice get_action,
     risc0_to_vec = encode_token_instruction, overflow_checks = True, usize_bits = 32\<rparr>"

lemma borsh_ok_sample: "borsh_ok sample"
  by (rule borsh_ok_layout) (simp_all add: sample_def)

section \<open>The multisig\<close>

definition b32 :: "nat \<Rightarrow> bytes32" where
  "b32 n = arr_fill (of_nat n)"

definition s_key :: bytes32 where "s_key = b32 7"

definition s_salt :: "nat \<Rightarrow> bytes32" where "s_salt n = b32 (n + 1)"

definition s_account :: "nat \<Rightarrow> u8 list \<Rightarrow> nat account_with_metadata" where
  "s_account n d = \<lparr>am_account_id = AccountId (b32 n), am_account = \<lparr>acc_data = d, acc_rest = 0\<rparr>,
     am_is_authorized = False\<rparr>"

definition s_member :: "nat \<Rightarrow> nat account_with_metadata" where
  "s_member n = (s_account (16 + n) [])\<lparr>am_is_authorized := True\<rparr>"

definition s_cms :: "bytes32 list" where
  "s_cms = map (\<lambda>n. member_cm sample (s_salt n) (am_account_id (s_member n))) [0, 1, 2]"

text \<open>A transfer from the vault: its seed is the one the vault is derived from.\<close>

definition s_vault_seed :: bytes32 where
  "s_vault_seed = digest (pda_preimage (VaultPda s_key))"

definition s_act :: proposal_action where
  "s_act = \<lparr>pa_target_program_id = arr_fill 42, pa_target_instruction_data = [1, 2, 3],
     pa_target_account_count = 2, pa_pda_seeds = [s_vault_seed], pa_authorized_indices = [0]\<rparr>"

text \<open>The state before and after the first Propose, and the proposal it makes.\<close>

definition s_state :: multisig_state where
  "s_state = multisig_state_new s_key 2 s_cms"

definition s_hash :: bytes32 where
  "s_hash = digest (action_preimage sample s_act)"

definition s_prop :: proposal where
  "s_prop = fresh_proposal 1 s_key s_act s_hash"

definition state_account :: "multisig_state \<Rightarrow> nat account_with_metadata" where
  "state_account s = s_account 1 (the (put_state s))"

definition proposal_account :: "proposal \<Rightarrow> nat account_with_metadata" where
  "proposal_account p = s_account 2 (the (put_proposal p))"

lemma sample_simps [simp]:
  "hash_bytes sample = digest" "sha2_digest sample = digest"
  "account_default sample = \<lparr>acc_data = [], acc_rest = 0\<rparr>"
  "to_vec_state sample = put_state" "to_vec_proposal sample = put_proposal"
  "to_vec_action sample = put_action" "overflow_checks sample"
  "data_fits sample d \<longleftrightarrow> int (length d) \<le> 102400"
  "for_public_pda sample pid seed = AccountId (seed_bytes seed)"
  "risc0_to_vec sample InitializeAccount = Some [3]"
  by (simp_all add: sample_def)

lemma s_account_simps [simp]:
  "am_account_id (s_account n d) = AccountId (b32 n)"
  "am_account (s_account n d) = \<lparr>acc_data = d, acc_rest = 0\<rparr>"
  by (simp_all add: s_account_def)

lemma s_member_simps [simp]: "am_is_authorized (s_member n)" "am_account (s_member n) = \<lparr>acc_data = [], acc_rest = 0\<rparr>"
  by (simp_all add: s_member_def)

section \<open>What fits\<close>

definition s_small :: "proposal \<Rightarrow> bool" where
  "s_small p \<longleftrightarrow> int (proposal_size p) \<le> 102400"

lemma sample_stores:
  assumes "s_small p"
  obtains b where "put_proposal p = Some b" and "data_fits sample b"
proof -
  have "int (proposal_size p) < 2 ^ 32" using assms by (simp add: s_small_def)
  then obtain b where b: "put_proposal p = Some b" "length b = proposal_size p"
    by (rule put_proposal_total)
  with assms have "data_fits sample b" by (simp add: s_small_def)
  with b show ?thesis by (intro that)
qed

lemma sample_stores_state:
  assumes "length (ms_member_cms s) \<le> 16"
  obtains b where "put_state s = Some b" and "data_fits sample b"
proof -
  obtain b where b: "put_state s = Some b" by (rule put_state_total [of s]) (use assms in simp)
  from length_put_state [OF b] assms have "data_fits sample b" by simp
  with b show ?thesis by (rule that)
qed

lemma holds_state_sample:
  assumes "length (ms_member_cms s) \<le> 16"
  shows "holds_state sample (state_account s) (ms_create_key s) s"
proof -
  obtain b where b: "put_state s = Some b" by (rule sample_stores_state [OF assms])
  then show ?thesis
    using borsh_okD(1) [OF borsh_ok_sample, of s b] by (simp add: holds_state_def state_account_def)
qed

lemma holds_proposal_sample:
  assumes "s_small p"
  shows "holds_proposal sample (proposal_account p) (pr_multisig_create_key p) (pr_index p) p"
proof -
  obtain b where b: "put_proposal p = Some b" by (rule sample_stores [OF assms])
  then show ?thesis
    using borsh_okD(2) [OF borsh_ok_sample, of p b]
    by (simp add: holds_proposal_def proposal_account_def)
qed

lemma platform_ok_sample: "platform_ok sample"
proof -
  have "get_state [] = None" and "get_proposal [] = None"
    by (simp_all add: get_state_def get_proposal_def get_via_def get_pair_def get_b32_def
        get_word_def arr_try_of_def)
  then show ?thesis
    by (simp add: platform_ok_def borsh_ok_sample) (simp add: sample_def from_slice_def)
qed

section \<open>The sample multisig is well formed\<close>

lemma distinct_s_cms: "distinct s_cms"
  by code_simp

lemma s_state_simps [simp]:
  "ms_create_key s_state = s_key" "ms_threshold s_state = 2" "ms_member_cms s_state = s_cms" "member_count s_state = 3"
  by (simp_all add: s_state_def multisig_state_new_def member_count_def s_cms_def)

lemma wf_s_state: "wf_state s_state"
  using distinct_s_cms by (simp add: wf_state_def MAX_MEMBERS_def)

lemma s_prop_simps [simp]:
  "pr_index s_prop = 1" "pr_multisig_create_key s_prop = s_key" "pr_action s_prop = s_act"
  "pr_action_hash s_prop = s_hash" "pr_vote_nullifiers s_prop = []" "pr_reject_nullifiers s_prop = []"
  "pr_status s_prop = Active"
  by (simp_all add: s_prop_def fresh_proposal_def)

lemma s_act_simps [simp]:
  "pa_target_account_count s_act = 2" "pa_authorized_indices s_act = [0]"
  "pa_target_program_id s_act = arr_fill 42" "pa_target_instruction_data s_act = [1, 2, 3]"
  "pa_pda_seeds s_act = [s_vault_seed]"
  by (simp_all add: s_act_def)

lemma action_size_s_act [simp]: "action_size s_act = 90"
  by (simp add: action_size_def)

lemma small_s_prop: "length vs \<le> 100 \<Longrightarrow> length rs \<le> 100 \<Longrightarrow>
    s_small (s_prop\<lparr>pr_vote_nullifiers := vs, pr_reject_nullifiers := rs, pr_status := t\<rparr>)"
  by (simp add: s_small_def proposal_size_def)

lemma action_hash_s_act: "action_hash sample s_act = Inr s_hash"
proof -
  obtain b where "put_action s_act = Some b" by (rule put_action_total [of s_act]) simp_all
  then show ?thesis by (simp add: action_hash_eq s_hash_def action_preimage_def)
qed

section \<open>Accounts and calls of the sample\<close>

abbreviation s_state1 :: multisig_state where
  "s_state1 \<equiv> s_state\<lparr>ms_transaction_index := 1\<rparr>"

abbreviation s_id :: account_id where
  "s_id \<equiv> AccountId (b32 1)"

abbreviation s_targets :: "nat account_with_metadata list" where
  "s_targets \<equiv> [s_account 5 [], s_account 6 []]"

definition s_voters :: "nat list \<Rightarrow> (bytes32 \<times> nat account_with_metadata) list" where
  "s_voters ns = map (\<lambda>n. (s_salt n, s_member n)) ns"

definition s_ids :: "nat list \<Rightarrow> (bytes32 \<times> account_id) list" where
  "s_ids ns = map (\<lambda>n. (s_salt n, am_account_id (s_member n))) ns"

lemma s_ids_of_voters [simp]: "map (\<lambda>(v, ma). (v, am_account_id ma)) (s_voters ns) = s_ids ns"
  by (simp add: s_voters_def s_ids_def)

lemma s_proposes:
  "\<exists>posts. propose_handle sample [state_account s_state, s_account 2 []] s_key 1 s_act = Inr (posts, []) \<and>
     with_post (state_account s_state) (posts ! 0) = state_account s_state1 \<and>
     with_post (s_account 2 []) (posts ! 1) = proposal_account s_prop"
proof -
  have h: "holds_state sample (state_account s_state) s_key s_state"
    using holds_state_sample [of s_state] by (simp add: s_cms_def)
  obtain sb where sb: "put_state s_state1 = Some sb" "data_fits sample sb"
    by (rule sample_stores_state [of s_state1]) (simp add: s_cms_def)
  obtain pb where pb: "put_proposal (fresh_proposal 1 s_key s_act s_hash) = Some pb" "data_fits sample pb"
    using sample_stores small_s_prop [of "[]" "[]" Active] by (auto simp: s_prop_def fresh_proposal_def)
  have i: "add_u64 sample (ms_transaction_index s_state) 1 = Inr 1"
    by (simp add: add_u64_def s_state_def multisig_state_new_def)
  show ?thesis
    using h sb pb i action_hash_s_act
    by (simp add: propose_handle_def Let_def holds_state_def proposal_new_def fresh_proposal_def
        with_post_def state_account_def proposal_account_def s_prop_def s_account_def)
qed

lemma s_proposed: "proposed sample s_state s_prop (state_account s_state1, proposal_account s_prop)"
proof -
  obtain posts where ok: "propose_handle sample [state_account s_state, s_account 2 []] s_key 1 s_act = Inr (posts, [])"
    and c: "with_post (state_account s_state) (posts ! 0) = state_account s_state1"
      "with_post (s_account 2 []) (posts ! 1) = proposal_account s_prop"
    using s_proposes by blast
  have "proposed sample s_state s_prop
      (with_post (state_account s_state) (posts ! 0), with_post (s_account 2 []) (posts ! 1))"
    by (rule proposed.propose [of _ _ _ s_key 1 "arr_fill 42" "[1, 2, 3]" 2 "[s_vault_seed]" "[0]"])
      (use ok holds_state_sample [of s_state] wf_s_state action_hash_s_act in
        \<open>simp_all add: s_cms_def proposal_new_def s_prop_def fresh_proposal_def Let_def flip: s_act_def\<close>)
  then show ?thesis by (simp only: c)
qed

lemma s_members:
  assumes "n < 3"
  shows "member_cm sample (s_salt n) (am_account_id (s_member n)) \<in> set s_cms"
proof -
  from assms have "n = 0 \<or> n = 1 \<or> n = 2" by auto
  then show ?thesis by (auto simp: s_cms_def)
qed

lemma s_ready:
  assumes "n < 3" and "length vs \<le> 100" "length rs \<le> 100"
  shows "vote_ready sample s_key 1 (s_salt n) (state_account s_state1)
    (proposal_account (s_prop\<lparr>pr_vote_nullifiers := vs, pr_reject_nullifiers := rs\<rparr>))
    (s_member n) s_state1 (s_prop\<lparr>pr_vote_nullifiers := vs, pr_reject_nullifiers := rs\<rparr>)"
proof -
  let ?p = "s_prop\<lparr>pr_vote_nullifiers := vs, pr_reject_nullifiers := rs\<rparr>"
  have "s_small ?p" using small_s_prop [OF assms(2,3), of Active] by (simp add: s_prop_def fresh_proposal_def)
  from holds_proposal_sample [OF this] holds_state_sample [of s_state1] s_members [OF assms(1)]
  show ?thesis by (simp add: vote_ready_def s_cms_def)
qed

text \<open>No two of the strings hashed for the three voters have the same digest.\<close>

lemma s_collision_free: "collision_free sample (hashed s_id 1 s_hash (s_ids [0, 1, 2]))"
  by code_simp

section \<open>The handlers on the sample\<close>

lemma s_state1_count [simp]: "member_count s_state1 = 3"
  by (simp add: member_count_def s_cms_def)

lemma state_account_id [simp]: "am_account_id (state_account s) = s_id"
  by (simp add: state_account_def)

lemma s_prop_with_nothing: "s_prop\<lparr>pr_vote_nullifiers := [], pr_reject_nullifiers := []\<rparr> = s_prop"
  by (simp add: s_prop_def fresh_proposal_def)

lemmas s_ready0 = s_ready [of _ "[]" "[]", unfolded s_prop_with_nothing, simplified]

lemma s_stores_update:
  assumes "length vs \<le> 100" "length rs \<le> 100"
  obtains b where "put_proposal (s_prop\<lparr>pr_vote_nullifiers := vs, pr_reject_nullifiers := rs, pr_status := t\<rparr>) = Some b"
    and "int (length b) \<le> 102400"
  using sample_stores [OF small_s_prop [OF assms, of t]] by auto

lemma s_prop_update_status:
  "s_prop\<lparr>pr_vote_nullifiers := vs, pr_reject_nullifiers := rs, pr_status := Active\<rparr> =
   s_prop\<lparr>pr_vote_nullifiers := vs, pr_reject_nullifiers := rs\<rparr>"
  by (simp add: s_prop_def fresh_proposal_def)

lemma s_creates:
  "\<exists>posts. create_multisig_handle sample [s_account 1 []] s_key 2 s_cms = Inr (posts, []) \<and>
     with_post (s_account 1 []) (posts ! 0) = state_account s_state"
proof -
  obtain b where b: "put_state (multisig_state_new s_key 2 s_cms) = Some b" "data_fits sample b"
    by (rule sample_stores_state [of "multisig_state_new s_key 2 s_cms"])
      (simp add: multisig_state_new_def s_cms_def)
  have "length s_cms = 3" by (simp add: s_cms_def)
  with b distinct_s_cms show ?thesis
    by (simp add: create_multisig_handle_def Let_def check_duplicates_eq MAX_MEMBERS_def s_state_def
        state_account_def with_post_def s_account_def)
qed

lemma s_approves:
  assumes "n < 3"
  shows "\<exists>posts. approve_handle sample [state_account s_state1, proposal_account s_prop, s_member n]
    s_key 1 (s_salt n) = Inr (posts, [])"
proof -
  obtain b where "put_proposal (approve_update sample s_id 1 s_hash (s_salt n) s_prop) = Some b"
    "int (length b) \<le> 102400"
    using s_stores_update [of "[vote_nf sample s_id 1 s_hash (s_salt n)]" "[]" Active]
    by (auto simp: approve_update_def s_prop_update_status s_prop_def fresh_proposal_def push_def)
  then show ?thesis
    by (simp add: approve_handle_ready [OF s_ready0 [OF assms]] finalize_vote_Inr)
qed

lemma vote_ready_relabel:
  "vote_ready E k i v (sa\<lparr>am_account_id := a\<rparr>) (pa\<lparr>am_account_id := b\<rparr>) ma s p \<longleftrightarrow>
     vote_ready E k i v sa pa ma s p"
  by (simp add: vote_ready_def holds_state_def holds_proposal_def)

lemma s_rejects_at:
  assumes "n < 3"
  shows "\<exists>posts. reject_handle sample [(state_account s_state1)\<lparr>am_account_id := a\<rparr>,
    (proposal_account s_prop)\<lparr>am_account_id := b\<rparr>, s_member n] s_key 1 (s_salt n) = Inr (posts, [])"
proof -
  let ?q = "reject_update sample a 1 s_hash (s_salt n) s_prop"
  have q: "close_if False ?q = s_prop\<lparr>pr_vote_nullifiers := [],
      pr_reject_nullifiers := [reject_nf sample a 1 s_hash (s_salt n)], pr_status := Active\<rparr>"
    by (simp add: close_if_def reject_update_def s_prop_def fresh_proposal_def push_def)
  obtain bs where "put_proposal (close_if False ?q) = Some bs" "int (length bs) \<le> 102400"
    unfolding q by (rule s_stores_update [of "[]" "[reject_nf sample a 1 s_hash (s_salt n)]" Active]) simp_all
  moreover have "is_dead sample ?q 2 3 = Inr False"
    by (simp add: is_dead_no_borrow reject_update_def)
  ultimately show ?thesis
    by (simp add: reject_handle_ready [OF vote_ready_relabel [THEN iffD2, OF s_ready0 [OF assms]]]
        finalize_vote_Inr Let_def)
qed

lemma s_rejects:
  assumes "n < 3"
  shows "\<exists>posts. reject_handle sample [state_account s_state1, proposal_account s_prop, s_member n]
    s_key 1 (s_salt n) = Inr (posts, [])"
  using s_rejects_at [OF assms, of s_id "AccountId (b32 2)"]
  by (simp add: state_account_def proposal_account_def s_account_def)

text \<open>The proposal with two recorded approvals, and its execution.\<close>

abbreviation s_voted :: proposal where
  "s_voted \<equiv> s_prop\<lparr>pr_vote_nullifiers := map (vote_nf sample s_id 1 s_hash) [s_salt 0, s_salt 1],
     pr_reject_nullifiers := []\<rparr>"

lemma s_executes:
  "\<exists>posts. execute_handle sample (state_account s_state1 # proposal_account s_voted # s_targets) s_key 1 =
     Inr (posts, [call_of s_act s_targets])"
proof -
  have "s_small s_voted"
    using small_s_prop [of "pr_vote_nullifiers s_voted" "[]" Active] by (simp add: s_prop_update_status)
  from holds_proposal_sample [OF this] holds_state_sample [of s_state1]
  have x: "executable sample s_key 1 (state_account s_state1) (proposal_account s_voted) s_state1 s_voted"
    by (simp add: executable_def s_cms_def)
  obtain b where "put_proposal (s_voted\<lparr>pr_status := Executed\<rparr>) = Some b" "int (length b) \<le> 102400"
    using s_stores_update [of "pr_vote_nullifiers s_voted" "[]" Executed] by auto
  with execute_handle_executable [OF x, of s_targets b] show ?thesis by simp
qed

end
