(* ===== verification/Spel_Surface.thy ===== *)
theory Spel_Surface
  imports Dispatch
begin

text \<open>
  The SPEL program surface (module \<open>private_multisig_program\<close> of
  \<^verbatim>\<open>multisig_program/src/lib.rs\<close>): one wrapper per instruction, taking the accounts as named
  parameters.  Each runs the handler and writes the post states back into its parameters by
  hand.  The theorem says that these write-backs agree with what the dispatch returns.
\<close>

text \<open>
  \<open>SpelOutput::execute\<close> is the framework's; \<open>SpelExecute\<close> stands for it applied to its two
  arguments.
\<close>

datatype 'x spel_output =
  SpelExecute (so_accounts: "'x account_with_metadata list") (so_calls: "'x chained_call list")

type_synonym 'x spel_result = "panic + 'x spel_output"

definition spel_create_multisig ::
  "'x env \<Rightarrow> 'x account_with_metadata \<Rightarrow> bytes32 \<Rightarrow> u8 \<Rightarrow> bytes32 list \<Rightarrow> 'x spel_result" where
  "spel_create_multisig E multisig_state create_key threshold member_cms =
     (let accounts = [multisig_state] in
      bind (create_multisig_handle E accounts create_key threshold member_cms)
        (\<lambda>(post_states, chained_calls).
      bind (index_at post_states 0) (\<lambda>post.
      let multisig_state = multisig_state\<lparr>am_account := ps_account post\<rparr> in
      Inr (SpelExecute [multisig_state] chained_calls))))"

definition spel_propose ::
  "'x env \<Rightarrow> 'x account_with_metadata \<Rightarrow> 'x account_with_metadata \<Rightarrow> bytes32 \<Rightarrow> u64 \<Rightarrow>
     program_id \<Rightarrow> u32 list \<Rightarrow> u8 \<Rightarrow> bytes32 list \<Rightarrow> u8 list \<Rightarrow> 'x spel_result" where
  "spel_propose E multisig_state proposal create_key proposal_index target_program_id
       target_instruction_data target_account_count pda_seeds authorized_indices =
     (let accounts = [multisig_state, proposal];
          action = \<lparr>pa_target_program_id = target_program_id,
            pa_target_instruction_data = target_instruction_data,
            pa_target_account_count = target_account_count,
            pa_pda_seeds = pda_seeds,
            pa_authorized_indices = authorized_indices\<rparr> in
      bind (propose_handle E accounts create_key proposal_index action)
        (\<lambda>(post_states, chained_calls).
      bind (index_at post_states 0) (\<lambda>post0.
      let multisig_state = multisig_state\<lparr>am_account := ps_account post0\<rparr> in
      bind (index_at post_states 1) (\<lambda>post1.
      let proposal = proposal\<lparr>am_account := ps_account post1\<rparr> in
      Inr (SpelExecute [multisig_state, proposal] chained_calls)))))"

definition spel_approve ::
  "'x env \<Rightarrow> 'x account_with_metadata \<Rightarrow> 'x account_with_metadata \<Rightarrow> 'x account_with_metadata \<Rightarrow>
     bytes32 \<Rightarrow> u64 \<Rightarrow> bytes32 \<Rightarrow> 'x spel_result" where
  "spel_approve E multisig_state proposal member_account create_key proposal_index member_salt =
     (let accounts = [multisig_state, proposal, member_account] in
      bind (approve_handle E accounts create_key proposal_index member_salt)
        (\<lambda>(post_states, chained_calls).
      bind (index_at post_states 1) (\<lambda>post.
      let proposal = proposal\<lparr>am_account := ps_account post\<rparr> in
      Inr (SpelExecute [multisig_state, proposal, member_account] chained_calls))))"

definition spel_reject ::
  "'x env \<Rightarrow> 'x account_with_metadata \<Rightarrow> 'x account_with_metadata \<Rightarrow> 'x account_with_metadata \<Rightarrow>
     bytes32 \<Rightarrow> u64 \<Rightarrow> bytes32 \<Rightarrow> 'x spel_result" where
  "spel_reject E multisig_state proposal member_account create_key proposal_index member_salt =
     (let accounts = [multisig_state, proposal, member_account] in
      bind (reject_handle E accounts create_key proposal_index member_salt)
        (\<lambda>(post_states, chained_calls).
      bind (index_at post_states 1) (\<lambda>post.
      let proposal = proposal\<lparr>am_account := ps_account post\<rparr> in
      Inr (SpelExecute [multisig_state, proposal, member_account] chained_calls))))"

text \<open>The loop \<open>for (acc, post) in accounts.iter_mut().zip(&post_states)\<close>.\<close>

fun write_back ::
  "'x account_with_metadata list \<Rightarrow> 'x account_post_state list \<Rightarrow> 'x account_with_metadata list" where
  "write_back (acc # accs) (post # posts) = acc\<lparr>am_account := ps_account post\<rparr> # write_back accs posts"
| "write_back accs [] = accs"
| "write_back [] posts = []"

definition spel_execute ::
  "'x env \<Rightarrow> 'x account_with_metadata \<Rightarrow> 'x account_with_metadata \<Rightarrow>
     'x account_with_metadata list \<Rightarrow> bytes32 \<Rightarrow> u64 \<Rightarrow> 'x spel_result" where
  "spel_execute E multisig_state proposal target_accounts create_key proposal_index =
     (let accounts = [multisig_state, proposal] @ target_accounts in
      bind (execute_handle E accounts create_key proposal_index)
        (\<lambda>(post_states, chained_calls).
      Inr (SpelExecute (write_back accounts post_states) chained_calls)))"

definition spel_init_vault ::
  "'x env \<Rightarrow> 'x account_with_metadata \<Rightarrow> 'x account_with_metadata \<Rightarrow> bytes32 \<Rightarrow> program_id \<Rightarrow>
     'x spel_result" where
  "spel_init_vault E token_definition vault create_key token_program_id =
     (let accounts = [token_definition, vault] in
      bind (init_vault_handle E accounts create_key token_program_id)
        (\<lambda>(_, chained_calls). Inr (SpelExecute [token_definition, vault] chained_calls)))"

section \<open>Agreement with the dispatch\<close>

text \<open>The accounts of an instruction with the post states of the dispatch written into them.\<close>

definition run_and_write_back ::
  "'x env \<Rightarrow> 'x account_with_metadata list \<Rightarrow> instruction \<Rightarrow> 'x spel_result" where
  "run_and_write_back E accounts ins =
     map_sum id (\<lambda>(posts, calls). SpelExecute (write_back accounts posts) calls)
       (process E accounts ins)"

text \<open>Two steps that go on from the same outcome agree if they do on every result it can give.\<close>

lemma bind_agree:
  assumes "\<And>posts calls. r = Inr (posts, calls) \<Longrightarrow> f (posts, calls) = Inr (g (posts, calls))"
  shows "bind r f = map_sum id g r"
  using assms by (cases r) auto

text \<open>
  C26: the wrappers of the SPEL surface and the dispatch of the guest are the same program.  Each
  wrapper fails exactly as the dispatch does, emits the same calls, and returns its account
  parameters with the post states of the dispatch in place, also where it leaves a parameter
  as it came instead of copying the post state.
\<close>

theorem surface_agrees_with_dispatch:
  "spel_create_multisig E sa k t cms = run_and_write_back E [sa] (CreateMultisig k t cms) \<and>
   spel_propose E sa pa k i tp ti tn seeds idxs =
     run_and_write_back E [sa, pa] (Propose k i tp ti tn seeds idxs) \<and>
   spel_approve E sa pa ma k i salt = run_and_write_back E [sa, pa, ma] (Approve k i salt) \<and>
   spel_reject E sa pa ma k i salt = run_and_write_back E [sa, pa, ma] (Reject k i salt) \<and>
   spel_execute E sa pa ts k i = run_and_write_back E (sa # pa # ts) (Execute k i) \<and>
   spel_init_vault E sa pa k token = run_and_write_back E [sa, pa] (InitVault k token)"
proof (intro conjI)
  show "spel_create_multisig E sa k t cms = run_and_write_back E [sa] (CreateMultisig k t cms)"
    unfolding spel_create_multisig_def run_and_write_back_def process.simps Let_def
    by (rule bind_agree) (auto elim!: create_multisig_handle_InrE)
  show "spel_propose E sa pa k i tp ti tn seeds idxs =
      run_and_write_back E [sa, pa] (Propose k i tp ti tn seeds idxs)"
    unfolding spel_propose_def run_and_write_back_def process.simps Let_def
    by (rule bind_agree) (auto elim!: propose_handle_InrE)
  show "spel_approve E sa pa ma k i salt = run_and_write_back E [sa, pa, ma] (Approve k i salt)"
    unfolding spel_approve_def run_and_write_back_def process.simps Let_def
    by (rule bind_agree) (auto elim!: approve_handle_InrE)
  show "spel_reject E sa pa ma k i salt = run_and_write_back E [sa, pa, ma] (Reject k i salt)"
    unfolding spel_reject_def run_and_write_back_def process.simps Let_def
    by (rule bind_agree) (auto elim!: reject_handle_InrE)
  show "spel_execute E sa pa ts k i = run_and_write_back E (sa # pa # ts) (Execute k i)"
    unfolding spel_execute_def run_and_write_back_def process.simps Let_def
    by (simp add: bind_def split: sum.split prod.split)
  show "spel_init_vault E sa pa k token = run_and_write_back E [sa, pa] (InitVault k token)"
    unfolding spel_init_vault_def run_and_write_back_def process.simps Let_def
    by (rule bind_agree) (auto elim!: init_vault_handle_InrE)
qed

end
