(* ===== verification/Trust_Boundary.thy ===== *)
theory Trust_Boundary
  imports Dispatch
begin

text \<open>
  Two boundaries of the program.  Outwards: what a private vote reveals, which is its
  nullifier and nothing else of the voter.  Inwards: what the handlers take on trust, which is
  that the first account is the multisig's own state account; they check its contents and never
  its id or owner, and the last theorems show what that admits.
\<close>

section \<open>What a vote reveals\<close>

text \<open>
  A private execution publishes the post states of the public accounts, here the first two, and
  the calls; the member account and the instruction stay hidden.
\<close>

definition public_part ::
  "'x account_post_state list \<times> 'x chained_call list \<Rightarrow>
     'x account_post_state list \<times> 'x chained_call list" where
  "public_part = (\<lambda>(posts, calls). (take 2 posts, calls))"

text \<open>
  A simulator of votes.  It knows the two public accounts, the side of the vote, the nullifier
  cast and, where the vote takes back one that is recorded, which one; the salt and the member
  account are not among its arguments.
\<close>

definition vote_view ::
  "'x env \<Rightarrow> 'x account_with_metadata \<Rightarrow> 'x account_with_metadata \<Rightarrow> bool \<Rightarrow> bytes32 \<Rightarrow>
     bytes32 option \<Rightarrow> ('x account_post_state list \<times> 'x chained_call list) option" where
  "vote_view E sa pa yes n taken_back =
     Option.bind (from_slice_state E (acc_data (am_account sa))) (\<lambda>s.
     Option.bind (from_slice_proposal E (acc_data (am_account pa))) (\<lambda>p.
     let keep = (case taken_back of None \<Rightarrow> id | Some r \<Rightarrow> retain_ne r);
         q = (if yes
              then p\<lparr>pr_reject_nullifiers := keep (pr_reject_nullifiers p),
                     pr_vote_nullifiers := push (pr_vote_nullifiers p) n\<rparr>
              else p\<lparr>pr_vote_nullifiers := keep (pr_vote_nullifiers p),
                     pr_reject_nullifiers := push (pr_reject_nullifiers p) n\<rparr>);
         dead = (\<not> yes \<and> is_dead E q (ms_threshold s) (member_count s) = Inr True) in
     map_option (\<lambda>b. ([post_new (am_account sa), post_new ((am_account pa)\<lparr>acc_data := b\<rparr>)], []))
       (to_vec_proposal E (close_if dead q))))"

definition if_recorded :: "bytes32 \<Rightarrow> bytes32 list \<Rightarrow> bytes32 option" where
  "if_recorded n ns = (if n \<in> set ns then Some n else None)"

lemma keep_if_recorded [simp]:
  "(case if_recorded n ns of None \<Rightarrow> id | Some r \<Rightarrow> retain_ne r) ns = retain_ne n ns"
  by (simp add: if_recorded_def)

lemma vote_view_ready:
  assumes "vote_ready E k i v sa pa ma s p"
  shows "vote_view E sa pa True (vote_nf E m i h v) (if_recorded (reject_nf E m i h v) (pr_reject_nullifiers p)) =
      map_option (\<lambda>b. ([post_new (am_account sa), post_new ((am_account pa)\<lparr>acc_data := b\<rparr>)], []))
        (to_vec_proposal E (approve_update E m i h v p))"
    and "is_dead E (reject_update E m i h v p) (ms_threshold s) (member_count s) = Inr dead \<Longrightarrow>
      vote_view E sa pa False (reject_nf E m i h v) (if_recorded (vote_nf E m i h v) (pr_vote_nullifiers p)) =
      map_option (\<lambda>b. ([post_new (am_account sa), post_new ((am_account pa)\<lparr>acc_data := b\<rparr>)], []))
        (to_vec_proposal E (close_if dead (reject_update E m i h v p)))"
  using assms
  by (simp_all add: vote_view_def vote_ready_def holds_state_def holds_proposal_def Let_def
      approve_update_def reject_update_def close_if_def)

text \<open>
  C14: a vote reveals its nullifier and nothing else of the voter.  What an accepted Approve or
  Reject publishes is what the simulator produces from the public accounts, the nullifier of
  the side it votes for, and the voter's nullifier on the other side in case that one is on the
  proposal already; an opposite nullifier that is not yet public stays hidden, and so do the
  salt and the member account, which comes back unchanged.
\<close>

theorem vote_reveals_only_nullifiers:
  assumes "holds_proposal E pa k i p"
    and "process E [sa, pa, ma] (if yes then Approve k i v else Reject k i v) = Inr r"
    and "vote_nullifier E v (am_account_id sa) i (pr_action_hash p) = Inr n"
    and "reject_nullifier E v (am_account_id sa) i (pr_action_hash p) = Inr n'"
  shows "vote_view E sa pa yes (if yes then n else n')
      (if yes then if_recorded n' (pr_reject_nullifiers p) else if_recorded n (pr_vote_nullifiers p)) =
    Some (public_part r) \<and> drop 2 (fst r) = [post_new (am_account ma)]"
proof -
  have n: "n = vote_nf E (am_account_id sa) i (pr_action_hash p) v"
      "n' = reject_nf E (am_account_id sa) i (pr_action_hash p) v"
    using assms(3,4) by simp_all
  obtain posts calls where r: "r = (posts, calls)" by (cases r)
  show ?thesis
  proof (cases yes)
    case True
    then have "approve_handle E [sa, pa, ma] k i v = Inr (posts, calls)" using assms(2) r by simp
    then show ?thesis
    proof (cases rule: approve_handle_InrE)
      case (1 sa' pa' ma' s p' b)
      then have x: "vote_ready E k i v sa pa ma s p" "p' = p"
        using assms(1) by (auto simp: vote_ready_def dest: holds_proposal_unique)
      note view = vote_view_ready(1) [OF x(1)]
      from 1 x(2) show ?thesis using True view
        by (auto simp: n r public_part_def)
    qed
  next
    case False
    then have "reject_handle E [sa, pa, ma] k i v = Inr (posts, calls)" using assms(2) r by simp
    then show ?thesis
    proof (cases rule: reject_handle_InrE)
      case (1 sa' pa' ma' s p' dead b)
      then have x: "vote_ready E k i v sa pa ma s p" "p' = p"
        using assms(1) by (auto simp: vote_ready_def dest: holds_proposal_unique)
      note view = vote_view_ready(2) [OF x(1)]
      from 1 x(2) show ?thesis using False view
        by (auto simp: n r public_part_def)
    qed
  qed
qed

section \<open>What the handlers take on trust\<close>

definition forged_state :: "bytes32 \<Rightarrow> multisig_state" where
  "forged_state k = \<lparr>ms_create_key = k, ms_threshold = 0, ms_member_cms = [], ms_transaction_index = 0\<rparr>"

text \<open>
  C40: Execute takes the threshold from whatever account comes first.  Any account at all, of any
  id and owner, whose data decodes to a state for the right \<open>create_key\<close> with threshold 0 makes
  Execute emit the stored call of an active proposal that nobody approved; the handler compares
  neither the id of that account with the state PDA nor its owner with the program.
\<close>

theorem execute_trusts_supplied_state:
  assumes "borsh_ok E" and "to_vec_state E (forged_state k) = Some (acc_data (am_account fa))"
    and "holds_proposal E pa k i p" and "pr_status p = Active" and "pr_vote_nullifiers p = []"
    and "length targets = unat (pa_target_account_count (pr_action p))"
    and "to_vec_proposal E (p\<lparr>pr_status := Executed\<rparr>) = Some b" and "data_fits E b"
  shows "\<exists>posts. execute_handle E (fa # pa # targets) k i =
    Inr (posts, [call_of (pr_action p) targets])"
proof -
  have "from_slice_state E (acc_data (am_account fa)) = Some (forged_state k)"
    using assms(1,2) by auto
  then have "executable E k i fa pa (forged_state k) p"
    using assms(3,4) by (simp add: executable_def holds_state_def forged_state_def)
  from execute_handle_executable [OF this assms(6-8)] show ?thesis by blast
qed

text \<open>
  C39: one member, two approvals.  The nullifier names the id of the supplied state account, so
  after an accepted approval the same salt and member account are accepted again together with
  a copy of the state account under another id, unless the second nullifier is by chance
  recorded already; the proposal then carries two approvals of one member.
\<close>

theorem approve_again_through_copy:
  assumes E: "borsh_ok E" and ok: "approve_handle E [sa, pa, ma] k i v = Inr (posts, calls)"
    and p: "holds_proposal E pa k i p" and copy: "am_account sb = am_account sa"
    and fresh: "vote_nf E (am_account_id sb) i (pr_action_hash p) v \<notin>
      insert (vote_nf E (am_account_id sa) i (pr_action_hash p) v) (set (pr_vote_nullifiers p))"
    and room: "to_vec_proposal E (approve_update E (am_account_id sb) i (pr_action_hash p) v
      (approve_update E (am_account_id sa) i (pr_action_hash p) v p)) = Some b" "data_fits E b"
  shows "\<exists>posts' q. approve_handle E [sb, with_post pa (posts ! 1), ma] k i v = Inr (posts', []) \<and>
    holds_proposal E (with_post (with_post pa (posts ! 1)) (posts' ! 1)) k i q \<and>
    length (pr_vote_nullifiers q) = length (pr_vote_nullifiers p) + 2"
proof (rule approve_next [OF E ok])
  fix s :: multisig_state and p' :: proposal
  let ?q = "approve_update E (am_account_id sa) i (pr_action_hash p) v p"
  let ?q' = "approve_update E (am_account_id sb) i (pr_action_hash p) v ?q"
  assume r: "vote_ready E k i v sa pa ma s p'"
    and q: "holds_proposal E (with_post pa (posts ! 1)) k i
           (approve_update E (am_account_id sa) i (pr_action_hash p') v p')"
  have p': "p' = p" using r p by (auto simp: vote_ready_def dest: holds_proposal_unique)
  have r': "vote_ready E k i v sb (with_post pa (posts ! 1)) ma s ?q"
    using r q copy unfolding p' by (auto simp: vote_ready_def holds_state_def approve_update_def)
  have "approve_handle E [sb, with_post pa (posts ! 1), ma] k i v =
      Inr ([post_new (am_account sb), post_new ((ps_account (posts ! 1))\<lparr>acc_data := b\<rparr>),
            post_new (am_account ma)], [])"
    using fresh room unfolding approve_handle_ready [OF r']
    by (auto simp: finalize_vote_Inr) (auto simp: approve_update_def)
  moreover have "from_slice_proposal E b = Some ?q'" using borsh_okD(2) [OF E room(1)] .
  then have "holds_proposal E ((with_post pa (posts ! 1))\<lparr>am_account :=
      (ps_account (posts ! 1))\<lparr>acc_data := b\<rparr>\<rparr>) k i ?q'"
    using p by (simp add: holds_proposal_def approve_update_def)
  moreover have "length (pr_vote_nullifiers ?q') = length (pr_vote_nullifiers p) + 2"
    by (simp add: approve_update_def)
  ultimately show ?thesis
    by (intro exI conjI) (assumption, simp_all add: with_post_def)
qed

text \<open>
  C38: an approval does not fix the targets.  The proposal stores how many target accounts its
  call takes, not which; so whenever Execute is accepted with one list of targets it is
  accepted with every other list of that length, with the same effect on the proposal, and
  emits the same instruction under the same PDA seeds to the other accounts.  Whoever cranks
  the execution of an approved transfer chooses its recipient.
\<close>

theorem execute_targets_unbound:
  assumes "execute_handle E (sa # pa # targets) k i = Inr (posts, calls)"
    and "length targets' = length targets"
  shows "\<exists>posts' call call'. execute_handle E (sa # pa # targets') k i = Inr (posts', [call']) \<and>
    calls = [call] \<and> take 2 posts' = take 2 posts \<and>
    cc_program_id call' = cc_program_id call \<and> cc_instruction_data call' = cc_instruction_data call \<and>
    cc_pda_seeds call' = cc_pda_seeds call \<and>
    map am_account_id (cc_pre_states call') = map am_account_id targets'"
  using assms(1)
proof (cases rule: execute_handle_InrE)
  case (1 sa' pa' ts s p b)
  then have x: "executable E k i sa pa s p"
    and len: "length targets' = unat (pa_target_account_count (pr_action p))"
    using assms(2) by simp_all
  have ids: "map am_account_id (cc_pre_states (call_of a ts)) = map am_account_id ts"
    for a and ts :: "'a account_with_metadata list"
    by (rule nth_equalityI) (simp_all add: call_of_def authorize_target_def nth_enumerate_eq)
  show ?thesis
    using 1 execute_handle_executable [OF x len] by (auto simp: ids) (simp_all add: call_of_def)
qed

end
