(* ===== verification/Witnesses.thy ===== *)
theory Witnesses
  imports Sample Spel_Surface Trust_Boundary
begin

text \<open>
  Every theorem of the development that has hypotheses, applied to the sample multisig, where
  the hypotheses hold: the serialisers are the Borsh layout, the accounts hold encodings, and
  each handler call is one the program accepts.
\<close>

section \<open>Handlers\<close>

lemma approve_twice_sample:
  "\<exists>posts. approve_handle sample [state_account s_state1, proposal_account s_prop, s_member 0]
       s_key 1 (s_salt 0) = Inr (posts, []) \<and>
     approve_handle sample [with_post (state_account s_state1) (posts ! 0),
       with_post (proposal_account s_prop) (posts ! 1), with_post (s_member 0) (posts ! 2)]
       s_key 1 (s_salt 0) = Inl (Pms ERR_DUPLICATE_VOTE)"
  using s_approves [of 0] approve_twice_refused [OF borsh_ok_sample] by (metis zero_less_numeral)

lemma s_holds_prop: "holds_proposal sample (proposal_account s_prop) s_key 1 s_prop"
  using s_ready0 [of 0] by (simp add: vote_ready_def)

lemma s_holds_state1: "holds_state sample (state_account s_state1) s_key s_state1"
  using s_ready0 [of 0] by (simp add: vote_ready_def)

lemma wf_s_state1: "wf_state s_state1"
  using wf_s_state by (simp add: wf_state_def)

theorem reject_effect_witness:
  "\<exists>posts q. reject_handle sample [state_account s_state1, proposal_account s_prop, s_member 0]
       s_key 1 (s_salt 0) = Inr (posts, []) \<and>
     holds_proposal sample (with_post (proposal_account s_prop) (posts ! 1)) s_key 1 q \<and>
     length (pr_reject_nullifiers q) = 1"
proof -
  obtain posts where ok: "reject_handle sample [state_account s_state1, proposal_account s_prop, s_member 0]
       s_key 1 (s_salt 0) = Inr (posts, [])"
    using s_rejects [of 0] by auto
  from reject_effect [OF borsh_ok_sample ok s_holds_state1 wf_s_state1 s_holds_prop] ok
  show ?thesis by auto
qed

lemma s_holds_voted: "holds_proposal sample (proposal_account s_voted) s_key 1 s_voted"
  using s_ready [of 0 "pr_vote_nullifiers s_voted" "[]"] by (simp add: vote_ready_def)

theorem execute_authorizes_witness:
  "\<exists>posts calls. execute_handle sample (state_account s_state1 # proposal_account s_voted # s_targets) s_key 1 =
       Inr (posts, calls) \<and> am_is_authorized (cc_pre_states (calls ! 0) ! 0)"
proof -
  obtain posts where ok: "execute_handle sample (state_account s_state1 # proposal_account s_voted # s_targets)
      s_key 1 = Inr (posts, [call_of s_act s_targets])"
    using s_executes by blast
  from execute_authorizes_exactly [OF ok s_holds_voted, of 0] ok show ?thesis by auto
qed

section \<open>The dispatch\<close>

theorem guest_changes_witness:
  "\<exists>out. guest_main sample (\<lparr>in_self_program_id = arr_fill 1, in_caller_program_id = (),
       in_pre_states = [s_account 1 []], in_instruction = CreateMultisig s_key 2 s_cms\<rparr>, [7]) = Inr out \<and>
     length (out_post_states out) = 1 \<and> out_chained_calls out = [] \<and> out_instruction_words out = [7]"
proof -
  let ?in = "\<lparr>in_self_program_id = arr_fill 1, in_caller_program_id = (),
    in_pre_states = [s_account 1 []], in_instruction = CreateMultisig s_key 2 s_cms\<rparr>"
  obtain out where out: "guest_main sample (?in, [7]) = Inr out"
    using s_creates by (auto simp: guest_main_def)
  from guest_changes [OF out] out show ?thesis by auto
qed

section \<open>Runs\<close>

abbreviation s_start :: "nat config" where
  "s_start \<equiv> (state_account s_state1, proposal_account s_prop)"

abbreviation s_votes :: "nat label list" where
  "s_votes \<equiv> approvals s_key 1 (s_voters [0, 1])"

abbreviation s_exec :: "nat label" where
  "s_exec \<equiv> OnProposal (Execute s_key 1) s_targets [call_of s_act s_targets]"

lemma s_ids_append: "s_ids (ms @ ns) = s_ids ms @ s_ids ns"
  by (simp add: s_ids_def)

lemma s_free: "collision_free sample (hashed s_id 1 s_hash (s_ids [0, 1]))"
  using s_collision_free s_ids_append [of "[0, 1]" "[2]"] by (auto intro: collision_free_prefix)

lemma s_distinct: "distinct [s_salt 0, s_salt 1]"
  by code_simp

lemma s_room: "n \<le> 100 \<Longrightarrow> room_for sample s_prop n"
proof -
  assume n: "n \<le> 100"
  have "\<exists>b. put_proposal (s_prop\<lparr>pr_vote_nullifiers := ys, pr_status := t\<rparr>) = Some b \<and>
      int (length b) \<le> 102400" if "length ys \<le> n" for ys t
    using s_stores_update [of ys "[]" t] that n by (auto simp: s_prop_def fresh_proposal_def)
  then show ?thesis by (simp add: room_for_def)
qed

lemma s_voters_ok:
  "list_all (\<lambda>(v, ma). am_is_authorized ma \<and>
     member_cm sample v (am_account_id ma) \<in> set (ms_member_cms s_state)) (s_voters [0, 1])"
  using s_members by (simp add: s_voters_def)

lemma s_run_votes:
  obtains sa pa where "run sample s_start s_votes (sa, pa)" and "am_account_id sa = s_id"
    and "implements sample s_state s_prop (sa, pa) (ballot_new\<lparr>bl_yes := [s_salt 0, s_salt 1]\<rparr>)"
proof -
  have "inj_on (vote_nf sample s_id 1 s_hash) {s_salt 0, s_salt 1}"
    using collision_free_nf(1) [OF s_free] by (simp add: s_ids_def)
  then have "\<exists>sa pa. approve_all sample (ms_create_key s_state) (pr_index s_prop)
      (state_account s_state1, proposal_account s_prop) (s_voters [0, 1]) = Inr (sa, pa) \<and>
      am_account_id sa = am_account_id (state_account s_state1) \<and>
      implements sample s_state s_prop (sa, pa)
        (ballot_new\<lparr>bl_yes := bl_yes ballot_new @ map fst (s_voters [0, 1])\<rparr>)"
    using s_distinct s_room [of "Suc (Suc 0)"]
    by (intro approve_all_succeeds [OF platform_ok_sample _ s_voters_ok
          proposed_implements(2) [OF platform_ok_sample s_proposed]])
      (simp_all add: ballot_new_def s_voters_def)
  then show ?thesis using that approve_all_run by (fastforce simp: ballot_new_def s_voters_def)
qed

lemma s_sound_votes: "sound_run sample s_state s_prop s_start s_votes"
  using platform_ok_sample s_proposed s_free by (simp add: sound_run_def)

lemma s_sound_exec: "sound_run sample s_state s_prop s_start (s_votes @ [s_exec])"
  using platform_ok_sample s_proposed s_free by (simp add: sound_run_def)

lemma s_execute_after_votes:
  obtains sa pa posts where "run sample s_start s_votes (sa, pa)"
    and "process sample (sa # pa # s_targets) (Execute s_key 1) = Inr (posts, [call_of s_act s_targets])"
proof -
  obtain sa pa where r: "run sample s_start s_votes (sa, pa)"
    and I: "implements sample s_state s_prop (sa, pa) (ballot_new\<lparr>bl_yes := [s_salt 0, s_salt 1]\<rparr>)"
    by (rule s_run_votes)
  let ?q = "concretize sample (am_account_id sa) s_prop (ballot_new\<lparr>bl_yes := [s_salt 0, s_salt 1]\<rparr>)"
  from I obtain x where x: "executable sample s_key 1 sa pa (s_state\<lparr>ms_transaction_index := x\<rparr>) ?q"
    by (auto simp: executable_def implements_def ballot_new_def)
  have "?q\<lparr>pr_status := Executed\<rparr> = s_prop\<lparr>pr_vote_nullifiers := pr_vote_nullifiers ?q,
      pr_reject_nullifiers := [], pr_status := Executed\<rparr>"
    by (simp add: concretize_def ballot_new_def)
  then obtain b where "put_proposal (?q\<lparr>pr_status := Executed\<rparr>) = Some b" "int (length b) \<le> 102400"
    using s_stores_update [of "pr_vote_nullifiers ?q" "[]" Executed] by auto
  then obtain posts where "process sample (sa # pa # s_targets) (Execute s_key 1) =
      Inr (posts, [call_of s_act s_targets])"
    using execute_handle_executable [OF x, of s_targets b] by auto
  from that [OF r this] show ?thesis .
qed

lemma s_run_exec: obtains d where "run sample s_start (s_votes @ [s_exec]) d"
  using s_execute_after_votes run_step [OF _ on_proposal] by metis

theorem run_refines_ballot_witness:
  "\<exists>sa pa. run sample s_start s_votes (sa, pa) \<and>
     from_slice_proposal sample (acc_data (am_account pa)) = Some (concretize sample (am_account_id sa) s_prop
       (ballot_of s_state [Yes (s_salt 0), Yes (s_salt 1)]))"
proof -
  obtain sa pa where r: "run sample s_start s_votes (sa, pa)" by (rule s_run_votes)
  from run_refines_ballot [OF s_sound_votes r] r show ?thesis
    by (auto simp: s_voters_def)
qed

theorem execution_witness:
  "\<exists>d. run sample s_start (s_votes @ s_exec # []) d \<and> 2 \<le> card (standing True (events s_votes))"
proof -
  obtain d where r: "run sample s_start (s_votes @ s_exec # []) d" by (rule s_run_exec)
  have "2 \<le> card (standing True (events s_votes))"
    using execution_needs_threshold [OF s_sound_exec r, THEN conjunct1] by simp
  with r show ?thesis by blast
qed

theorem single_execution_witness:
  "\<exists>d. run sample s_start (s_votes @ s_exec # []) d \<and> Exec \<notin> set (events s_votes) \<and> events ([] :: nat label list) = []"
proof -
  obtain d where r: "run sample s_start (s_votes @ s_exec # []) d" by (rule s_run_exec)
  from single_execution [OF s_sound_exec r] r show ?thesis by blast
qed

lemma s_holds_after:
  assumes "run sample s_start s_votes (sa, pa)"
  obtains q where "holds_proposal sample pa s_key 1 q"
proof -
  from sound_run_tracks(3) [OF s_sound_votes assms]
  have "implements sample s_state s_prop (sa, pa) (ballot_of s_state (events s_votes))"
    by (simp add: tracks_def)
  then show ?thesis using that by (auto simp: implements_def)
qed

theorem rejected_iff_lost_witness:
  "\<exists>sa pa q. run sample s_start s_votes (sa, pa) \<and> holds_proposal sample pa s_key 1 q \<and>
     pr_status q \<noteq> Executed"
proof -
  obtain sa pa where r: "run sample s_start s_votes (sa, pa)" by (rule s_run_votes)
  obtain q where q: "holds_proposal sample pa s_key 1 q" by (rule s_holds_after [OF r])
  from rejected_iff_lost [OF s_sound_votes r _ q] r q show ?thesis by (auto simp: s_voters_def)
qed

theorem nullifiers_bounded_witness:
  "\<exists>sa pa q. run sample s_start s_votes (sa, pa) \<and> holds_proposal sample pa s_key 1 q \<and>
     length (pr_vote_nullifiers q) + length (pr_reject_nullifiers q) \<le> 3"
proof -
  obtain sa pa where r: "run sample s_start s_votes (sa, pa)" by (rule s_run_votes)
  obtain q where q: "holds_proposal sample pa s_key 1 q" by (rule s_holds_after [OF r])
  from nullifiers_bounded [OF s_sound_votes r q] r q show ?thesis by auto
qed

theorem reject_never_underflows_witness:
  "\<exists>sa pa x q. run sample s_start s_votes (sa, pa) \<and> holds_proposal sample pa s_key 1 q \<and>
     length (pr_reject_nullifiers (reject_update sample s_id 1 s_hash (s_salt 2) q)) = 1 \<and>
     reject_handle sample [sa, pa, s_member 2] s_key 1 (s_salt 2) =
       finalize_vote sample sa pa (s_member 2) (s_state\<lparr>ms_transaction_index := x\<rparr>)
         (reject_update sample s_id 1 s_hash (s_salt 2) q)"
proof -
  obtain sa pa where r: "run sample s_start s_votes (sa, pa)" and sid: "am_account_id sa = s_id"
    and I: "implements sample s_state s_prop (sa, pa) (ballot_new\<lparr>bl_yes := [s_salt 0, s_salt 1]\<rparr>)"
    by (rule s_run_votes)
  let ?q = "concretize sample (am_account_id sa) s_prop (ballot_new\<lparr>bl_yes := [s_salt 0, s_salt 1]\<rparr>)"
  obtain x where x: "vote_ready sample s_key 1 (s_salt 2) sa pa (s_member 2)
      (s_state\<lparr>ms_transaction_index := x\<rparr>) ?q" and p: "holds_proposal sample pa s_key 1 ?q"
    using I s_members by (auto simp: implements_def vote_ready_def ballot_new_def)
  have "voters s_votes @ [(s_salt 2, am_account_id (s_member 2))] = s_ids [0, 1, 2]"
    by (simp add: s_voters_def s_ids_def)
  then have "collision_free sample (hashed (am_account_id sa) (pr_index s_prop) (pr_action_hash s_prop)
      (voters s_votes @ [(s_salt 2, am_account_id (s_member 2))]))"
    using s_collision_free by (simp only: sid s_prop_simps)
  from reject_never_underflows [OF s_sound_votes r this, THEN conjunct2, rule_format, OF conjI [OF x]]
  have "reject_handle sample [sa, pa, s_member 2] s_key 1 (s_salt 2) =
      finalize_vote sample sa pa (s_member 2) (s_state\<lparr>ms_transaction_index := x\<rparr>)
        (reject_update sample s_id 1 s_hash (s_salt 2) ?q)"
    by (simp add: reject_update_def close_if_def ballot_new_def sid member_count_def s_cms_def Let_def)
  moreover have "length (pr_reject_nullifiers (reject_update sample s_id 1 s_hash (s_salt 2) ?q)) = 1"
    by (simp add: reject_update_def ballot_new_def)
  ultimately show ?thesis using r p by blast
qed

section \<open>The trust boundary\<close>

theorem vote_reveals_witness:
  "\<exists>r r'. process sample [state_account s_state1, proposal_account s_prop, s_member 0]
       (Approve s_key 1 (s_salt 0)) = Inr r \<and>
     process sample [state_account s_state1, proposal_account s_prop, s_member 1]
       (Reject s_key 1 (s_salt 1)) = Inr r' \<and>
     vote_view sample (state_account s_state1) (proposal_account s_prop) True
       (vote_nf sample s_id 1 s_hash (s_salt 0)) None = Some (public_part r) \<and>
     vote_view sample (state_account s_state1) (proposal_account s_prop) False
       (reject_nf sample s_id 1 s_hash (s_salt 1)) None = Some (public_part r') \<and>
     drop 2 (fst r) = [post_new (am_account (s_member 0))]"
proof -
  obtain r r' where r: "process sample [state_account s_state1, proposal_account s_prop, s_member 0]
      (Approve s_key 1 (s_salt 0)) = Inr r"
    and r': "process sample [state_account s_state1, proposal_account s_prop, s_member 1]
      (Reject s_key 1 (s_salt 1)) = Inr r'"
    using s_approves [of 0] s_rejects [of 1] by auto
  have "pr_vote_nullifiers s_prop = []" "pr_reject_nullifiers s_prop = []"
    by (simp_all add: s_prop_def fresh_proposal_def)
  then have none: "if_recorded n (pr_vote_nullifiers s_prop) = None"
      "if_recorded n (pr_reject_nullifiers s_prop) = None" for n
    by (simp_all add: if_recorded_def)
  have h: "pr_action_hash s_prop = s_hash" by (simp add: s_prop_def fresh_proposal_def)
  have m: "process sample [state_account s_state1, proposal_account s_prop, s_member 0]
      (if True then Approve s_key 1 (s_salt 0) else Reject s_key 1 (s_salt 0)) = Inr r"
    "process sample [state_account s_state1, proposal_account s_prop, s_member 1]
      (if False then Approve s_key 1 (s_salt 1) else Reject s_key 1 (s_salt 1)) = Inr r'"
    using r r' by simp_all
  have nfs: "vote_nullifier sample v (am_account_id (state_account s_state1)) 1 (pr_action_hash s_prop) =
        Inr (vote_nf sample s_id 1 s_hash v)"
      "reject_nullifier sample v (am_account_id (state_account s_state1)) 1 (pr_action_hash s_prop) =
        Inr (reject_nf sample s_id 1 s_hash v)" for v
    by (simp_all add: h)
  from vote_reveals_only_nullifiers [OF s_holds_prop m(1) nfs]
    vote_reveals_only_nullifiers [OF s_holds_prop m(2) nfs] r r'
  show ?thesis unfolding none if_True if_False by blast
qed

theorem execute_targets_witness:
  "\<exists>posts call. execute_handle sample (state_account s_state1 # proposal_account s_voted #
       [s_account 5 [], s_account 66 []]) s_key 1 = Inr (posts, [call]) \<and>
     map am_account_id (cc_pre_states call) = [AccountId (b32 5), AccountId (b32 66)]"
proof -
  obtain posts where ok: "execute_handle sample (state_account s_state1 # proposal_account s_voted # s_targets)
      s_key 1 = Inr (posts, [call_of s_act s_targets])"
    using s_executes by blast
  from execute_targets_unbound [OF ok, of "[s_account 5 [], s_account 66 []]"] show ?thesis by auto
qed

theorem execute_trusts_witness:
  "\<exists>posts. execute_handle sample (s_account 99 (the (put_state (forged_state s_key))) #
       proposal_account s_prop # s_targets) s_key 1 = Inr (posts, [call_of s_act s_targets])"
proof -
  obtain f where f: "put_state (forged_state s_key) = Some f"
    by (rule sample_stores_state [of "forged_state s_key"]) (simp_all add: forged_state_def)
  obtain b where b: "put_proposal (s_prop\<lparr>pr_status := Executed\<rparr>) = Some b" "int (length b) \<le> 102400"
    using s_stores_update [of "[]" "[]" Executed] by (auto simp: s_prop_def fresh_proposal_def)
  from execute_trusts_supplied_state [OF borsh_ok_sample _ s_holds_prop, of "s_account 99 f" s_targets b] f b
  show ?thesis by simp
qed

theorem approve_again_witness:
  "\<exists>posts posts' q. approve_handle sample [state_account s_state1, proposal_account s_prop, s_member 0]
       s_key 1 (s_salt 0) = Inr (posts, []) \<and>
     approve_handle sample [s_account 9 (the (put_state s_state1)),
       with_post (proposal_account s_prop) (posts ! 1), s_member 0] s_key 1 (s_salt 0) = Inr (posts', []) \<and>
     holds_proposal sample (with_post (with_post (proposal_account s_prop) (posts ! 1)) (posts' ! 1)) s_key 1 q \<and>
     length (pr_vote_nullifiers q) = 2"
proof -
  let ?sb = "s_account 9 (the (put_state s_state1))"
  obtain posts where ok: "approve_handle sample [state_account s_state1, proposal_account s_prop, s_member 0]
      s_key 1 (s_salt 0) = Inr (posts, [])"
    using s_approves [of 0] by auto
  have neq: "vote_nf sample (AccountId (b32 9)) 1 s_hash (s_salt 0) \<noteq> vote_nf sample s_id 1 s_hash (s_salt 0)"
    by code_simp
  obtain b where b: "put_proposal (approve_update sample (am_account_id ?sb) 1 s_hash (s_salt 0)
      (approve_update sample (am_account_id (state_account s_state1)) 1 s_hash (s_salt 0) s_prop)) = Some b"
    "int (length b) \<le> 102400"
    using s_stores_update [of "[vote_nf sample s_id 1 s_hash (s_salt 0), vote_nf sample (AccountId (b32 9)) 1 s_hash (s_salt 0)]" "[]" Active]
    by (auto simp: approve_update_def s_prop_def fresh_proposal_def push_def)
  from approve_again_through_copy [OF borsh_ok_sample ok s_holds_prop, of ?sb b] b neq ok show ?thesis
    by (auto simp: state_account_def numeral_2_eq_2)
qed

end
