(* ===== verification/Sdk.thy ===== *)
theory Sdk
  imports Dispatch
begin

text \<open>
  The host-side SDK (\<^verbatim>\<open>sdk/src/lib.rs\<close>): member identities, on-chain reads, the public
  operations, and the private vote.  What the SDK gets from other crates (the sequencer's RPC
  client, the key protocol, the privacy circuit, the clock) is one record of functions; values
  it only passes on are of an opaque type \<open>'o\<close>, and \<open>'w\<close> is the world outside, which every
  remote call reads and may change.  A computation yields \<open>None\<close> if it never returns.
\<close>

section \<open>Errors and computations\<close>

datatype 'o sdk_error =
    Sequencer string
  | AccountNotFound account_id
  | Decode string
  | Proving string
  | NotIncluded 'o nat
  | InvalidInput string

text \<open>A call ends with an error value, or the process panics; a computation over any type of errors.\<close>

datatype 'o fault = Sdk "'o sdk_error" | Panics panic

type_synonym ('w, 'e, 'a) comp = "'w \<Rightarrow> (('e + 'a) \<times> 'w) option"
type_synonym ('w, 'o, 'a) io = "('w, 'o fault, 'a) comp"

definition io_return :: "'a \<Rightarrow> ('w, 'e, 'a) comp" where
  "io_return x = (\<lambda>w. Some (Inr x, w))"

definition io_fail :: "'o sdk_error \<Rightarrow> ('w, 'o, 'a) io" where
  "io_fail e = (\<lambda>w. Some (Inl (Sdk e), w))"

definition io_bind :: "('w, 'e, 'a) comp \<Rightarrow> ('a \<Rightarrow> ('w, 'e, 'b) comp) \<Rightarrow> ('w, 'e, 'b) comp" where
  "io_bind m f = (\<lambda>w. case m w of
     None \<Rightarrow> None | Some (Inl e, w') \<Rightarrow> Some (Inl e, w') | Some (Inr x, w') \<Rightarrow> f x w')"

text \<open>A pure step that may panic, a fallible call with its \<open>map_err\<close>, and a remote call.\<close>

definition io_pure :: "panic + 'a \<Rightarrow> ('w, 'o, 'a) io" where
  "io_pure r = (\<lambda>w. Some (map_sum Panics id r, w))"

definition io_result :: "(string \<Rightarrow> 'o sdk_error) \<Rightarrow> string + 'a \<Rightarrow> ('w, 'o, 'a) io" where
  "io_result g r = (\<lambda>w. Some (map_sum (\<lambda>e. Sdk (g e)) id r, w))"

definition io_call ::
  "(string \<Rightarrow> 'o sdk_error) \<Rightarrow> ('w \<Rightarrow> (string + 'a) \<times> 'w) \<Rightarrow> ('w, 'o, 'a) io" where
  "io_call g c = (\<lambda>w. let (r, w') = c w in Some (map_sum (\<lambda>e. Sdk (g e)) id r, w'))"

lemma io_return_simps [simp]:
  "io_return x w = Some (Inr x, w)" "io_bind (io_return x) f = f x"
  by (auto simp: io_return_def io_bind_def)

lemma io_simps [simp]:
  "io_fail e w = Some (Inl (Sdk e), w)"
  "io_pure (Inr x) w = Some (Inr x, w)" "io_pure (Inl p) w = Some (Inl (Panics p), w)"
  "io_result g (Inr x) w = Some (Inr x, w)" "io_result g (Inl msg) w = Some (Inl (Sdk (g msg)), w)"
  by (simp_all add: io_fail_def io_pure_def io_result_def)

lemma io_bind_simps [simp]:
  "io_bind (io_fail e) f w = Some (Inl (Sdk e), w)"
  "io_bind (io_pure (Inr x)) f w = f x w"
  "io_bind (io_result g (Inr x)) f w = f x w"
  "io_bind (io_result g (Inl msg)) f w = Some (Inl (Sdk (g msg)), w)"
  by (simp_all add: io_bind_def)

lemma io_bind_assoc: "io_bind (io_bind m f) g = io_bind m (\<lambda>x. io_bind (f x) g)"
  by (rule ext) (auto simp: io_bind_def split: option.split sum.split)

lemma io_bind_call_Inr: "c w = (Inr x, w') \<Longrightarrow> io_bind (io_call g c) f w = f x w'"
  by (simp add: io_bind_def io_call_def)

lemma io_bind_call_Inl: "c w = (Inl e, w') \<Longrightarrow> io_bind (io_call g c) f w = Some (Inl (Sdk (g e)), w')"
  by (simp add: io_bind_def io_call_def)

section \<open>The world of the SDK\<close>

text \<open>
  \<^item> \<open>guest_env\<close>: the environment shared with the guest (hashes, PDA derivation, Borsh);
  \<^item> \<open>borsh_error\<close>: how Borsh words its error on undecodable data;
  \<^item> \<open>client_build\<close>, \<open>program_new\<close>, \<open>program_id_of\<close>, \<open>program_elf\<close>: the client and the program;
  \<^item> \<open>rpc_*\<close>: the sequencer's RPC, errors already rendered; \<open>sleep\<close>, \<open>now\<close>: the runtime;
  \<^item> \<open>rng_bytes\<close>: 32 bytes of the operating system's generator;
  \<^item> \<open>key_holder\<close>, \<open>npk_of\<close>, \<open>vpk_of\<close>, \<open>nsk_of\<close>, \<open>account_id_of_npk\<close>: the key protocol;
  \<^item> \<open>commitment_new\<close>, \<open>eph_new\<close>, \<open>shared_secret\<close>, \<open>eph_public\<close>: note encryption;
  \<^item> \<open>serialize_instruction\<close>, \<open>execute_and_prove\<close>, \<open>message_of_output\<close>: the privacy pipeline;
  \<^item> \<open>public_key_of\<close>, \<open>account_id_of_public_key\<close>: signing keys of public accounts;
  \<^item> \<open>public_message\<close>, \<open>public_tx\<close>, \<open>privacy_tx\<close>, \<open>deploy_tx\<close>: transactions with their witness sets.
\<close>

record ('x, 'w, 'o) sdk_env =
  guest_env :: "'x env"
  borsh_error :: "u8 list \<Rightarrow> string"
  client_build :: "string \<Rightarrow> string + 'o"
  program_new :: "u8 list \<Rightarrow> string + 'o"
  program_id_of :: "'o \<Rightarrow> program_id"
  program_elf :: "'o \<Rightarrow> u8 list"
  rpc_get_account :: "'o \<Rightarrow> account_id \<Rightarrow> 'w \<Rightarrow> (string + 'x account) \<times> 'w"
  rpc_send_transaction :: "'o \<Rightarrow> 'o \<Rightarrow> 'w \<Rightarrow> (string + 'o) \<times> 'w"
  rpc_get_transaction :: "'o \<Rightarrow> 'o \<Rightarrow> 'w \<Rightarrow> (string + 'o option) \<times> 'w"
  rpc_get_proof :: "'o \<Rightarrow> 'o \<Rightarrow> 'w \<Rightarrow> (string + 'o option) \<times> 'w"
  sleep :: "nat \<Rightarrow> 'w \<Rightarrow> 'w"
  now :: "'w \<Rightarrow> nat"
  rng_bytes :: "'w \<Rightarrow> bytes32 \<times> 'w"
  key_holder :: "bytes32 \<Rightarrow> 'o"
  npk_of :: "'o \<Rightarrow> 'o"
  vpk_of :: "'o \<Rightarrow> 'o"
  nsk_of :: "'o \<Rightarrow> 'o"
  account_id_of_npk :: "'o \<Rightarrow> account_id"
  public_key_of :: "'o \<Rightarrow> 'o"
  account_id_of_public_key :: "'o \<Rightarrow> account_id"
  commitment_new :: "'o \<Rightarrow> 'x account \<Rightarrow> 'o"
  eph_new :: "'o \<Rightarrow> 'w \<Rightarrow> 'o \<times> 'w"
  shared_secret :: "'o \<Rightarrow> 'o \<Rightarrow> 'o"
  eph_public :: "'o \<Rightarrow> 'o"
  serialize_instruction :: "instruction \<Rightarrow> string + u32 list"
  execute_and_prove :: "'x account_with_metadata list \<Rightarrow> u32 list \<Rightarrow> nat list \<Rightarrow> ('o \<times> 'o) list \<Rightarrow>
     'o list \<Rightarrow> 'o option list \<Rightarrow> 'o \<Rightarrow> 'w \<Rightarrow> (string + 'o \<times> 'o) \<times> 'w"
  message_of_output :: "account_id list \<Rightarrow> nat list \<Rightarrow> ('o \<times> 'o \<times> 'o) list \<Rightarrow> 'o \<Rightarrow> string + 'o"
  public_message :: "program_id \<Rightarrow> account_id list \<Rightarrow> nat list \<Rightarrow> instruction \<Rightarrow> string + 'o"
  public_tx :: "'o \<Rightarrow> 'o list \<Rightarrow> 'o"
  privacy_tx :: "'o \<Rightarrow> 'o \<Rightarrow> 'o list \<Rightarrow> 'o"
  deploy_tx :: "u8 list \<Rightarrow> 'o"

text \<open>Durations in nanoseconds.\<close>

definition from_secs :: "nat \<Rightarrow> nat" where
  "from_secs n = n * 1000000000"

section \<open>Member identity\<close>

record 'o member_identity =
  mi_keys :: 'o
  mi_salt :: bytes32

definition from_seed :: "('x, 'w, 'o) sdk_env \<Rightarrow> bytes32 \<Rightarrow> bytes32 \<Rightarrow> 'o member_identity" where
  "from_seed S seed salt = \<lparr>mi_keys = key_holder S seed, mi_salt = salt\<rparr>"

definition random_identity :: "('x, 'w, 'o) sdk_env \<Rightarrow> 'w \<Rightarrow> 'o member_identity \<times> 'w" where
  "random_identity S w =
     (let (seed, w) = rng_bytes S w; (salt, w) = rng_bytes S w in (from_seed S seed salt, w))"

definition npk :: "('x, 'w, 'o) sdk_env \<Rightarrow> 'o member_identity \<Rightarrow> 'o" where
  "npk S m = npk_of S (mi_keys m)"

definition vpk :: "('x, 'w, 'o) sdk_env \<Rightarrow> 'o member_identity \<Rightarrow> 'o" where
  "vpk S m = vpk_of S (mi_keys m)"

definition nsk :: "('x, 'w, 'o) sdk_env \<Rightarrow> 'o member_identity \<Rightarrow> 'o" where
  "nsk S m = nsk_of S (mi_keys m)"

definition identity_account_id :: "('x, 'w, 'o) sdk_env \<Rightarrow> 'o member_identity \<Rightarrow> account_id" where
  "identity_account_id S m = account_id_of_npk S (npk S m)"

definition identity_commitment :: "('x, 'w, 'o) sdk_env \<Rightarrow> 'o member_identity \<Rightarrow> panic + bytes32" where
  "identity_commitment S m = member_commitment (guest_env S) (mi_salt m) (identity_account_id S m)"

text \<open>The id of a public account, from its signing key.\<close>

definition account_id_from_key :: "('x, 'w, 'o) sdk_env \<Rightarrow> 'o \<Rightarrow> account_id" where
  "account_id_from_key S key = account_id_of_public_key S (public_key_of S key)"

section \<open>The client\<close>

record 'o multisig_client =
  mc_client :: 'o
  mc_program :: 'o
  mc_program_id :: program_id
  mc_inclusion_timeout :: nat

definition client_new ::
  "('x, 'w, 'o) sdk_env \<Rightarrow> string \<Rightarrow> u8 list \<Rightarrow> ('w, 'o, 'o multisig_client) io" where
  "client_new S sequencer_url program_bytecode =
     io_bind (io_result Sequencer (client_build S sequencer_url)) (\<lambda>client.
     io_bind (io_result (\<lambda>e. InvalidInput (''invalid program bytecode: '' @ e))
       (program_new S program_bytecode)) (\<lambda>program.
     let program_id = program_id_of S program in
     io_return \<lparr>mc_client = client, mc_program = program, mc_program_id = program_id,
       mc_inclusion_timeout = from_secs 45\<rparr>))"

subsection \<open>Reads\<close>

definition client_account ::
  "('x, 'w, 'o) sdk_env \<Rightarrow> 'o multisig_client \<Rightarrow> account_id \<Rightarrow> ('w, 'o, 'x account) io" where
  "client_account S c i = io_call Sequencer (rpc_get_account S (mc_client c) i)"

definition client_multisig_state ::
  "('x, 'w, 'o) sdk_env \<Rightarrow> 'o multisig_client \<Rightarrow> bytes32 \<Rightarrow> ('w, 'o, multisig_state) io" where
  "client_multisig_state S c create_key =
     io_bind (io_pure (compute_multisig_state_pda (guest_env S) (mc_program_id c) create_key)) (\<lambda>i.
     io_bind (client_account S c i) (\<lambda>account.
     if account = account_default (guest_env S) then io_fail (AccountNotFound i)
     else case from_slice_state (guest_env S) (acc_data account) of
         None \<Rightarrow> io_fail (Decode (borsh_error S (acc_data account)))
       | Some s \<Rightarrow> io_return s))"

definition client_proposal ::
  "('x, 'w, 'o) sdk_env \<Rightarrow> 'o multisig_client \<Rightarrow> bytes32 \<Rightarrow> u64 \<Rightarrow> ('w, 'o, proposal) io" where
  "client_proposal S c create_key index =
     io_bind (io_pure (compute_proposal_pda (guest_env S) (mc_program_id c) create_key index)) (\<lambda>i.
     io_bind (client_account S c i) (\<lambda>account.
     if account = account_default (guest_env S) then io_fail (AccountNotFound i)
     else case from_slice_proposal (guest_env S) (acc_data account) of
         None \<Rightarrow> io_fail (Decode (borsh_error S (acc_data account)))
       | Some p \<Rightarrow> io_return p))"

definition has_voted ::
  "('x, 'w, 'o) sdk_env \<Rightarrow> 'o multisig_client \<Rightarrow> bytes32 \<Rightarrow> u64 \<Rightarrow> 'o member_identity \<Rightarrow>
     ('w, 'o, bool) io" where
  "has_voted S c create_key index m =
     io_bind (io_pure (compute_multisig_state_pda (guest_env S) (mc_program_id c) create_key)) (\<lambda>state_id.
     io_bind (client_proposal S c create_key index) (\<lambda>proposal.
     io_bind (io_pure (vote_nullifier (guest_env S) (mi_salt m) state_id index (pr_action_hash proposal)))
       (\<lambda>nullifier.
     io_return (List.member (pr_vote_nullifiers proposal) nullifier))))"

subsection \<open>Submission\<close>

text \<open>
  The polling loop of \<open>submit_and_wait\<close>.  It has no bound of its own but the elapsed time, so
  it is a partial function; \<open>None\<close> would be a loop that never ends.
\<close>

partial_function (option) poll_inclusion ::
  "('x, 'w, 'o) sdk_env \<Rightarrow> 'o multisig_client \<Rightarrow> 'o \<Rightarrow> nat \<Rightarrow> 'w \<Rightarrow> (('o fault + 'o) \<times> 'w) option" where
  "poll_inclusion S c tx_hash start w =
     (let w1 = sleep S (from_secs 2) w;
          (found, w2) = rpc_get_transaction S (mc_client c) tx_hash w1 in
      case found of
        Inr (Some _) \<Rightarrow> Some (Inr tx_hash, w2)
      | _ \<Rightarrow> if now S w2 - start > mc_inclusion_timeout c
             then Some (Inl (Sdk (NotIncluded tx_hash (mc_inclusion_timeout c))), w2)
             else poll_inclusion S c tx_hash start w2)"

definition submit_and_wait ::
  "('x, 'w, 'o) sdk_env \<Rightarrow> 'o multisig_client \<Rightarrow> 'o \<Rightarrow> ('w, 'o, 'o) io" where
  "submit_and_wait S c tx =
     io_bind (io_call Sequencer (rpc_send_transaction S (mc_client c) tx)) (\<lambda>tx_hash.
     \<lambda>w. poll_inclusion S c tx_hash (now S w) w)"

definition submit_public_unsigned ::
  "('x, 'w, 'o) sdk_env \<Rightarrow> 'o multisig_client \<Rightarrow> account_id list \<Rightarrow> instruction \<Rightarrow> ('w, 'o, 'o) io" where
  "submit_public_unsigned S c account_ids instruction =
     io_bind (io_result InvalidInput (public_message S (mc_program_id c) account_ids [] instruction)) (\<lambda>msg.
     submit_and_wait S c (public_tx S msg []))"

definition deploy_program :: "('x, 'w, 'o) sdk_env \<Rightarrow> 'o multisig_client \<Rightarrow> ('w, 'o, unit) io" where
  "deploy_program S c = (\<lambda>w.
     let tx = deploy_tx S (program_elf S (mc_program c));
         (sent, w') = rpc_send_transaction S (mc_client c) tx w in
     case sent of
       Inr _ \<Rightarrow> Some (Inr (), sleep S (from_secs 2) w')
     | Inl e \<Rightarrow> if str_contains e ''ProgramAlreadyExists'' then Some (Inr (), w')
               else Some (Inl (Sdk (Sequencer e)), w'))"

subsection \<open>Public operations\<close>

definition sdk_create_multisig ::
  "('x, 'w, 'o) sdk_env \<Rightarrow> 'o multisig_client \<Rightarrow> bytes32 \<Rightarrow> u8 \<Rightarrow> bytes32 list \<Rightarrow> ('w, 'o, 'o) io" where
  "sdk_create_multisig S c create_key threshold member_cms =
     io_bind (io_pure (compute_multisig_state_pda (guest_env S) (mc_program_id c) create_key)) (\<lambda>state_id.
     submit_public_unsigned S c [state_id] (CreateMultisig create_key threshold member_cms))"

definition sdk_propose ::
  "('x, 'w, 'o) sdk_env \<Rightarrow> 'o multisig_client \<Rightarrow> bytes32 \<Rightarrow> u64 \<Rightarrow> program_id \<Rightarrow> u32 list \<Rightarrow>
     u8 \<Rightarrow> bytes32 list \<Rightarrow> u8 list \<Rightarrow> ('w, 'o, 'o) io" where
  "sdk_propose S c create_key proposal_index target_program_id target_instruction_data
       target_account_count pda_seeds authorized_indices =
     io_bind (io_pure (compute_multisig_state_pda (guest_env S) (mc_program_id c) create_key)) (\<lambda>state_id.
     io_bind (io_pure (compute_proposal_pda (guest_env S) (mc_program_id c) create_key proposal_index))
       (\<lambda>proposal_id.
     submit_public_unsigned S c [state_id, proposal_id]
       (Propose create_key proposal_index target_program_id target_instruction_data
          target_account_count pda_seeds authorized_indices)))"

definition sdk_init_vault ::
  "('x, 'w, 'o) sdk_env \<Rightarrow> 'o multisig_client \<Rightarrow> bytes32 \<Rightarrow> account_id \<Rightarrow> program_id \<Rightarrow>
     ('w, 'o, 'o) io" where
  "sdk_init_vault S c create_key token_definition_id token_program_id =
     io_bind (io_pure (compute_vault_pda (guest_env S) (mc_program_id c) create_key)) (\<lambda>vault_id.
     submit_public_unsigned S c [token_definition_id, vault_id] (InitVault create_key token_program_id))"

definition sdk_execute ::
  "('x, 'w, 'o) sdk_env \<Rightarrow> 'o multisig_client \<Rightarrow> bytes32 \<Rightarrow> u64 \<Rightarrow> account_id list \<Rightarrow> ('w, 'o, 'o) io" where
  "sdk_execute S c create_key proposal_index target_account_ids =
     io_bind (io_pure (compute_multisig_state_pda (guest_env S) (mc_program_id c) create_key)) (\<lambda>state_id.
     io_bind (io_pure (compute_proposal_pda (guest_env S) (mc_program_id c) create_key proposal_index))
       (\<lambda>proposal_id.
     let ids = [state_id, proposal_id] @ target_account_ids in
     submit_public_unsigned S c ids (Execute create_key proposal_index)))"

subsection \<open>The private vote\<close>

text \<open>
  Step 2 of \<open>vote_private\<close>: the member account's pre-state and membership proof.  (The dash in
  the source's message is not ASCII; it is a hyphen here.)
\<close>

definition member_pre_state ::
  "('x, 'w, 'o) sdk_env \<Rightarrow> 'o multisig_client \<Rightarrow> 'o member_identity \<Rightarrow> 'x account option \<Rightarrow>
     ('w, 'o, 'x account \<times> 'o option) io" where
  "member_pre_state S c m member_account =
     (case member_account of
        None \<Rightarrow> io_return (account_default (guest_env S), None)
      | Some account \<Rightarrow>
          io_bind (io_call Sequencer (rpc_get_proof S (mc_client c) (commitment_new S (npk S m) account)))
            (\<lambda>found. case found of
               None \<Rightarrow> io_fail (InvalidInput ''member account state has no on-chain commitment - resync'')
             | Some proof_of \<Rightarrow> io_return (account, Some proof_of)))"

definition vote_private ::
  "('x, 'w, 'o) sdk_env \<Rightarrow> 'o multisig_client \<Rightarrow> bytes32 \<Rightarrow> u64 \<Rightarrow> 'o member_identity \<Rightarrow>
     'x account option \<Rightarrow> bool \<Rightarrow> ('w, 'o, 'o) io" where
  "vote_private S c create_key proposal_index m member_account approve =
     io_bind (io_pure (compute_multisig_state_pda (guest_env S) (mc_program_id c) create_key)) (\<lambda>state_id.
     io_bind (io_pure (compute_proposal_pda (guest_env S) (mc_program_id c) create_key proposal_index))
       (\<lambda>proposal_id.
     io_bind (client_account S c state_id) (\<lambda>state_account.
     io_bind (client_account S c proposal_id) (\<lambda>proposal_account.
     let member_id = identity_account_id S m in
     io_bind (member_pre_state S c m member_account) (\<lambda>(member_pre, membership_proof).
     let pre_states =
           [\<lparr>am_account_id = state_id, am_account = state_account, am_is_authorized = False\<rparr>,
            \<lparr>am_account_id = proposal_id, am_account = proposal_account, am_is_authorized = False\<rparr>,
            \<lparr>am_account_id = member_id, am_account = member_pre, am_is_authorized = True\<rparr>];
         instruction = (if approve then Approve create_key proposal_index (mi_salt m)
                        else Reject create_key proposal_index (mi_salt m)) in
     io_bind (io_result InvalidInput (serialize_instruction S instruction)) (\<lambda>instruction_data.
     \<lambda>w. let (eph, w) = eph_new S (npk S m) w;
             ssk = shared_secret S eph (vpk S m);
             epk = eph_public S eph in
     io_bind (io_call Proving (execute_and_prove S pre_states instruction_data [0, 0, 1]
         [(npk S m, ssk)] [nsk S m] [membership_proof] (mc_program c))) (\<lambda>(output, proof_of).
     io_bind (io_result InvalidInput
         (message_of_output S [state_id, proposal_id] [] [(npk S m, vpk S m, epk)] output)) (\<lambda>msg.
     submit_and_wait S c (privacy_tx S msg proof_of []))) w))))))"

definition approve_private ::
  "('x, 'w, 'o) sdk_env \<Rightarrow> 'o multisig_client \<Rightarrow> bytes32 \<Rightarrow> u64 \<Rightarrow> 'o member_identity \<Rightarrow>
     'x account option \<Rightarrow> ('w, 'o, 'o) io" where
  "approve_private S c create_key proposal_index m member_account =
     vote_private S c create_key proposal_index m member_account True"

definition reject_private ::
  "('x, 'w, 'o) sdk_env \<Rightarrow> 'o multisig_client \<Rightarrow> bytes32 \<Rightarrow> u64 \<Rightarrow> 'o member_identity \<Rightarrow>
     'x account option \<Rightarrow> ('w, 'o, 'o) io" where
  "reject_private S c create_key proposal_index m member_account =
     vote_private S c create_key proposal_index m member_account False"

end
