(* ===== verification/Sdk_Properties.thy ===== *)
theory Sdk_Properties
  imports Sdk
begin

text \<open>
  What the SDK promises its callers: submission comes back, its local answer on double votes is the guest's, and a vote the
  program refuses is refused before anything is sent.
\<close>

section \<open>Submission comes back\<close>

text \<open>Time passes while the client sleeps, and does not run backwards during a poll.\<close>

definition clock_runs :: "('x, 'w, 'o) sdk_env \<Rightarrow> 'o multisig_client \<Rightarrow> bool" where
  "clock_runs S c \<longleftrightarrow> (\<forall>d w. now S w + d \<le> now S (sleep S d w)) \<and>
     (\<forall>h w. now S w \<le> now S (snd (rpc_get_transaction S (mc_client c) h w)))"

definition included :: "('x, 'w, 'o) sdk_env \<Rightarrow> 'o multisig_client \<Rightarrow> 'o \<Rightarrow> nat \<Rightarrow> ('o fault + 'o) \<times> 'w \<Rightarrow> bool" where
  "included S c h start = (\<lambda>(r, w). r = Inr h \<or>
     r = Inl (Sdk (NotIncluded h (mc_inclusion_timeout c))) \<and> mc_inclusion_timeout c < now S w - start)"

lemma poll_inclusion_returns:
  assumes clock: "clock_runs S c"
  shows "\<exists>r. poll_inclusion S c h start w = Some r \<and> included S c h start r"
proof (induction "start + mc_inclusion_timeout c + 1 - now S w" arbitrary: w rule: less_induct)
  case less
  let ?w1 = "sleep S (from_secs 2) w"
  obtain found w2 where get: "rpc_get_transaction S (mc_client c) h ?w1 = (found, w2)"
    by (cases "rpc_get_transaction S (mc_client c) h ?w1")
  have "now S w + from_secs 2 \<le> now S ?w1" and "now S ?w1 \<le> now S w2"
    using clock get unfolding clock_runs_def by (blast, metis snd_conv)
  then have later: "now S w < now S w2" by (simp add: from_secs_def)
  show ?case
  proof (cases "\<exists>t. found = Inr (Some t)")
    case True
    then show ?thesis
      by (subst poll_inclusion.simps) (auto simp: get Let_def included_def)
  next
    case missing: False
    show ?thesis
    proof (cases "now S w2 - start > mc_inclusion_timeout c")
      case True
      then show ?thesis using missing
        by (subst poll_inclusion.simps)
          (auto simp: get Let_def included_def split: sum.split option.split)
    next
      case False
      then have "start + mc_inclusion_timeout c + 1 - now S w2 < start + mc_inclusion_timeout c + 1 - now S w"
        using later by linarith
      from less [OF this] have "\<exists>r. poll_inclusion S c h start w2 = Some r \<and> included S c h start r" .
      moreover have "poll_inclusion S c h start w = poll_inclusion S c h start w2"
        using missing False
        by (subst poll_inclusion.simps) (auto simp: get Let_def split: sum.split option.split)
      ultimately show ?thesis by simp
    qed
  qed
qed

text \<open>
  Submission always comes back.  If the clock runs, \<open>submit_and_wait\<close> returns: with the
  sequencer's error if the transaction could not be sent, with its hash once it is included,
  or with NotIncluded, and then only after more than the timeout has passed since sending.
\<close>

lemma submit_and_wait_returns:
  assumes "clock_runs S c"
  shows "case rpc_send_transaction S (mc_client c) tx w of
      (Inl e, w1) \<Rightarrow> submit_and_wait S c tx w = Some (Inl (Sdk (Sequencer e)), w1)
    | (Inr h, w1) \<Rightarrow> \<exists>r. submit_and_wait S c tx w = Some r \<and> included S c h (now S w1) r"
  using poll_inclusion_returns [OF assms]
  by (auto simp: submit_and_wait_def io_bind_call_Inr io_bind_call_Inl split: prod.split sum.split)

section \<open>Addresses\<close>

text \<open>The derived ids of state, proposal and vault.\<close>

definition pda_of :: "('x, 'w, 'o) sdk_env \<Rightarrow> 'o multisig_client \<Rightarrow> pda_kind \<Rightarrow> account_id" where
  "pda_of S c kind = for_public_pda (guest_env S) (mc_program_id c)
     (PdaSeed (sha2_digest (guest_env S) (pda_preimage kind)))"

lemma compute_pda_eqs [simp]:
  "compute_multisig_state_pda (guest_env S) (mc_program_id c) k = Inr (pda_of S c (StatePda k))"
  "compute_proposal_pda (guest_env S) (mc_program_id c) k i = Inr (pda_of S c (ProposalPda k i))"
  "compute_vault_pda (guest_env S) (mc_program_id c) k = Inr (pda_of S c (VaultPda k))"
  by (simp_all add: compute_multisig_state_pda_def compute_proposal_pda_def compute_vault_pda_def
      pda_of_def del: pda_preimage.simps)

lemma io_bind_pure_fun [simp]: "io_bind (io_pure (Inr x)) f = f x"
  by (rule ext) simp

section \<open>Reads\<close>

text \<open>In the world \<open>w\<close> the sequencer answers account reads from \<open>chain\<close>, changing nothing.\<close>

definition serves :: "('x, 'w, 'o) sdk_env \<Rightarrow> 'o multisig_client \<Rightarrow> (account_id \<Rightarrow> 'x account) \<Rightarrow> 'w \<Rightarrow> bool" where
  "serves S c chain w \<longleftrightarrow> (\<forall>i. rpc_get_account S (mc_client c) i w = (Inr (chain i), w))"

lemma client_account_serves [simp]:
  "serves S c chain w \<Longrightarrow> client_account S c i w = Some (Inr (chain i), w)"
  by (simp add: serves_def client_account_def io_call_def)

lemma io_bind_account [simp]:
  "serves S c chain w \<Longrightarrow> io_bind (client_account S c i) f w = f (chain i) w"
  by (simp add: io_bind_def)

text \<open>The three accounts of a private vote, as \<open>vote_private\<close> assembles them.\<close>

definition vote_pre_states ::
  "('x, 'w, 'o) sdk_env \<Rightarrow> 'o multisig_client \<Rightarrow> (account_id \<Rightarrow> 'x account) \<Rightarrow> bytes32 \<Rightarrow> u64 \<Rightarrow>
     'o member_identity \<Rightarrow> 'x account \<Rightarrow> 'x account_with_metadata list" where
  "vote_pre_states S c chain k i m member_pre =
     [\<lparr>am_account_id = pda_of S c (StatePda k), am_account = chain (pda_of S c (StatePda k)), am_is_authorized = False\<rparr>,
      \<lparr>am_account_id = pda_of S c (ProposalPda k i), am_account = chain (pda_of S c (ProposalPda k i)),
       am_is_authorized = False\<rparr>,
      \<lparr>am_account_id = identity_account_id S m, am_account = member_pre, am_is_authorized = True\<rparr>]"

lemma client_proposal_serves:
  assumes "serves S c chain w" and "chain (pda_of S c (ProposalPda k i)) \<noteq> account_default (guest_env S)"
    and "from_slice_proposal (guest_env S) (acc_data (chain (pda_of S c (ProposalPda k i)))) = Some p"
  shows "client_proposal S c k i w = Some (Inr p, w)"
  using assms by (simp add: client_proposal_def)

text \<open>
  C28: \<open>has_voted\<close> predicts the guest.  For a member of the multisig and an active proposal, read
  from one snapshot of the chain, \<open>has_voted\<close> answers, and answers true exactly when the guest,
  run on the accounts that \<open>vote_private\<close> assembles, refuses the approval as a duplicate.
\<close>

theorem has_voted_predicts_guest:
  assumes "serves S c chain w"
    and "from_slice_proposal (guest_env S) (acc_data (account_default (guest_env S))) = None"
    and "vote_ready (guest_env S) k i (mi_salt m) (vote_pre_states S c chain k i m d ! 0)
      (vote_pre_states S c chain k i m d ! 1) (vote_pre_states S c chain k i m d ! 2) s p"
  shows "\<exists>b. has_voted S c k i m w = Some (Inr b, w) \<and>
    (b \<longleftrightarrow> process (guest_env S) (vote_pre_states S c chain k i m d) (Approve k i (mi_salt m)) =
       Inl (Pms ERR_DUPLICATE_VOTE))"
proof -
  let ?pa = "chain (pda_of S c (ProposalPda k i))"
  note r = assms(3) [unfolded vote_pre_states_def, simplified]
  have p: "from_slice_proposal (guest_env S) (acc_data ?pa) = Some p"
    using r by (simp add: vote_ready_def holds_proposal_def)
  then have "?pa \<noteq> account_default (guest_env S)" using assms(2) by auto
  from client_proposal_serves [OF assms(1) this p]
  have "has_voted S c k i m w = Some (Inr (List.member (pr_vote_nullifiers p)
      (vote_nf (guest_env S) (pda_of S c (StatePda k)) i (pr_action_hash p) (mi_salt m))), w)"
    by (simp add: has_voted_def io_bind_def)
  then show ?thesis
    by (simp add: vote_pre_states_def approve_handle_ready [OF r] finalize_vote_no_Pms)
qed

section \<open>A refused vote is never sent\<close>

text \<open>
  The privacy circuit runs the program's own guest: on an instruction it was given the
  serialisation of, it fails where the guest panics, with the panic's code in the message.
\<close>

definition proves_guest :: "('x, 'w, 'o) sdk_env \<Rightarrow> 'o multisig_client \<Rightarrow> bool" where
  "proves_guest S c \<longleftrightarrow> (\<forall>pre ins bytes vis keys nsks proofs w e.
     serialize_instruction S ins = Inr bytes \<longrightarrow> process (guest_env S) pre ins = Inl (Pms e) \<longrightarrow>
     (\<exists>msg w'. execute_and_prove S pre bytes vis keys nsks proofs (mc_program c) w = (Inl msg, w') \<and>
        str_contains msg (err_code e)))"

text \<open>\<open>sent\<close> lists the transactions sent in a world; only sending adds to it.\<close>

definition only_sending_sends :: "('x, 'w, 'o) sdk_env \<Rightarrow> 'o multisig_client \<Rightarrow> ('w \<Rightarrow> 'o list) \<Rightarrow> bool" where
  "only_sending_sends S c sent \<longleftrightarrow>
     (\<forall>x w. sent (snd (rpc_get_proof S (mc_client c) x w)) = sent w) \<and>
     (\<forall>x w. sent (snd (eph_new S x w)) = sent w) \<and>
     (\<forall>pre bytes vis keys nsks proofs w.
        sent (snd (execute_and_prove S pre bytes vis keys nsks proofs (mc_program c) w)) = sent w)"

lemma member_pre_state_cases:
  assumes "only_sending_sends S c sent"
  obtains f w' where "member_pre_state S c m acct w = Some (Inl f, w')" "sent w' = sent w" "acct \<noteq> None"
  | t w' where "member_pre_state S c m acct w =
      Some (Inr (case acct of None \<Rightarrow> account_default (guest_env S) | Some a \<Rightarrow> a, t), w')" "sent w' = sent w"
proof (cases acct)
  case None
  then show ?thesis using that(2) by (simp add: member_pre_state_def)
next
  case (Some a)
  obtain found w' where get: "rpc_get_proof S (mc_client c) (commitment_new S (npk S m) a) w = (found, w')"
    by (cases "rpc_get_proof S (mc_client c) (commitment_new S (npk S m) a) w")
  then have same: "sent w' = sent w" using assms unfolding only_sending_sends_def by (metis snd_conv)
  consider e where "found = Inl e" | "found = Inr None" | t where "found = Inr (Some t)"
    by (metis sum.exhaust option.exhaust)
  then show ?thesis
    by cases (use get same Some that in
      \<open>simp_all add: member_pre_state_def io_bind_call_Inr io_bind_call_Inl\<close>)
qed

text \<open>
  C27: a vote the program refuses is refused before anything is sent.  If the guest panics with a
  documented error on the accounts of the vote, then \<open>approve_private\<close> and \<open>reject_private\<close> end
  with an error and have sent no transaction; for a fresh member account whose instruction
  serialises, with a Proving error whose message carries the code of the guest's error.
\<close>

theorem refused_vote_not_sent:
  assumes "serves S c chain w" and "proves_guest S c" and "only_sending_sends S c sent"
    and "process (guest_env S)
      (vote_pre_states S c chain k i m (case acct of None \<Rightarrow> account_default (guest_env S) | Some a \<Rightarrow> a))
      (if approve then Approve k i (mi_salt m) else Reject k i (mi_salt m)) = Inl (Pms e)"
  shows "\<exists>f w'. vote_private S c k i m acct approve w = Some (Inl f, w') \<and> sent w' = sent w \<and>
    (acct = None \<and> isl (serialize_instruction S
       (if approve then Approve k i (mi_salt m) else Reject k i (mi_salt m))) = False \<longrightarrow>
     (\<exists>msg. f = Sdk (Proving msg) \<and> str_contains msg (err_code e)))"
proof -
  let ?ins = "if approve then Approve k i (mi_salt m) else Reject k i (mi_salt m)"
  let ?d = "case acct of None \<Rightarrow> account_default (guest_env S) | Some a \<Rightarrow> a"
  show ?thesis
  proof (cases rule: member_pre_state_cases [OF assms(3), of m acct w])
    case (1 f w1)
    then show ?thesis
      using assms(1) by (auto simp: vote_private_def io_bind_def Let_def)
  next
    case (2 t w1)
    show ?thesis
    proof (cases "serialize_instruction S ?ins")
      case (Inl msg)
      then show ?thesis
        using assms(1) 2 by (simp add: vote_private_def io_bind_def Let_def)
    next
      case (Inr bytes)
      obtain eph w2 where eph: "eph_new S (npk S m) w1 = (eph, w2)"
        by (cases "eph_new S (npk S m) w1")
      let ?prove = "execute_and_prove S (vote_pre_states S c chain k i m ?d) bytes [0, 0, 1]
        [(npk S m, shared_secret S eph (vpk S m))] [nsk S m] [t] (mc_program c)"
      obtain msg w3 where refused: "?prove w2 = (Inl msg, w3)" "str_contains msg (err_code e)"
        using assms(2,4) Inr unfolding proves_guest_def by blast
      have "sent w2 = sent w1" and "sent w3 = sent w2"
        using assms(3) eph refused(1) unfolding only_sending_sends_def by (metis snd_conv)+
      moreover have "vote_private S c k i m acct approve w = Some (Inl (Sdk (Proving msg)), w3)"
        using assms(1) 2 Inr eph refused(1)
        by (simp add: vote_private_def io_bind_def io_call_def Let_def vote_pre_states_def)
      ultimately show ?thesis using 2 refused(2) by auto
    qed
  qed
qed

end
