(* ===== verification/Sdk_Chain.thy ===== *)
theory Sdk_Chain
  imports Sdk_Properties Protocol
begin

text \<open>
  The public operations of the SDK against the guest on a chain.  The SDK submits an instruction
  with account ids that it derives itself, and later reads the accounts back under ids that it
  derives again; the guest names its accounts by position.  The theorem says that the two agree.
\<close>

section \<open>A public execution\<close>

text \<open>The accounts at the submitted ids, in their order; nobody signs, so none is authorised.\<close>

definition at_ids :: "(account_id \<Rightarrow> 'x account) \<Rightarrow> account_id list \<Rightarrow> 'x account_with_metadata list" where
  "at_ids chain ids =
     map (\<lambda>i. \<lparr>am_account_id = i, am_account = chain i, am_is_authorized = False\<rparr>) ids"

text \<open>The chain with the post states at the submitted ids.\<close>

fun store :: "(account_id \<Rightarrow> 'x account) \<Rightarrow> account_id list \<Rightarrow> 'x account_post_state list \<Rightarrow>
    account_id \<Rightarrow> 'x account" where
  "store chain (i # ids) (post # posts) = store (chain(i := ps_account post)) ids posts"
| "store chain _ _ = chain"

text \<open>Every claim of a post state derives the id submitted for it, under the client's program.\<close>

definition claims_derive ::
  "('x, 'w, 'o) sdk_env \<Rightarrow> 'o multisig_client \<Rightarrow> account_id list \<Rightarrow> 'x account_post_state list \<Rightarrow> bool" where
  "claims_derive S c ids posts \<longleftrightarrow> list_all2 (\<lambda>i post. case ps_claim post of
     None \<Rightarrow> True | Some (Pda seed) \<Rightarrow> for_public_pda (guest_env S) (mc_program_id c) seed = i) ids posts"

lemma at_ids_simps [simp]:
  "at_ids chain [] = []"
  "at_ids chain (i # ids) =
     \<lparr>am_account_id = i, am_account = chain i, am_is_authorized = False\<rparr> # at_ids chain ids"
  by (simp_all add: at_ids_def)

lemma store_other: "j \<notin> set ids \<Longrightarrow> store chain ids posts j = chain j"
  by (induction chain ids posts rule: store.induct) auto

lemma claims_derive_simps [simp]:
  "claims_derive S c [] []"
  "claims_derive S c (i # ids) (post # posts) \<longleftrightarrow> (case ps_claim post of
     None \<Rightarrow> True | Some (Pda seed) \<Rightarrow> for_public_pda (guest_env S) (mc_program_id c) seed = i) \<and>
     claims_derive S c ids posts"
  by (simp_all add: claims_derive_def)

lemma claims_derive_unclaimed:
  "length ids = length accs \<Longrightarrow> claims_derive S c ids (map (\<lambda>a. post_new (am_account a)) accs)"
  by (simp add: claims_derive_def list_all2_conv_all_nth)

lemma client_state_serves:
  assumes "platform_ok (guest_env S)" and "serves S c chain w"
    and "from_slice_state (guest_env S) (acc_data (chain (pda_of S c (StatePda k)))) = Some s"
  shows "client_multisig_state S c k w = Some (Inr s, w)"
  using assms platform_ok_not_default(1) [OF assms(1,3)]
  by (simp add: client_multisig_state_def)

lemma client_proposal_stored:
  assumes "platform_ok (guest_env S)" and "serves S c chain w"
    and "from_slice_proposal (guest_env S) (acc_data (chain (pda_of S c (ProposalPda k i)))) = Some p"
  shows "client_proposal S c k i w = Some (Inr p, w)"
  by (rule client_proposal_serves [OF assms(2) platform_ok_not_default(2) [OF assms(1,3)] assms(3)])

section \<open>The four operations\<close>

lemma create_lands:
  assumes "platform_ok (guest_env S)"
    and "process (guest_env S) (at_ids chain [pda_of S c (StatePda k)]) (CreateMultisig k t cms) =
      Inr (posts, calls)"
    and "serves S c (store chain [pda_of S c (StatePda k)] posts) w"
  shows "claims_derive S c [pda_of S c (StatePda k)] posts \<and>
    client_multisig_state S c k w = Some (Inr (multisig_state_new k t cms), w)"
proof -
  obtain bytes where b: "to_vec_state (guest_env S) (multisig_state_new k t cms) = Some bytes"
    and p: "posts = [post_new_claimed ((chain (pda_of S c (StatePda k)))\<lparr>acc_data := bytes\<rparr>)
           (Pda (PdaSeed (sha2_digest (guest_env S) (pda_preimage (StatePda k)))))]"
    using assms(2) by (auto elim!: create_multisig_handle_InrE simp del: pda_preimage.simps)
  have "from_slice_state (guest_env S) bytes = Some (multisig_state_new k t cms)"
    using borsh_okD(1) [OF platform_ok_borsh [OF assms(1)] b] .
  then show ?thesis
    using client_state_serves [OF assms(1,3), of k] by (simp add: p pda_of_def del: pda_preimage.simps)
qed

lemma propose_lands:
  fixes k i and S :: "('x, 'w, 'o) sdk_env" and c :: "'o multisig_client"
  defines "ids \<equiv> [pda_of S c (StatePda k), pda_of S c (ProposalPda k i)]"
  assumes E: "platform_ok (guest_env S)" and "pda_of S c (StatePda k) \<noteq> pda_of S c (ProposalPda k i)"
    and ok: "process (guest_env S) (at_ids chain ids) (Propose k i tp ti tn seeds idxs) = Inr (posts, calls)"
    and read: "serves S c (store chain ids posts) w"
    and a: "a = \<lparr>pa_target_program_id = tp, pa_target_instruction_data = ti,
       pa_target_account_count = tn, pa_pda_seeds = seeds, pa_authorized_indices = idxs\<rparr>"
  shows "claims_derive S c ids posts \<and>
    (\<exists>s h. from_slice_state (guest_env S) (acc_data (chain (pda_of S c (StatePda k)))) = Some s \<and>
       client_multisig_state S c k w = Some (Inr (s\<lparr>ms_transaction_index := i\<rparr>), w) \<and>
       client_proposal S c k i w = Some (Inr (fresh_proposal i k a h), w))"
proof -
  from ok have "propose_handle (guest_env S) (at_ids chain ids) k i a = Inr (posts, calls)"
    by (simp add: a)
  then obtain s h sb pb where s: "from_slice_state (guest_env S) (acc_data (chain (pda_of S c (StatePda k)))) = Some s"
    and sb: "to_vec_state (guest_env S) (s\<lparr>ms_transaction_index := i\<rparr>) = Some sb"
    and pb: "to_vec_proposal (guest_env S) (fresh_proposal i k a h) = Some pb"
    and p: "posts = [post_new ((chain (pda_of S c (StatePda k)))\<lparr>acc_data := sb\<rparr>),
           post_new_claimed ((chain (pda_of S c (ProposalPda k i)))\<lparr>acc_data := pb\<rparr>)
             (Pda (PdaSeed (sha2_digest (guest_env S) (pda_preimage (ProposalPda k i)))))]"
    by (auto elim!: propose_handle_InrE simp: ids_def holds_state_def simp del: pda_preimage.simps)
  have "from_slice_state (guest_env S) sb = Some (s\<lparr>ms_transaction_index := i\<rparr>)"
    and "from_slice_proposal (guest_env S) pb = Some (fresh_proposal i k a h)"
    using borsh_okD [OF platform_ok_borsh [OF E]] sb pb by blast+
  then show ?thesis
    using client_state_serves [OF E read, of k] client_proposal_stored [OF E read, of k i] s assms(3)
    by (auto simp: p ids_def pda_of_def [of _ _ "ProposalPda k i"] simp del: pda_preimage.simps)
qed

lemma execute_lands:
  fixes k i targets and S :: "('x, 'w, 'o) sdk_env" and c :: "'o multisig_client"
  defines "ids \<equiv> pda_of S c (StatePda k) # pda_of S c (ProposalPda k i) # targets"
  assumes E: "platform_ok (guest_env S)" and new: "pda_of S c (ProposalPda k i) \<notin> set targets"
    and ok: "process (guest_env S) (at_ids chain ids) (Execute k i) = Inr (posts, calls)"
    and read: "serves S c (store chain ids posts) w"
  shows "claims_derive S c ids posts \<and>
    (\<exists>p call. from_slice_proposal (guest_env S) (acc_data (chain (pda_of S c (ProposalPda k i)))) = Some p \<and>
       client_proposal S c k i w = Some (Inr (p\<lparr>pr_status := Executed\<rparr>), w) \<and>
       calls = [call] \<and> map am_account_id (cc_pre_states call) = targets)"
proof -
  from ok obtain p b where
    p: "from_slice_proposal (guest_env S) (acc_data (chain (pda_of S c (ProposalPda k i)))) = Some p"
    and b: "to_vec_proposal (guest_env S) (p\<lparr>pr_status := Executed\<rparr>) = Some b"
    and posts: "posts = post_new (chain (pda_of S c (StatePda k))) #
       post_new ((chain (pda_of S c (ProposalPda k i)))\<lparr>acc_data := b\<rparr>) #
       map (\<lambda>t. post_new (am_account t)) (at_ids chain targets)"
    and calls: "calls = [call_of (pr_action p) (at_ids chain targets)]"
    by (auto elim!: execute_handle_InrE simp: ids_def executable_def holds_proposal_def)
  have "from_slice_proposal (guest_env S) b = Some (p\<lparr>pr_status := Executed\<rparr>)"
    using borsh_okD(2) [OF platform_ok_borsh [OF E] b] .
  then have "client_proposal S c k i w = Some (Inr (p\<lparr>pr_status := Executed\<rparr>), w)"
    using client_proposal_stored [OF E read] by (simp add: ids_def posts store_other [OF new])
  moreover have "map am_account_id (cc_pre_states (call_of (pr_action p) (at_ids chain targets))) = targets"
    by (rule nth_equalityI) (simp_all add: call_of_def authorize_target_def nth_enumerate_eq at_ids_def)
  moreover have "claims_derive S c ids posts"
    by (simp add: ids_def posts claims_derive_unclaimed at_ids_def del: map_map)
  ultimately show ?thesis using p calls by blast
qed

lemma vault_lands:
  assumes "process (guest_env S) (at_ids chain [d, pda_of S c (VaultPda k)]) (InitVault k token) =
      Inr (posts, calls)"
  shows "claims_derive S c [d, pda_of S c (VaultPda k)] posts \<and>
    (\<exists>call. calls = [call] \<and> cc_program_id call = token \<and>
       map am_account_id (cc_pre_states call) = [d, pda_of S c (VaultPda k)] \<and>
       map am_is_authorized (cc_pre_states call) = [False, True] \<and>
       map (for_public_pda (guest_env S) (mc_program_id c)) (cc_pda_seeds call) = [pda_of S c (VaultPda k)])"
  using assms by (auto elim!: init_vault_handle_InrE simp: vault_call_def pda_of_def
      simp del: pda_preimage.simps)

text \<open>The guest accepts a submission on a chain, and the sequencer then serves what it left.\<close>

definition accepted ::
  "('x, 'w, 'o) sdk_env \<Rightarrow> 'o multisig_client \<Rightarrow> (account_id \<Rightarrow> 'x account) \<Rightarrow> account_id list \<Rightarrow>
     instruction \<Rightarrow> 'x account_post_state list \<Rightarrow> 'x chained_call list \<Rightarrow> 'w \<Rightarrow> bool" where
  "accepted S c chain ids ins posts calls w \<longleftrightarrow>
     process (guest_env S) (at_ids chain ids) ins = Inr (posts, calls) \<and>
     serves S c (store chain ids posts) w"

text \<open>
  C29: What the SDK submits lands where it looks for it.  Each public operation submits its
  instruction, unsigned, with exactly these ids in this order: the state account; state and
  proposal; state, proposal and targets; definition and vault.  Whenever the guest accepts that
  submission, on whatever chain, every account it claims is the account its claim derives, and
  the SDK's own reads find the result: the new state after CreateMultisig; the advanced counter
  and the fresh proposal after Propose; the executed proposal after Execute, whose call goes to
  the targets; and InitVault's call authorises the vault alone, by a seed that derives it.
\<close>

theorem sdk_submissions_land:
  fixes S :: "('x, 'w, 'o) sdk_env" and c :: "'o multisig_client"
  assumes "platform_ok (guest_env S)"
    and "pda_of S c (StatePda k) \<noteq> pda_of S c (ProposalPda k i)"
    and "pda_of S c (ProposalPda k i) \<notin> set targets"
  shows "sdk_create_multisig S c k t cms =
      submit_public_unsigned S c [pda_of S c (StatePda k)] (CreateMultisig k t cms) \<and>
    (accepted S c chain [pda_of S c (StatePda k)] (CreateMultisig k t cms) posts calls w \<longrightarrow>
      claims_derive S c [pda_of S c (StatePda k)] posts \<and>
      client_multisig_state S c k w = Some (Inr (multisig_state_new k t cms), w)) \<and>
    sdk_propose S c k i tp ti tn seeds idxs =
      submit_public_unsigned S c [pda_of S c (StatePda k), pda_of S c (ProposalPda k i)]
        (Propose k i tp ti tn seeds idxs) \<and>
    (accepted S c chain [pda_of S c (StatePda k), pda_of S c (ProposalPda k i)]
        (Propose k i tp ti tn seeds idxs) posts calls w \<longrightarrow>
      claims_derive S c [pda_of S c (StatePda k), pda_of S c (ProposalPda k i)] posts \<and>
      (\<exists>s h. from_slice_state (guest_env S) (acc_data (chain (pda_of S c (StatePda k)))) = Some s \<and>
        client_multisig_state S c k w = Some (Inr (s\<lparr>ms_transaction_index := i\<rparr>), w) \<and>
        client_proposal S c k i w = Some (Inr (fresh_proposal i k
          \<lparr>pa_target_program_id = tp, pa_target_instruction_data = ti, pa_target_account_count = tn,
           pa_pda_seeds = seeds, pa_authorized_indices = idxs\<rparr> h), w))) \<and>
    sdk_execute S c k i targets =
      submit_public_unsigned S c (pda_of S c (StatePda k) # pda_of S c (ProposalPda k i) # targets) (Execute k i) \<and>
    (accepted S c chain (pda_of S c (StatePda k) # pda_of S c (ProposalPda k i) # targets)
        (Execute k i) posts calls w \<longrightarrow>
      claims_derive S c (pda_of S c (StatePda k) # pda_of S c (ProposalPda k i) # targets) posts \<and>
      (\<exists>p call. from_slice_proposal (guest_env S) (acc_data (chain (pda_of S c (ProposalPda k i)))) = Some p \<and>
        client_proposal S c k i w = Some (Inr (p\<lparr>pr_status := Executed\<rparr>), w) \<and>
        calls = [call] \<and> map am_account_id (cc_pre_states call) = targets)) \<and>
    sdk_init_vault S c k d token =
      submit_public_unsigned S c [d, pda_of S c (VaultPda k)] (InitVault k token) \<and>
    (accepted S c chain [d, pda_of S c (VaultPda k)] (InitVault k token) posts calls w \<longrightarrow>
      claims_derive S c [d, pda_of S c (VaultPda k)] posts \<and>
      (\<exists>call. calls = [call] \<and> cc_program_id call = token \<and>
        map am_account_id (cc_pre_states call) = [d, pda_of S c (VaultPda k)] \<and>
        map am_is_authorized (cc_pre_states call) = [False, True] \<and>
        map (for_public_pda (guest_env S) (mc_program_id c)) (cc_pda_seeds call) = [pda_of S c (VaultPda k)]))"
proof -
  have "sdk_create_multisig S c k t cms =
      submit_public_unsigned S c [pda_of S c (StatePda k)] (CreateMultisig k t cms)"
    and "sdk_propose S c k i tp ti tn seeds idxs =
      submit_public_unsigned S c [pda_of S c (StatePda k), pda_of S c (ProposalPda k i)]
        (Propose k i tp ti tn seeds idxs)"
    and "sdk_execute S c k i targets =
      submit_public_unsigned S c (pda_of S c (StatePda k) # pda_of S c (ProposalPda k i) # targets) (Execute k i)"
    and "sdk_init_vault S c k d token =
      submit_public_unsigned S c [d, pda_of S c (VaultPda k)] (InitVault k token)"
    by (simp_all add: sdk_create_multisig_def sdk_propose_def sdk_execute_def sdk_init_vault_def Let_def)
  then show ?thesis
    using create_lands [OF assms(1), where posts = posts and calls = calls and w = w and c = c and k = k]
      propose_lands [OF assms(1,2) _ _ refl, where posts = posts and calls = calls and w = w]
      execute_lands [OF assms(1,3), where posts = posts and calls = calls and w = w]
      vault_lands [of S chain d c k token posts calls]
    unfolding accepted_def by blast
qed

end
