(* ===== verification/Sdk_Witnesses.thy ===== *)
theory Sdk_Witnesses
  imports Witnesses Sdk_Chain
begin

text \<open>
  A sample world for the SDK, on top of the sample multisig: a sequencer that serves the two
  accounts, records what is sent and never includes it, a clock that only sleeping moves, and
  a circuit that runs the guest on the two instructions it can decode.
\<close>

type_synonym s_world = "nat \<times> nat list"

definition s_chain :: "account_id \<Rightarrow> nat account" where
  "s_chain i =
     (if i = AccountId (digest (pda_preimage (StatePda s_key))) then am_account (state_account s_state1)
      else if i = AccountId (digest (pda_preimage (ProposalPda s_key 1)))
      then am_account (proposal_account s_prop)
      else \<lparr>acc_data = [], acc_rest = 0\<rparr>)"

definition s_encode :: "bytes32 \<Rightarrow> instruction \<Rightarrow> string + u32 list" where
  "s_encode v ins =
     (if ins = Approve s_key 1 v then Inr [1] else if ins = Reject s_key 1 v then Inr [2]
      else Inl ''not supported'')"

definition s_prove ::
  "bytes32 \<Rightarrow> nat account_with_metadata list \<Rightarrow> u32 list \<Rightarrow> 'w \<Rightarrow> (string + nat \<times> nat) \<times> 'w" where
  "s_prove v pre words w =
     (case process sample pre (if words = [1] then Approve s_key 1 v else Reject s_key 1 v) of
        Inl (Pms e) \<Rightarrow> (Inl (err_str e), w)
      | Inl _ \<Rightarrow> (Inl ''panic'', w)
      | Inr _ \<Rightarrow> (Inr (0, 0), w))"

text \<open>The functions, over any world with a clock and a list of what was sent.\<close>

definition s_sdk_over ::
  "(nat \<Rightarrow> 'w \<Rightarrow> 'w) \<Rightarrow> ('w \<Rightarrow> nat) \<Rightarrow> (nat \<Rightarrow> 'w \<Rightarrow> 'w) \<Rightarrow> bytes32 \<Rightarrow> (nat, 'w, nat) sdk_env" where
  "s_sdk_over tick time book v = \<lparr>guest_env = sample, borsh_error = (\<lambda>_. ''undecodable''),
     client_build = (\<lambda>_. Inr 0), program_new = (\<lambda>bs. Inr (length bs)),
     program_id_of = (\<lambda>n. if n = 0 then arr_fill 1 else arr_fill 42),
     program_elf = (\<lambda>_. []),
     rpc_get_account = (\<lambda>_ i w. (Inr (s_chain i), w)),
     rpc_send_transaction = (\<lambda>_ tx w. (Inr 0, book tx w)),
     rpc_get_transaction = (\<lambda>_ h w. (Inr None, w)),
     rpc_get_proof = (\<lambda>_ c w. (Inr None, w)),
     sleep = tick, now = time, rng_bytes = (\<lambda>w. (b32 0, w)),
     key_holder = (\<lambda>_. 0), npk_of = id, vpk_of = id, nsk_of = id,
     account_id_of_npk = (\<lambda>_. am_account_id (s_member 0)),
     public_key_of = id, account_id_of_public_key = (\<lambda>n. AccountId (b32 n)),
     commitment_new = (\<lambda>_ _. 0), eph_new = (\<lambda>_ w. (0, w)), shared_secret = (\<lambda>_ _. 0),
     eph_public = id, serialize_instruction = s_encode v,
     execute_and_prove = (\<lambda>pre words _ _ _ _ _ w. s_prove v pre words w),
     message_of_output = (\<lambda>_ _ _ _. Inr 0), public_message = (\<lambda>_ _ _ _. Inr 0),
     public_tx = (\<lambda>_ _. 1), privacy_tx = (\<lambda>_ _ _. 2), deploy_tx = (\<lambda>_. 3)\<rparr>"

definition s_sdk :: "bytes32 \<Rightarrow> (nat, s_world, nat) sdk_env" where
  "s_sdk = s_sdk_over (\<lambda>d (t, sent). (t + d, sent)) fst (\<lambda>tx (t, sent). (t, tx # sent))"

definition s_client :: "nat multisig_client" where
  "s_client = \<lparr>mc_client = 0, mc_program = 0, mc_program_id = arr_fill 1,
     mc_inclusion_timeout = from_secs 45\<rparr>"

definition s_identity :: "bytes32 \<Rightarrow> nat member_identity" where
  "s_identity v = \<lparr>mi_keys = 0, mi_salt = v\<rparr>"

lemma s_clock: "clock_runs (s_sdk v) s_client"
  by (auto simp: clock_runs_def s_sdk_def s_sdk_over_def)

lemma submit_and_wait_sample:
  "\<exists>r. submit_and_wait (s_sdk (s_salt 0)) s_client 1 (0, []) = Some r \<and>
     included (s_sdk (s_salt 0)) s_client 0 0 r"
  using submit_and_wait_returns [OF s_clock, of "s_salt 0" 1 "(0, [])"] by (simp add: s_sdk_def s_sdk_over_def)

lemma s_serves: "serves (s_sdk v) s_client s_chain w"
  by (simp add: serves_def s_sdk_def s_sdk_over_def)

lemma s_pda_differ: "digest (pda_preimage (StatePda s_key)) \<noteq> digest (pda_preimage (ProposalPda s_key 1))"
  by code_simp

lemma s_sdk_simps [simp]:
  "guest_env (s_sdk v) = sample" "mc_program_id s_client = arr_fill 1"
  "identity_account_id (s_sdk v) m = am_account_id (s_member 0)"
  "mi_salt (s_identity v) = v" "serialize_instruction (s_sdk v) = s_encode v"
  by (simp_all add: s_sdk_def s_sdk_over_def s_client_def s_identity_def identity_account_id_def)

lemma s_pre_states:
  "vote_pre_states (s_sdk v) s_client s_chain s_key 1 m \<lparr>acc_data = [], acc_rest = 0\<rparr> =
     [(state_account s_state1)\<lparr>am_account_id := AccountId (digest (pda_preimage (StatePda s_key)))\<rparr>,
      (proposal_account s_prop)\<lparr>am_account_id := AccountId (digest (pda_preimage (ProposalPda s_key 1)))\<rparr>,
      s_member 0]"
  using s_pda_differ
  by (simp add: vote_pre_states_def pda_of_def s_chain_def state_account_def proposal_account_def
      s_member_def s_account_def del: pda_preimage.simps)

text \<open>The chain before the first proposal, and the sequencer after it.\<close>

abbreviation s_state_pda :: account_id where
  "s_state_pda \<equiv> AccountId (digest (pda_preimage (StatePda s_key)))"

abbreviation s_proposal_pda :: account_id where
  "s_proposal_pda \<equiv> AccountId (digest (pda_preimage (ProposalPda s_key 1)))"

definition s_before :: "account_id \<Rightarrow> nat account" where
  "s_before i = (if i = s_state_pda then am_account (state_account s_state) else \<lparr>acc_data = [], acc_rest = 0\<rparr>)"

definition s_serving :: "(account_id \<Rightarrow> nat account) \<Rightarrow> (nat, s_world, nat) sdk_env" where
  "s_serving chain = (s_sdk (s_salt 0))\<lparr>rpc_get_account := (\<lambda>_ i w. (Inr (chain i), w))\<rparr>"

lemma s_serving_simps [simp]:
  "guest_env (s_serving chain) = sample" "serves (s_serving chain) s_client chain w"
  "pda_of (s_serving chain) s_client kind = AccountId (digest (pda_preimage kind))"
  by (simp_all add: s_serving_def serves_def pda_of_def s_sdk_def s_sdk_over_def s_client_def
      del: pda_preimage.simps)

lemma s_proposes_at_ids:
  "\<exists>posts. process sample (at_ids s_before [s_state_pda, s_proposal_pda])
     (Propose s_key 1 (arr_fill 42) [1, 2, 3] 2 [s_vault_seed] [0]) = Inr (posts, [])"
proof -
  let ?ins = "Propose s_key 1 (arr_fill 42) [1, 2, 3] 2 [s_vault_seed] [0]"
  obtain posts where "process sample [state_account s_state, s_account 2 []] ?ins = Inr (posts, [])"
    using s_proposes by (auto simp: Let_def simp flip: s_act_def)
  moreover have "map am_account [state_account s_state, s_account 2 []] =
      map am_account (at_ids s_before [s_state_pda, s_proposal_pda])"
    using s_pda_differ by (simp add: s_before_def s_account_def del: pda_preimage.simps)
  ultimately have "map_sum id fst (process sample (at_ids s_before [s_state_pda, s_proposal_pda]) ?ins) = Inr posts"
    using process_by_contents [of ?ins "[state_account s_state, s_account 2 []]"
        "at_ids s_before [s_state_pda, s_proposal_pda]" sample] by (simp del: process.simps)
  then obtain calls where ok: "process sample (at_ids s_before [s_state_pda, s_proposal_pda]) ?ins = Inr (posts, calls)"
    by (cases "process sample (at_ids s_before [s_state_pda, s_proposal_pda]) ?ins") auto
  then have "calls = []" using process_posts [OF ok] by simp
  with ok show ?thesis by blast
qed

theorem sdk_submissions_witness:
  "\<exists>posts h. process sample (at_ids s_before [s_state_pda, s_proposal_pda])
       (Propose s_key 1 (arr_fill 42) [1, 2, 3] 2 [s_vault_seed] [0]) = Inr (posts, []) \<and>
     client_proposal (s_serving (store s_before [s_state_pda, s_proposal_pda] posts)) s_client s_key 1 (0, []) =
       Some (Inr (fresh_proposal 1 s_key s_act h), (0, []))"
proof -
  obtain posts where ok: "process sample (at_ids s_before [s_state_pda, s_proposal_pda])
      (Propose s_key 1 (arr_fill 42) [1, 2, 3] 2 [s_vault_seed] [0]) = Inr (posts, [])"
    using s_proposes_at_ids by blast
  let ?S = "s_serving (store s_before [s_state_pda, s_proposal_pda] posts)"
  have "accepted ?S s_client s_before [pda_of ?S s_client (StatePda s_key), pda_of ?S s_client (ProposalPda s_key 1)]
      (Propose s_key 1 (arr_fill 42) [1, 2, 3] 2 [s_vault_seed] [0]) posts [] (0, [])"
    using ok by (simp add: accepted_def del: pda_preimage.simps process.simps at_ids_simps store.simps)
  moreover have "platform_ok (guest_env ?S)" using platform_ok_sample by simp
  moreover have "pda_of ?S s_client (StatePda s_key) \<noteq> pda_of ?S s_client (ProposalPda s_key 1)"
    using s_pda_differ by (simp del: pda_preimage.simps)
  moreover have "pda_of ?S s_client (ProposalPda s_key 1) \<notin> set []" by simp
  ultimately obtain h where "client_proposal ?S s_client s_key 1 (0, []) = Some (Inr (fresh_proposal 1 s_key
      \<lparr>pa_target_program_id = arr_fill 42, pa_target_instruction_data = [1, 2, 3], pa_target_account_count = 2,
       pa_pda_seeds = [s_vault_seed], pa_authorized_indices = [0]\<rparr> h), (0, []))"
    using sdk_submissions_land [of ?S s_client s_key 1 "[]"] by blast
  with ok show ?thesis by (auto simp: s_act_def)
qed

theorem has_voted_witness:
  "\<exists>b. has_voted (s_sdk (s_salt 0)) s_client s_key 1 (s_identity (s_salt 0)) (0, []) = Some (Inr b, (0, []))"
proof -
  have "from_slice_proposal sample (acc_data (account_default sample)) = None"
    using platform_ok_sample by (simp add: platform_ok_def)
  then show ?thesis
    using has_voted_predicts_guest [OF s_serves, of "s_salt 0" s_key 1 "s_identity (s_salt 0)"
        "\<lparr>acc_data = [], acc_rest = 0\<rparr>" s_state1 s_prop "(0, [])"] s_ready0 [of 0]
    by (simp add: s_pre_states vote_ready_relabel)
qed

lemma s_proves: "proves_guest (s_sdk v) s_client"
  by (auto simp: proves_guest_def s_encode_def s_prove_def s_sdk_def s_sdk_over_def err_str_has_code split: if_splits)

lemma s_only_sending: "only_sending_sends (s_sdk v) s_client snd"
  by (auto simp: only_sending_sends_def s_sdk_def s_sdk_over_def s_prove_def split: sum.split panic.split)

lemma s_stranger: "member_cm sample (s_salt 9) (am_account_id (s_member 0)) \<notin> set s_cms"
  by code_simp

theorem refused_vote_witness:
  "\<exists>msg w'. vote_private (s_sdk (s_salt 9)) s_client s_key 1 (s_identity (s_salt 9)) None True (0, []) =
       Some (Inl (Sdk (Proving msg)), w') \<and> snd w' = [] \<and> str_contains msg ''PMS_E011''"
proof -
  have "holds_state sample ((state_account s_state1)\<lparr>am_account_id := a\<rparr>) s_key s \<longleftrightarrow> s = s_state1" for a s
    using s_holds_state1 by (auto simp: holds_state_def)
  then have "process sample (vote_pre_states (s_sdk (s_salt 9)) s_client s_chain s_key 1
        (s_identity (s_salt 9)) \<lparr>acc_data = [], acc_rest = 0\<rparr>) (Approve s_key 1 (s_salt 9)) =
      Inl (Pms ERR_NOT_A_MEMBER)"
    using s_stranger
    by (auto simp: s_pre_states approve_error_iff common_vote_checks_Inl)
  with refused_vote_not_sent [OF s_serves s_proves s_only_sending, of "s_salt 9" s_key 1
      "s_identity (s_salt 9)" None True ERR_NOT_A_MEMBER "(0, [])"]
  show ?thesis by (auto simp: s_encode_def err_code_simps)
qed

end
