(* ===== verification/Cli_Text.thy ===== *)
theory Cli_Text
  imports Sdk
begin

text \<open>
  The text the command line reads and writes with Rust's standard library: numbers in decimal,
  \<open>u64::from_str\<close>, \<open>str::trim\<close> and the \<open>Debug\<close> form of a \<open>Duration\<close>.  A string is a list of
  characters with code points up to 255.
\<close>

section \<open>Numbers\<close>

definition digit :: "nat \<Rightarrow> char" where
  "digit n = char_of (48 + n)"

fun show_nat :: "nat \<Rightarrow> string" where
  "show_nat n = (if n < 10 then [digit n] else show_nat (n div 10) @ [digit (n mod 10)])"

declare show_nat.simps [simp del]

definition digit_value :: "char \<Rightarrow> nat option" where
  "digit_value c = (let n = of_char c in if 48 \<le> n \<and> n \<le> 57 then Some (n - 48) else None)"

text \<open>The loop of \<open>u64::from_str\<close>: a bad digit is reported before an overflow at the same place.\<close>

fun parse_digits :: "u64 \<Rightarrow> string \<Rightarrow> string + u64" where
  "parse_digits acc [] = Inr acc"
| "parse_digits acc (c # cs) =
     (case digit_value c of
        None \<Rightarrow> Inl ''invalid digit found in string''
      | Some d \<Rightarrow>
          if unat acc * 10 + d \<ge> 2 ^ 64 then Inl ''number too large to fit in target type''
          else parse_digits (of_nat (unat acc * 10 + d)) cs)"

definition parse_u64 :: "string \<Rightarrow> string + u64" where
  "parse_u64 s =
     (if s = [] then Inl ''cannot parse integer from empty string''
      else if s = ''+'' \<or> s = ''-'' then Inl ''invalid digit found in string''
      else parse_digits 0 (if hd s = CHR ''+'' then tl s else s))"

lemma digit_value_digit [simp]: "n < 10 \<Longrightarrow> digit_value (digit n) = Some n"
  by (simp add: digit_value_def digit_def Let_def)

lemma digit_neq_sign:
  assumes "n < 10"
  shows "digit n \<noteq> CHR ''+''" and "digit n \<noteq> CHR ''-''"
proof -
  have "digit_value CHR ''+'' = None" and "digit_value CHR ''-'' = None" by code_simp+
  then show "digit n \<noteq> CHR ''+''" and "digit n \<noteq> CHR ''-''"
    using digit_value_digit [OF assms] by (metis option.distinct(1))+
qed

lemma show_nat_neq_Nil [simp]: "show_nat n \<noteq> []"
  by (subst show_nat.simps) simp

lemma hd_show_nat: "\<exists>d < 10. hd (show_nat n) = digit d"
proof (induction n rule: show_nat.induct)
  case (1 n)
  then show ?case
    by (cases "n < 10") (subst show_nat.simps, force)+
qed

lemma parse_digits_append:
  "parse_digits acc (xs @ ys) = (case parse_digits acc xs of Inl e \<Rightarrow> Inl e | Inr n \<Rightarrow> parse_digits n ys)"
  by (induction acc xs rule: parse_digits.induct) (auto split: option.split)

lemma parse_digits_show_nat:
  "n < 2 ^ 64 \<Longrightarrow> parse_digits 0 (show_nat n) = Inr (of_nat n)"
proof (induction n rule: show_nat.induct)
  case (1 n)
  show ?case
  proof (cases "n < 10")
    case True
    then show ?thesis by (simp add: show_nat.simps)
  next
    case False
    have small: "n div 10 < 2 ^ 64" using 1(2) by linarith
    have "unat (of_nat (n div 10) :: u64) = n div 10"
      using small by (simp add: unat_of_nat take_bit_nat_eq_self)
    then show ?thesis
      using 1(1) [OF False small] False 1(2)
      by (subst show_nat.simps) (simp add: parse_digits_append)
  qed
qed

lemma parse_show_u64: "parse_u64 (show_nat (unat n)) = Inr n"
proof -
  obtain d where d: "d < 10" "hd (show_nat (unat n)) = digit d" using hd_show_nat by blast
  then have "show_nat (unat n) \<noteq> ''+''" "show_nat (unat n) \<noteq> ''-''" "hd (show_nat (unat n)) \<noteq> CHR ''+''"
    using digit_neq_sign [OF d(1)] by (metis list.sel(1))+
  moreover have "unat n < 2 ^ 64" using unsigned_less [of n, where 'a = nat] by simp
  ultimately show ?thesis by (simp add: parse_u64_def parse_digits_show_nat)
qed

section \<open>Blanks\<close>

text \<open>\<open>char::is_whitespace\<close> below code point 256, and \<open>str::trim\<close>.\<close>

definition is_whitespace :: "char \<Rightarrow> bool" where
  "is_whitespace c = (let n = of_char c :: nat in 9 \<le> n \<and> n \<le> 13 \<or> n = 32 \<or> n = 133 \<or> n = 160)"

definition trim :: "string \<Rightarrow> string" where
  "trim s = rev (dropWhile is_whitespace (rev (dropWhile is_whitespace s)))"

lemma trim_id: "list_all (\<lambda>c. \<not> is_whitespace c) s \<Longrightarrow> trim s = s"
  by (simp add: trim_def list_all_iff dropWhile_eq_self_iff)
    (metis hd_in_set list.set_sel(1) rev_is_Nil_conv set_rev dropWhile_eq_self_iff rev_rev_ident)

section \<open>Durations\<close>

text \<open>
  \<open>Debug\<close> of a \<open>Duration\<close> (here in nanoseconds): seconds, or the largest smaller unit, with the
  fraction down to nanoseconds and no trailing zeros.
\<close>

definition fraction :: "nat \<Rightarrow> nat \<Rightarrow> string" where
  "fraction width n =
     (let ds = rev (dropWhile (\<lambda>c. c = CHR ''0'') (rev (replicate (width - length (show_nat n)) CHR ''0'' @ show_nat n)))
      in if ds = [] then [] else CHR ''.'' # ds)"

definition show_duration :: "nat \<Rightarrow> string" where
  "show_duration d =
     (if d \<ge> 1000000000 then show_nat (d div 1000000000) @ fraction 9 (d mod 1000000000) @ ''s''
      else if d \<ge> 1000000 then show_nat (d div 1000000) @ fraction 6 (d mod 1000000) @ ''ms''
      else if d \<ge> 1000 then show_nat (d div 1000) @ fraction 3 (d mod 1000) @ [CHR 0xB5, CHR ''s'']
      else show_nat d @ ''ns'')"

lemma digit_0: "digit 0 = CHR ''0''"
  by code_simp

lemma show_from_secs: "0 < n \<Longrightarrow> show_duration (from_secs n) = show_nat n @ ''s''"
  by (simp add: show_duration_def from_secs_def fraction_def show_nat.simps [of 0] digit_0)

end
