(* ===== verification/Cli.thy ===== *)
theory Cli
  imports Cli_Text
begin

text \<open>
  The command line \<open>pms\<close> (\<^verbatim>\<open>cli/src/main.rs\<close>): identity and key files, the commands, and their
  composition from the operations of the SDK.  Files, the terminal and the process environment
  are part of the world; JSON, hexadecimal and base58 text, signing keys and the token program's
  types come from other crates and are parameters.  An error is an \<open>anyhow\<close> chain, the outermost context first.
  Characters outside ASCII in the printed text are written with ASCII ones.
\<close>

section \<open>Types\<close>

text \<open>The constructors of \<^verbatim>\<open>token_core\<close> that the source names.\<close>

datatype token_instruction =
    Transfer u128
  | NewFungibleDefinition string u128

datatype token_holding = Fungible u128 | NotFungible

record identity_file =
  if_seed :: string
  if_salt :: string

record key_file =
  kf_private_key :: string

text \<open>The subcommands of \<open>pms\<close> and of \<open>pms token\<close>, as parsed; paths are strings.\<close>

datatype token_subcommand =
    TokenCreate string u128 string string
  | TokenKeygen string
  | TokenTransfer string string string u128

datatype command =
    KeygenCmd string
  | DeployCmd
  | CreateCmd "string option" u8 "string list"
  | InitVaultCmd string string string
  | ProposeTransferCmd string u64 string u128 string
  | ApproveCmd string u64 string
  | RejectCmd string u64 string
  | ExecuteCmd string u64 "string list"
  | StatusCmd string "u64 option" "string option"
  | BalanceCmd string
  | TokenCmd token_subcommand

record cli =
  cli_url :: string
  cli_program :: string
  cli_command :: command

section \<open>Errors\<close>

datatype cli_fault = Anyhow "string list" | CliPanic panic

type_synonym 'a anyhow = "string list + 'a"

definition with_context :: "string \<Rightarrow> 'a anyhow \<Rightarrow> 'a anyhow" where
  "with_context msg r = map_sum (\<lambda>chain. msg # chain) id r"

section \<open>The world of the command line\<close>

text \<open>
  \<^item> \<open>sdk\<close>: the functions shared with the SDK;
  \<^item> \<open>read_to_string\<close>, \<open>read_bytes\<close>, \<open>write_file\<close>, \<open>metadata_ok\<close>, \<open>env_var\<close>, \<open>print_line\<close>: \<open>std::fs\<close>,
    \<open>std::env\<close> and standard output, each of which may fail;
  \<^item> \<open>identity_from_json\<close> and its like: \<open>serde_json\<close> at the two file types; \<open>hex_decode\<close>, \<open>hex_encode\<close>;
  \<^item> \<open>parse_account_id\<close>, \<open>show_account_id\<close>, \<open>show_hash\<close>: account ids in base58, \<open>Debug\<close> of a hash;
  \<^item> \<open>private_key_new\<close>: \<open>PrivateKey::try_new\<close>;
  \<^item> \<open>nonce_of\<close>, \<open>nonce_default\<close>: the nonce of an account, and \<open>Default\<close> of its type;
  \<^item> \<open>serialize_token\<close>, \<open>token_message\<close>, \<open>holding_from_slice\<close>: the token program's instructions and accounts;
  \<^item> \<open>little_endian\<close>: the byte order of the machine.
\<close>

record ('x, 'w, 'o) cli_env =
  sdk :: "('x, 'w, 'o) sdk_env"
  read_to_string :: "string \<Rightarrow> 'w \<Rightarrow> (string + string) \<times> 'w"
  read_bytes :: "string \<Rightarrow> 'w \<Rightarrow> (string + u8 list) \<times> 'w"
  write_file :: "string \<Rightarrow> string \<Rightarrow> 'w \<Rightarrow> (string + unit) \<times> 'w"
  metadata_ok :: "string \<Rightarrow> 'w \<Rightarrow> bool"
  env_var :: "string \<Rightarrow> 'w \<Rightarrow> string option"
  print_line :: "string \<Rightarrow> 'w \<Rightarrow> (string + unit) \<times> 'w"
  identity_from_json :: "string \<Rightarrow> string + identity_file"
  identity_to_json :: "identity_file \<Rightarrow> string + string"
  key_from_json :: "string \<Rightarrow> string + key_file"
  key_to_json :: "key_file \<Rightarrow> string + string"
  hex_decode :: "string \<Rightarrow> string + u8 list"
  hex_encode :: "u8 list \<Rightarrow> string"
  parse_account_id :: "string \<Rightarrow> string + account_id"
  show_account_id :: "account_id \<Rightarrow> string"
  show_hash :: "'o \<Rightarrow> string"
  private_key_new :: "bytes32 \<Rightarrow> string + 'o"
  nonce_of :: "'x account \<Rightarrow> nat"
  nonce_default :: nat
  serialize_token :: "token_instruction \<Rightarrow> string + u32 list"
  token_message :: "program_id \<Rightarrow> account_id list \<Rightarrow> nat list \<Rightarrow> token_instruction \<Rightarrow> string + 'o"
  holding_from_slice :: "u8 list \<Rightarrow> token_holding option"
  little_endian :: bool

type_synonym ('w, 'a) cio = "('w, cli_fault, 'a) comp"

text \<open>\<open>Display\<close> of the SDK's errors, from their \<open>#[error(...)]\<close> attributes.\<close>

fun sdk_error_display :: "('x, 'w, 'o) cli_env \<Rightarrow> 'o sdk_error \<Rightarrow> string" where
  "sdk_error_display C (Sequencer e) = ''sequencer error: '' @ e"
| "sdk_error_display C (AccountNotFound i) =
     ''account '' @ show_account_id C i @ '' not found or not yet initialized''"
| "sdk_error_display C (Decode e) = ''failed to decode on-chain state: '' @ e"
| "sdk_error_display C (Proving e) = ''local execution/proving failed: '' @ e"
| "sdk_error_display C (NotIncluded h d) =
     ''transaction '' @ show_hash C h @ '' was not included after '' @ show_duration d @
     '' (public pre-state may have changed - refresh and re-prove)''"
| "sdk_error_display C (InvalidInput e) = ''invalid input: '' @ e"

text \<open>A pure step, a call of \<open>std\<close>, a call of the SDK with its \<open>map_err\<close>, and a line of output.\<close>

definition cli_pure :: "'a anyhow \<Rightarrow> ('w, 'a) cio" where
  "cli_pure r = (\<lambda>w. Some (map_sum Anyhow id r, w))"

definition cli_call :: "(string \<Rightarrow> string list) \<Rightarrow> ('w \<Rightarrow> (string + 'a) \<times> 'w) \<Rightarrow> ('w, 'a) cio" where
  "cli_call g c = (\<lambda>w. let (r, w') = c w in Some (map_sum (\<lambda>e. Anyhow (g e)) id r, w'))"

fun cli_fault_of :: "('x, 'w, 'o) cli_env \<Rightarrow> string \<Rightarrow> 'o fault \<Rightarrow> cli_fault" where
  "cli_fault_of C prefix (Sdk e) = Anyhow [prefix @ sdk_error_display C e]"
| "cli_fault_of C prefix (Panics p) = CliPanic p"

definition cli_sdk :: "('x, 'w, 'o) cli_env \<Rightarrow> string \<Rightarrow> ('w, 'o, 'a) io \<Rightarrow> ('w, 'a) cio" where
  "cli_sdk C prefix m = (\<lambda>w. map_option (\<lambda>(r, w'). (map_sum (cli_fault_of C prefix) id r, w')) (m w))"

definition cli_panicking :: "panic + 'a \<Rightarrow> ('w, 'a) cio" where
  "cli_panicking r = (\<lambda>w. Some (map_sum CliPanic id r, w))"

definition cli_random32 :: "('x, 'w, 'o) cli_env \<Rightarrow> ('w, bytes32) cio" where
  "cli_random32 C = (\<lambda>w. let (b, w') = rng_bytes (sdk C) w in Some (Inr b, w'))"

text \<open>\<open>println!\<close> panics when standard output cannot be written, a closed pipe for one.\<close>

definition print_panic :: "string \<Rightarrow> panic" where
  "print_panic e = Expect (''failed printing to stdout: '' @ e)"

definition say :: "('x, 'w, 'o) cli_env \<Rightarrow> string \<Rightarrow> ('w, unit) cio" where
  "say C line = (\<lambda>w. let (r, w') = print_line C line w in
     Some (map_sum (\<lambda>e. CliPanic (print_panic e)) id r, w'))"

definition next_do :: "('w, unit) cio \<Rightarrow> ('w, 'a) cio \<Rightarrow> ('w, 'a) cio" where
  "next_do m n = io_bind m (\<lambda>_. n)"

primrec say_all :: "('x, 'w, 'o) cli_env \<Rightarrow> string list \<Rightarrow> ('w, unit) cio" where
  "say_all C [] = io_return ()"
| "say_all C (line # lines) = next_do (say C line) (say_all C lines)"

section \<open>Identity and key files\<close>

definition parse_hex32 :: "('x, 'w, 'o) cli_env \<Rightarrow> string \<Rightarrow> bytes32 anyhow" where
  "parse_hex32 C s =
     bind (with_context ''invalid hex'' (map_sum (\<lambda>e. [e]) id (hex_decode C (trim s)))) (\<lambda>bytes.
     case arr_try_of bytes of
       None \<Rightarrow> Inl [''expected 32 bytes, got '' @ show_nat (length bytes)]
     | Some b \<Rightarrow> Inr b)"

definition parse_account :: "('x, 'w, 'o) cli_env \<Rightarrow> string \<Rightarrow> account_id anyhow" where
  "parse_account C s =
     map_sum (\<lambda>e. [''invalid account id '' @ [CHR 0x27] @ s @ [CHR 0x27] @ '': '' @ e]) id (parse_account_id C s)"

definition load_identity :: "('x, 'w, 'o) cli_env \<Rightarrow> string \<Rightarrow> ('w, 'o member_identity) cio" where
  "load_identity C path =
     io_bind (cli_call (\<lambda>e. [''cannot read identity file '' @ path, e]) (read_to_string C path)) (\<lambda>raw.
     io_bind (cli_pure (with_context ''invalid identity file'' (map_sum (\<lambda>e. [e]) id (identity_from_json C raw))))
       (\<lambda>file.
     io_bind (cli_pure (with_context ''identity seed'' (parse_hex32 C (if_seed file)))) (\<lambda>seed.
     io_bind (cli_pure (with_context ''identity salt'' (parse_hex32 C (if_salt file)))) (\<lambda>salt.
     io_return (from_seed (sdk C) seed salt)))))"

definition load_key :: "('x, 'w, 'o) cli_env \<Rightarrow> string \<Rightarrow> ('w, 'o) cio" where
  "load_key C path =
     io_bind (cli_call (\<lambda>e. [''cannot read key file '' @ path, e]) (read_to_string C path)) (\<lambda>raw.
     io_bind (cli_pure (with_context ''invalid key file'' (map_sum (\<lambda>e. [e]) id (key_from_json C raw)))) (\<lambda>file.
     io_bind (cli_pure (parse_hex32 C (kf_private_key file))) (\<lambda>bytes.
     cli_pure (map_sum (\<lambda>e. [''invalid private key: '' @ e]) id (private_key_new C bytes)))))"

definition write_key :: "('x, 'w, 'o) cli_env \<Rightarrow> string \<Rightarrow> bytes32 \<Rightarrow> ('w, account_id) cio" where
  "write_key C path key_bytes =
     io_bind (cli_pure (map_sum (\<lambda>e. [e]) id (private_key_new C key_bytes))) (\<lambda>key.
     let id' = account_id_from_key (sdk C) key in
     io_bind (cli_pure (map_sum (\<lambda>e. [e]) id
         (key_to_json C \<lparr>kf_private_key = hex_encode C (arr_list key_bytes)\<rparr>))) (\<lambda>json.
     io_bind (cli_call (\<lambda>e. [e]) (write_file C path json)) (\<lambda>_.
     io_return id')))"

definition token_program_id :: "('x, 'w, 'o) cli_env \<Rightarrow> string \<Rightarrow> ('w, program_id) cio" where
  "token_program_id C path =
     io_bind (cli_call (\<lambda>e. [''cannot read '' @ path, e]) (read_bytes C path)) (\<lambda>bytecode.
     io_bind (cli_pure (map_sum (\<lambda>e. [''invalid token program: '' @ e]) id (program_new (sdk C) bytecode)))
       (\<lambda>program. io_return (program_id_of (sdk C) program)))"

text \<open>A program id in memory: eight words in the byte order of the machine.\<close>

definition bytemuck_cast :: "('x, 'w, 'o) cli_env \<Rightarrow> program_id \<Rightarrow> u8 list" where
  "bytemuck_cast C id' =
     concat (map (\<lambda>u. if little_endian C then to_le 4 u else rev (to_le 4 u)) (arr_list id'))"

definition hex_program_id :: "('x, 'w, 'o) cli_env \<Rightarrow> program_id \<Rightarrow> string" where
  "hex_program_id C id' = hex_encode C (bytemuck_cast C id')"

end
