(* ===== verification/Cli_Commands.thy ===== *)
theory Cli_Commands
  imports Cli
begin

text \<open>The commands of \<open>pms\<close>: the token helpers, the vote, and \<open>main\<close>.\<close>

section \<open>Token helpers\<close>

text \<open>The CLI's own polling loop; \<open>None\<close> would be a loop that never ends.\<close>

partial_function (option) poll_public ::
  "('x, 'w, 'o) cli_env \<Rightarrow> 'o multisig_client \<Rightarrow> 'o \<Rightarrow> nat \<Rightarrow> 'w \<Rightarrow> ((cli_fault + unit) \<times> 'w) option" where
  "poll_public C c tx_hash start w =
     (let w1 = sleep (sdk C) (from_secs 2) w;
          (found, w2) = rpc_get_transaction (sdk C) (mc_client c) tx_hash w1 in
      case found of
        Inr (Some _) \<Rightarrow> Some (Inr (), w2)
      | _ \<Rightarrow> if now (sdk C) w2 - start > mc_inclusion_timeout c
             then Some (Inl (Anyhow [''tx '' @ show_hash C tx_hash @ '' not included after '' @
               show_duration (mc_inclusion_timeout c)]), w2)
             else poll_public C c tx_hash start w2)"

definition submit_public :: "('x, 'w, 'o) cli_env \<Rightarrow> 'o multisig_client \<Rightarrow> 'o \<Rightarrow> ('w, unit) cio" where
  "submit_public C c tx =
     io_bind (cli_call (\<lambda>e. [''submit: '' @ e]) (rpc_send_transaction (sdk C) (mc_client c) tx)) (\<lambda>tx_hash.
     \<lambda>w. poll_public C c tx_hash (now (sdk C) w) w)"

text \<open>\<open>Result::unwrap\<close> on an error.\<close>

definition unwrap_panic :: "string \<Rightarrow> panic" where
  "unwrap_panic e = Expect (''called `Result::unwrap()` on an `Err` value: '' @ e)"

definition token_create ::
  "('x, 'w, 'o) cli_env \<Rightarrow> 'o multisig_client \<Rightarrow> string \<Rightarrow> u128 \<Rightarrow> string \<Rightarrow> string \<Rightarrow> ('w, unit) cio" where
  "token_create C c token_program supply definition_out minter_out =
     io_bind (token_program_id C token_program) (\<lambda>token_id.
     io_bind (cli_random32 C) (\<lambda>def_bytes.
     io_bind (cli_random32 C) (\<lambda>minter_bytes.
     io_bind (write_key C definition_out def_bytes) (\<lambda>def_id.
     io_bind (write_key C minter_out minter_bytes) (\<lambda>minter_id.
     io_bind (cli_panicking (map_sum unwrap_panic id (private_key_new C def_bytes))) (\<lambda>def_key.
     io_bind (cli_panicking (map_sum unwrap_panic id (private_key_new C minter_bytes))) (\<lambda>minter_key.
     io_bind (cli_pure (map_sum (\<lambda>e. [e]) id (token_message C token_id [def_id, minter_id]
         [nonce_default C, nonce_default C] (NewFungibleDefinition ''PMSDemoToken'' supply)))) (\<lambda>msg.
     next_do (submit_public C c (public_tx (sdk C) msg [def_key, minter_key]))
     (say C (''token created - definition '' @ show_account_id C def_id @ '' - minter '' @
       show_account_id C minter_id @ '' ('' @ show_nat (unat supply) @ '' tokens)''))))))))))"

text \<open>The recipient of a transfer: a key file, or else an account id.\<close>

definition recipient_of :: "('x, 'w, 'o) cli_env \<Rightarrow> string \<Rightarrow> ('w, account_id \<times> 'o option) cio" where
  "recipient_of C to = (\<lambda>w.
     if metadata_ok C to w
     then io_bind (load_key C to) (\<lambda>key. io_return (account_id_from_key (sdk C) key, Some key)) w
     else io_bind (cli_pure (parse_account C to)) (\<lambda>i. io_return (i, None)) w)"

definition token_transfer ::
  "('x, 'w, 'o) cli_env \<Rightarrow> 'o multisig_client \<Rightarrow> string \<Rightarrow> string \<Rightarrow> string \<Rightarrow> u128 \<Rightarrow> ('w, unit) cio" where
  "token_transfer C c token_program sender to amount =
     io_bind (token_program_id C token_program) (\<lambda>token_id.
     io_bind (load_key C sender) (\<lambda>from_key.
     let from_id = account_id_from_key (sdk C) from_key in
     io_bind (recipient_of C to) (\<lambda>(to_id, to_key).
     io_bind (cli_sdk C [] (client_account (sdk C) c from_id)) (\<lambda>from_account.
     io_bind (case to_key of
         None \<Rightarrow> io_return [nonce_of C from_account]
       | Some _ \<Rightarrow> io_bind (cli_sdk C [] (client_account (sdk C) c to_id)) (\<lambda>to_account.
           io_return [nonce_of C from_account, nonce_of C to_account])) (\<lambda>nonces.
     io_bind (cli_pure (map_sum (\<lambda>e. [e]) id
         (token_message C token_id [from_id, to_id] nonces (Transfer amount)))) (\<lambda>msg.
     let keys = (case to_key of Some key \<Rightarrow> [from_key, key] | None \<Rightarrow> [from_key]) in
     next_do (submit_public C c (public_tx (sdk C) msg keys))
     (say C (''transferred '' @ show_nat (unat amount) @ '' from '' @ show_account_id C from_id @ '' to '' @
       show_account_id C to_id))))))))"

fun token_command :: "('x, 'w, 'o) cli_env \<Rightarrow> 'o multisig_client \<Rightarrow> token_subcommand \<Rightarrow> ('w, unit) cio" where
  "token_command C c (TokenCreate token_program supply definition_out minter_out) =
     token_create C c token_program supply definition_out minter_out"
| "token_command C c (TokenKeygen out) =
     io_bind (cli_random32 C) (\<lambda>bytes.
     io_bind (write_key C out bytes) (\<lambda>i.
     say C (''key written to '' @ out @ '' - account '' @ show_account_id C i)))"
| "token_command C c (TokenTransfer token_program sender to amount) =
     token_transfer C c token_program sender to amount"

section \<open>Voting\<close>

definition vote ::
  "('x, 'w, 'o) cli_env \<Rightarrow> 'o multisig_client \<Rightarrow> string \<Rightarrow> u64 \<Rightarrow> string \<Rightarrow> bool \<Rightarrow> ('w, unit) cio" where
  "vote C c create_key index identity approve =
     io_bind (cli_pure (parse_hex32 C create_key)) (\<lambda>key.
     io_bind (load_identity C identity) (\<lambda>member.
     next_do (say_all C [(if approve then ''approving'' else ''rejecting'') @ '' proposal #'' @
       show_nat (unat index) @ '' privately as an anonymous member...'',
       ''(proving locally - takes ~2 minutes with RISC0_DEV_MODE=0)''])
     (io_bind (cli_sdk C ''vote failed: ''
         (if approve then approve_private (sdk C) c key index member None
          else reject_private (sdk C) c key index member None)) (\<lambda>tx_hash.
     say_all C [''vote recorded - tx '' @ show_hash C tx_hash,
       ''   the transaction carries no signature, no account id, no salt'']))))"

section \<open>Reports\<close>

primrec show_status :: "proposal_status \<Rightarrow> string" where
  "show_status Active = ''Active''"
| "show_status Executed = ''Executed''"
| "show_status Rejected = ''Rejected''"

definition state_report :: "('x, 'w, 'o) cli_env \<Rightarrow> multisig_state \<Rightarrow> string list" where
  "state_report C s =
     (''multisig '' @ show_nat (unat (ms_threshold s)) @ ''-of-'' @ show_nat (member_count s) @
      '' - proposals so far: '' @ show_nat (unat (ms_transaction_index s))) #
     map (\<lambda>(i, cm). ''  member '' @ show_nat (i + 1) @ '': '' @ hex_encode C (arr_list cm))
       (zip [0..<length (ms_member_cms s)] (ms_member_cms s))"

definition proposal_report :: "('x, 'w, 'o) cli_env \<Rightarrow> u64 \<Rightarrow> proposal \<Rightarrow> string list" where
  "proposal_report C index p =
     (''proposal #'' @ show_nat (unat index) @ '': '' @ show_status (pr_status p) @ '' - approvals: '' @
      show_nat (length (pr_vote_nullifiers p)) @ '' - rejections: '' @ show_nat (length (pr_reject_nullifiers p))) #
     map (\<lambda>n. ''  vote nullifier: '' @ hex_encode C (arr_list n)) (pr_vote_nullifiers p)"

definition voted_report :: "u64 \<Rightarrow> bool \<Rightarrow> string" where
  "voted_report index voted =
     ''this identity '' @ (if voted then ''HAS'' else ''has NOT'') @ '' voted on #'' @ show_nat (unat index)"

definition status_command ::
  "('x, 'w, 'o) cli_env \<Rightarrow> 'o multisig_client \<Rightarrow> string \<Rightarrow> u64 option \<Rightarrow> string option \<Rightarrow> ('w, unit) cio" where
  "status_command C c create_key index identity =
     io_bind (cli_pure (parse_hex32 C create_key)) (\<lambda>key.
     io_bind (cli_sdk C [] (client_multisig_state (sdk C) c key)) (\<lambda>state.
     next_do (say_all C (state_report C state))
     (case index of
        None \<Rightarrow> io_return ()
      | Some i \<Rightarrow>
          io_bind (cli_sdk C [] (client_proposal (sdk C) c key i)) (\<lambda>proposal.
          next_do (say_all C (proposal_report C i proposal))
          (case identity of
             None \<Rightarrow> io_return ()
           | Some path \<Rightarrow>
               io_bind (load_identity C path) (\<lambda>member.
               io_bind (cli_sdk C [] (has_voted (sdk C) c key i member)) (\<lambda>voted.
               say C (voted_report i voted))))))))"

end
