(* ===== verification/Cli_Main.thy ===== *)
theory Cli_Main
  imports Cli_Commands
begin

text \<open>The entry point of \<open>pms\<close>: one definition per branch of \<open>main\<close>, and \<open>main\<close> itself.\<close>

section \<open>The branches\<close>

definition keygen_command :: "('x, 'w, 'o) cli_env \<Rightarrow> string \<Rightarrow> ('w, unit) cio" where
  "keygen_command C out =
     io_bind (cli_random32 C) (\<lambda>seed.
     io_bind (cli_random32 C) (\<lambda>salt.
     let identity = from_seed (sdk C) seed salt in
     io_bind (cli_pure (map_sum (\<lambda>e. [e]) id (identity_to_json C
         \<lparr>if_seed = hex_encode C (arr_list seed), if_salt = hex_encode C (arr_list salt)\<rparr>))) (\<lambda>json.
     io_bind (cli_call (\<lambda>e. [e]) (write_file C out json)) (\<lambda>_.
     next_do (say C (''identity written to '' @ out))
     (next_do (say C (''shielded account id: '' @ show_account_id C (identity_account_id (sdk C) identity)))
     (io_bind (cli_panicking (identity_commitment (sdk C) identity)) (\<lambda>commitment.
     say C (''member commitment:   '' @ hex_encode C (arr_list commitment)))))))))"

definition deploy_command :: "('x, 'w, 'o) cli_env \<Rightarrow> 'o multisig_client \<Rightarrow> ('w, unit) cio" where
  "deploy_command C c =
     next_do (cli_sdk C [] (deploy_program (sdk C) c))
     (say_all C [''program deployed (or already present)'',
       ''program id: '' @ hex_program_id C (mc_program_id c)])"

definition create_command ::
  "('x, 'w, 'o) cli_env \<Rightarrow> 'o multisig_client \<Rightarrow> string option \<Rightarrow> u8 \<Rightarrow> string list \<Rightarrow> ('w, unit) cio" where
  "create_command C c create_key threshold member_cms =
     io_bind (case create_key of Some s \<Rightarrow> cli_pure (parse_hex32 C s) | None \<Rightarrow> cli_random32 C) (\<lambda>key.
     io_bind (cli_pure (collect_map (parse_hex32 C) member_cms)) (\<lambda>cms.
     io_bind (cli_sdk C [] (sdk_create_multisig (sdk C) c key threshold cms)) (\<lambda>_.
     next_do (say_all C
       [''multisig created ('' @ show_nat (unat threshold) @ ''-of-'' @ show_nat (length cms) @ '')'',
        ''create key: '' @ hex_encode C (arr_list key)])
     (io_bind (cli_panicking (compute_multisig_state_pda (guest_env (sdk C)) (mc_program_id c) key)) (\<lambda>state_id.
     next_do (say C (''state PDA:  '' @ show_account_id C state_id))
     (io_bind (cli_panicking (compute_vault_pda (guest_env (sdk C)) (mc_program_id c) key)) (\<lambda>vault_id.
     say C (''vault PDA:  '' @ show_account_id C vault_id))))))))"

definition init_vault_command ::
  "('x, 'w, 'o) cli_env \<Rightarrow> 'o multisig_client \<Rightarrow> string \<Rightarrow> string \<Rightarrow> string \<Rightarrow> ('w, unit) cio" where
  "init_vault_command C c create_key definition_id token_program =
     io_bind (cli_pure (parse_hex32 C create_key)) (\<lambda>key.
     io_bind (cli_pure (parse_account C definition_id)) (\<lambda>def.
     io_bind (token_program_id C token_program) (\<lambda>token_id.
     io_bind (cli_sdk C [] (sdk_init_vault (sdk C) c key def token_id)) (\<lambda>_.
     io_bind (cli_panicking (compute_vault_pda (guest_env (sdk C)) (mc_program_id c) key)) (\<lambda>vault_id.
     say C (''vault initialized: '' @ show_account_id C vault_id))))))"

definition propose_transfer_command ::
  "('x, 'w, 'o) cli_env \<Rightarrow> 'o multisig_client \<Rightarrow> string \<Rightarrow> u64 \<Rightarrow> string \<Rightarrow> u128 \<Rightarrow> string \<Rightarrow> ('w, unit) cio" where
  "propose_transfer_command C c create_key index token_program amount recipient =
     io_bind (cli_pure (parse_hex32 C create_key)) (\<lambda>key.
     io_bind (token_program_id C token_program) (\<lambda>token_id.
     io_bind (cli_pure (parse_account C recipient)) (\<lambda>recipient.
     io_bind (cli_pure (map_sum (\<lambda>e. [e]) id (serialize_token C (Transfer amount)))) (\<lambda>instruction_data.
     io_bind (cli_panicking (vault_pda_seed_bytes (guest_env (sdk C)) key)) (\<lambda>vault_seed.
     io_bind (cli_sdk C [] (sdk_propose (sdk C) c key index token_id instruction_data 2 [vault_seed] [0])) (\<lambda>_.
     say_all C
       [''proposal #'' @ show_nat (unat index) @ '' created: transfer '' @ show_nat (unat amount) @
          '' from vault to '' @ show_account_id C recipient,
        ''(execute with: --target <vault> --target '' @ show_account_id C recipient @ '')'']))))))"

definition execute_command ::
  "('x, 'w, 'o) cli_env \<Rightarrow> 'o multisig_client \<Rightarrow> string \<Rightarrow> u64 \<Rightarrow> string list \<Rightarrow> ('w, unit) cio" where
  "execute_command C c create_key index targets =
     io_bind (cli_pure (parse_hex32 C create_key)) (\<lambda>key.
     io_bind (cli_pure (collect_map (parse_account C) targets)) (\<lambda>target_ids.
     io_bind (cli_sdk C [] (sdk_execute (sdk C) c key index target_ids)) (\<lambda>_.
     say C (''proposal #'' @ show_nat (unat index) @ '' executed''))))"

definition balance_command :: "('x, 'w, 'o) cli_env \<Rightarrow> 'o multisig_client \<Rightarrow> string \<Rightarrow> ('w, unit) cio" where
  "balance_command C c account =
     io_bind (cli_pure (parse_account C account)) (\<lambda>i.
     io_bind (cli_sdk C [] (client_account (sdk C) c i)) (\<lambda>acc.
     say C (case holding_from_slice C (acc_data acc) of
         Some (Fungible balance) \<Rightarrow> show_account_id C i @ '': '' @ show_nat (unat balance) @ '' tokens''
       | _ \<Rightarrow> show_account_id C i @ '': not a fungible token holding'')))"

section \<open>Dispatch\<close>

fun run_command :: "('x, 'w, 'o) cli_env \<Rightarrow> 'o multisig_client \<Rightarrow> command \<Rightarrow> ('w, unit) cio" where
  "run_command C c (KeygenCmd out) =
     cli_panicking (Inl (Expect ''internal error: entered unreachable code: handled above''))"
| "run_command C c DeployCmd = deploy_command C c"
| "run_command C c (CreateCmd create_key threshold member_cms) = create_command C c create_key threshold member_cms"
| "run_command C c (InitVaultCmd create_key definition_id token_program) =
     init_vault_command C c create_key definition_id token_program"
| "run_command C c (ProposeTransferCmd create_key index token_program amount recipient) =
     propose_transfer_command C c create_key index token_program amount recipient"
| "run_command C c (ApproveCmd create_key index identity) = vote C c create_key index identity True"
| "run_command C c (RejectCmd create_key index identity) = vote C c create_key index identity False"
| "run_command C c (ExecuteCmd create_key index targets) = execute_command C c create_key index targets"
| "run_command C c (StatusCmd create_key index identity) = status_command C c create_key index identity"
| "run_command C c (BalanceCmd account) = balance_command C c account"
| "run_command C c (TokenCmd cmd) = token_command C c cmd"

text \<open>The client of a run: the program from its file, and the timeout from the environment.\<close>

definition inclusion_timeout_of :: "('x, 'w, 'o) cli_env \<Rightarrow> 'o multisig_client \<Rightarrow> ('w, 'o multisig_client) cio" where
  "inclusion_timeout_of C client = (\<lambda>w.
     case env_var C ''PMS_INCLUSION_TIMEOUT_SECS'' w of
       None \<Rightarrow> Some (Inr client, w)
     | Some secs \<Rightarrow>
         io_bind (cli_pure (with_context ''PMS_INCLUSION_TIMEOUT_SECS'' (map_sum (\<lambda>e. [e]) id (parse_u64 secs)))) (\<lambda>n.
         io_return (client\<lparr>mc_inclusion_timeout := from_secs (unat n)\<rparr>)) w)"

definition open_client :: "('x, 'w, 'o) cli_env \<Rightarrow> cli \<Rightarrow> ('w, 'o multisig_client) cio" where
  "open_client C args =
     io_bind (cli_call (\<lambda>e. [''cannot read program binary '' @ cli_program args, e])
       (read_bytes C (cli_program args))) (\<lambda>bytecode.
     io_bind (cli_sdk C ''client: '' (client_new (sdk C) (cli_url args) bytecode)) (\<lambda>client.
     inclusion_timeout_of C client))"

definition cli_main :: "('x, 'w, 'o) cli_env \<Rightarrow> cli \<Rightarrow> ('w, unit) cio" where
  "cli_main C args =
     (case cli_command args of
        KeygenCmd out \<Rightarrow> keygen_command C out
      | cmd \<Rightarrow> io_bind (open_client C args) (\<lambda>client. run_command C client cmd))"

end
