(* ===== verification/Io_Wp.thy ===== *)
theory Io_Wp
  imports Cli_Main
begin

text \<open>
  A weakest-precondition calculus for the computations of the SDK and the command line.
  \<open>wp m Q w\<close> says that \<open>m\<close>, started in the world \<open>w\<close>, comes back with an outcome that satisfies
  \<open>Q\<close>: it is a statement of total correctness, so it excludes a loop that never ends.  The rules
  \<open>wp_simps\<close> compute it for every combinator; a routine of the program gets a rule of its own
  and is then opaque to its callers.
\<close>

definition wp :: "('w, 'e, 'a) comp \<Rightarrow> ('e + 'a \<Rightarrow> 'w \<Rightarrow> bool) \<Rightarrow> 'w \<Rightarrow> bool" where
  "wp m Q w \<longleftrightarrow> (case m w of None \<Rightarrow> False | Some (r, w') \<Rightarrow> Q r w')"

lemma wp_mono: "wp m Q w \<Longrightarrow> (\<And>r w'. Q r w' \<Longrightarrow> R r w') \<Longrightarrow> wp m R w"
  by (auto simp: wp_def split: option.splits)

lemma wp_Some: "m w = Some (r, w') \<Longrightarrow> wp m Q w \<longleftrightarrow> Q r w'"
  by (simp add: wp_def)

lemma wpD: "wp m Q w \<Longrightarrow> \<exists>r w'. m w = Some (r, w') \<and> Q r w'"
  by (auto simp: wp_def split: option.splits)

lemma wp_conj: "wp m (\<lambda>r w'. Q r w' \<and> R r w') w \<longleftrightarrow> wp m Q w \<and> wp m R w"
  by (auto simp: wp_def split: option.splits)

section \<open>Rules for the combinators\<close>

named_theorems wp_simps "weakest preconditions of the combinators"

lemma wp_bind [wp_simps]:
  "wp (io_bind m f) Q w \<longleftrightarrow>
     wp m (\<lambda>r w'. case r of Inl e \<Rightarrow> Q (Inl e) w' | Inr x \<Rightarrow> wp (f x) Q w') w"
  by (auto simp: wp_def io_bind_def split: option.split sum.split)

lemma wp_prims [wp_simps]:
  "wp (io_return x) Q w \<longleftrightarrow> Q (Inr x) w"
  "wp (io_fail s) P w \<longleftrightarrow> P (Inl (Sdk s)) w"
  by (simp_all add: wp_def)

lemma wp_lifts [wp_simps]:
  "wp (io_pure p) P w \<longleftrightarrow> P (map_sum Panics id p) w"
  "wp (io_result g q) P w \<longleftrightarrow> P (map_sum (\<lambda>e. Sdk (g e)) id q) w"
  "wp (cli_pure a) Q w \<longleftrightarrow> Q (map_sum Anyhow id a) w"
  "wp (cli_panicking p) Q w \<longleftrightarrow> Q (map_sum CliPanic id p) w"
  by (simp_all add: wp_def io_pure_def io_result_def cli_pure_def cli_panicking_def)

lemma wp_calls [wp_simps]:
  "wp (io_call g c) P w \<longleftrightarrow> (case c w of (r, w') \<Rightarrow> P (map_sum (\<lambda>e. Sdk (g e)) id r) w')"
  "wp (cli_call h d) Q w \<longleftrightarrow> (case d w of (r, w') \<Rightarrow> Q (map_sum (\<lambda>e. Anyhow (h e)) id r) w')"
  by (auto simp: wp_def io_call_def cli_call_def Let_def split: prod.split)

lemma wp_cli_sdk [wp_simps]:
  "wp (cli_sdk C prefix m) Q w \<longleftrightarrow> wp m (\<lambda>r w'. Q (map_sum (cli_fault_of C prefix) id r) w') w"
  by (auto simp: wp_def cli_sdk_def split: option.split)

lemma wp_random32 [wp_simps]:
  "wp (cli_random32 C) Q w \<longleftrightarrow> (case rng_bytes (sdk C) w of (b, w') \<Rightarrow> Q (Inr b) w')"
  by (auto simp: wp_def cli_random32_def split: prod.split)

lemma wp_say [wp_simps]:
  "wp (say C line) Q w \<longleftrightarrow>
     (case print_line C line w of (r, w') \<Rightarrow> Q (map_sum (\<lambda>e. CliPanic (print_panic e)) id r) w')"
  by (auto simp: wp_def say_def Let_def split: prod.split)

lemma wp_next_do [wp_simps]:
  "wp (next_do m n) Q w \<longleftrightarrow> wp m (\<lambda>r w'. case r of Inl e \<Rightarrow> Q (Inl e) w' | Inr _ \<Rightarrow> wp n Q w') w"
  by (simp add: next_do_def wp_bind)

text \<open>Where standard output can be written, a list of lines is printed one after the other.\<close>

definition prints :: "('x, 'w, 'o) cli_env \<Rightarrow> bool" where
  "prints C \<longleftrightarrow> (\<forall>line w. fst (print_line C line w) = Inr ())"

definition printed :: "('x, 'w, 'o) cli_env \<Rightarrow> string \<Rightarrow> 'w \<Rightarrow> 'w" where
  "printed C line w = snd (print_line C line w)"

lemma print_line_prints: "prints C \<Longrightarrow> print_line C line w = (Inr (), printed C line w)"
  by (simp add: prints_def printed_def prod_eq_iff)

lemma say_prints: "prints C \<Longrightarrow> say C line w = Some (Inr (), printed C line w)"
  by (simp add: say_def print_line_prints)

lemma say_all_prints: "prints C \<Longrightarrow> say_all C lines w = Some (Inr (), fold (printed C) lines w)"
  by (induction lines arbitrary: w) (simp_all add: next_do_def io_bind_def say_prints)

section \<open>Coming back with an allowed outcome\<close>

text \<open>
  A computation settles if it comes back in every world, with a value or with an error that is
  not of a bad kind in the world it ends in; \<open>bad\<close> is \<open>panicked\<close> below, for the SDK, or
  \<open>crashed\<close>, for the command line.  The one panic that is not a crash is that of a \<open>println!\<close>,
  which ends the run in the world that the failed write left.
\<close>

fun panicked :: "'o fault \<Rightarrow> 'w \<Rightarrow> bool" where
  "panicked (Panics p) w = True"
| "panicked (Sdk e) w = False"

definition stdout_failed :: "('x, 'w, 'o) cli_env \<Rightarrow> panic \<Rightarrow> 'w \<Rightarrow> bool" where
  "stdout_failed C p w \<longleftrightarrow> (\<exists>line w0 e. print_line C line w0 = (Inl e, w) \<and> p = print_panic e)"

fun crashed :: "('x, 'w, 'o) cli_env \<Rightarrow> cli_fault \<Rightarrow> 'w \<Rightarrow> bool" where
  "crashed C (CliPanic p) w = (\<not> stdout_failed C p w)"
| "crashed C (Anyhow chain) w = False"

definition settled :: "('e \<Rightarrow> 'w \<Rightarrow> bool) \<Rightarrow> 'e + 'a \<Rightarrow> 'w \<Rightarrow> bool" where
  "settled bad r w = (case r of Inl e \<Rightarrow> \<not> bad e w | Inr _ \<Rightarrow> True)"

definition settles :: "('e \<Rightarrow> 'w \<Rightarrow> bool) \<Rightarrow> ('w, 'e, 'a) comp \<Rightarrow> bool" where
  "settles bad m \<longleftrightarrow> (\<forall>w. wp m (settled bad) w)"

named_theorems settling "computations that settle"

lemma settled_simps [simp]: "settled bad (Inl e) w \<longleftrightarrow> \<not> bad e w" "settled bad (Inr x) w"
  by (simp_all add: settled_def)

lemma settled_map_sum [simp]: "settled bad (map_sum g h r) w \<longleftrightarrow> settled (\<lambda>e. bad (g e)) r w"
  by (cases r) auto

lemma settled_harmless: "(\<And>e. \<not> bad e w) \<Longrightarrow> settled bad r w"
  by (cases r) auto

lemma settled_mono: "settled bad r w \<Longrightarrow> (\<And>e. bad' e w \<Longrightarrow> bad e w) \<Longrightarrow> settled bad' r w"
  by (cases r) auto

lemma settles_bind_post:
  assumes "settles bad m"
    and "\<And>w x w'. m w = Some (Inr x, w') \<Longrightarrow> settles bad (f x)"
  shows "settles bad (io_bind m f)"
  unfolding settles_def
proof
  fix w
  obtain r w' where m: "m w = Some (r, w')" and r: "settled bad r w'"
    using wpD [OF assms(1) [unfolded settles_def, rule_format]] by blast
  show "wp (io_bind m f) (settled bad) w"
  proof (cases r)
    case (Inl e)
    then show ?thesis using m r by (simp add: wp_bind wp_Some)
  next
    case (Inr x)
    then show ?thesis
      using m assms(2) [of w x w'] by (simp add: wp_bind wp_Some settles_def)
  qed
qed

lemma settles_bind [settling]:
  "settles bad m \<Longrightarrow> (\<And>x. settles bad (f x)) \<Longrightarrow> settles bad (io_bind m f)"
  by (rule settles_bind_post)

lemma settles_next_do [settling]:
  "settles (crashed C) m \<Longrightarrow> settles (crashed C) n \<Longrightarrow> settles (crashed C) (next_do m n)"
  by (simp add: next_do_def settles_bind)

lemma settles_return [settling]: "settles bad (io_return x)"
  by (simp add: settles_def wp_simps)

lemma settles_sdk_prims [settling]:
  "settles panicked (io_fail e)" "settles panicked (io_pure (Inr y))"
  "settles panicked (io_result g r)" "settles panicked (io_call g c)"
  by (auto simp: settles_def wp_simps intro: settled_harmless split: prod.split)

lemma settles_say [settling]: "settles (crashed C) (say C line)"
  unfolding settles_def
proof
  fix w
  obtain r w' where p: "print_line C line w = (r, w')" by (cases "print_line C line w")
  have "stdout_failed C (print_panic e) w'" if "r = Inl e" for e
    using p that unfolding stdout_failed_def by blast
  then show "wp (say C line) (settled (crashed C)) w" by (cases r) (simp_all add: wp_simps p)
qed

lemma settles_cli_prims [settling]:
  "settles (crashed C) (cli_pure a)" "settles (crashed C) (cli_call h d)"
  "settles (crashed C) (cli_random32 D)" "settles (crashed C) (cli_panicking (Inr y))"
  by (auto simp: settles_def wp_simps intro: settled_harmless split: prod.split)

lemma settles_say_all [settling]: "settles (crashed C) (say_all C lines)"
  by (induction lines) (simp_all only: say_all.simps settling)

lemma settles_cli_sdk [settling]:
  assumes "settles panicked m"
  shows "settles (crashed C) (cli_sdk C prefix m)"
proof -
  have fault: "crashed C (cli_fault_of C prefix f) w \<Longrightarrow> panicked f w" for f w
    by (cases f) simp_all
  show ?thesis
    using assms unfolding settles_def wp_cli_sdk settled_map_sum
    by (blast intro: wp_mono settled_mono fault)
qed

text \<open>A computation that chooses by the world it is started in, and may change it first.\<close>

lemma settles_by_world:
  assumes "\<And>w. settles bad (n w)"
  shows "settles bad (\<lambda>w. n w (g w))"
  unfolding settles_def
proof
  fix w
  have "wp (n w) (settled bad) (g w)" using assms unfolding settles_def by blast
  then show "wp (\<lambda>w. n w (g w)) (settled bad) w" by (simp add: wp_def)
qed

end
