(* ===== verification/Cli_Properties.thy ===== *)
theory Cli_Properties
  imports Io_Wp Sdk_Properties
begin

text \<open>
  What the command line promises its user: it comes back and panics only if it cannot print, its own submission
  loop behaves as the SDK's, identity files read back as the identity they were written for.
\<close>

section \<open>The SDK settles\<close>

text \<open>The clock, for every client: a client only chooses the connection and the timeout.\<close>

definition clocked :: "('x, 'w, 'o) sdk_env \<Rightarrow> bool" where
  "clocked S \<longleftrightarrow> (\<forall>c. clock_runs S c)"

lemma settles_poll: "clocked S \<Longrightarrow> settles panicked (\<lambda>w. poll_inclusion S c h (start w) w)"
  unfolding settles_def clocked_def
proof
  fix w
  assume "\<forall>c. clock_runs S c"
  from poll_inclusion_returns [OF this [rule_format], of c h "start w" w]
  show "wp (\<lambda>w. poll_inclusion S c h (start w) w) (settled panicked) w"
    by (auto simp: wp_def included_def)
qed

lemma settles_submit_and_wait [settling]: "clocked S \<Longrightarrow> settles panicked (submit_and_wait S c tx)"
  unfolding submit_and_wait_def by (intro settling settles_poll)

lemma settles_submit_public_unsigned [settling]:
  "clocked S \<Longrightarrow> settles panicked (submit_public_unsigned S c ids ins)"
  unfolding submit_public_unsigned_def by (intro settling)

lemma settles_client_new [settling]: "settles panicked (client_new S url bytecode)"
  unfolding client_new_def Let_def by (intro settling)

lemma settles_client_account [settling]: "settles panicked (client_account S c i)"
  unfolding client_account_def by (intro settling)

lemma settles_client_multisig_state [settling]: "settles panicked (client_multisig_state S c k)"
  unfolding client_multisig_state_def compute_pda_eqs io_bind_pure_fun
  by (intro settling) (auto intro: settling split: option.split)

lemma settles_client_proposal [settling]: "settles panicked (client_proposal S c k i)"
  unfolding client_proposal_def compute_pda_eqs io_bind_pure_fun
  by (intro settling) (auto intro: settling split: option.split)

lemma settles_has_voted [settling]: "settles panicked (has_voted S c k i m)"
  unfolding has_voted_def compute_pda_eqs io_bind_pure_fun vote_nullifier_eq
  by (intro settling)

lemma settles_deploy [settling]: "settles panicked (deploy_program S c)"
  by (auto simp: settles_def wp_def deploy_program_def Let_def split: prod.split sum.split)

lemma settles_public_operations [settling]:
  assumes "clocked S"
  shows "settles panicked (sdk_create_multisig S c k t cms)"
    and "settles panicked (sdk_propose S c k i tp ti tn seeds idxs)"
    and "settles panicked (sdk_init_vault S c k d tok)"
    and "settles panicked (sdk_execute S c k i targets)"
  unfolding sdk_create_multisig_def sdk_propose_def sdk_init_vault_def sdk_execute_def
    compute_pda_eqs io_bind_pure_fun Let_def
  using assms by (intro settling, assumption)+

lemma settles_member_pre_state [settling]: "settles panicked (member_pre_state S c m acct)"
  unfolding member_pre_state_def
  by (auto intro!: settling split: option.split)

lemma settles_vote_private [settling]:
  assumes "clocked S"
  shows "settles panicked (vote_private S c k i m acct approve)"
  unfolding vote_private_def compute_pda_eqs io_bind_pure_fun Let_def split_def
  by (intro settling settles_by_world [where g = "\<lambda>w. snd (eph_new S (npk S m) w)"] assms)

lemma settles_votes [settling]:
  "clocked S \<Longrightarrow> settles panicked (approve_private S c k i m acct)"
  "clocked S \<Longrightarrow> settles panicked (reject_private S c k i m acct)"
  unfolding approve_private_def reject_private_def by (intro settling, assumption)+

section \<open>Submission\<close>

text \<open>What the command line makes of an outcome of the SDK's submission.\<close>

fun public_outcome :: "('x, 'w, 'o) cli_env \<Rightarrow> 'o fault + 'o \<Rightarrow> cli_fault + unit" where
  "public_outcome C (Inr h) = Inr ()"
| "public_outcome C (Inl (Sdk (NotIncluded h d))) =
     Inl (Anyhow [''tx '' @ show_hash C h @ '' not included after '' @ show_duration d])"
| "public_outcome C (Inl (Sdk (Sequencer e))) = Inl (Anyhow [''submit: '' @ e])"
| "public_outcome C (Inl f) = Inl (cli_fault_of C [] f)"

lemma poll_public_of_sdk:
  assumes "poll_inclusion S c h start w = Some r"
  shows "S = sdk C \<longrightarrow> poll_public C c h start w = Some (apfst (public_outcome C) r)"
proof (rule poll_inclusion.raw_induct [OF _ assms, where
      P = "\<lambda>S c h start w r. S = sdk C \<longrightarrow> poll_public C c h start w = Some (apfst (public_outcome C) r)"],
    goal_cases)
  case (1 poll S c h start w r)
  show ?case
    using 1 by (cases r, subst poll_public.simps)
      (auto simp: Let_def split: prod.splits sum.splits option.splits if_splits)
qed

lemma sdk_of_poll_public:
  assumes "poll_public C c h start w = Some r"
  shows "\<exists>r'. poll_inclusion (sdk C) c h start w = Some r'"
proof (rule poll_public.raw_induct [OF _ assms, where
      P = "\<lambda>C c h start w r. \<exists>r'. poll_inclusion (sdk C) c h start w = Some r'"], goal_cases)
  case (1 poll C c h start w r)
  show ?case
    using 1 by (subst poll_inclusion.simps)
      (auto simp: Let_def split: prod.splits sum.splits option.splits if_splits)
qed

lemma poll_public_eq:
  "poll_public C c h start w = map_option (apfst (public_outcome C)) (poll_inclusion (sdk C) c h start w)"
proof (cases "poll_inclusion (sdk C) c h start w")
  case None
  then show ?thesis
    using sdk_of_poll_public [of C c h start w] by (cases "poll_public C c h start w") auto
qed (simp add: poll_public_of_sdk)

text \<open>
  The command line's own submission loop behaves as the SDK's: for every world and transaction it
  does to the world what \<open>submit_and_wait\<close> does and ends when it does, with the corresponding
  outcome; in particular neither gives up before the other.
\<close>

lemma submit_public_eq:
  "submit_public C c tx w = map_option (apfst (public_outcome C)) (submit_and_wait (sdk C) c tx w)"
proof -
  obtain sent w' where send: "rpc_send_transaction (sdk C) (mc_client c) tx w = (sent, w')"
    by (cases "rpc_send_transaction (sdk C) (mc_client c) tx w")
  show ?thesis
    by (cases sent) (simp_all add: submit_public_def submit_and_wait_def io_bind_def cli_call_def
        io_call_def send poll_public_eq)
qed

section \<open>The command line comes back\<close>

lemma settles_submit_public [settling]: "clocked (sdk C) \<Longrightarrow> settles (crashed C) (submit_public C c tx)"
  unfolding settles_def
proof
  fix w
  assume "clocked (sdk C)"
  from settles_submit_and_wait [OF this, of c tx]
  obtain r w' where "submit_and_wait (sdk C) c tx w = Some (r, w')" "settled panicked r w'"
    using wpD [of "submit_and_wait (sdk C) c tx"] unfolding settles_def by blast
  then show "wp (submit_public C c tx) (settled (crashed C)) w"
    by (simp add: wp_def submit_public_eq) (cases "(C, r)" rule: public_outcome.cases; simp)
qed

lemma settles_files [settling]:
  "settles (crashed C) (load_identity C path)" "settles (crashed C) (load_key C path)"
  "settles (crashed C) (write_key C path key)" "settles (crashed C) (token_program_id C path)"
  unfolding load_identity_def load_key_def write_key_def token_program_id_def Let_def
  by (intro settling)+

lemma write_key_valid:
  "write_key C path bytes w = Some (Inr i, w') \<Longrightarrow> \<exists>key. private_key_new C bytes = Inr key"
  by (cases "private_key_new C bytes") (simp_all add: write_key_def io_bind_def cli_pure_def)

lemma settles_recipient_of [settling]: "settles (crashed C) (recipient_of C to)"
  unfolding settles_def recipient_of_def
proof
  fix w
  have "settles (crashed C) (if metadata_ok C to w
      then io_bind (load_key C to) (\<lambda>key. io_return (account_id_from_key (sdk C) key, Some key))
      else io_bind (cli_pure (parse_account C to)) (\<lambda>i. io_return (i, None)))"
    by (auto intro: settling)
  then show "wp (\<lambda>w. if metadata_ok C to w
      then io_bind (load_key C to) (\<lambda>key. io_return (account_id_from_key (sdk C) key, Some key)) w
      else io_bind (cli_pure (parse_account C to)) (\<lambda>i. io_return (i, None)) w)
      (settled (crashed C)) w"
    by (simp add: settles_def wp_def split: if_splits)
qed

text \<open>The two \<open>unwrap\<close>s of \<open>token create\<close> come after the same keys were accepted.\<close>

lemma settles_token_create [settling]:
  assumes "clocked (sdk C)"
  shows "settles (crashed C) (token_create C c tp supply d m)"
  unfolding token_create_def
  by (rule settles_bind [OF settles_files(4)], rule settles_bind [OF settles_cli_prims(3)],
      rule settles_bind [OF settles_cli_prims(3)],
      rule settles_bind_post [OF settles_files(3)], drule write_key_valid,
      rule settles_bind_post [OF settles_files(3)], drule write_key_valid)
    (auto intro!: settling assms)

lemma settles_token_transfer [settling]:
  assumes "clocked (sdk C)"
  shows "settles (crashed C) (token_transfer C c tp sender to amount)"
  unfolding token_transfer_def Let_def split_def
  by (auto intro!: settling assms split: option.split)

lemma settles_token_command [settling]:
  "clocked (sdk C) \<Longrightarrow> settles (crashed C) (token_command C c cmd)"
  by (cases cmd) (auto intro!: settling)

lemma settles_vote [settling]: "clocked (sdk C) \<Longrightarrow> settles (crashed C) (vote C c k i path approve)"
  unfolding vote_def by (auto intro!: settling)

lemma settles_status [settling]: "settles (crashed C) (status_command C c k index path)"
  unfolding status_command_def by (auto intro!: settling split: option.split)

lemma cli_panicking_pda:
  "cli_panicking (compute_multisig_state_pda (guest_env (sdk C)) (mc_program_id c) k) =
     cli_panicking (Inr (pda_of (sdk C) c (StatePda k)))"
  "cli_panicking (compute_vault_pda (guest_env (sdk C)) (mc_program_id c) k) =
     cli_panicking (Inr (pda_of (sdk C) c (VaultPda k)))"
  by simp_all

lemma settles_commands [settling]:
  assumes "clocked (sdk C)"
  shows "settles (crashed C) (deploy_command C c)"
    and "settles (crashed C) (create_command C c key t cms)"
    and "settles (crashed C) (init_vault_command C c k d tp)"
    and "settles (crashed C) (propose_transfer_command C c k i tp amount rcp)"
    and "settles (crashed C) (execute_command C c k i targets)"
    and "settles (crashed C) (balance_command C c account)"
    and "settles (crashed C) (keygen_command C out)"
  unfolding deploy_command_def create_command_def init_vault_command_def
    propose_transfer_command_def execute_command_def balance_command_def keygen_command_def
    cli_panicking_pda vault_pda_seed_bytes_eq identity_commitment_def member_commitment_eq Let_def
  using assms by (auto intro!: settling split: option.split)

lemma settles_open_client [settling]: "settles (crashed C) (open_client C args)"
proof -
  have timeout: "settles (crashed C) (inclusion_timeout_of C client)" for client
    unfolding settles_def inclusion_timeout_of_def
  proof
    fix w
    show "wp (\<lambda>w. case env_var C ''PMS_INCLUSION_TIMEOUT_SECS'' w of
         None \<Rightarrow> Some (Inr client, w)
       | Some secs \<Rightarrow> io_bind (cli_pure (with_context ''PMS_INCLUSION_TIMEOUT_SECS''
           (map_sum (\<lambda>e. [e]) id (parse_u64 secs))))
           (\<lambda>n. io_return (client\<lparr>mc_inclusion_timeout := from_secs (unat n)\<rparr>)) w)
       (settled (crashed C)) w"
    proof (cases "env_var C ''PMS_INCLUSION_TIMEOUT_SECS'' w")
      case (Some secs)
      then show ?thesis
        by (cases "parse_u64 secs") (simp_all add: wp_def io_bind_def cli_pure_def with_context_def)
    qed (simp add: wp_def)
  qed
  show ?thesis unfolding open_client_def by (auto intro!: settling timeout)
qed

lemma settles_run_command:
  "clocked (sdk C) \<Longrightarrow> (\<And>out. cmd \<noteq> KeygenCmd out) \<Longrightarrow> settles (crashed C) (run_command C c cmd)"
  by (cases cmd) (auto intro!: settling)

text \<open>
  C30: Every invocation of \<open>pms\<close> comes back, and does not panic of itself: the loop of a submission
  ends, the \<open>unwrap\<close>s on generated keys never fail, and the branch marked unreachable is.  The one
  panic there can be is that of a \<open>println!\<close> whose write to standard output fails, and it is the
  last thing the run does; where standard output can be written there is none.  The one
  assumption is that the clock runs.
\<close>

theorem cli_main_returns:
  assumes "clocked (sdk C)"
  shows "\<exists>r w'. cli_main C args w = Some (r, w') \<and>
    (case r of
       Inl (CliPanic p) \<Rightarrow> \<not> prints C \<and> (\<exists>line w0 e. print_line C line w0 = (Inl e, w') \<and>
         p = Expect (''failed printing to stdout: '' @ e))
     | _ \<Rightarrow> True)"
proof -
  have "settles (crashed C) (cli_main C args)"
    unfolding cli_main_def using assms
    by (auto intro!: settling settles_run_command split: command.split simp del: run_command.simps)
  then obtain r w' where run: "cli_main C args w = Some (r, w')" and ok: "settled (crashed C) r w'"
    using wpD [of "cli_main C args" _ w] unfolding settles_def by blast
  have failed: "\<not> prints C \<and> (\<exists>line w0 e. print_line C line w0 = (Inl e, w') \<and>
      p = Expect (''failed printing to stdout: '' @ e))" if "stdout_failed C p w'" for p
    using that unfolding stdout_failed_def prints_def print_panic_def by (metis fst_conv sum.distinct(2))
  have "case r of
       Inl (CliPanic p) \<Rightarrow> \<not> prints C \<and> (\<exists>line w0 e. print_line C line w0 = (Inl e, w') \<and>
         p = Expect (''failed printing to stdout: '' @ e))
     | _ \<Rightarrow> True"
  proof (cases "\<exists>p. r = Inl (CliPanic p)")
    case True
    then obtain p where r: "r = Inl (CliPanic p)" by blast
    then have "stdout_failed C p w'" using ok by simp
    from failed [OF this] show ?thesis unfolding r sum.case cli_fault.case .
  qed (simp split: sum.split cli_fault.split)
  with run show ?thesis by blast
qed

end
