(* ===== verification/Cli_Effects.thy ===== *)
theory Cli_Effects
  imports Cli_Properties Safety
begin

text \<open>
  What the commands do: the files they write read back, malformed input has no effect, a
  proposed transfer spends from the vault and from nothing else, and what \<open>pms status\<close> reports.
\<close>

section \<open>Files read back\<close>

text \<open>
  The documented behaviour of the crates and of the file system: hexadecimal text has no blanks
  and decodes to the bytes it was made of, JSON reads back, and so does a file, until it is
  written again; a line printed, or not, changes no file.
\<close>

definition text_ok :: "('x, 'w, 'o) cli_env \<Rightarrow> bool" where
  "text_ok C \<longleftrightarrow>
     (\<forall>bs. hex_decode C (hex_encode C bs) = Inr bs \<and> list_all (\<lambda>c. \<not> is_whitespace c) (hex_encode C bs)) \<and>
     (\<forall>f s. identity_to_json C f = Inr s \<longrightarrow> identity_from_json C s = Inr f) \<and>
     (\<forall>f s. key_to_json C f = Inr s \<longrightarrow> key_from_json C s = Inr f)"

definition files_ok :: "('x, 'w, 'o) cli_env \<Rightarrow> bool" where
  "files_ok C \<longleftrightarrow>
     (\<forall>path s w w'. write_file C path s w = (Inr (), w') \<longrightarrow> fst (read_to_string C path w') = Inr s) \<and>
     (\<forall>path l w. fst (read_to_string C path (snd (print_line C l w))) = fst (read_to_string C path w))"

lemma files_okD:
  assumes "files_ok C"
  shows "write_file C path s w = (Inr (), w') \<Longrightarrow> fst (read_to_string C path w') = Inr s"
    and "print_line C l w = (r, w') \<Longrightarrow> fst (read_to_string C path w') = fst (read_to_string C path w)"
proof -
  show "write_file C path s w = (Inr (), w') \<Longrightarrow> fst (read_to_string C path w') = Inr s"
    using assms unfolding files_ok_def by blast
  show "print_line C l w = (r, w') \<Longrightarrow> fst (read_to_string C path w') = fst (read_to_string C path w)"
    using assms unfolding files_ok_def by (metis snd_conv)
qed

lemma say_InrD: "say C line w = Some (Inr (), w') \<Longrightarrow> print_line C line w = (Inr (), w')"
  by (cases "print_line C line w"; cases "fst (print_line C line w)") (auto simp: say_def)

lemma parse_hex32_encode: "text_ok C \<Longrightarrow> parse_hex32 C (hex_encode C (arr_list b)) = Inr b"
  by (simp add: text_ok_def parse_hex32_def trim_id with_context_def bind_def)

lemma parse_hex32_Inr_iff: "parse_hex32 C s = Inr b \<longleftrightarrow> hex_decode C (trim s) = Inr (arr_list b)"
proof (cases "hex_decode C (trim s)")
  case (Inr bs)
  have "parse_hex32 C s = Inr b \<longleftrightarrow> arr_try_of bs = Some b"
    by (simp add: parse_hex32_def with_context_def bind_def Inr split: option.split)
  then show ?thesis by (auto simp: Inr arr_try_of_Some_iff)
qed (simp add: parse_hex32_def with_context_def bind_def)

lemma load_identity_written:
  assumes ok: "text_ok C"
    and json: "identity_to_json C \<lparr>if_seed = hex_encode C (arr_list seed), if_salt = hex_encode C (arr_list salt)\<rparr> = Inr s"
    and contents: "fst (read_to_string C path w) = Inr s"
  shows "load_identity C path w = Some (Inr (from_seed (sdk C) seed salt), snd (read_to_string C path w))"
proof -
  have "identity_from_json C s = Inr \<lparr>if_seed = hex_encode C (arr_list seed), if_salt = hex_encode C (arr_list salt)\<rparr>"
    using ok json by (simp add: text_ok_def)
  moreover obtain w' where "read_to_string C path w = (Inr s, w')"
    using contents by (metis prod.collapse)
  ultimately show ?thesis
    by (simp add: load_identity_def io_bind_def cli_call_def cli_pure_def with_context_def
        parse_hex32_encode [OF ok])
qed

lemma keygen_InrE:
  assumes "keygen_command C out w = Some (Inr (), w')"
  obtains seed salt s w1 w2 w3 w4 l1 l2 cm where
    "identity_to_json C \<lparr>if_seed = hex_encode C (arr_list seed), if_salt = hex_encode C (arr_list salt)\<rparr> = Inr s"
    and "write_file C out s w1 = (Inr (), w2)"
    and "identity_commitment (sdk C) (from_seed (sdk C) seed salt) = Inr cm"
    and "print_line C l1 w2 = (Inr (), w3)" and "print_line C l2 w3 = (Inr (), w4)"
    and "print_line C (''member commitment:   '' @ hex_encode C (arr_list cm)) w4 = (Inr (), w')"
proof -
  obtain seed w0 where seed: "rng_bytes (sdk C) w = (seed, w0)" by (cases "rng_bytes (sdk C) w")
  obtain salt w1 where salt: "rng_bytes (sdk C) w0 = (salt, w1)" by (cases "rng_bytes (sdk C) w0")
  note start = assms [unfolded keygen_command_def Let_def io_bind_def, simplified cli_random32_def
      seed salt prod.case Let_def option.case sum.case]
  obtain s where s: "identity_to_json C
      \<lparr>if_seed = hex_encode C (arr_list seed), if_salt = hex_encode C (arr_list salt)\<rparr> = Inr s"
    using start by (cases "identity_to_json C
      \<lparr>if_seed = hex_encode C (arr_list seed), if_salt = hex_encode C (arr_list salt)\<rparr>")
      (auto simp: cli_pure_def)
  obtain w2 where "write_file C out s w1 = (Inr (), w2)"
    using start s by (cases "write_file C out s w1"; cases "fst (write_file C out s w1)")
      (auto simp: cli_pure_def cli_call_def)
  with start s that show ?thesis
    by (auto simp: cli_pure_def cli_call_def next_do_def io_bind_def cli_panicking_def
        identity_commitment_def dest!: say_InrD split: option.splits sum.splits)
qed

text \<open>
  C32: An identity survives its file.  After a successful \<open>pms keygen\<close> the file loads as an
  identity; the commitment that was printed last is the commitment of that identity, and it is accepted, as printed,
  where the command line asks for a commitment.
\<close>

theorem keygen_load_roundtrip:
  assumes "text_ok C" and "files_ok C" and "keygen_command C out w = Some (Inr (), w')"
  shows "\<exists>m cm w0 w''. load_identity C out w' = Some (Inr m, w'') \<and>
    identity_commitment (sdk C) m = Inr cm \<and>
    print_line C (''member commitment:   '' @ hex_encode C (arr_list cm)) w0 = (Inr (), w') \<and>
    parse_hex32 C (hex_encode C (arr_list cm)) = Inr cm"
proof (rule keygen_InrE [OF assms(3)])
  fix seed salt s w1 w2 w3 w4 l1 l2 cm
  assume json: "identity_to_json C \<lparr>if_seed = hex_encode C (arr_list seed), if_salt = hex_encode C (arr_list salt)\<rparr> = Inr s"
    and wr: "write_file C out s w1 = (Inr (), w2)"
    and cm: "identity_commitment (sdk C) (from_seed (sdk C) seed salt) = Inr cm"
    and p: "print_line C l1 w2 = (Inr (), w3)" "print_line C l2 w3 = (Inr (), w4)"
      "print_line C (''member commitment:   '' @ hex_encode C (arr_list cm)) w4 = (Inr (), w')"
  have "fst (read_to_string C out w') = Inr s"
    using files_okD(1) [OF assms(2) wr] p [THEN files_okD(2) [OF assms(2)]] by simp
  from load_identity_written [OF assms(1) json this] cm p(3) parse_hex32_encode [OF assms(1)]
  show ?thesis by blast
qed

section \<open>Malformed input\<close>

fun create_key_of :: "command \<Rightarrow> string option" where
  "create_key_of (CreateCmd create_key t cms) = create_key"
| "create_key_of (InitVaultCmd create_key d tp) = Some create_key"
| "create_key_of (ProposeTransferCmd create_key i tp amount rcp) = Some create_key"
| "create_key_of (ApproveCmd create_key i path) = Some create_key"
| "create_key_of (RejectCmd create_key i path) = Some create_key"
| "create_key_of (ExecuteCmd create_key i targets) = Some create_key"
| "create_key_of (StatusCmd create_key i path) = Some create_key"
| "create_key_of _ = None"

text \<open>
  A create key that is not the hexadecimal text of 32 bytes, blanks around it aside, stops every
  command that takes one before it has read a file, sent a transaction or printed a line.
\<close>

lemma bad_create_key_no_effect:
  assumes "create_key_of cmd = Some s" and "\<And>b :: bytes32. hex_decode C (trim s) \<noteq> Inr (arr_list b)"
  shows "\<exists>chain. run_command C c cmd w = Some (Inl (Anyhow chain), w)"
proof -
  obtain chain where "parse_hex32 C s = Inl chain"
    using assms(2) parse_hex32_Inr_iff [of C s] by (metis sum.exhaust)
  with assms(1) show ?thesis
    by (cases cmd) (simp_all add: create_command_def init_vault_command_def
        propose_transfer_command_def vote_def execute_command_def status_command_def io_bind_def
        cli_pure_def)
qed

end
