(* ===== verification/Cli_Guest.thy ===== *)
theory Cli_Guest
  imports Cli_Effects
begin

text \<open>The command line, the SDK and the guest together: transfers from the vault, and the status report.\<close>

section \<open>A transfer\<close>

text \<open>The action that \<open>pms propose-transfer\<close> proposes: the token program's transfer, from the vault.\<close>

definition transfer_action ::
  "('x, 'w, 'o) cli_env \<Rightarrow> bytes32 \<Rightarrow> program_id \<Rightarrow> u32 list \<Rightarrow> proposal_action" where
  "transfer_action C key token data =
     \<lparr>pa_target_program_id = token, pa_target_instruction_data = data, pa_target_account_count = 2,
      pa_pda_seeds = [sha2_digest (guest_env (sdk C)) (pda_preimage (VaultPda key))],
      pa_authorized_indices = [0]\<rparr>"

lemma sdk_propose_submits:
  "sdk_propose S c k i tp ti tn seeds idxs =
     submit_public_unsigned S c [pda_of S c (StatePda k), pda_of S c (ProposalPda k i)]
       (Propose k i tp ti tn seeds idxs)"
  by (simp add: sdk_propose_def)

definition transfer_lines :: "('x, 'w, 'o) cli_env \<Rightarrow> u64 \<Rightarrow> u128 \<Rightarrow> account_id \<Rightarrow> string list" where
  "transfer_lines C i amount r =
     [''proposal #'' @ show_nat (unat i) @ '' created: transfer '' @ show_nat (unat amount) @
        '' from vault to '' @ show_account_id C r,
      ''(execute with: --target <vault> --target '' @ show_account_id C r @ '')'']"

text \<open>The command up to what it prints.\<close>

definition transfer_silent ::
  "('x, 'w, 'o) cli_env \<Rightarrow> 'o multisig_client \<Rightarrow> string \<Rightarrow> u64 \<Rightarrow> string \<Rightarrow> u128 \<Rightarrow> ('w, unit) cio" where
  "transfer_silent C c ck i tp amount =
     io_bind (cli_pure (parse_hex32 C ck)) (\<lambda>key.
     io_bind (token_program_id C tp) (\<lambda>token.
     io_bind (cli_pure (map_sum (\<lambda>e. [e]) id (serialize_token C (Transfer amount)))) (\<lambda>data.
     io_bind (cli_sdk C [] (submit_public_unsigned (sdk C) c
        [pda_of (sdk C) c (StatePda key), pda_of (sdk C) c (ProposalPda key i)]
        (Propose key i token data 2 (pa_pda_seeds (transfer_action C key token data)) [0]))) (\<lambda>_.
     io_return ()))))"

lemma cli_pure_Inr: "io_bind (cli_pure (Inr x)) f = f x"
  by (rule ext) (simp add: io_bind_def cli_pure_def)

lemma cli_panicking_Inr: "io_bind (cli_panicking (Inr x)) f = f x"
  by (rule ext) (simp add: io_bind_def cli_panicking_def)

lemma propose_transfer_command_split:
  assumes "parse_account C rcp = Inr r"
  shows "propose_transfer_command C c ck i tp amount rcp =
    next_do (transfer_silent C c ck i tp amount) (say_all C (transfer_lines C i amount r))"
  unfolding propose_transfer_command_def transfer_silent_def next_do_def assms io_bind_assoc
    cli_pure_Inr vault_pda_seed_bytes_eq cli_panicking_Inr sdk_propose_submits io_return_simps
  by (simp add: transfer_lines_def transfer_action_def del: pda_preimage.simps say_all.simps)

lemma transfer_silent_eq:
  assumes "parse_hex32 C ck = Inr key" and "token_program_id C tp w = Some (Inr token, w1)"
    and "serialize_token C (Transfer amount) = Inr data"
  shows "transfer_silent C c ck i tp amount w =
    io_bind (cli_sdk C [] (submit_public_unsigned (sdk C) c
        [pda_of (sdk C) c (StatePda key), pda_of (sdk C) c (ProposalPda key i)]
        (Propose key i token data 2 (pa_pda_seeds (transfer_action C key token data)) [0])))
      (\<lambda>_. io_return ()) w1"
  by (simp add: transfer_silent_def io_bind_def cli_pure_def assms transfer_action_def
      del: pda_preimage.simps)

text \<open>
  C34: The recipient of a transfer is not part of the proposal.  Two proposals of the same amount for
  different recipients do the same to the world, the transaction they send included, and
  differ only in the text printed afterwards: what the members approve does not say who is paid.
\<close>

theorem transfer_ignores_recipient:
  assumes "parse_account C a = Inr r" and "parse_account C b = Inr q"
  shows "\<exists>send. propose_transfer_command C c ck i tp amount a =
      next_do send (say_all C (transfer_lines C i amount r)) \<and>
    propose_transfer_command C c ck i tp amount b =
      next_do send (say_all C (transfer_lines C i amount q))"
  using propose_transfer_command_split assms by blast

text \<open>
  C13: A transfer proposed on the command line spends from the vault, and from nothing else.  The
  command submits the proposal of \<open>transfer_action\<close> for the accounts the guest derives; and whenever
  that proposal is executed, after any run of votes, on two target accounts, the one emitted
  call is the token program's transfer with the first of them authorised and the second as it
  came, under a seed that derives the vault of the multisig.
\<close>

theorem transfer_spends_from_vault:
  assumes "parse_hex32 C ck = Inr key" and "token_program_id C tp w = Some (Inr token, w1)"
    and "parse_account C rcp = Inr r" and "serialize_token C (Transfer amount) = Inr data"
    and "sound_run (guest_env (sdk C)) s p c0 tr" and "run (guest_env (sdk C)) c0 tr (sa, pa)"
    and "pr_action p = transfer_action C key token data"
    and "process (guest_env (sdk C)) [sa, pa, va, ra] (Execute key i) = Inr (posts, calls)"
  shows "propose_transfer_command C c ck i tp amount rcp =
      next_do (transfer_silent C c ck i tp amount) (say_all C (transfer_lines C i amount r)) \<and>
    transfer_silent C c ck i tp amount w = io_bind (cli_sdk C [] (submit_public_unsigned (sdk C) c
        [pda_of (sdk C) c (StatePda key), pda_of (sdk C) c (ProposalPda key i)]
        (Propose key i token data 2 (pa_pda_seeds (pr_action p)) [0]))) (\<lambda>_. io_return ()) w1 \<and>
    (\<exists>seed. calls = [\<lparr>cc_program_id = token, cc_instruction_data = data,
       cc_pre_states = [va\<lparr>am_is_authorized := True\<rparr>, ra], cc_pda_seeds = [seed]\<rparr>] \<and>
     for_public_pda (guest_env (sdk C)) (mc_program_id c) seed = pda_of (sdk C) c (VaultPda key))"
proof (intro conjI)
  show "propose_transfer_command C c ck i tp amount rcp =
      next_do (transfer_silent C c ck i tp amount) (say_all C (transfer_lines C i amount r))"
    by (rule propose_transfer_command_split [OF assms(3)])
  show "transfer_silent C c ck i tp amount w = io_bind (cli_sdk C [] (submit_public_unsigned (sdk C) c
        [pda_of (sdk C) c (StatePda key), pda_of (sdk C) c (ProposalPda key i)]
        (Propose key i token data 2 (pa_pda_seeds (pr_action p)) [0]))) (\<lambda>_. io_return ()) w1"
    using transfer_silent_eq [OF assms(1,2,4)] assms(7) by simp
  have "tracks (guest_env (sdk C)) s p (sa, pa) (voters tr) (ballot_of s (events tr))"
    by (rule sound_run_tracks [OF assms(5,6)])
  then have I: "implements (guest_env (sdk C)) s p (sa, pa) (ballot_of s (events tr))"
    by (simp add: tracks_def)
  from assms(8) obtain s' p' where e: "executable (guest_env (sdk C)) key i sa pa s' p'"
    and calls: "calls = [call_of (pr_action p') [va, ra]]"
    by (auto elim!: execute_handle_InrE)
  have "pr_action p' = pr_action p"
    using I e by (auto simp: executable_def elim!: implements_keys)
  then show "\<exists>seed. calls = [\<lparr>cc_program_id = token, cc_instruction_data = data,
       cc_pre_states = [va\<lparr>am_is_authorized := True\<rparr>, ra], cc_pda_seeds = [seed]\<rparr>] \<and>
     for_public_pda (guest_env (sdk C)) (mc_program_id c) seed = pda_of (sdk C) c (VaultPda key)"
    by (simp add: calls call_of_def assms(7) transfer_action_def pda_of_def authorize_target_def
        enumerate_eq_zip del: pda_preimage.simps)
qed

section \<open>The status report\<close>

text \<open>What an accepted vote leaves on the chain: the proposal, with or without the voter's approval.\<close>

lemma vote_recorded:
  assumes "platform_ok E"
    and "process E [sa, pa, ma] (if approve then Approve k i v else Reject k i v) = Inr (posts, calls)"
  obtains s q where "holds_state E sa k s"
    and "from_slice_proposal E (acc_data (ps_account (posts ! 1))) = Some q"
    and "vote_nf E (am_account_id sa) i (pr_action_hash q) v \<in> set (pr_vote_nullifiers q) \<longleftrightarrow> approve"
proof (cases approve)
  case True
  then have ok: "approve_handle E [sa, pa, ma] k i v = Inr (posts, calls)" using assms(2) by simp
  show ?thesis
  proof (rule approve_next [OF platform_ok_borsh [OF assms(1)] ok])
    fix s :: multisig_state and p :: proposal
    let ?q = "approve_update E (am_account_id sa) i (pr_action_hash p) v p"
    assume "vote_ready E k i v sa pa ma s p" and "holds_proposal E (with_post pa (posts ! 1)) k i ?q"
    moreover have "pr_action_hash ?q = pr_action_hash p" by (rule same_proposalD [OF approve_side.cast_same])
    moreover have "vote_nf E (am_account_id sa) i (pr_action_hash p) v \<in> set (pr_vote_nullifiers ?q)"
      by (rule approve_side.cast_recorded)
    ultimately show ?thesis
      using True that by (auto simp: vote_ready_def holds_proposal_def)
  qed
next
  case False
  then have ok: "reject_handle E [sa, pa, ma] k i v = Inr (posts, calls)" using assms(2) by simp
  show ?thesis
  proof (rule reject_next [OF platform_ok_borsh [OF assms(1)] ok])
    fix s :: multisig_state and p :: proposal and dead
    let ?q = "close_if dead (reject_update E (am_account_id sa) i (pr_action_hash p) v p)"
    assume "vote_ready E k i v sa pa ma s p" and "holds_proposal E (with_post pa (posts ! 1)) k i ?q"
    moreover have "pr_action_hash ?q = pr_action_hash p"
      and "vote_nf E (am_account_id sa) i (pr_action_hash p) v \<notin> set (pr_vote_nullifiers ?q)"
      by (simp_all add: reject_update_def retain_ne_def)
    ultimately show ?thesis
      using False that by (auto simp: vote_ready_def holds_proposal_def)
  qed
qed

lemma has_voted_after_vote:
  assumes E: "platform_ok (guest_env S)"
    and ok: "process (guest_env S) (vote_pre_states S c chain k i m d)
      (if approve then Approve k i (mi_salt m) else Reject k i (mi_salt m)) = Inr (posts, calls)"
    and serve: "serves S c (chain(pda_of S c (ProposalPda k i) := ps_account (posts ! 1))) w"
  shows "has_voted S c k i m w = Some (Inr approve, w)"
proof (rule vote_recorded [OF E ok [unfolded vote_pre_states_def]])
  fix s q
  assume q: "from_slice_proposal (guest_env S) (acc_data (ps_account (posts ! 1))) = Some q"
    and v: "vote_nf (guest_env S) (am_account_id \<lparr>am_account_id = pda_of S c (StatePda k),
        am_account = chain (pda_of S c (StatePda k)), am_is_authorized = False\<rparr>) i (pr_action_hash q) (mi_salt m)
      \<in> set (pr_vote_nullifiers q) \<longleftrightarrow> approve"
  have "client_proposal S c k i w = Some (Inr q, w)"
    by (rule client_proposal_serves [OF serve]) (use q platform_ok_not_default(2) [OF E q] in simp_all)
  then show ?thesis using v by (simp add: has_voted_def io_bind_def)
qed

lemma cli_sdk_Inr: "m w = Some (Inr x, w') \<Longrightarrow> cli_sdk C prefix m w = Some (Inr x, w')"
  by (simp add: cli_sdk_def)

text \<open>
  C33: What \<open>pms status\<close> says of a member is whether it approves, not whether it has voted.  Where
  standard output can be written, after an accepted
  vote of the member, with the new proposal account on the chain, the report ends with the line
  "HAS voted" if the vote was an approval, and with "has NOT voted" if it was a rejection.
\<close>

theorem status_reports_approvals_only:
  assumes "platform_ok (guest_env (sdk C))"
    and "process (guest_env (sdk C)) (vote_pre_states (sdk C) c chain k i m d)
      (if approve then Approve k i (mi_salt m) else Reject k i (mi_salt m)) = Inr (posts, calls)"
    and "\<And>w. serves (sdk C) c (chain(pda_of (sdk C) c (ProposalPda k i) := ps_account (posts ! 1))) w"
    and "pda_of (sdk C) c (StatePda k) \<noteq> pda_of (sdk C) c (ProposalPda k i)"
    and "parse_hex32 C ck = Inr k" and "\<And>w. \<exists>w'. load_identity C path w = Some (Inr m, w')"
    and "prints C"
  shows "\<exists>w0 w1. status_command C c ck (Some i) (Some path) w = Some (Inr (), w1) \<and>
    print_line C (''this identity '' @ (if approve then ''HAS'' else ''has NOT'') @
      '' voted on #'' @ show_nat (unat i)) w0 = (Inr (), w1)"
proof (rule vote_recorded [OF assms(1) assms(2) [unfolded vote_pre_states_def]])
  let ?S = "sdk C"
  fix s q
  assume s: "holds_state (guest_env ?S) \<lparr>am_account_id = pda_of ?S c (StatePda k),
      am_account = chain (pda_of ?S c (StatePda k)), am_is_authorized = False\<rparr> k s"
    and q: "from_slice_proposal (guest_env ?S) (acc_data (ps_account (posts ! 1))) = Some q"
  have state: "from_slice_state (guest_env ?S) (acc_data (chain (pda_of ?S c (StatePda k)))) = Some s"
    using s by (simp add: holds_state_def)
  have read_state: "client_multisig_state ?S c k w = Some (Inr s, w)" for w
    using platform_ok_not_default(1) [OF assms(1) state] assms(4) state
    by (simp add: client_multisig_state_def io_bind_account [OF assms(3)])
  have read_proposal: "client_proposal ?S c k i w = Some (Inr q, w)" for w
    by (rule client_proposal_serves [OF assms(3)]) (use q platform_ok_not_default(2) [OF assms(1) q] in simp_all)
  define w1 where "w1 = fold (printed C) (proposal_report C i q) (fold (printed C) (state_report C s) w)"
  obtain w2 where load: "load_identity C path w1 = Some (Inr m, w2)" using assms(6) by blast
  note voted = has_voted_after_vote [OF assms(1-3), of w2]
  show ?thesis
    using load voted unfolding w1_def
    by (simp add: status_command_def io_bind_def cli_pure_def assms(5) cli_sdk_Inr [OF read_state]
        cli_sdk_Inr [OF read_proposal] next_do_def say_all_prints [OF assms(7)] say_prints [OF assms(7)] cli_sdk_Inr
        print_line_prints [OF assms(7)] voted_report_def) blast
qed

end
