(* ===== verification/Cli_Sample.thy ===== *)
theory Cli_Sample
  imports Sdk_Witnesses Cli_Guest
begin

text \<open>
  A sample machine for the command line, on top of the sample multisig and its sequencer: a
  clock, a list of what was sent, a list of files with one read-only identity file, and the
  lines printed; hexadecimal text as it is, and a minimal text form for the two kinds of file.
\<close>

section \<open>Hexadecimal text\<close>

definition hex_digit :: "nat \<Rightarrow> char" where
  "hex_digit n = (if n < 10 then char_of (48 + n) else char_of (87 + n))"

definition hex_value :: "char \<Rightarrow> nat option" where
  "hex_value c = (let n = of_char c in
     if 48 \<le> n \<and> n \<le> 57 then Some (n - 48) else if 97 \<le> n \<and> n \<le> 102 then Some (n - 87) else None)"

definition s_hex_encode :: "u8 list \<Rightarrow> string" where
  "s_hex_encode bs = concat (map (\<lambda>b. [hex_digit (unat b div 16), hex_digit (unat b mod 16)]) bs)"

fun s_hex_decode :: "string \<Rightarrow> string + u8 list" where
  "s_hex_decode [] = Inr []"
| "s_hex_decode [c] = Inl ''Odd number of digits''"
| "s_hex_decode (c # d # cs) =
     (case (hex_value c, hex_value d, s_hex_decode cs) of
        (Some x, Some y, Inr bs) \<Rightarrow> Inr (of_nat (16 * x + y) # bs)
      | _ \<Rightarrow> Inl ''Invalid character'')"

lemma hex_value_digit: "n < 16 \<Longrightarrow> hex_value (hex_digit n) = Some n"
  by (simp add: hex_value_def hex_digit_def Let_def)

lemma hex_digit_no_blank:
  assumes "n < 16"
  shows "\<not> is_whitespace (hex_digit n)"
  using assms by (auto simp: is_whitespace_def hex_digit_def Let_def)

lemma unat_u8_less: "unat (b :: u8) < 256"
  using unsigned_less [of b, where 'a = nat] by simp

lemma s_hex_roundtrip: "s_hex_decode (s_hex_encode bs) = Inr bs"
proof (induction bs)
  case (Cons b bs)
  have "unat b div 16 < 16" using unat_u8_less [of b] by simp
  moreover have "16 * (unat b div 16) + unat b mod 16 = unat b" by simp
  ultimately show ?case using Cons by (simp add: s_hex_encode_def hex_value_digit)
qed (simp add: s_hex_encode_def)

lemma s_hex_no_blanks: "list_all (\<lambda>c. \<not> is_whitespace c) (s_hex_encode bs)"
  using unat_u8_less by (induction bs) (simp_all add: s_hex_encode_def hex_digit_no_blank less_mult_imp_div_less)

section \<open>Files\<close>

definition quote :: char where "quote = char_of (34 :: nat)"

definition s_identity_to_json :: "identity_file \<Rightarrow> string + string" where
  "s_identity_to_json f =
     (if quote \<in> set (if_seed f) then Inl ''not supported'' else Inr (if_seed f @ quote # if_salt f))"

definition s_identity_from_json :: "string \<Rightarrow> string + identity_file" where
  "s_identity_from_json s =
     Inr \<lparr>if_seed = takeWhile (\<lambda>c. c \<noteq> quote) s, if_salt = tl (dropWhile (\<lambda>c. c \<noteq> quote) s)\<rparr>"

lemma cut_at:
  "q \<notin> set xs \<Longrightarrow> takeWhile (\<lambda>c. c \<noteq> q) (xs @ q # ys) = xs"
  "q \<notin> set xs \<Longrightarrow> dropWhile (\<lambda>c. c \<noteq> q) (xs @ q # ys) = q # ys"
  by (induction xs) auto

lemma s_identity_json: "s_identity_to_json f = Inr s \<Longrightarrow> s_identity_from_json s = Inr f"
  by (cases f) (auto simp: s_identity_to_json_def s_identity_from_json_def cut_at split: if_splits)

definition alice :: string where
  "alice = s_hex_encode (arr_list (b32 3)) @ quote # s_hex_encode (arr_list (s_salt 0))"

section \<open>The machine\<close>

record c_world =
  cw_time :: nat
  cw_sent :: "nat list"
  cw_files :: "(string \<times> string) list"
  cw_out :: "string list"

definition c_start :: c_world where
  "c_start = \<lparr>cw_time = 0, cw_sent = [], cw_files = [], cw_out = []\<rparr>"

definition c_sdk :: "(nat, c_world, nat) sdk_env" where
  "c_sdk = s_sdk_over (\<lambda>d w. w\<lparr>cw_time := cw_time w + d\<rparr>) cw_time
     (\<lambda>tx w. w\<lparr>cw_sent := tx # cw_sent w\<rparr>) (s_salt 0)"

definition c_read :: "string \<Rightarrow> c_world \<Rightarrow> (string + string) \<times> c_world" where
  "c_read path w = (if path = ''alice'' then (Inr alice, w)
     else case map_of (cw_files w) path of Some s \<Rightarrow> (Inr s, w) | None \<Rightarrow> (Inl ''no such file'', w))"

definition c_write :: "string \<Rightarrow> string \<Rightarrow> c_world \<Rightarrow> (string + unit) \<times> c_world" where
  "c_write path s w = (if path = ''alice'' then (Inl ''read-only'', w)
     else (Inr (), w\<lparr>cw_files := (path, s) # cw_files w\<rparr>))"

definition c_account :: "string \<Rightarrow> string + account_id" where
  "c_account s = (if s = ''bob'' then Inr (AccountId (b32 9)) else if s = ''eve'' then Inr (AccountId (b32 10))
     else Inl ''not an account'')"

definition c_env :: "(nat, c_world, nat) cli_env" where
  "c_env = \<lparr>sdk = c_sdk, read_to_string = c_read,
     read_bytes = (\<lambda>path w. (if path = ''token'' then Inr [1] else Inr [], w)), write_file = c_write,
     metadata_ok = (\<lambda>path w. map_of (cw_files w) path \<noteq> None), env_var = (\<lambda>name w. None),
     print_line = (\<lambda>l w. (Inr (), w\<lparr>cw_out := cw_out w @ [l]\<rparr>)),
     identity_from_json = s_identity_from_json, identity_to_json = s_identity_to_json,
     key_from_json = (\<lambda>s. Inr \<lparr>kf_private_key = s\<rparr>), key_to_json = (\<lambda>f. Inr (kf_private_key f)),
     hex_decode = s_hex_decode, hex_encode = s_hex_encode, parse_account_id = c_account,
     show_account_id = (\<lambda>i. s_hex_encode (arr_list (aid_value i))), show_hash = show_nat,
     private_key_new = (\<lambda>b. Inr 0), nonce_of = acc_rest, nonce_default = 0,
     serialize_token = (\<lambda>t. case t of Transfer a \<Rightarrow> Inr [1, 2, 3] | _ \<Rightarrow> Inl ''not supported''),
     token_message = (\<lambda>_ _ _ _. Inr 0), holding_from_slice = (\<lambda>_. None), little_endian = True\<rparr>"

lemma c_env_simps [simp]:
  "sdk c_env = c_sdk" "parse_account_id c_env = c_account" "hex_encode c_env = s_hex_encode"
  "hex_decode c_env = s_hex_decode" "read_to_string c_env = c_read" "serialize_token c_env (Transfer a) = Inr [1, 2, 3]"
  "write_file c_env = c_write" "identity_to_json c_env = s_identity_to_json"
  by (simp_all add: c_env_def)

lemma c_text_ok: "text_ok c_env"
  by (simp add: text_ok_def s_hex_roundtrip s_hex_no_blanks)
    (auto simp: c_env_def s_identity_json)

lemma c_files_ok: "files_ok c_env"
  by (auto simp: files_ok_def c_read_def c_write_def split: if_splits option.splits)
    (auto simp: c_env_def split: option.split)

lemma c_prints: "prints c_env"
  by (simp add: prints_def c_env_def)

lemma c_clocked: "clocked c_sdk"
  by (auto simp: clocked_def clock_runs_def c_sdk_def s_sdk_over_def)

lemma c_sdk_simps [simp]:
  "guest_env c_sdk = sample" "program_new c_sdk bs = Inr (length bs)"
  "program_id_of c_sdk n = (if n = 0 then arr_fill 1 else arr_fill 42)"
  "rng_bytes c_sdk w = (b32 0, w)" "key_holder c_sdk seed = 0"
  by (simp_all add: c_sdk_def s_sdk_over_def)

end
