(* ===== verification/Cli_Witnesses.thy ===== *)
theory Cli_Witnesses
  imports Cli_Sample
begin

text \<open>The theorems about the command line with hypotheses, applied to the sample machine.\<close>

section \<open>Coming back, and files\<close>

theorem cli_main_witness:
  "\<exists>r w'. cli_main c_env \<lparr>cli_url = [], cli_program = [], cli_command = DeployCmd\<rparr> c_start = Some (r, w') \<and>
     (\<forall>p. r \<noteq> Inl (CliPanic p))"
proof -
  let ?args = "\<lparr>cli_url = [], cli_program = [], cli_command = DeployCmd\<rparr>"
  have "clocked (sdk c_env)" using c_clocked by simp
  from cli_main_returns [OF this, of ?args c_start] obtain r w' where
    run: "cli_main c_env ?args c_start = Some (r, w')"
    and ok: "case r of Inl (CliPanic p) \<Rightarrow> \<not> prints c_env \<and> (\<exists>line w0 e. print_line c_env line w0 = (Inl e, w') \<and>
        p = Expect (''failed printing to stdout: '' @ e)) | _ \<Rightarrow> True"
    by blast
  have "r \<noteq> Inl (CliPanic p)" for p
  proof
    assume r: "r = Inl (CliPanic p)"
    show False using ok c_prints unfolding r sum.case cli_fault.case by blast
  qed
  with run show ?thesis by blast
qed

lemma hex_no_quote: "quote \<notin> set (s_hex_encode bs)"
proof -
  have digit: "quote \<noteq> hex_digit n" if "n < 16" for n
  proof -
    have "hex_value quote = None" by code_simp
    then show ?thesis using hex_value_digit [OF that] by (metis option.distinct(1))
  qed
  have "unat b div 16 < 16" "unat b mod 16 < 16" for b :: u8
    using unat_u8_less [of b] by simp_all
  then show ?thesis
    by (induction bs) (simp_all add: s_hex_encode_def digit)
qed

lemma c_keygen: "\<exists>w'. keygen_command c_env ''dave'' c_start = Some (Inr (), w')"
  by (simp add: keygen_command_def io_bind_def cli_random32_def cli_pure_def cli_call_def next_do_def
      say_prints [OF c_prints] cli_panicking_def identity_commitment_def s_identity_to_json_def hex_no_quote c_write_def Let_def)

theorem keygen_roundtrip_witness:
  "\<exists>w' m w''. keygen_command c_env ''dave'' c_start = Some (Inr (), w') \<and>
     load_identity c_env ''dave'' w' = Some (Inr m, w'')"
  using c_keygen keygen_load_roundtrip [OF c_text_ok c_files_ok] by blast

lemma bad_create_key_sample:
  "\<exists>chain. run_command c_env s_client (ApproveCmd ''xyz'' 1 ''alice'') c_start = Some (Inl (Anyhow chain), c_start)"
proof (rule bad_create_key_no_effect)
  show "create_key_of (ApproveCmd ''xyz'' 1 ''alice'') = Some ''xyz''" by simp
  have "isl (s_hex_decode (trim ''xyz''))" by code_simp
  then show "hex_decode c_env (trim ''xyz'') \<noteq> Inr (arr_list b)" for b :: bytes32 by auto
qed

section \<open>Transfers\<close>

theorem transfer_ignores_witness:
  "\<exists>send. propose_transfer_command c_env s_client ''x'' 1 ''token'' 5 ''bob'' =
      next_do send (say_all c_env (transfer_lines c_env 1 5 (AccountId (b32 9)))) \<and>
    propose_transfer_command c_env s_client ''x'' 1 ''token'' 5 ''eve'' =
      next_do send (say_all c_env (transfer_lines c_env 1 5 (AccountId (b32 10))))"
  by (rule transfer_ignores_recipient) (simp_all add: parse_account_def c_account_def)

abbreviation s_key_text :: string where
  "s_key_text \<equiv> s_hex_encode (arr_list s_key)"

lemma c_parse_key: "parse_hex32 c_env s_key_text = Inr s_key"
  using parse_hex32_encode [OF c_text_ok, of s_key] by simp

lemma c_token: "token_program_id c_env ''token'' w = Some (Inr (arr_fill 42), w)"
  by (simp add: token_program_id_def io_bind_def cli_call_def cli_pure_def) (simp add: c_env_def)

lemma c_transfer_action: "pr_action s_prop = transfer_action c_env s_key (arr_fill 42) [1, 2, 3]"
  by (simp add: s_act_def transfer_action_def s_vault_seed_def del: pda_preimage.simps)

theorem transfer_spends_witness:
  "\<exists>sa pa posts seed. process sample (sa # pa # s_targets) (Execute s_key 1) = Inr (posts, [call_of s_act s_targets]) \<and>
     cc_pda_seeds (call_of s_act s_targets) = [seed] \<and>
     for_public_pda sample (mc_program_id s_client) seed = pda_of c_sdk s_client (VaultPda s_key)"
proof -
  obtain sa pa posts where r: "run (guest_env (sdk c_env)) s_start s_votes (sa, pa)"
    and x: "process (guest_env (sdk c_env)) [sa, pa, s_account 5 [], s_account 6 []] (Execute s_key 1) =
      Inr (posts, [call_of s_act s_targets])"
    by (rule s_execute_after_votes) simp
  have "sound_run (guest_env (sdk c_env)) s_state s_prop s_start s_votes" using s_sound_votes by simp
  moreover have "parse_account c_env ''bob'' = Inr (AccountId (b32 9))"
    by (simp add: parse_account_def c_account_def)
  moreover have "serialize_token c_env (Transfer 5) = Inr [1, 2, 3]" by simp
  ultimately have spend: "\<exists>seed. [call_of s_act s_targets] = [\<lparr>cc_program_id = arr_fill 42, cc_instruction_data = [1, 2, 3],
       cc_pre_states = [(s_account 5 [])\<lparr>am_is_authorized := True\<rparr>, s_account 6 []], cc_pda_seeds = [seed]\<rparr>] \<and>
     for_public_pda (guest_env (sdk c_env)) (mc_program_id s_client) seed = pda_of (sdk c_env) s_client (VaultPda s_key)"
    using transfer_spends_from_vault [OF c_parse_key c_token [of c_start] _ _ _ r c_transfer_action x, where c = s_client]
    by blast
  then
  obtain seed where "[call_of s_act s_targets] = [\<lparr>cc_program_id = arr_fill 42, cc_instruction_data = [1, 2, 3],
       cc_pre_states = [(s_account 5 [])\<lparr>am_is_authorized := True\<rparr>, s_account 6 []], cc_pda_seeds = [seed]\<rparr>]"
    and "for_public_pda sample (mc_program_id s_client) seed = pda_of c_sdk s_client (VaultPda s_key)"
    by auto
  with x show ?thesis by auto
qed

section \<open>The status report\<close>

lemma c_load_alice: "\<exists>w'. load_identity c_env ''alice'' w = Some (Inr (s_identity (s_salt 0)), w')"
proof -
  have "identity_to_json c_env \<lparr>if_seed = hex_encode c_env (arr_list (b32 3)),
      if_salt = hex_encode c_env (arr_list (s_salt 0))\<rparr> = Inr alice"
    by (simp add: s_identity_to_json_def alice_def hex_no_quote)
  from load_identity_written [OF c_text_ok this, of "''alice''" w] show ?thesis
    by (simp add: c_read_def from_seed_def s_identity_def)
qed

text \<open>The sequencer after a rejection: it serves the rejected proposal.\<close>

abbreviation s_pda :: "pda_kind \<Rightarrow> account_id" where
  "s_pda kind \<equiv> AccountId (digest (pda_preimage kind))"

definition c_serving :: "nat account \<Rightarrow> (nat, c_world, nat) cli_env" where
  "c_serving acc = c_env\<lparr>sdk := c_sdk\<lparr>rpc_get_account :=
     (\<lambda>_ i w. (Inr ((s_chain(s_pda (ProposalPda s_key 1) := acc)) i), w))\<rparr>\<rparr>"

lemma c_serving_pda [simp]:
  "guest_env (sdk (c_serving acc)) = sample" "pda_of (sdk (c_serving acc)) s_client kind = s_pda kind"
  "identity_account_id (sdk (c_serving acc)) m = am_account_id (s_member 0)"
  by (simp_all add: c_serving_def pda_of_def identity_account_id_def c_sdk_def s_sdk_over_def del: pda_preimage.simps)

lemma c_serving_serves:
  "serves (sdk (c_serving acc)) s_client (s_chain(s_pda (ProposalPda s_key 1) := acc)) w"
  by (simp add: serves_def c_serving_def)

lemma c_serving_pre_states:
  "vote_pre_states (sdk (c_serving acc)) s_client s_chain s_key 1 m \<lparr>acc_data = [], acc_rest = 0\<rparr> =
     [(state_account s_state1)\<lparr>am_account_id := s_pda (StatePda s_key)\<rparr>,
      (proposal_account s_prop)\<lparr>am_account_id := s_pda (ProposalPda s_key 1)\<rparr>, s_member 0]"
  using s_pda_differ
  by (simp add: vote_pre_states_def s_chain_def state_account_def proposal_account_def
      s_member_def s_account_def del: pda_preimage.simps)

lemma c_serving_files:
  "parse_hex32 (c_serving acc) s = parse_hex32 c_env s" "load_identity (c_serving acc) path = load_identity c_env path"
  by (simp_all add: parse_hex32_def load_identity_def c_serving_def from_seed_def)

theorem status_witness:
  "\<exists>acc w0 w1. status_command (c_serving acc) s_client s_key_text (Some 1) (Some ''alice'') c_start =
       Some (Inr (), w1) \<and>
     print_line (c_serving acc) ''this identity has NOT voted on #1'' w0 = (Inr (), w1)"
proof -
  obtain posts where ok: "reject_handle sample [(state_account s_state1)\<lparr>am_account_id := s_pda (StatePda s_key)\<rparr>,
      (proposal_account s_prop)\<lparr>am_account_id := s_pda (ProposalPda s_key 1)\<rparr>, s_member 0] s_key 1 (s_salt 0) =
      Inr (posts, [])"
    using s_rejects_at [of 0] by auto
  let ?C = "c_serving (ps_account (posts ! 1))"
  have "process (guest_env (sdk ?C)) (vote_pre_states (sdk ?C) s_client s_chain s_key 1 (s_identity (s_salt 0))
      \<lparr>acc_data = [], acc_rest = 0\<rparr>)
      (if False then Approve s_key 1 (mi_salt (s_identity (s_salt 0)))
       else Reject s_key 1 (mi_salt (s_identity (s_salt 0)))) = Inr (posts, [])"
    using ok by (simp add: c_serving_pre_states del: pda_preimage.simps)
  moreover have "prints ?C" using c_prints by (simp add: prints_def c_serving_def)
  ultimately have "\<exists>w0 w1. status_command ?C s_client s_key_text (Some 1) (Some ''alice'') c_start =
      Some (Inr (), w1) \<and>
      print_line ?C (''this identity '' @ (if False then ''HAS'' else ''has NOT'') @
        '' voted on #'' @ show_nat (unat (1 :: u64))) w0 = (Inr (), w1)"
    using platform_ok_sample s_pda_differ c_serving_serves c_parse_key c_load_alice
    by (intro status_reports_approvals_only [where chain = s_chain and d = "\<lparr>acc_data = [], acc_rest = 0\<rparr>"
        and m = "s_identity (s_salt 0)" and posts = posts and calls = "[]"])
      (simp_all add: c_serving_files del: pda_preimage.simps)
  moreover have "show_nat (unat (1 :: u64)) = ''1''" by code_simp
  ultimately show ?thesis by auto
qed

end
