(* ===== verification/Ledger.thy ===== *)
theory Ledger
  imports Safety
begin

text \<open>
  A multisig with all its proposals.  The ledger holds the state account and one account per
  proposal index; a transaction is a successful execution of the guest on the state account, the
  account of one index and any further accounts.  Seen from one proposal, what the ledger does
  is a run of the protocol, so all that holds of runs holds of every proposal of the ledger,
  whatever is done to the others; besides, the accounts stay well typed and proposals are
  numbered in the order they are opened.
\<close>

section \<open>Transactions\<close>

type_synonym 'x ledger = "'x account_with_metadata \<times> (u64 \<Rightarrow> 'x account_with_metadata)"

datatype 'x transaction = At u64 instruction "'x account_with_metadata list" "'x chained_call list"

text \<open>
  A new proposal is at the address of its index: the platform grants the claim that Propose
  makes only for the account that the claim's seed derives.
\<close>

fun at_index :: "u64 \<Rightarrow> instruction \<Rightarrow> bool" where
  "at_index j (Propose k i tp ti tn seeds idxs) \<longleftrightarrow> i = j"
| "at_index j _ \<longleftrightarrow> True"

inductive transact :: "'x env \<Rightarrow> 'x ledger \<Rightarrow> 'x transaction \<Rightarrow> 'x ledger \<Rightarrow> bool" for E where
  transact: "process E (sa # ps j # rest) ins = Inr (posts, calls) \<Longrightarrow> at_index j ins \<Longrightarrow>
    transact E (sa, ps) (At j ins rest calls)
      (with_post sa (posts ! 0), ps(j := with_post (ps j) (posts ! 1)))"

inductive transacts :: "'x env \<Rightarrow> 'x ledger \<Rightarrow> 'x transaction list \<Rightarrow> 'x ledger \<Rightarrow> bool" for E c where
  none_yet: "transacts E c [] c"
| one_more: "transacts E c txs d \<Longrightarrow> transact E d tx e \<Longrightarrow> transacts E c (txs @ [tx]) e"

inductive_cases transactE: "transact E c (At j ins rest calls) d"

section \<open>One proposal's view\<close>

fun seen_by :: "u64 \<Rightarrow> 'x transaction \<Rightarrow> 'x label list" where
  "seen_by i (At j ins rest calls) =
     (if j = i then [OnProposal ins rest calls]
      else case ins of Propose k n tp ti tn seeds idxs \<Rightarrow> [OnState ins] | _ \<Rightarrow> [])"

definition view :: "u64 \<Rightarrow> 'x transaction list \<Rightarrow> 'x label list" where
  "view i txs = concat (map (seen_by i) txs)"

lemma view_simps [simp]: "view i [] = []" "view i (txs @ [tx]) = view i txs @ seen_by i tx"
  by (simp_all add: view_def)

lemma with_post_same: "ps_account post = am_account acc \<Longrightarrow> with_post acc post = acc"
  by (cases acc) (simp add: with_post_def)

fun is_propose :: "instruction \<Rightarrow> bool" where
  "is_propose (Propose k i tp ti tn seeds idxs) = True"
| "is_propose _ = False"

lemma is_proposeE:
  assumes "is_propose ins"
  obtains k i tp ti tn seeds idxs where "ins = Propose k i tp ti tn seeds idxs"
  using assms by (cases ins) auto

text \<open>Only Propose changes the state account, and it takes no further accounts.\<close>

lemma propose_alone:
  "process E (sa # pa # rest) (Propose k i tp ti tn seeds idxs) = Inr (posts, calls) \<Longrightarrow> rest = []"
  by (auto simp: Let_def elim!: propose_handle_InrE)

lemma state_kept:
  assumes ok: "process E (sa # pa # rest) ins = Inr (posts, calls)"
    and other: "\<not> is_propose ins"
  shows "with_post sa (posts ! 0) = sa"
proof -
  have "0 \<notin> set (writes ins)"
    using ok other by (cases ins) (auto elim!: create_multisig_handle_InrE)
  moreover have "post_ok (List.member (writes ins) 0) (claims E ins 0) sa (posts ! 0)"
    using process_posts [OF ok] by (force simp: posts_ok_def list_all_iff simp del: upt_Suc dest: bspec [of _ _ 0])
  ultimately show ?thesis by (intro with_post_same) (simp add: post_ok_def)
qed

lemma transact_view:
  assumes "transact E (sa, ps) tx (sb, qs)"
  shows "run E (sa, ps i) (seen_by i tx) (sb, qs i)"
  using assms
proof (cases rule: transact.cases)
  case (transact j rest ins posts calls)
  show ?thesis
  proof (cases "j = i")
    case True
    then show ?thesis
      using run_step [OF run_start on_proposal [OF transact(4) [unfolded True]]] transact by simp
  next
    case False
    show ?thesis
    proof (cases "is_propose ins")
      case True
      then obtain k n tp ti tn seeds idxs where ins: "ins = Propose k n tp ti tn seeds idxs"
        by (rule is_proposeE)
      then have ok: "process E [sa, ps j] (Propose k n tp ti tn seeds idxs) = Inr (posts, calls)"
        using transact(4) propose_alone [OF transact(4) [unfolded ins]] by simp
      have "step E (sa, ps i) (OnState ins) (with_post sa (posts ! 0), ps i)"
        unfolding ins by (rule on_state [OF ok])
      from run_step [OF run_start this] show ?thesis using transact ins False by simp
    next
      case other: False
      then have "sb = sa" and "qs i = ps i" and "seen_by i tx = []"
        using state_kept [OF transact(4) other] transact False other by (auto split: instruction.split)
      then show ?thesis by simp
    qed
  qed
qed

lemma transacts_view:
  "transacts E c txs d \<Longrightarrow> run E (fst c, snd c i) (view i txs) (fst d, snd d i)"
proof (induction rule: transacts.induct)
  case (one_more txs d tx e)
  then show ?case
    using transact_view [of E "fst d" "snd d" tx "fst e" "snd e" i] run_append by fastforce
qed simp

text \<open>
  C5: The proposals of a multisig do not interfere.  Whatever transactions a ledger has gone
  through, on any of its proposals, the state account and the account of one proposal have gone
  through a run of the protocol: the transactions on that proposal, in order, and the openings of others; no
  vote on or execution of another proposal is a step of it.
\<close>

theorem ledger_projects:
  assumes "transacts E (sa, ps) txs (sb, qs)"
  shows "run E (sa, ps i) (view i txs) (sb, qs i) \<and>
    events (view i txs) = concat (map (\<lambda>tx. case tx of At j ins rest calls \<Rightarrow>
      if j = i then events_of (OnProposal ins rest calls) else []) txs)"
proof -
  have "events (seen_by i tx) = (case tx of At j ins rest calls \<Rightarrow>
      if j = i then events_of (OnProposal ins rest calls) else [])" for tx :: "'a transaction"
    by (cases tx) (auto split: instruction.split)
  then have "events (view i txs) = concat (map (\<lambda>tx. case tx of At j ins rest calls \<Rightarrow>
      if j = i then events_of (OnProposal ins rest calls) else []) txs)"
    by (induction txs) (simp_all add: view_def events_def)
  then show ?thesis using transacts_view [OF assms, of i] by simp
qed

section \<open>Well-typed accounts\<close>

text \<open>
  A ledger is well typed for the multisig \<open>s\<close> if the state account holds \<open>s\<close>, at some value of
  the counter, and the account of an index holds no proposal or a well-formed proposal of this multisig
  with that index.
\<close>

definition well_typed :: "'x env \<Rightarrow> multisig_state \<Rightarrow> 'x ledger \<Rightarrow> bool" where
  "well_typed E s = (\<lambda>(sa, ps). (\<exists>x. holds_state E sa (ms_create_key s) (s\<lparr>ms_transaction_index := x\<rparr>)) \<and>
     (\<forall>j p. from_slice_proposal E (acc_data (am_account (ps j))) = Some p \<longrightarrow>
        wf_proposal E p \<and> holds_proposal E (ps j) (ms_create_key s) j p))"

lemma wf_proposal_same: "same_proposal q p \<Longrightarrow> wf_proposal E p \<Longrightarrow> wf_proposal E q"
  by (simp add: wf_proposal_def same_proposal_def)

lemma same_close_if: "same_proposal (close_if dead q) p \<longleftrightarrow> same_proposal q p"
  by (simp add: same_proposal_def)

text \<open>
  The proposal an execution leaves behind: the same account, a proposal with the same identity
  as the one before, or a new one.
\<close>

lemma proposal_after:
  assumes E: "borsh_ok E" and ok: "process E (sa # pa # rest) ins = Inr (posts, calls)"
    and old: "\<not> is_propose ins" and q: "from_slice_proposal E (acc_data (ps_account (posts ! 1))) = Some q"
  obtains p where "from_slice_proposal E (acc_data (am_account pa)) = Some p" and "same_proposal q p"
proof (cases ins)
  case (CreateMultisig k t cms)
  then show ?thesis using ok by (auto elim!: create_multisig_handle_InrE)
next
  case Propose
  then show ?thesis using old by simp
next
  case (Approve k i v)
  with ok obtain ma where ok': "approve_handle E [sa, pa, ma] k i v = Inr (posts, calls)"
    by (auto elim: approve_handle_InrE)
  show ?thesis
  proof (rule approve_next [OF E ok'])
    fix s p
    assume "vote_ready E k i v sa pa ma s p"
      and "holds_proposal E (with_post pa (posts ! 1)) k i (approve_update E (am_account_id sa) i (pr_action_hash p) v p)"
    then have "from_slice_proposal E (acc_data (am_account pa)) = Some p"
      and "q = approve_update E (am_account_id sa) i (pr_action_hash p) v p"
      using q by (simp_all add: vote_ready_def holds_proposal_def)
    then show ?thesis using that [of p] approve_side.cast_same by blast
  qed
next
  case (Reject k i v)
  with ok obtain ma where ok': "reject_handle E [sa, pa, ma] k i v = Inr (posts, calls)"
    by (auto elim: reject_handle_InrE)
  show ?thesis
  proof (rule reject_next [OF E ok'])
    fix s p dead
    assume "vote_ready E k i v sa pa ma s p"
      and "holds_proposal E (with_post pa (posts ! 1)) k i
        (close_if dead (reject_update E (am_account_id sa) i (pr_action_hash p) v p))"
    then have "from_slice_proposal E (acc_data (am_account pa)) = Some p"
      and "q = close_if dead (reject_update E (am_account_id sa) i (pr_action_hash p) v p)"
      using q by (simp_all add: vote_ready_def holds_proposal_def)
    then show ?thesis using that [of p] reject_side.cast_same same_close_if by blast
  qed
next
  case (Execute k i)
  with ok obtain s p b where "executable E k i sa pa s p"
    and b: "to_vec_proposal E (p\<lparr>pr_status := Executed\<rparr>) = Some b" "acc_data (ps_account (posts ! 1)) = b"
    by (auto elim!: execute_handle_InrE)
  then show ?thesis using borsh_okD(2) [OF E b(1)] q that [of p]
    by (auto simp: executable_def holds_proposal_def same_proposal_def)
next
  case (InitVault k token)
  then have "ps_account (posts ! 1) = am_account pa" using ok by (auto elim!: init_vault_handle_InrE)
  then show ?thesis using q that [of q] by (simp add: same_proposal_def)
qed

lemma propose_posts:
  assumes E: "borsh_ok E" and ok: "process E [sa, pa] (Propose k i tp ti tn seeds idxs) = Inr (posts, calls)"
  obtains s p where "holds_state E sa k s" and "add_u64 E (ms_transaction_index s) 1 = Inr i"
    and "holds_state E (with_post sa (posts ! 0)) k (s\<lparr>ms_transaction_index := i\<rparr>)"
    and "holds_proposal E (with_post pa (posts ! 1)) k i p" and "wf_proposal E p"
  using ok
proof (simp add: Let_def, elim propose_handle_InrE)
  fix s h sb pb sa' pa'
  assume *: "[sa, pa] = [sa', pa']" "holds_state E sa' k s" "add_u64 E (ms_transaction_index s) 1 = Inr i"
    "to_vec_state E (s\<lparr>ms_transaction_index := i\<rparr>) = Some sb"
    "posts = [post_new ((am_account sa')\<lparr>acc_data := sb\<rparr>), post_new_claimed ((am_account pa')\<lparr>acc_data := pb\<rparr>)
       (Pda (PdaSeed (sha2_digest E (pda_preimage (ProposalPda k i)))))]"
  let ?a = "\<lparr>pa_target_program_id = tp, pa_target_instruction_data = ti, pa_target_account_count = tn,
    pa_pda_seeds = seeds, pa_authorized_indices = idxs\<rparr>"
  assume idx: "\<forall>idx \<in> set (pa_authorized_indices ?a). idx < pa_target_account_count ?a"
    and h: "action_hash E ?a = Inr h" and pb: "to_vec_proposal E (fresh_proposal i k ?a h) = Some pb"
  have "from_slice_state E sb = Some (s\<lparr>ms_transaction_index := i\<rparr>)"
    and "from_slice_proposal E pb = Some (fresh_proposal i k ?a h)"
    using borsh_okD(1) [OF E *(4)] borsh_okD(2) [OF E pb] by simp_all
  moreover have "wf_proposal E (fresh_proposal i k ?a h)"
    using idx h by (simp add: wf_proposal_def fresh_proposal_def)
  ultimately show ?thesis
    using * by (intro that [of s "fresh_proposal i k ?a h"])
      (auto simp: holds_state_def holds_proposal_def fresh_proposal_def)
qed

lemma transact_well_typed:
  assumes E: "borsh_ok E" and tx: "transact E c tx d" and wt: "well_typed E s c"
  shows "well_typed E s d"
  using tx
proof (cases rule: transact.cases)
  case (transact sa ps j rest ins posts calls)
  obtain x where sa: "holds_state E sa (ms_create_key s) (s\<lparr>ms_transaction_index := x\<rparr>)"
    and ps: "\<And>j p. from_slice_proposal E (acc_data (am_account (ps j))) = Some p \<Longrightarrow>
      wf_proposal E p \<and> holds_proposal E (ps j) (ms_create_key s) j p"
    using wt transact(1) by (auto simp: well_typed_def)
  show ?thesis
  proof (cases "is_propose ins")
    case True
    then obtain k n tp ti tn seeds idxs where ins: "ins = Propose k n tp ti tn seeds idxs" by (rule is_proposeE)
    have n: "n = j" using transact(5) by (simp add: ins)
    have ok: "process E [sa, ps j] (Propose k n tp ti tn seeds idxs) = Inr (posts, calls)"
      using transact(4) propose_alone [OF transact(4) [unfolded ins]] by (simp add: ins)
    show ?thesis
    proof (rule propose_posts [OF E ok])
      fix t p
      assume "holds_state E sa k t" "holds_state E (with_post sa (posts ! 0)) k (t\<lparr>ms_transaction_index := n\<rparr>)"
        and "holds_proposal E (with_post (ps j) (posts ! 1)) k n p" "wf_proposal E p"
      then show ?thesis
        using sa ps n transact(3) by (auto simp: well_typed_def holds_state_def holds_proposal_def)
    qed
  next
    case False
    have "wf_proposal E q \<and> holds_proposal E (with_post (ps j) (posts ! 1)) (ms_create_key s) j q"
      if q: "from_slice_proposal E (acc_data (ps_account (posts ! 1))) = Some q" for q
    proof (rule proposal_after [OF E transact(4) False q])
      fix p assume "from_slice_proposal E (acc_data (am_account (ps j))) = Some p" and same: "same_proposal q p"
      with ps have "wf_proposal E p" and "holds_proposal E (ps j) (ms_create_key s) j p" by blast+
      with same q show ?thesis
        using wf_proposal_same [OF same] same_proposalD [OF same] by (simp add: holds_proposal_def)
    qed
    then show ?thesis
      using sa ps state_kept [OF transact(4) False] transact(3)
      by (auto simp: well_typed_def holds_proposal_def)
  qed
qed

lemma transacts_well_typed:
  "transacts E c txs d \<Longrightarrow> borsh_ok E \<Longrightarrow> well_typed E s c \<Longrightarrow> well_typed E s d"
  by (induction rule: transacts.induct) (auto intro: transact_well_typed)

text \<open>
  C7: Accounts stay well typed.  From a well-typed ledger, which a newly created multisig is, no sequence
  of transactions changes the members, the threshold or the key of the multisig, and every
  account that holds a proposal holds a well-formed one, of this multisig and of the index whose address it
  is at: its recorded hash is the hash of its recorded action and its authorised indices are
  below its account count.
\<close>

theorem ledger_well_typed:
  assumes "borsh_ok E" and "transacts E (sa, ps) txs (sb, qs)"
    and "process E [acc] (CreateMultisig k t cms) = Inr (posts, calls)" and "sa = with_post acc (posts ! 0)"
    and "\<And>j. from_slice_proposal E (acc_data (am_account (ps j))) = None"
  shows "well_typed E (multisig_state_new k t cms) (sb, qs)"
proof -
  obtain b where "to_vec_state E (multisig_state_new k t cms) = Some b" "acc_data (am_account sa) = b"
    using assms(3,4) by (auto elim!: create_multisig_handle_InrE)
  then have "from_slice_state E (acc_data (am_account sa)) = Some (multisig_state_new k t cms)"
    using borsh_okD(1) [OF assms(1)] by simp
  then have "well_typed E (multisig_state_new k t cms) (sa, ps)"
    using assms(5) by (auto simp: well_typed_def holds_state_def multisig_state_new_def)
  from transacts_well_typed [OF assms(2,1) this] show ?thesis .
qed

section \<open>Numbering\<close>

text \<open>The indices of the proposals opened by a sequence of transactions.\<close>

fun opened_by :: "'x transaction \<Rightarrow> u64 list" where
  "opened_by (At j ins rest calls) = (case ins of Propose k i tp ti tn seeds idxs \<Rightarrow> [i] | _ \<Rightarrow> [])"

definition opened_indices :: "'x transaction list \<Rightarrow> u64 list" where
  "opened_indices txs = concat (map opened_by txs)"

lemma opened_indices_simps [simp]:
  "opened_indices [] = []" "opened_indices (txs @ [tx]) = opened_indices txs @ opened_by tx"
  by (simp_all add: opened_indices_def)

lemma opened_by_other: "\<not> is_propose ins \<Longrightarrow> opened_by (At j ins rest calls) = []"
  by (cases ins) simp_all

lemma add_u64_one: "add_u64 E x 1 = Inr i \<Longrightarrow> i = 1 + x"
  by (auto simp: add_u64_def split: if_splits)

lemma transact_counts:
  assumes E: "borsh_ok E" and tx: "transact E (sa, ps) tx (sb, qs)"
    and s: "holds_state E sa k (s\<lparr>ms_transaction_index := of_nat n\<rparr>)"
  shows "opened_by tx = map of_nat [Suc n..<Suc (n + length (opened_by tx))] \<and>
    holds_state E sb k (s\<lparr>ms_transaction_index := of_nat (n + length (opened_by tx))\<rparr>)"
  using tx
proof (cases rule: transact.cases)
  case (transact j rest ins posts calls)
  show ?thesis
  proof (cases "is_propose ins")
    case True
    then obtain k' i tp ti tn seeds idxs where ins: "ins = Propose k' i tp ti tn seeds idxs" by (rule is_proposeE)
    have ok: "process E [sa, ps j] (Propose k' i tp ti tn seeds idxs) = Inr (posts, calls)"
      using transact(4) propose_alone [OF transact(4) [unfolded ins]] by (simp add: ins)
    show ?thesis
    proof (rule propose_posts [OF E ok])
      fix t p
      assume "holds_state E sa k' t" "add_u64 E (ms_transaction_index t) 1 = Inr i"
        "holds_state E (with_post sa (posts ! 0)) k' (t\<lparr>ms_transaction_index := i\<rparr>)"
      then show ?thesis
        using s transact(1,2) ins by (auto simp: holds_state_def dest!: add_u64_one)
    qed
  next
    case False
    then show ?thesis
      using s transact state_kept [OF transact(4) False] opened_by_other [OF False] by simp
  qed
qed

lemma transacts_count:
  assumes "borsh_ok E" and "holds_state E (fst c) k s" and "ms_transaction_index s = 0"
  shows "transacts E c txs d \<Longrightarrow>
    opened_indices txs = map of_nat [1..<Suc (length (opened_indices txs))] \<and>
    holds_state E (fst d) k (s\<lparr>ms_transaction_index := of_nat (length (opened_indices txs))\<rparr>)"
proof (induction rule: transacts.induct)
  case none_yet
  have "s\<lparr>ms_transaction_index := 0\<rparr> = s" using assms(3) by (cases s) simp
  then show ?case using assms(2) by simp
next
  case (one_more txs d tx e)
  let ?n = "length (opened_indices txs)"
  obtain sa ps sb qs where de: "d = (sa, ps)" "e = (sb, qs)" by (cases d; cases e)
  from transact_counts [OF assms(1) one_more.hyps(2) [unfolded de], where k = k and s = s and n = ?n] one_more.IH de
  have new: "opened_by tx = map of_nat [Suc ?n..<Suc (?n + length (opened_by tx))]"
    and sb: "holds_state E sb k (s\<lparr>ms_transaction_index := of_nat (?n + length (opened_by tx))\<rparr>)"
    by simp_all
  have "[1..<Suc (?n + length (opened_by tx))] = [1..<Suc ?n] @ [Suc ?n..<Suc (?n + length (opened_by tx))]"
    using upt_add_eq_append [of 1 "Suc ?n" "length (opened_by tx)"] by simp
  then have "map of_nat [1..<Suc (?n + length (opened_by tx))] = opened_indices txs @ opened_by tx"
    using one_more.IH new by (metis map_append)
  then show ?case using sb de by (simp del: upt_Suc)
qed

text \<open>
  C8: Proposals are numbered in the order they are opened, without gaps.  On a ledger whose counter
  started at 0, the indices of the accepted Proposes are 1, 2, 3 and so on, whatever happened
  between them, and the counter is their number; all modulo the width of the counter, in
  either build mode.
\<close>

theorem proposals_numbered:
  assumes "borsh_ok E" and "transacts E (sa, ps) txs (sb, qs)"
    and "holds_state E sa k s" and "ms_transaction_index s = 0"
  shows "opened_indices txs = map of_nat [1..<Suc (length (opened_indices txs))] \<and>
    (\<exists>t. holds_state E sb k t \<and> ms_transaction_index t = of_nat (length (opened_indices txs)))"
  using transacts_count [OF assms(1) _ assms(4) assms(2), of k] assms(3) by (auto simp del: upt_Suc)

end
