(* ===== verification/Ledger_Witnesses.thy ===== *)
theory Ledger_Witnesses
  imports Witnesses Ledger
begin

text \<open>The theorems about the ledger, applied to the sample multisig: its creation, one Propose and one vote.\<close>

abbreviation s_ledger :: "nat ledger" where
  "s_ledger \<equiv> (state_account s_state, \<lambda>_. s_account 2 [])"

abbreviation s_ledger1 :: "nat ledger" where
  "s_ledger1 \<equiv> (state_account s_state1, (\<lambda>_. s_account 2 [])(1 := proposal_account s_prop))"

abbreviation s_open :: "nat transaction" where
  "s_open \<equiv> At 1 (Propose s_key 1 (arr_fill 42) [1, 2, 3] 2 [s_vault_seed] [0]) [] []"

lemma s_opens: "transact sample s_ledger s_open s_ledger1"
proof -
  obtain posts where "propose_handle sample [state_account s_state, s_account 2 []] s_key 1 s_act = Inr (posts, [])"
    and posts: "with_post (state_account s_state) (posts ! 0) = state_account s_state1"
      "with_post (s_account 2 []) (posts ! 1) = proposal_account s_prop"
    using s_proposes by blast
  then have "process sample [state_account s_state, s_account 2 []]
      (Propose s_key 1 (arr_fill 42) [1, 2, 3] 2 [s_vault_seed] [0]) = Inr (posts, [])"
    by (simp add: Let_def flip: s_act_def)
  from transact.transact [of sample "state_account s_state" "\<lambda>_. s_account 2 []" 1, OF this] posts
  show ?thesis by simp
qed

lemma s_transacts1: "transacts sample s_ledger [s_open] s_ledger1"
  using one_more [OF none_yet s_opens] by simp

lemma s_transacts2:
  obtains d where "transacts sample s_ledger [s_open, At 1 (Approve s_key 1 (s_salt 0)) [s_member 0] []] d"
proof -
  obtain posts where "approve_handle sample [state_account s_state1, proposal_account s_prop, s_member 0]
      s_key 1 (s_salt 0) = Inr (posts, [])"
    using s_approves [of 0] by auto
  then have "process sample (state_account s_state1 # ((\<lambda>_. s_account 2 [])(1 := proposal_account s_prop)) 1 #
      [s_member 0]) (Approve s_key 1 (s_salt 0)) = Inr (posts, [])"
    by simp
  from transact.transact [of sample "state_account s_state1"
      "(\<lambda>_. s_account 2 [])(1 := proposal_account s_prop)" 1, OF this]
  obtain d where "transact sample s_ledger1 (At 1 (Approve s_key 1 (s_salt 0)) [s_member 0] []) d" by auto
  from one_more [OF s_transacts1 this] that show ?thesis by simp
qed

theorem ledger_projects_witness:
  "\<exists>sb qs. transacts sample s_ledger [s_open, At 1 (Approve s_key 1 (s_salt 0)) [s_member 0] []] (sb, qs) \<and>
     run sample (state_account s_state, s_account 2 [])
       (view 1 [s_open, At 1 (Approve s_key 1 (s_salt 0)) [s_member 0] []]) (sb, qs 1)"
proof -
  obtain sb qs where t: "transacts sample s_ledger [s_open, At 1 (Approve s_key 1 (s_salt 0)) [s_member 0] []] (sb, qs)"
    using s_transacts2 by (metis prod.collapse)
  from ledger_projects [OF this, of 1] t show ?thesis by blast
qed

lemma s_blank: "from_slice_proposal sample (acc_data (am_account (s_account 2 []))) = None"
  using platform_ok_sample by (simp add: platform_ok_def)

theorem ledger_well_typed_witness:
  "transacts sample s_ledger [s_open] s_ledger1 \<and> well_typed sample (multisig_state_new s_key 2 s_cms) s_ledger1"
proof -
  obtain posts where c: "create_multisig_handle sample [s_account 1 []] s_key 2 s_cms = Inr (posts, [])"
    and sa: "with_post (s_account 1 []) (posts ! 0) = state_account s_state"
    using s_creates by blast
  from c have "process sample [s_account 1 []] (CreateMultisig s_key 2 s_cms) = Inr (posts, [])" by simp
  from ledger_well_typed [OF borsh_ok_sample s_transacts1 this sa [symmetric] s_blank] s_transacts1
  show ?thesis by blast
qed

theorem proposals_numbered_witness:
  "\<exists>t. opened_indices [s_open] = [1] \<and> holds_state sample (state_account s_state1) s_key t \<and> ms_transaction_index t = 1"
proof -
  have "holds_state sample (state_account s_state) s_key s_state"
    using holds_state_sample [of s_state] by (simp add: s_cms_def)
  moreover have "ms_transaction_index s_state = 0" by (simp add: s_state_def multisig_state_new_def)
  ultimately show ?thesis
    using proposals_numbered [OF borsh_ok_sample s_transacts1] by (auto simp: opened_indices_def)
qed

end
