(* ===== verification/Races.thy ===== *)
theory Races
  imports Reject_Handler
begin

text \<open>
  Two votes prepared against the same proposal.  A private vote is proved against the accounts its
  author read, so two members who vote at the same time both hold post states computed from the
  same proposal.  The chain takes one of them; the other is computed again from the new proposal.
  The lemmas say what that costs and when the order matters.
\<close>

section \<open>One vote after the other\<close>

lemma with_post_twice [simp]: "with_post (with_post pa x) y = with_post pa y"
  by (simp add: with_post_def)

lemma approve_next_at:
  assumes "borsh_ok E" and "approve_handle E [sa, pa, ma] k i salt = Inr (posts, calls)"
    and "holds_proposal E pa k i p"
  shows "\<exists>s. vote_ready E k i salt sa pa ma s p"
    and "vote_nf E (am_account_id sa) i (pr_action_hash p) salt \<notin> set (pr_vote_nullifiers p)"
    and "holds_proposal E (with_post pa (posts ! 1)) k i
           (approve_update E (am_account_id sa) i (pr_action_hash p) salt p)"
  by (rule approve_next [OF assms(1,2)];
      use assms(3) in \<open>auto simp: vote_ready_def dest: holds_proposal_unique\<close>)+

lemma reject_next_at:
  assumes "borsh_ok E" and "reject_handle E [sa, pa, ma] k i salt = Inr (posts, calls)"
    and "vote_ready E k i salt sa pa ma s p"
  shows "\<exists>dead. is_dead E (reject_update E (am_account_id sa) i (pr_action_hash p) salt p)
            (ms_threshold s) (member_count s) = Inr dead \<and>
          holds_proposal E (with_post pa (posts ! 1)) k i
            (close_if dead (reject_update E (am_account_id sa) i (pr_action_hash p) salt p))"
    and "reject_nf E (am_account_id sa) i (pr_action_hash p) salt \<notin> set (pr_reject_nullifiers p)"
  by (rule reject_next [OF assms(1,2)];
      use assms(3) in \<open>force simp: vote_ready_def dest: holds_state_unique holds_proposal_unique\<close>)+

lemma reject_ready_at:
  assumes "borsh_ok E" and "reject_handle E [sa, pa, ma] k i salt = Inr (posts, calls)"
    and "holds_state E sa k s" and "holds_proposal E pa k i p"
  shows "vote_ready E k i salt sa pa ma s p"
  by (rule reject_next [OF assms(1,2)])
    (use assms(3,4) in \<open>auto simp: vote_ready_def dest: holds_state_unique holds_proposal_unique\<close>)

text \<open>A vote is checked against the other vote's result as it was against the proposal itself.\<close>

lemma vote_ready_after:
  assumes "vote_ready E k i salt sa pa ma s p"
    and "holds_proposal E (with_post pa post) k i q" and "pr_status q = Active"
  shows "vote_ready E k i salt sa (with_post pa post) ma s q"
  using assms by (simp add: vote_ready_def)

text \<open>A post state computed from the old proposal never equals the account it replaces.\<close>

lemma holds_differ:
  assumes "holds_proposal E (with_post pa post) k i q" and "holds_proposal E pa k i p" and "q \<noteq> p"
  shows "ps_account post \<noteq> am_account pa"
  using assms by (auto simp: holds_proposal_def)

lemma approve_update_simps [simp]:
  "pr_action_hash (approve_update E m i h salt p) = pr_action_hash p"
  "pr_status (approve_update E m i h salt p) = pr_status p"
  "pr_vote_nullifiers (approve_update E m i h salt p) = push (pr_vote_nullifiers p) (vote_nf E m i h salt)"
  "pr_reject_nullifiers (approve_update E m i h salt p) =
     retain_ne (reject_nf E m i h salt) (pr_reject_nullifiers p)"
  by (simp_all add: approve_update_def)

lemma reject_update_simps [simp]:
  "pr_action_hash (reject_update E m i h salt p) = pr_action_hash p"
  "pr_status (reject_update E m i h salt p) = pr_status p"
  "pr_reject_nullifiers (reject_update E m i h salt p) =
     push (pr_reject_nullifiers p) (reject_nf E m i h salt)"
  "pr_vote_nullifiers (reject_update E m i h salt p) =
     retain_ne (vote_nf E m i h salt) (pr_vote_nullifiers p)"
  by (simp_all add: reject_update_def)

section \<open>Two approvals\<close>

lemma approve_both:
  assumes "borsh_ok E" and "holds_proposal E pa k i p"
    and "approve_handle E [sa, pa, ma] k i salt = Inr (posts, calls)"
    and "approve_handle E [sa, with_post pa (posts ! 1), mb] k i salt' = Inr (posts', calls')"
  shows "holds_proposal E (with_post pa (posts' ! 1)) k i
     (approve_update E (am_account_id sa) i (pr_action_hash p) salt'
       (approve_update E (am_account_id sa) i (pr_action_hash p) salt p))"
  using approve_next_at(3) [OF assms(1) assms(4) approve_next_at(3) [OF assms(1,3,2)]] by simp

lemma approve_retry:
  assumes "borsh_ok E" and "holds_proposal E pa k i p"
    and "approve_handle E [sa, pa, ma] k i salt = Inr (posts, calls)"
    and "approve_handle E [sa, pa, mb] k i salt' = Inr (posts', calls')"
    and "vote_nf E (am_account_id sa) i (pr_action_hash p) salt \<noteq>
         vote_nf E (am_account_id sa) i (pr_action_hash p) salt'"
  shows "\<exists>s. approve_handle E [sa, with_post pa (posts ! 1), mb] k i salt' =
     finalize_vote E sa (with_post pa (posts ! 1)) mb s
       (approve_update E (am_account_id sa) i (pr_action_hash p) salt'
         (approve_update E (am_account_id sa) i (pr_action_hash p) salt p))"
proof -
  let ?q = "approve_update E (am_account_id sa) i (pr_action_hash p) salt p"
  from approve_next_at [OF assms(1,4,2)] obtain s
    where r: "vote_ready E k i salt' sa pa mb s p"
      and n: "vote_nf E (am_account_id sa) i (pr_action_hash p) salt' \<notin> set (pr_vote_nullifiers p)"
    by blast
  have "pr_status ?q = Active" using r by (simp add: vote_ready_def)
  from vote_ready_after [OF r approve_next_at(3) [OF assms(1,3,2)] this] n assms(5)
  show ?thesis by (auto simp: approve_handle_ready)
qed

text \<open>
  C11: Two members prepare an approval of the same proposal at the same time.  The one that comes
  first changes the proposal account, so the other's post states no longer match it; writing
  them regardless would lose the first vote.  Prepared again from the new account, the second
  approval is not refused for any documented reason, and whichever is first, the two, once both
  are accepted, lead to the same active proposal with both votes, but for the order of the last
  two nullifiers.
\<close>

theorem concurrent_approvals:
  assumes "borsh_ok E" and "holds_proposal E pa k i p"
    and "approve_handle E [sa, pa, ma] k i salt = Inr (posts, calls)"
    and "approve_handle E [sa, pa, mb] k i salt' = Inr (posts', calls')"
    and "vote_nullifier E salt (am_account_id sa) i (pr_action_hash p) = Inr n"
    and "vote_nullifier E salt' (am_account_id sa) i (pr_action_hash p) = Inr n'" and "n \<noteq> n'"
  shows "ps_account (posts ! 1) \<noteq> am_account pa \<and>
    (\<exists>q. holds_proposal E (with_post pa (posts' ! 1)) k i q \<and> n \<notin> set (pr_vote_nullifiers q)) \<and>
    (\<forall>e. approve_handle E [sa, with_post pa (posts ! 1), mb] k i salt' \<noteq> Inl (Pms e)) \<and>
    (\<forall>ab ba ca cb. approve_handle E [sa, with_post pa (posts ! 1), mb] k i salt' = Inr (ab, ca) \<and>
       approve_handle E [sa, with_post pa (posts' ! 1), ma] k i salt = Inr (ba, cb) \<longrightarrow>
       (\<exists>q r. holds_proposal E (with_post pa (ab ! 1)) k i q \<and>
          holds_proposal E (with_post pa (ba ! 1)) k i r \<and> same_proposal q r \<and>
          pr_vote_nullifiers q = pr_vote_nullifiers p @ [n, n'] \<and>
          pr_vote_nullifiers r = pr_vote_nullifiers p @ [n', n] \<and>
          pr_reject_nullifiers q = pr_reject_nullifiers r \<and>
          pr_status q = Active \<and> pr_status r = Active))"
proof (intro conjI allI impI)
  let ?m = "am_account_id sa" and ?h = "pr_action_hash p"
  let ?a = "approve_update E ?m i ?h salt" and ?b = "approve_update E ?m i ?h salt'"
  have n: "n = vote_nf E ?m i ?h salt" "n' = vote_nf E ?m i ?h salt'" using assms(5,6) by simp_all
  note a = approve_next_at [OF assms(1,3,2)] and b = approve_next_at [OF assms(1,4,2)]
  show "ps_account (posts ! 1) \<noteq> am_account pa"
    by (rule holds_differ [OF a(3) assms(2) approve_side.cast_changes])
  show "\<exists>q. holds_proposal E (with_post pa (posts' ! 1)) k i q \<and> n \<notin> set (pr_vote_nullifiers q)"
    using a(2) b(3) assms(7) n by (intro exI [of _ "?b p"]) simp
  show "approve_handle E [sa, with_post pa (posts ! 1), mb] k i salt' \<noteq> Inl (Pms e)" for e
    using approve_retry [OF assms(1,2,3,4)] assms(7) n by (metis finalize_vote_no_Pms)
  fix ab ba ca cb
  assume both: "approve_handle E [sa, with_post pa (posts ! 1), mb] k i salt' = Inr (ab, ca) \<and>
    approve_handle E [sa, with_post pa (posts' ! 1), ma] k i salt = Inr (ba, cb)"
  have act: "pr_status p = Active" using a(1) by (auto simp: vote_ready_def)
  show "\<exists>q r. holds_proposal E (with_post pa (ab ! 1)) k i q \<and>
      holds_proposal E (with_post pa (ba ! 1)) k i r \<and> same_proposal q r \<and>
      pr_vote_nullifiers q = pr_vote_nullifiers p @ [n, n'] \<and>
      pr_vote_nullifiers r = pr_vote_nullifiers p @ [n', n] \<and>
      pr_reject_nullifiers q = pr_reject_nullifiers r \<and> pr_status q = Active \<and> pr_status r = Active"
  proof (intro exI conjI)
    show "holds_proposal E (with_post pa (ab ! 1)) k i (?b (?a p))"
      by (rule approve_both [OF assms(1,2,3) both [THEN conjunct1]])
    show "holds_proposal E (with_post pa (ba ! 1)) k i (?a (?b p))"
      by (rule approve_both [OF assms(1,2,4) both [THEN conjunct2]])
  qed (simp_all only: approve_side.cast_cast n act)
qed

section \<open>An approval against a rejection\<close>

lemma approve_reject_swap:
  assumes "vote_nf E m i h salt \<noteq> vote_nf E m i h salt'"
    and "reject_nf E m i h salt \<noteq> reject_nf E m i h salt'"
  shows "reject_update E m i h salt' (approve_update E m i h salt p) =
    approve_update E m i h salt (reject_update E m i h salt' p)"
  using assms retain_ne_push [of "vote_nf E m i h salt'"] retain_ne_push [of "reject_nf E m i h salt"]
  by (simp add: approve_update_def reject_update_def)

text \<open>Taking a rejection back never brings a proposal closer to being dead.\<close>

lemma is_dead_after_approve:
  assumes "length (pr_reject_nullifiers p) < member_count s"
    and "is_dead E (reject_update E m i h salt' p) thr (member_count s) = Inr False"
  shows "is_dead E (reject_update E m i h salt' (approve_update E m i h salt p)) thr (member_count s) = Inr False"
proof -
  have "length (retain_ne (reject_nf E m i h salt) (pr_reject_nullifiers p)) \<le> length (pr_reject_nullifiers p)"
    by (rule length_retain_ne_le)
  then show ?thesis using assms by (auto simp: is_dead_no_borrow)
qed

lemma reject_retry:
  assumes "vote_ready E k i salt' sa pa mb s p"
    and "reject_nf E (am_account_id sa) i (pr_action_hash p) salt' \<notin> set (pr_reject_nullifiers p)"
    and "holds_proposal E (with_post pa post) k i
           (approve_update E (am_account_id sa) i (pr_action_hash p) salt p)"
    and "length (pr_reject_nullifiers p) < member_count s"
  shows "let q = reject_update E (am_account_id sa) i (pr_action_hash p) salt'
            (approve_update E (am_account_id sa) i (pr_action_hash p) salt p) in
    reject_handle E [sa, with_post pa post, mb] k i salt' =
      finalize_vote E sa (with_post pa post) mb s
        (close_if (member_count s < unat (ms_threshold s) + length (pr_reject_nullifiers q)) q)"
proof -
  let ?m = "am_account_id sa" and ?h = "pr_action_hash p"
  let ?q = "approve_update E ?m i ?h salt p"
  let ?t = "reject_update E ?m i ?h salt' ?q"
  have ready: "vote_ready E k i salt' sa (with_post pa post) mb s ?q"
    using vote_ready_after [OF assms(1,3)] assms(1) by (simp add: vote_ready_def)
  have "length (pr_reject_nullifiers ?t) \<le> member_count s"
    using length_retain_ne_le [of "reject_nf E ?m i ?h salt" "pr_reject_nullifiers p"] assms(4) by simp
  then have "is_dead E ?t (ms_threshold s) (member_count s) =
      Inr (member_count s < unat (ms_threshold s) + length (pr_reject_nullifiers ?t))"
    by (subst is_dead_no_borrow) auto
  then show ?thesis using assms(2) by (simp add: reject_handle_ready [OF ready] Let_def)
qed

lemma approve_after_reject:
  assumes "vote_ready E k i salt sa pa ma s p"
    and "vote_nf E (am_account_id sa) i (pr_action_hash p) salt \<notin> set (pr_vote_nullifiers p)"
    and "holds_proposal E (with_post pa post) k i
           (reject_update E (am_account_id sa) i (pr_action_hash p) salt' p)"
  shows "approve_handle E [sa, with_post pa post, ma] k i salt =
    finalize_vote E sa (with_post pa post) ma s
      (approve_update E (am_account_id sa) i (pr_action_hash p) salt
        (reject_update E (am_account_id sa) i (pr_action_hash p) salt' p))"
proof -
  have "vote_ready E k i salt sa (with_post pa post) ma s
      (reject_update E (am_account_id sa) i (pr_action_hash p) salt' p)"
    using vote_ready_after [OF assms(1,3)] assms(1) by (simp add: vote_ready_def)
  from approve_handle_ready [OF this] assms(2) show ?thesis by simp
qed

text \<open>
  C12: An approval and a rejection of the same proposal, prepared at the same time by two members,
  with fewer than N rejections recorded.  The rejection prepared again after the approval passes
  every check of the handler and does not overflow: its outcome is that of storing the proposal
  with both votes, closed if the rejections left make it dead, so it is accepted exactly when
  that proposal serialises and fits in account data.  If the rejection comes first and closes
  the proposal, the approval is refused as E009.  If it leaves the proposal active, the outcome
  of the approval is that of storing the proposal with both votes too, and the two orders, where
  both votes are accepted in each, end in the very same proposal.
\<close>

theorem approval_against_rejection:
  assumes "borsh_ok E" and "holds_state E sa k s" and "holds_proposal E pa k i p"
    and "approve_handle E [sa, pa, ma] k i salt = Inr (posts, calls)"
    and "reject_handle E [sa, pa, mb] k i salt' = Inr (posts', calls')"
    and "vote_nullifier E salt (am_account_id sa) i (pr_action_hash p) \<noteq>
         vote_nullifier E salt' (am_account_id sa) i (pr_action_hash p)"
    and "reject_nullifier E salt (am_account_id sa) i (pr_action_hash p) \<noteq>
         reject_nullifier E salt' (am_account_id sa) i (pr_action_hash p)"
    and "length (pr_reject_nullifiers p) < member_count s"
  shows "(let q = reject_update E (am_account_id sa) i (pr_action_hash p) salt'
            (approve_update E (am_account_id sa) i (pr_action_hash p) salt p) in
     reject_handle E [sa, with_post pa (posts ! 1), mb] k i salt' =
       finalize_vote E sa (with_post pa (posts ! 1)) mb s
         (close_if (member_count s < unat (ms_threshold s) + length (pr_reject_nullifiers q)) q)) \<and>
    (\<exists>q. holds_proposal E (with_post pa (posts' ! 1)) k i q \<and>
      (pr_status q = Rejected \<and>
         approve_handle E [sa, with_post pa (posts' ! 1), ma] k i salt = Inl (Pms ERR_PROPOSAL_NOT_ACTIVE) \<or>
       pr_status q = Active \<and>
         approve_handle E [sa, with_post pa (posts' ! 1), ma] k i salt =
           finalize_vote E sa (with_post pa (posts' ! 1)) ma s
             (approve_update E (am_account_id sa) i (pr_action_hash p) salt q) \<and>
         (\<forall>ab ba ca cb. reject_handle E [sa, with_post pa (posts ! 1), mb] k i salt' = Inr (ab, ca) \<and>
            approve_handle E [sa, with_post pa (posts' ! 1), ma] k i salt = Inr (ba, cb) \<longrightarrow>
            (\<exists>t. holds_proposal E (with_post pa (ab ! 1)) k i t \<and>
                 holds_proposal E (with_post pa (ba ! 1)) k i t \<and> pr_status t = Active))))"
proof -
  let ?m = "am_account_id sa" and ?h = "pr_action_hash p"
  let ?a = "approve_update E ?m i ?h salt" and ?b = "reject_update E ?m i ?h salt'"
  have nf: "vote_nf E ?m i ?h salt \<noteq> vote_nf E ?m i ?h salt'"
      "reject_nf E ?m i ?h salt \<noteq> reject_nf E ?m i ?h salt'"
    using assms(6,7) by simp_all
  let ?pa = "with_post pa (posts ! 1)" and ?pb = "with_post pa (posts' ! 1)"
  note a = approve_next_at [OF assms(1,4,3)]
  from a(1) have ra: "vote_ready E k i salt sa pa ma s p" and act: "pr_status p = Active"
    using assms(2) by (auto simp: vote_ready_def dest: holds_state_unique)
  have rb: "vote_ready E k i salt' sa pa mb s p"
    by (rule reject_ready_at [OF assms(1,5,2,3)])
  note b = reject_next_at [OF assms(1,5) rb]
  from b(1) obtain dead where
    dead: "is_dead E (?b p) (ms_threshold s) (member_count s) = Inr dead"
    and hb: "holds_proposal E ?pb k i (close_if dead (?b p))" by blast
  note retry = reject_retry [OF rb b(2) a(3) assms(8)]
  show ?thesis
  proof (cases dead)
    case True
    have "approve_handle E [sa, ?pb, ma] k i salt = Inl (Pms ERR_PROPOSAL_NOT_ACTIVE)"
      using hb ra True
      by (auto simp: approve_error_iff common_vote_checks_Inl vote_ready_def dest: holds_proposal_unique)
    then show ?thesis using retry hb True by (intro conjI exI [of _ "close_if True (?b p)"]) simp_all
  next
    case False
    then have hb': "holds_proposal E ?pb k i (?b p)" using hb by (simp add: close_if_def)
    have live: "is_dead E (?b (?a p)) (ms_threshold s) (member_count s) = Inr False"
      by (rule is_dead_after_approve) (use assms(8) dead False in simp_all)
    have same: "\<exists>t. holds_proposal E (with_post pa (ab ! 1)) k i t \<and>
          holds_proposal E (with_post pa (ba ! 1)) k i t \<and> pr_status t = Active"
      if ab: "reject_handle E [sa, ?pa, mb] k i salt' = Inr (ab, ca)"
        and ba: "approve_handle E [sa, ?pb, ma] k i salt = Inr (ba, cb)" for ab ba ca cb
    proof (intro exI conjI)
      have "vote_ready E k i salt' sa ?pa mb s (?a p)"
        using vote_ready_after [OF rb a(3)] act by simp
      from reject_next_at(1) [OF assms(1) ab this] live
      show "holds_proposal E (with_post pa (ab ! 1)) k i (?a (?b p))"
        by (auto simp: close_if_def approve_reject_swap [OF nf])
      show "holds_proposal E (with_post pa (ba ! 1)) k i (?a (?b p))"
        using approve_next_at(3) [OF assms(1) ba hb'] by simp
      show "pr_status (?a (?b p)) = Active" using act by simp
    qed
    show ?thesis
      using same by (intro conjI retry exI [of _ "?b p"] disjI2 hb' approve_after_reject [OF ra a(2) hb'])
        (simp add: act, blast)
  qed
qed

end
