(* ===== verification/Race_Witnesses.thy ===== *)
theory Race_Witnesses
  imports Races Witnesses
begin

text \<open>
  The two races of \<^theory_text>\<open>Races\<close> on the sample multisig: members 0 and 1 approve the fresh proposal, and
  member 0 approves it while member 1 rejects it.  In each case both are accepted, in either order.
\<close>

abbreviation s_prop_with :: "bytes32 list \<Rightarrow> bytes32 list \<Rightarrow> proposal" where
  "s_prop_with vs rs \<equiv> s_prop\<lparr>pr_vote_nullifiers := vs, pr_reject_nullifiers := rs\<rparr>"

abbreviation s_vnf :: "nat \<Rightarrow> bytes32" where
  "s_vnf n \<equiv> vote_nf sample s_id 1 s_hash (s_salt n)"

abbreviation s_rnf :: "nat \<Rightarrow> bytes32" where
  "s_rnf n \<equiv> reject_nf sample s_id 1 s_hash (s_salt n)"

lemma s_nfs_differ: "s_vnf 0 \<noteq> s_vnf 1" "s_rnf 0 \<noteq> s_rnf 1"
  by code_simp+

lemma s_stored:
  assumes "length vs \<le> 100" "length rs \<le> 100"
  obtains b where "put_proposal (s_prop_with vs rs) = Some b" and "int (length b) \<le> 102400"
  by (rule s_stores_update [OF assms, of Active, unfolded s_prop_update_status]) (rule that)

lemma s_approves_with:
  assumes "n < 3" and "length vs < 100" "length rs \<le> 100" and "s_vnf n \<notin> set vs" and "s_rnf n \<notin> set rs"
  shows "\<exists>posts. approve_handle sample [state_account s_state1, proposal_account (s_prop_with vs rs), s_member n]
      s_key 1 (s_salt n) = Inr (posts, []) \<and>
    with_post (proposal_account (s_prop_with vs rs)) (posts ! 1) = proposal_account (s_prop_with (vs @ [s_vnf n]) rs)"
proof -
  have u: "approve_update sample s_id 1 s_hash (s_salt n) (s_prop_with vs rs) = s_prop_with (vs @ [s_vnf n]) rs"
    using assms(5) by (simp add: approve_update_def push_def)
  obtain b where b: "put_proposal (s_prop_with (vs @ [s_vnf n]) rs) = Some b" "int (length b) \<le> 102400"
    by (rule s_stored [of "vs @ [s_vnf n]" rs]) (use assms in simp_all)
  with assms(4) u show ?thesis
    using approve_handle_ready [OF s_ready [OF assms(1), of vs rs]] assms(2,3)
    by (simp add: finalize_vote_def try_into_data_def with_post_def proposal_account_def s_account_def Let_def)
qed

lemma s_rejects_with:
  assumes "n < 3" and "length vs \<le> 100" and "s_vnf n \<notin> set vs"
  shows "\<exists>posts. reject_handle sample [state_account s_state1, proposal_account (s_prop_with vs []), s_member n]
      s_key 1 (s_salt n) = Inr (posts, []) \<and>
    with_post (proposal_account (s_prop_with vs [])) (posts ! 1) = proposal_account (s_prop_with vs [s_rnf n])"
proof -
  let ?u = "reject_update sample s_id 1 s_hash (s_salt n) (s_prop_with vs [])"
  have u: "?u = s_prop_with vs [s_rnf n]"
    using assms(3) by (simp add: reject_update_def push_def)
  have d: "is_dead sample ?u 2 3 = Inr False" by (simp add: u is_dead_no_borrow)
  obtain b where b: "put_proposal (s_prop_with vs [s_rnf n]) = Some b" "int (length b) \<le> 102400"
    by (rule s_stored [of vs "[s_rnf n]"]) (use assms in simp_all)
  with d u show ?thesis
    using reject_handle_ready [OF s_ready [OF assms(1), of vs "[]"]] assms(2)
    by (simp add: finalize_vote_def try_into_data_def with_post_def proposal_account_def s_account_def
        Let_def close_if_def)
qed

theorem concurrent_approvals_witness:
  "\<exists>ab ba q r. holds_proposal sample (with_post (proposal_account s_prop) (ab ! 1)) s_key 1 q \<and>
     holds_proposal sample (with_post (proposal_account s_prop) (ba ! 1)) s_key 1 r \<and>
     pr_vote_nullifiers q = [s_vnf 0, s_vnf 1] \<and> pr_vote_nullifiers r = [s_vnf 1, s_vnf 0]"
proof -
  let ?sa = "state_account s_state1" and ?pa = "proposal_account s_prop"
  let ?call = "\<lambda>pa n. approve_handle sample [?sa, pa, s_member n] s_key 1 (s_salt n)"
  note at_prop = s_approves_with [of _ "[]" "[]", unfolded s_prop_with_nothing, simplified]
  obtain posts posts' where a: "?call ?pa 0 = Inr (posts, [])"
    and pa: "with_post ?pa (posts ! 1) = proposal_account (s_prop_with [s_vnf 0] [])"
    and b: "?call ?pa 1 = Inr (posts', [])"
    and pb: "with_post ?pa (posts' ! 1) = proposal_account (s_prop_with [s_vnf 1] [])"
    using at_prop [of 0] at_prop [of 1] by auto
  obtain ab ba where ab: "?call (with_post ?pa (posts ! 1)) 1 = Inr (ab, [])"
    and ba: "?call (with_post ?pa (posts' ! 1)) 0 = Inr (ba, [])"
    unfolding pa pb
    using s_approves_with [of 1 "[s_vnf 0]" "[]"] s_approves_with [of 0 "[s_vnf 1]" "[]"] s_nfs_differ
    by auto
  have "vote_nullifier sample (s_salt n) (am_account_id ?sa) 1 (pr_action_hash s_prop) = Inr (s_vnf n)" for n
    by simp
  from concurrent_approvals [OF borsh_ok_sample s_holds_prop a b this this s_nfs_differ(1)] ab ba
  show ?thesis by auto
qed

theorem approval_against_rejection_witness:
  "\<exists>ab ba t. holds_proposal sample (with_post (proposal_account s_prop) (ab ! 1)) s_key 1 t \<and>
     holds_proposal sample (with_post (proposal_account s_prop) (ba ! 1)) s_key 1 t \<and>
     pr_status t = Active"
proof -
  let ?sa = "state_account s_state1" and ?pa = "proposal_account s_prop"
  let ?call = "\<lambda>pa. approve_handle sample [?sa, pa, s_member 0] s_key 1 (s_salt 0)"
  let ?rcall = "\<lambda>pa. reject_handle sample [?sa, pa, s_member 1] s_key 1 (s_salt 1)"
  obtain posts posts' where a: "?call ?pa = Inr (posts, [])"
    and pa: "with_post ?pa (posts ! 1) = proposal_account (s_prop_with [s_vnf 0] [])"
    and b: "?rcall ?pa = Inr (posts', [])"
    and pb: "with_post ?pa (posts' ! 1) = proposal_account (s_prop_with [] [s_rnf 1])"
    using s_approves_with [of 0 "[]" "[]", unfolded s_prop_with_nothing]
      s_rejects_with [of 1 "[]", unfolded s_prop_with_nothing] by auto
  obtain ab ba where ab: "?rcall (with_post ?pa (posts ! 1)) = Inr (ab, [])"
    and ba: "?call (with_post ?pa (posts' ! 1)) = Inr (ba, [])"
    unfolding pa pb
    using s_rejects_with [of 1 "[s_vnf 0]"] s_approves_with [of 0 "[]" "[s_rnf 1]"] s_nfs_differ
    by auto
  have nf: "vote_nullifier sample (s_salt 0) (am_account_id ?sa) 1 (pr_action_hash s_prop) \<noteq>
      vote_nullifier sample (s_salt 1) (am_account_id ?sa) 1 (pr_action_hash s_prop)"
    "reject_nullifier sample (s_salt 0) (am_account_id ?sa) 1 (pr_action_hash s_prop) \<noteq>
      reject_nullifier sample (s_salt 1) (am_account_id ?sa) 1 (pr_action_hash s_prop)"
    using s_nfs_differ by simp_all
  have q: "holds_proposal sample (with_post ?pa (posts' ! 1)) s_key 1 q \<Longrightarrow> pr_status q = Active" for q
    unfolding pb using s_ready [of 0 "[]" "[s_rnf 1]"]
    by (auto simp: vote_ready_def dest: holds_proposal_unique)
  from approval_against_rejection [OF borsh_ok_sample s_holds_state1 s_holds_prop a b nf] ab ba q
  show ?thesis by auto
qed

end
