(* ===== verification/Test_Support.thy ===== *)
theory Test_Support
  imports Dispatch
begin

text \<open>
  How a unit test runs, and the fixtures the handlers' tests are built on
  (\<^verbatim>\<open>multisig_program/src/test_support.rs\<close>): accounts with given bytes, and a multisig of n
  members with one open proposal.  A fixture is computed by the program's own constructors and
  hashes, so it may panic as they do; the lemmas show that it does not for up to 16 members, and
  that each member of it is ready to vote.
\<close>

section \<open>Running a test\<close>

text \<open>\<open>assert!\<close> and its relatives without a message of the program's own.\<close>

definition assert :: "bool \<Rightarrow> panic + 'a \<Rightarrow> panic + 'a" where
  "assert c k = require c (Expect ''assertion failed'') k"

lemma assert_Inr_iff [simp]: "assert c k = Inr y \<longleftrightarrow> c \<and> k = Inr y"
  by (simp add: assert_def)

lemma assert_True [simp]: "assert True k = k"
  by (simp add: assert_def)

text \<open>
  \<open>#[should_panic(expected = pat)]\<close> looks for the pattern in the panic's message.  The message of a
  documented error holds at least the error's text; no test expects an arithmetic overflow.
\<close>

fun panic_says :: "panic \<Rightarrow> string \<Rightarrow> bool" where
  "panic_says (Pms e) pat = str_contains (err_str e) pat"
| "panic_says (Expect m) pat = str_contains m pat"
| "panic_says Overflow pat = False"
| "panic_says OutOfBounds pat = False"

type_synonym test_case = "string \<times> string option \<times> (panic + unit)"

fun test_passes :: "test_case \<Rightarrow> bool" where
  "test_passes (name, None, outcome) = (outcome = Inr ())"
| "test_passes (name, Some expected, outcome) =
     (case outcome of Inl e \<Rightarrow> panic_says e expected | Inr _ \<Rightarrow> False)"

lemma test_panics: "outcome = Inl (Pms e) \<Longrightarrow> test_passes (name, Some (err_code e), outcome)"
  by (simp add: err_str_has_code)

section \<open>Fixtures\<close>

text \<open>\<open>unwrap()\<close> of a fallible step, and a \<open>u8\<close> addition in either build mode.\<close>

definition unwrap :: "'b option \<Rightarrow> ('b \<Rightarrow> panic + 'a) \<Rightarrow> panic + 'a" where
  "unwrap v k = expect v (Expect ''called `Result::unwrap()` on an `Err` value'') k"

definition add_u8 :: "'x env \<Rightarrow> u8 \<Rightarrow> u8 \<Rightarrow> panic + u8" where
  "add_u8 E a b =
     (if overflow_checks E \<and> unat a + unat b \<ge> 2 ^ 8 then Inl Overflow else Inr (a + b))"

definition make_account :: "'x env \<Rightarrow> u8 \<Rightarrow> u8 list \<Rightarrow> bool \<Rightarrow> panic + 'x account_with_metadata" where
  "make_account E id_byte bytes authorized =
     unwrap (try_into_data E bytes) (\<lambda>d.
       Inr \<lparr>am_account_id = AccountId (arr_fill id_byte),
            am_account = (account_default E)\<lparr>acc_data := d\<rparr>,
            am_is_authorized = authorized\<rparr>)"

record vote_fixture =
  vf_create_key :: bytes32
  vf_salts :: "bytes32 list"
  vf_action :: proposal_action
  vf_state_data :: "u8 list"
  vf_proposal_data :: "u8 list"

definition fixture_salt :: "'x env \<Rightarrow> nat \<Rightarrow> panic + bytes32" where
  "fixture_salt E i = bind (add_u8 E (of_nat i) 1) (\<lambda>b. Inr (arr_fill b))"

definition member_id :: "'x env \<Rightarrow> nat \<Rightarrow> panic + account_id" where
  "member_id E i = bind (add_u8 E 16 (of_nat i)) (\<lambda>b. Inr (AccountId (arr_fill b)))"

definition fixture_commitment :: "'x env \<Rightarrow> nat \<times> bytes32 \<Rightarrow> panic + bytes32" where
  "fixture_commitment E = (\<lambda>(i, salt). bind (member_id E i) (member_commitment E salt))"

definition vote_fixture_new :: "'x env \<Rightarrow> u8 \<Rightarrow> nat \<Rightarrow> panic + vote_fixture" where
  "vote_fixture_new E threshold n =
     (let create_key = arr_fill 7 in
      bind (collect_map (fixture_salt E) [0..<n]) (\<lambda>salts.
      bind (collect_map (fixture_commitment E) (enumerate 0 salts)) (\<lambda>member_cms.
      let state = multisig_state_new create_key threshold member_cms;
          state = state\<lparr>ms_transaction_index := 1\<rparr>;
          action = \<lparr>pa_target_program_id = arr_fill 42, pa_target_instruction_data = [1, 2, 3],
            pa_target_account_count = 2, pa_pda_seeds = [arr_fill 5], pa_authorized_indices = [0]\<rparr> in
      bind (proposal_new E 1 create_key action) (\<lambda>proposal.
      unwrap (to_vec_state E state) (\<lambda>state_data.
      unwrap (to_vec_proposal E proposal) (\<lambda>proposal_data.
      Inr \<lparr>vf_create_key = create_key, vf_salts = salts, vf_action = action,
           vf_state_data = state_data, vf_proposal_data = proposal_data\<rparr>))))))"

definition member_account :: "'x env \<Rightarrow> nat \<Rightarrow> panic + 'x account_with_metadata" where
  "member_account E i = bind (member_id E i) (\<lambda>account_id.
     Inr \<lparr>am_account_id = account_id, am_account = account_default E, am_is_authorized = True\<rparr>)"

definition vote_accounts :: "'x env \<Rightarrow> vote_fixture \<Rightarrow> nat \<Rightarrow> panic + 'x account_with_metadata list" where
  "vote_accounts E fx member =
     bind (make_account E 1 (vf_state_data fx) False) (\<lambda>state_account.
     bind (make_account E 2 (vf_proposal_data fx) False) (\<lambda>proposal_account.
     bind (member_account E member) (\<lambda>ma.
     Inr [state_account, proposal_account, ma])))"

definition with_updated_proposal ::
  "'x env \<Rightarrow> vote_fixture \<Rightarrow> 'x account_post_state \<Rightarrow> panic + 'x account_with_metadata list" where
  "with_updated_proposal E fx proposal_post =
     bind (vote_accounts E fx 0) (\<lambda>accounts.
     Inr (accounts[1 := (accounts ! 1)\<lparr>am_account := ps_account proposal_post\<rparr>]))"

section \<open>What the fixtures are\<close>

text \<open>
  The documented room of the platform: states of up to 16 members and proposals with short
  vectors serialise, and the bytes fit into an account.
\<close>

definition short_proposal :: "proposal \<Rightarrow> bool" where
  "short_proposal p \<longleftrightarrow>
     length (pa_target_instruction_data (pr_action p)) \<le> 16 \<and> length (pa_pda_seeds (pr_action p)) \<le> 16 \<and>
     length (pa_authorized_indices (pr_action p)) \<le> 16 \<and>
     length (pr_vote_nullifiers p) \<le> 16 \<and> length (pr_reject_nullifiers p) \<le> 16"

definition storage_ok :: "'x env \<Rightarrow> bool" where
  "storage_ok E \<longleftrightarrow>
     (\<forall>s. length (ms_member_cms s) \<le> 16 \<longrightarrow> (\<exists>b. to_vec_state E s = Some b \<and> data_fits E b)) \<and>
     (\<forall>p. short_proposal p \<longrightarrow> (\<exists>b. to_vec_proposal E p = Some b \<and> data_fits E b)) \<and>
     (\<forall>a. length (pa_target_instruction_data a) \<le> 16 \<and> length (pa_pda_seeds a) \<le> 16 \<and>
        length (pa_authorized_indices a) \<le> 16 \<longrightarrow> to_vec_action E a \<noteq> None) \<and>
     (\<forall>d. length d \<le> 16 \<longrightarrow> data_fits E d)"

lemma storage_okE:
  assumes "storage_ok E"
  shows "length (ms_member_cms s) \<le> 16 \<Longrightarrow> \<exists>b. to_vec_state E s = Some b \<and> data_fits E b"
    and "short_proposal p \<Longrightarrow> \<exists>b. to_vec_proposal E p = Some b \<and> data_fits E b"
    and "length (pa_target_instruction_data a) \<le> 16 \<Longrightarrow> length (pa_pda_seeds a) \<le> 16 \<Longrightarrow>
      length (pa_authorized_indices a) \<le> 16 \<Longrightarrow> \<exists>b. to_vec_action E a = Some b"
    and "length d \<le> 16 \<Longrightarrow> data_fits E d"
  using assms by (auto simp: storage_ok_def)

lemma unwrap_Inr_iff [simp]: "unwrap v k = Inr y \<longleftrightarrow> (\<exists>x. v = Some x \<and> k x = Inr y)"
  by (simp add: unwrap_def)

lemma unwrap_Some [simp]: "unwrap (Some x) k = k x"
  by (simp add: unwrap_def)

lemma make_account_fits:
  "data_fits E d \<Longrightarrow> make_account E b d a = Inr \<lparr>am_account_id = AccountId (arr_fill b),
     am_account = (account_default E)\<lparr>acc_data := d\<rparr>, am_is_authorized = a\<rparr>"
  by (simp add: make_account_def try_into_data_def)

text \<open>The bytes of salts and ids stay below 256 for the members there can be.\<close>

definition salt_of :: "nat \<Rightarrow> bytes32" where
  "salt_of i = arr_fill (of_nat i + 1)"

definition id_of :: "nat \<Rightarrow> account_id" where
  "id_of i = AccountId (arr_fill (16 + of_nat i))"

lemma unat_small: "i < 16 \<Longrightarrow> unat (of_nat i :: u8) = i"
  by (simp add: unat_of_nat)

lemma fixture_salt_small [simp]: "i < 16 \<Longrightarrow> fixture_salt E i = Inr (salt_of i)"
  by (simp add: fixture_salt_def add_u8_def unat_small salt_of_def)

lemma member_id_small [simp]: "i < 16 \<Longrightarrow> member_id E i = Inr (id_of i)"
  by (simp add: member_id_def add_u8_def unat_small id_of_def)

definition fixture_action :: proposal_action where
  "fixture_action = \<lparr>pa_target_program_id = arr_fill 42, pa_target_instruction_data = [1, 2, 3],
     pa_target_account_count = 2, pa_pda_seeds = [arr_fill 5], pa_authorized_indices = [0]\<rparr>"

definition fixture_cms :: "'x env \<Rightarrow> nat \<Rightarrow> bytes32 list" where
  "fixture_cms E n = map (\<lambda>i. member_cm E (salt_of i) (id_of i)) [0..<n]"

definition fixture_state :: "'x env \<Rightarrow> u8 \<Rightarrow> nat \<Rightarrow> multisig_state" where
  "fixture_state E t n = (multisig_state_new (arr_fill 7) t (fixture_cms E n))\<lparr>ms_transaction_index := 1\<rparr>"

lemma fixture_state_simps [simp]:
  "ms_create_key (fixture_state E t n) = arr_fill 7" "ms_threshold (fixture_state E t n) = t"
  "ms_member_cms (fixture_state E t n) = fixture_cms E n" "member_count (fixture_state E t n) = n"
  by (simp_all add: fixture_state_def multisig_state_new_def member_count_def fixture_cms_def)

lemma fixture_action_simps [simp]:
  "pa_target_program_id fixture_action = arr_fill 42" "pa_target_instruction_data fixture_action = [1, 2, 3]"
  "pa_target_account_count fixture_action = 2" "pa_pda_seeds fixture_action = [arr_fill 5]"
  "pa_authorized_indices fixture_action = [0]"
  by (simp_all add: fixture_action_def)

text \<open>The open proposal of the fixture, with votes \<open>vs\<close>, rejections \<open>rs\<close> and a status.\<close>

definition fixture_hash :: "'x env \<Rightarrow> bytes32" where
  "fixture_hash E = hash_bytes E (action_preimage E fixture_action)"

definition fixture_proposal ::
  "'x env \<Rightarrow> bytes32 list \<Rightarrow> bytes32 list \<Rightarrow> proposal_status \<Rightarrow> proposal" where
  "fixture_proposal E vs rs st = \<lparr>pr_index = 1, pr_multisig_create_key = arr_fill 7,
     pr_action = fixture_action, pr_action_hash = fixture_hash E, pr_vote_nullifiers = vs,
     pr_reject_nullifiers = rs, pr_status = st\<rparr>"

lemma fixture_proposal_simps [simp]:
  "pr_index (fixture_proposal E vs rs st) = 1"
  "pr_multisig_create_key (fixture_proposal E vs rs st) = arr_fill 7"
  "pr_action (fixture_proposal E vs rs st) = fixture_action"
  "pr_action_hash (fixture_proposal E vs rs st) = fixture_hash E"
  "pr_vote_nullifiers (fixture_proposal E vs rs st) = vs"
  "pr_reject_nullifiers (fixture_proposal E vs rs st) = rs"
  "pr_status (fixture_proposal E vs rs st) = st"
  "(fixture_proposal E vs rs st)\<lparr>pr_status := st'\<rparr> = fixture_proposal E vs rs st'"
  by (simp_all add: fixture_proposal_def)

lemma short_fixture_proposal [simp]:
  "length vs \<le> 16 \<Longrightarrow> length rs \<le> 16 \<Longrightarrow> short_proposal (fixture_proposal E vs rs st)"
  by (simp add: short_proposal_def)

text \<open>The accounts of the fixture.\<close>

definition account_at :: "'x env \<Rightarrow> u8 \<Rightarrow> u8 list \<Rightarrow> bool \<Rightarrow> 'x account_with_metadata" where
  "account_at E b d a = \<lparr>am_account_id = AccountId (arr_fill b),
     am_account = (account_default E)\<lparr>acc_data := d\<rparr>, am_is_authorized = a\<rparr>"

definition fixture_sa :: "'x env \<Rightarrow> u8 \<Rightarrow> nat \<Rightarrow> 'x account_with_metadata" where
  "fixture_sa E t n = account_at E 1 (the (to_vec_state E (fixture_state E t n))) False"

definition fixture_pa :: "'x env \<Rightarrow> proposal \<Rightarrow> 'x account_with_metadata" where
  "fixture_pa E p = account_at E 2 (the (to_vec_proposal E p)) False"

definition fixture_ma :: "'x env \<Rightarrow> nat \<Rightarrow> 'x account_with_metadata" where
  "fixture_ma E i = \<lparr>am_account_id = id_of i, am_account = account_default E, am_is_authorized = True\<rparr>"

lemma account_at_simps [simp]:
  "am_account_id (account_at E b d a) = AccountId (arr_fill b)"
  "am_account (account_at E b d a) = (account_default E)\<lparr>acc_data := d\<rparr>"
  "am_is_authorized (account_at E b d a) = a"
  by (simp_all add: account_at_def)

lemma fixture_account_simps [simp]:
  "am_account_id (fixture_sa E t n) = AccountId (arr_fill 1)"
  "am_account_id (fixture_ma E i) = id_of i" "am_is_authorized (fixture_ma E i)"
  "am_account (fixture_ma E i) = account_default E"
  by (simp_all add: fixture_sa_def fixture_ma_def)

lemma fixture_state_stored:
  assumes "storage_ok E" and "n \<le> 16"
  obtains b where "to_vec_state E (fixture_state E t n) = Some b" and "data_fits E b"
  using storage_okE(1) [OF assms(1), of "fixture_state E t n"] assms(2) by (auto simp: fixture_cms_def)

lemma proposal_stored:
  assumes "storage_ok E" and "short_proposal p"
  obtains b where "to_vec_proposal E p = Some b" and "data_fits E b"
  using storage_okE(2) [OF assms] by blast

lemma fresh_stored:
  assumes "storage_ok E"
  obtains b where "to_vec_proposal E (fixture_proposal E [] [] Active) = Some b" and "data_fits E b"
  by (rule proposal_stored [OF assms, of "fixture_proposal E [] [] Active"]) (simp_all add: that)

lemma action_hash_fixture:
  assumes "storage_ok E"
  shows "action_hash E fixture_action = Inr (fixture_hash E)"
proof -
  obtain b where "to_vec_action E fixture_action = Some b"
    using storage_okE(3) [OF assms, of fixture_action] by auto
  then show ?thesis by (simp add: action_hash_eq fixture_hash_def action_preimage_def)
qed

definition fixture :: "'x env \<Rightarrow> u8 \<Rightarrow> nat \<Rightarrow> vote_fixture" where
  "fixture E t n = \<lparr>vf_create_key = arr_fill 7, vf_salts = map salt_of [0..<n],
     vf_action = fixture_action, vf_state_data = the (to_vec_state E (fixture_state E t n)),
     vf_proposal_data = the (to_vec_proposal E (fixture_proposal E [] [] Active))\<rparr>"

lemma fixture_simps [simp]:
  "vf_create_key (fixture E t n) = arr_fill 7" "vf_action (fixture E t n) = fixture_action"
  "i < n \<Longrightarrow> vf_salts (fixture E t n) ! i = salt_of i"
  by (simp_all add: fixture_def)

lemma proposal_new_fixture:
  "storage_ok E \<Longrightarrow> proposal_new E 1 (arr_fill 7) fixture_action = Inr (fixture_proposal E [] [] Active)"
  by (simp add: proposal_new_Inr action_hash_fixture fixture_proposal_def)

lemma vote_fixture_new_eq:
  assumes "storage_ok E" and "n \<le> 16"
  shows "vote_fixture_new E t n = Inr (fixture E t n)"
proof -
  obtain sb where sb: "to_vec_state E (fixture_state E t n) = Some sb"
    using fixture_state_stored [OF assms] .
  obtain pb where pb: "to_vec_proposal E (fixture_proposal E [] [] Active) = Some pb"
    using fresh_stored [OF assms(1)] .
  have salts: "collect_map (fixture_salt E) [0..<n] = Inr (map salt_of [0..<n])"
    by (rule collect_map_Inr) (use assms(2) in simp)
  have "collect_map (fixture_commitment E) (enumerate 0 (map salt_of [0..<n])) =
      Inr (map (\<lambda>(i, salt). member_cm E salt (id_of i)) (enumerate 0 (map salt_of [0..<n])))"
    by (rule collect_map_Inr) (use assms(2) in \<open>auto simp: in_set_enumerate_eq fixture_commitment_def\<close>)
  also have "map (\<lambda>(i, salt). member_cm E salt (id_of i)) (enumerate 0 (map salt_of [0..<n])) = fixture_cms E n"
    by (rule nth_equalityI) (simp_all add: fixture_cms_def nth_enumerate_eq)
  finally show ?thesis
    using salts sb pb proposal_new_fixture [OF assms(1)]
    by (simp add: vote_fixture_new_def Let_def fixture_def fixture_state_def flip: fixture_action_def)
qed

lemma vote_accounts_eq:
  assumes "storage_ok E" and "n \<le> 16" and "i < 16"
  shows "vote_accounts E (fixture E t n) i =
    Inr [fixture_sa E t n, fixture_pa E (fixture_proposal E [] [] Active), fixture_ma E i]"
proof -
  obtain sb where "to_vec_state E (fixture_state E t n) = Some sb" "data_fits E sb"
    using fixture_state_stored [OF assms(1,2)] .
  moreover obtain pb where "to_vec_proposal E (fixture_proposal E [] [] Active) = Some pb" "data_fits E pb"
    using fresh_stored [OF assms(1)] .
  ultimately show ?thesis
    using assms(3) by (simp add: vote_accounts_def fixture_def make_account_fits member_account_def
        fixture_sa_def fixture_pa_def fixture_ma_def account_at_def)
qed

lemma with_updated_proposal_eq:
  assumes "storage_ok E" and "n \<le> 16"
  shows "with_updated_proposal E (fixture E t n) (post_new (am_account (fixture_pa E p))) =
    Inr [fixture_sa E t n, fixture_pa E p, fixture_ma E 0]"
  using vote_accounts_eq [OF assms, of 0]
  by (simp add: with_updated_proposal_def fixture_pa_def account_at_def)

section \<open>Voting on a fixture\<close>

lemma fixture_holds_state:
  assumes "borsh_ok E" and "storage_ok E" and "n \<le> 16"
  shows "holds_state E (fixture_sa E t n) (arr_fill 7) (fixture_state E t n)"
proof -
  obtain b where "to_vec_state E (fixture_state E t n) = Some b"
    using fixture_state_stored [OF assms(2,3)] .
  then show ?thesis using borsh_okD(1) [OF assms(1)] by (simp add: holds_state_def fixture_sa_def)
qed

lemma fixture_holds_proposal:
  assumes "borsh_ok E" and "storage_ok E" and "short_proposal p"
  shows "holds_proposal E (fixture_pa E p) (pr_multisig_create_key p) (pr_index p) p"
proof -
  obtain b where "to_vec_proposal E p = Some b"
    using proposal_stored [OF assms(2,3)] .
  then show ?thesis using borsh_okD(2) [OF assms(1)] by (simp add: holds_proposal_def fixture_pa_def)
qed

lemma fixture_ready:
  assumes "borsh_ok E" and "storage_ok E" and "i < n" "n \<le> 16" and "length vs \<le> 16" "length rs \<le> 16"
  shows "vote_ready E (arr_fill 7) 1 (salt_of i) (fixture_sa E t n)
    (fixture_pa E (fixture_proposal E vs rs Active)) (fixture_ma E i) (fixture_state E t n)
    (fixture_proposal E vs rs Active)"
  using assms fixture_holds_state [OF assms(1,2,4), of t]
    fixture_holds_proposal [OF assms(1,2) short_fixture_proposal [where E = E and vs = vs and rs = rs and st = Active]]
  by (auto simp: vote_ready_def fixture_cms_def)

lemma finalize_fixture:
  assumes "storage_ok E" and "short_proposal q"
  shows "finalize_vote E sa (fixture_pa E p) ma s q =
    Inr ([post_new (am_account sa), post_new (am_account (fixture_pa E q)), post_new (am_account ma)], [])"
proof -
  obtain b where "to_vec_proposal E q = Some b" and "data_fits E b"
    by (rule proposal_stored [OF assms])
  then show ?thesis by (simp add: finalize_vote_Inr fixture_pa_def)
qed

abbreviation fixture_vnf :: "'x env \<Rightarrow> nat \<Rightarrow> bytes32" where
  "fixture_vnf E i \<equiv> vote_nf E (AccountId (arr_fill 1)) 1 (fixture_hash E) (salt_of i)"

abbreviation fixture_rnf :: "'x env \<Rightarrow> nat \<Rightarrow> bytes32" where
  "fixture_rnf E i \<equiv> reject_nf E (AccountId (arr_fill 1)) 1 (fixture_hash E) (salt_of i)"

lemma fixture_approve:
  assumes "borsh_ok E" and "storage_ok E" and "i < n" "n \<le> 16" and "length vs < 16" "length rs \<le> 16"
  shows "approve_handle E [fixture_sa E t n, fixture_pa E (fixture_proposal E vs rs Active), fixture_ma E i]
      (arr_fill 7) 1 (salt_of i) =
    (if fixture_vnf E i \<in> set vs then Inl (Pms ERR_DUPLICATE_VOTE)
     else Inr ([post_new (am_account (fixture_sa E t n)),
       post_new (am_account (fixture_pa E (fixture_proposal E (vs @ [fixture_vnf E i])
         (retain_ne (fixture_rnf E i) rs) Active))),
       post_new (account_default E)], []))"
proof -
  have u: "approve_update E (AccountId (arr_fill 1)) 1 (fixture_hash E) (salt_of i) (fixture_proposal E vs rs Active) =
      fixture_proposal E (vs @ [fixture_vnf E i]) (retain_ne (fixture_rnf E i) rs) Active"
    by (simp add: approve_update_def push_def fixture_proposal_def)
  have "length (retain_ne (fixture_rnf E i) rs) \<le> 16"
    using length_retain_ne_le [of "fixture_rnf E i" rs] assms(6) by linarith
  then show ?thesis
    using assms approve_handle_ready [OF fixture_ready, of E i n vs rs t] by (simp add: u finalize_fixture)
qed

lemma fixture_reject:
  assumes "borsh_ok E" and "storage_ok E" and "i < n" "n \<le> 16" and "length vs \<le> 16" "length rs < n"
  shows "reject_handle E [fixture_sa E t n, fixture_pa E (fixture_proposal E vs rs Active), fixture_ma E i]
      (arr_fill 7) 1 (salt_of i) =
    (if fixture_rnf E i \<in> set rs then Inl (Pms ERR_DUPLICATE_REJECT)
     else Inr ([post_new (am_account (fixture_sa E t n)),
       post_new (am_account (fixture_pa E (fixture_proposal E (retain_ne (fixture_vnf E i) vs)
         (rs @ [fixture_rnf E i]) (if n - Suc (length rs) < unat t then Rejected else Active)))),
       post_new (account_default E)], []))"
proof -
  let ?q = "fixture_proposal E (retain_ne (fixture_vnf E i) vs) (rs @ [fixture_rnf E i]) Active"
  have u: "reject_update E (AccountId (arr_fill 1)) 1 (fixture_hash E) (salt_of i) (fixture_proposal E vs rs Active) = ?q"
    by (simp add: reject_update_def push_def fixture_proposal_def)
  have "length (retain_ne (fixture_vnf E i) vs) \<le> 16"
    using length_retain_ne_le [of "fixture_vnf E i" vs] assms(5) by linarith
  moreover have "is_dead E ?q t n = Inr (n - Suc (length rs) < unat t)"
    using assms(6) by (simp add: is_dead_no_borrow)
  ultimately show ?thesis
    using assms reject_handle_ready [OF fixture_ready, of E i n vs rs t]
    by (simp add: u finalize_fixture close_if_def Let_def)
qed

end
