(* ===== verification/Bench.thy ===== *)
theory Bench
  imports Cli_Text Cli Test_Support
begin

text \<open>
  The proving benchmark (\<^verbatim>\<open>sdk/examples/bench_prove.rs\<close>): it makes up a 2-of-3 multisig with one
  open proposal, has the guest executed and a vote of the first member proved, and verifies the
  proof.  Every failure of it is a panic.  What it uses beyond the SDK and \<open>std\<close> is a record of
  its own.
\<close>

section \<open>The world of the benchmark\<close>

text \<open>
  \<^item> \<open>machine\<close>: files, environment, terminal and the SDK's functions;
  \<^item> \<open>program_arg\<close>, \<open>manifest_dir\<close>: the first argument, and the crate's directory at compile time;
  \<^item> \<open>debug_program_id\<close>, \<open>set_owner\<close>: \<open>Debug\<close> of a program id, and the field \<open>program_owner\<close>;
  \<^item> \<open>executor_env\<close>, \<open>run_executor\<close>: the four inputs written for the executor, and a run with its
    cycles and segments;
  \<^item> \<open>proof_bytes\<close>, \<open>output_counts\<close>, \<open>inner_receipt\<close>, \<open>receipt_verifies\<close>: a proof, the lengths in the
    circuit's output, and the verifier.
\<close>

record ('x, 'w, 'o) bench_env =
  machine :: "('x, 'w, 'o) cli_env"
  program_arg :: "'w \<Rightarrow> string option"
  manifest_dir :: string
  debug_program_id :: "program_id \<Rightarrow> string"
  set_owner :: "program_id \<Rightarrow> 'x \<Rightarrow> 'x"
  executor_env :: "program_id \<Rightarrow> 'x account_with_metadata list \<Rightarrow> u32 list \<Rightarrow> 'o option"
  run_executor :: "'o \<Rightarrow> u8 list \<Rightarrow> 'w \<Rightarrow> (string + nat \<times> nat) \<times> 'w"
  proof_bytes :: "'o \<Rightarrow> u8 list"
  output_counts :: "'o \<Rightarrow> nat \<times> nat \<times> nat"
  inner_receipt :: "u8 list \<Rightarrow> 'o option"
  receipt_verifies :: "'o \<Rightarrow> 'o \<Rightarrow> bool"

abbreviation bench_sdk :: "('x, 'w, 'o) bench_env \<Rightarrow> ('x, 'w, 'o) sdk_env" where
  "bench_sdk B \<equiv> sdk (machine B)"

text \<open>A pure step, a call whose error is a panic with the given message, and a line of output.\<close>

definition bench_pure :: "panic + 'a \<Rightarrow> ('w, panic, 'a) comp" where
  "bench_pure r = (\<lambda>w. Some (r, w))"

definition bench_call :: "string \<Rightarrow> ('w \<Rightarrow> ('e + 'a) \<times> 'w) \<Rightarrow> ('w, panic, 'a) comp" where
  "bench_call msg c = (\<lambda>w. let (r, w') = c w in Some (map_sum (\<lambda>_. Expect msg) id r, w'))"

definition bench_say :: "('x, 'w, 'o) bench_env \<Rightarrow> string \<Rightarrow> ('w, panic, unit) comp" where
  "bench_say B line = (\<lambda>w. let (r, w') = print_line (machine B) line w in
     Some (map_sum print_panic id r, w'))"

text \<open>Reading from the world, the clock for one, and drawing from it.\<close>

definition bench_ask :: "('w \<Rightarrow> 'a) \<Rightarrow> ('w, panic, 'a) comp" where
  "bench_ask f = (\<lambda>w. Some (Inr (f w), w))"

definition bench_draw :: "('w \<Rightarrow> 'a \<times> 'w) \<Rightarrow> ('w, panic, 'a) comp" where
  "bench_draw f = (\<lambda>w. let (x, w') = f w in Some (Inr x, w'))"

abbreviation bench_now :: "('x, 'w, 'o) bench_env \<Rightarrow> ('w, panic, nat) comp" where
  "bench_now B \<equiv> bench_ask (now (bench_sdk B))"

definition unwrap_msg :: string where
  "unwrap_msg = ''called `Result::unwrap()` on an `Err` value''"

section \<open>The statement that is proved\<close>

fun random_members :: "('x, 'w, 'o) sdk_env \<Rightarrow> nat \<Rightarrow> 'w \<Rightarrow> 'o member_identity list \<times> 'w" where
  "random_members S 0 w = ([], w)"
| "random_members S (Suc n) w =
     (let (m, w) = random_identity S w; (ms, w) = random_members S n w in (m # ms, w))"

text \<open>The synthetic multisig: the three accounts of a vote by the first member, and the instruction.\<close>

definition bench_statement ::
  "('x, 'w, 'o) bench_env \<Rightarrow> program_id \<Rightarrow> 'o member_identity list \<Rightarrow>
     panic + ('x account_with_metadata list \<times> instruction)" where
  "bench_statement B program_id members =
     (let S = bench_sdk B; E = guest_env S; create_key = arr_fill 7 in
      bind (collect_map (\<lambda>m. member_commitment E (mi_salt m) (identity_account_id S m)) members) (\<lambda>member_cms.
      let state = multisig_state_new create_key 2 member_cms;
          state = state\<lparr>ms_transaction_index := 1\<rparr>;
          action = \<lparr>pa_target_program_id = arr_fill 42, pa_target_instruction_data = [1, 2, 3],
            pa_target_account_count = 2, pa_pda_seeds = [arr_fill 5], pa_authorized_indices = [0]\<rparr> in
      bind (proposal_new E 1 create_key action) (\<lambda>proposal.
      bind (compute_multisig_state_pda E program_id create_key) (\<lambda>state_id.
      bind (compute_proposal_pda E program_id create_key 1) (\<lambda>proposal_id.
      unwrap (to_vec_state E state) (\<lambda>bytes.
      unwrap (try_into_data E bytes) (\<lambda>state_data.
      let owned = set_owner B program_id (acc_rest (account_default E));
          state_account = \<lparr>acc_data = state_data, acc_rest = owned\<rparr> in
      unwrap (to_vec_proposal E proposal) (\<lambda>bytes.
      unwrap (try_into_data E bytes) (\<lambda>proposal_data.
      let proposal_account = \<lparr>acc_data = proposal_data, acc_rest = owned\<rparr> in
      bind (index_at members 0) (\<lambda>m.
      let pre_states =
            [\<lparr>am_account_id = state_id, am_account = state_account, am_is_authorized = False\<rparr>,
             \<lparr>am_account_id = proposal_id, am_account = proposal_account, am_is_authorized = False\<rparr>,
             \<lparr>am_account_id = identity_account_id S m, am_account = account_default E,
              am_is_authorized = True\<rparr>] in
      Inr (pre_states, Approve create_key 1 (mi_salt m))))))))))))"

section \<open>The program\<close>

definition bench_execute ::
  "('x, 'w, 'o) bench_env \<Rightarrow> 'o \<Rightarrow> 'x account_with_metadata list \<Rightarrow> u32 list \<Rightarrow> ('w, panic, unit) comp" where
  "bench_execute B program pre_states instruction_data =
     (let S = bench_sdk B in
      io_bind (bench_pure (unwrap (executor_env B (program_id_of S program) pre_states instruction_data) Inr))
        (\<lambda>env.
      io_bind (bench_now B) (\<lambda>t.
      io_bind (bench_call unwrap_msg (run_executor B env (program_elf S program))) (\<lambda>(cycles, segments).
      io_bind (bench_now B) (\<lambda>t'.
      bench_say B (''program guest execution: '' @ show_nat cycles @ '' cycles ('' @ show_nat segments @
        '' segments), '' @ show_duration (t' - t)))))))"

definition bench_verify :: "('x, 'w, 'o) bench_env \<Rightarrow> 'o \<Rightarrow> 'o \<Rightarrow> ('w, panic, unit) comp" where
  "bench_verify B output proof_of =
     io_bind (bench_now B) (\<lambda>t.
     io_bind (bench_pure (expect (inner_receipt B (proof_bytes B proof_of)) (Expect ''decodable receipt'') Inr))
       (\<lambda>inner.
     io_bind (bench_pure (require (receipt_verifies B inner output)
         (Expect ''proof must verify against circuit output'') (Inr ()))) (\<lambda>_.
     io_bind (bench_now B) (\<lambda>t'.
     bench_say B (''verification: '' @ show_duration (t' - t))))))"

definition bench_prove ::
  "('x, 'w, 'o) bench_env \<Rightarrow> 'o \<Rightarrow> 'o member_identity \<Rightarrow> 'x account_with_metadata list \<Rightarrow> u32 list \<Rightarrow>
     ('w, panic, 'o \<times> 'o) comp" where
  "bench_prove B program m pre_states instruction_data =
     (let S = bench_sdk B in
      io_bind (bench_draw (eph_new S (npk S m))) (\<lambda>eph.
      let ssk = shared_secret S eph (vpk S m) in
      io_bind (bench_say B
          ''proving full private approval (program receipt + privacy circuit, succinct)...'') (\<lambda>_.
      io_bind (bench_now B) (\<lambda>t.
      io_bind (bench_call ''proving failed'' (execute_and_prove S pre_states instruction_data [0, 0, 1]
          [(npk S m, ssk)] [nsk S m] [None] program)) (\<lambda>(output, proof_of).
      io_bind (bench_now B) (\<lambda>t'.
      io_bind (bench_say B (replicate 46 CHR ''-'')) (\<lambda>_.
      io_bind (bench_say B (''TOTAL PROVING WALL-CLOCK: '' @ show_duration (t' - t))) (\<lambda>_.
      io_bind (bench_say B (''proof size: '' @ show_nat (length (proof_bytes B proof_of)) @ '' bytes'')) (\<lambda>_.
      let (accounts, commitments, nullifiers) = output_counts B output in
      io_bind (bench_say B (''circuit output: '' @ show_nat accounts @ '' public accounts, '' @
          show_nat commitments @ '' commitments, '' @ show_nat nullifiers @ '' nullifiers'')) (\<lambda>_.
      io_return (output, proof_of)))))))))))"

text \<open>From the members on, and the whole.\<close>

definition bench_run :: "('x, 'w, 'o) bench_env \<Rightarrow> 'o \<Rightarrow> 'o member_identity list \<Rightarrow> ('w, panic, unit) comp" where
  "bench_run B program members =
     (let S = bench_sdk B in
      io_bind (bench_pure (bench_statement B (program_id_of S program) members)) (\<lambda>(pre_states, instruction).
      io_bind (bench_call unwrap_msg (\<lambda>w. (serialize_instruction S instruction, w))) (\<lambda>instruction_data.
      io_bind (bench_execute B program pre_states instruction_data) (\<lambda>_.
      io_bind (bench_prove B program (members ! 0) pre_states instruction_data) (\<lambda>(output, proof_of).
      io_bind (bench_say B ''verifying proof...'') (\<lambda>_.
      bench_verify B output proof_of))))))"

definition default_bin_path :: "('x, 'w, 'o) bench_env \<Rightarrow> string" where
  "default_bin_path B = manifest_dir B @ ''/../target/riscv32im-risc0-zkvm-elf/docker/private_multisig.bin''"

definition bench_main :: "('x, 'w, 'o) bench_env \<Rightarrow> ('w, panic, unit) comp" where
  "bench_main B =
     (let S = bench_sdk B in
      io_bind (bench_ask (program_arg B)) (\<lambda>arg.
      let bin_path = (case arg of Some p \<Rightarrow> p | None \<Rightarrow> default_bin_path B) in
      io_bind (bench_call (''cannot read program binary at '' @ [CHR 0x27] @ bin_path @ [CHR 0x27])
          (read_bytes (machine B) bin_path)) (\<lambda>bytecode.
      io_bind (bench_call ''valid program'' (\<lambda>w. (program_new S bytecode, w))) (\<lambda>program.
      let program_id = program_id_of S program in
      io_bind (bench_say B (''program id (image id): '' @ debug_program_id B program_id)) (\<lambda>_.
      io_bind (bench_ask (env_var (machine B) ''RISC0_DEV_MODE'')) (\<lambda>mode.
      io_bind (bench_say B (''RISC0_DEV_MODE = '' @ (case mode of Some v \<Rightarrow> v | None \<Rightarrow> ''<unset>''))) (\<lambda>_.
      io_bind (bench_draw (random_members S 3)) (\<lambda>members.
      bench_run B program members))))))))"

end
