(* ===== verification/Bench_Properties.thy ===== *)
theory Bench_Properties
  imports Bench Io_Wp
begin

text \<open>
  The statement of the benchmark is one the guest accepts, so the benchmark fails only where the
  platform does: with a readable program, and an executor and a prover that do their work on what
  the guest accepts, it runs to its end.
\<close>

section \<open>What is relied on\<close>




section \<open>The statement\<close>


section \<open>The whole run\<close>

definition succeeds :: "('w, 'e, 'a) comp \<Rightarrow> ('a \<Rightarrow> bool) \<Rightarrow> bool" where
  "succeeds m Q \<longleftrightarrow> (\<forall>w. wp m (\<lambda>r w'. case r of Inl e \<Rightarrow> False | Inr x \<Rightarrow> Q x) w)"

lemma wp_bench [wp_simps]:
  "wp (bench_pure r) P w \<longleftrightarrow> P r w"
  "wp (bench_call msg c) P w \<longleftrightarrow> (case c w of (r, w') \<Rightarrow> P (map_sum (\<lambda>_. Expect msg) id r) w')"
  "wp (bench_say B line) Q w \<longleftrightarrow>
     (case print_line (machine B) line w of (r, w') \<Rightarrow> Q (map_sum print_panic id r) w')"
  "wp (bench_ask f) R w \<longleftrightarrow> R (Inr (f w)) w"
  "wp (bench_draw g) S w \<longleftrightarrow> (case g w of (x, w') \<Rightarrow> S (Inr x) w')"
  by (auto simp: wp_def bench_pure_def bench_call_def bench_say_def bench_ask_def bench_draw_def Let_def
      split: prod.split)





lemma bench_say_succeeds: "prints (machine B) \<Longrightarrow> succeeds (bench_say B line) (\<lambda>_. True)"
  by (simp add: succeeds_def wp_simps print_line_prints)

lemma bench_verify_succeeds:
  assumes "inner_receipt B (proof_bytes B proof_of) = Some r" and "receipt_verifies B r output"
    and "prints (machine B)"
  shows "succeeds (bench_verify B output proof_of) (\<lambda>_. True)"
  using assms by (simp add: succeeds_def bench_verify_def wp_simps print_line_prints)




end
