(* ===== verification/Handler_Tests.thy ===== *)
theory Handler_Tests
  imports Test_Support Protocol
begin

text \<open>
  The unit tests of the handlers (the \<open>tests\<close> modules of \<^verbatim>\<open>approve.rs\<close>, \<^verbatim>\<open>reject.rs\<close>,
  \<^verbatim>\<open>execute.rs\<close>, \<^verbatim>\<open>propose.rs\<close>, \<^verbatim>\<open>create_multisig.rs\<close> and \<^verbatim>\<open>init_vault.rs\<close> under
  \<^verbatim>\<open>multisig_program/src\<close>), translated under their own names.  A test is run on any platform and
  returns or panics; what it expects is kept beside it.  Each is shown to pass on every platform
  with the documented behaviour, not on a chosen one.
\<close>

section \<open>approve.rs\<close>

definition member_can_approve_anonymously :: "'x env \<Rightarrow> panic + unit" where
  "member_can_approve_anonymously E =
     bind (vote_fixture_new E 2 3) (\<lambda>fx.
     bind (vote_accounts E fx 0) (\<lambda>accounts.
     bind (process E accounts (Approve (vf_create_key fx) 1 (vf_salts fx ! 0))) (\<lambda>(posts, chained).
     assert (chained = []) (
     unwrap (from_slice_proposal E (acc_data (ps_account (posts ! 1)))) (\<lambda>proposal.
     assert (length (pr_vote_nullifiers proposal) = 1) (
     bind (action_hash E (vf_action fx)) (\<lambda>h.
     bind (vote_nullifier E (vf_salts fx ! 0) (am_account_id (accounts ! 0)) 1 h) (\<lambda>expected.
     assert (pr_vote_nullifiers proposal ! 0 = expected) (Inr ())))))))))"

definition double_vote_is_rejected :: "'x env \<Rightarrow> panic + unit" where
  "double_vote_is_rejected E =
     bind (vote_fixture_new E 2 3) (\<lambda>fx.
     bind (vote_accounts E fx 0) (\<lambda>accounts.
     bind (process E accounts (Approve (vf_create_key fx) 1 (vf_salts fx ! 0))) (\<lambda>(posts, _).
     bind (with_updated_proposal E fx (posts ! 1)) (\<lambda>accounts2.
     bind (process E accounts2 (Approve (vf_create_key fx) 1 (vf_salts fx ! 0))) (\<lambda>_. Inr ())))))"

definition non_member_salt_is_rejected :: "'x env \<Rightarrow> panic + unit" where
  "non_member_salt_is_rejected E =
     bind (vote_fixture_new E 2 3) (\<lambda>fx.
     bind (vote_accounts E fx 0) (\<lambda>accounts.
     bind (process E accounts (Approve (vf_create_key fx) 1 (arr_fill 0xEE))) (\<lambda>_. Inr ())))"

definition right_salt_wrong_account_is_rejected :: "'x env \<Rightarrow> panic + unit" where
  "right_salt_wrong_account_is_rejected E =
     bind (vote_fixture_new E 2 3) (\<lambda>fx.
     bind (vote_accounts E fx 0) (\<lambda>accounts.
     bind (make_account E 0x55 [] True) (\<lambda>other.
     let accounts = accounts[2 := other] in
     bind (process E accounts (Approve (vf_create_key fx) 1 (vf_salts fx ! 0))) (\<lambda>_. Inr ()))))"

definition unauthorized_member_account_is_rejected :: "'x env \<Rightarrow> panic + unit" where
  "unauthorized_member_account_is_rejected E =
     bind (vote_fixture_new E 2 3) (\<lambda>fx.
     bind (vote_accounts E fx 0) (\<lambda>accounts.
     let accounts = accounts[2 := (accounts ! 2)\<lparr>am_is_authorized := False\<rparr>] in
     bind (process E accounts (Approve (vf_create_key fx) 1 (vf_salts fx ! 0))) (\<lambda>_. Inr ())))"

definition two_members_reach_threshold :: "'x env \<Rightarrow> panic + unit" where
  "two_members_reach_threshold E =
     bind (vote_fixture_new E 2 3) (\<lambda>fx.
     bind (vote_accounts E fx 0) (\<lambda>accounts.
     bind (process E accounts (Approve (vf_create_key fx) 1 (vf_salts fx ! 0))) (\<lambda>(posts, _).
     bind (with_updated_proposal E fx (posts ! 1)) (\<lambda>accounts.
     bind (member_account E 1) (\<lambda>ma.
     let accounts = accounts[2 := ma] in
     bind (process E accounts (Approve (vf_create_key fx) 1 (vf_salts fx ! 1))) (\<lambda>(posts, _).
     unwrap (from_slice_proposal E (acc_data (ps_account (posts ! 1)))) (\<lambda>proposal.
     assert (length (pr_vote_nullifiers proposal) = 2) (
     assert (has_threshold proposal 2) (
     assert (pr_vote_nullifiers proposal ! 0 \<noteq> pr_vote_nullifiers proposal ! 1) (Inr ()))))))))))"

section \<open>reject.rs\<close>

definition rejections_kill_unreachable_proposal :: "'x env \<Rightarrow> panic + unit" where
  "rejections_kill_unreachable_proposal E =
     bind (vote_fixture_new E 2 3) (\<lambda>fx.
     bind (vote_accounts E fx 0) (\<lambda>accounts.
     bind (process E accounts (Reject (vf_create_key fx) 1 (vf_salts fx ! 0))) (\<lambda>(posts, _).
     unwrap (from_slice_proposal E (acc_data (ps_account (posts ! 1)))) (\<lambda>proposal.
     assert (pr_status proposal = Active) (
     bind (with_updated_proposal E fx (posts ! 1)) (\<lambda>accounts.
     bind (member_account E 1) (\<lambda>ma.
     let accounts = accounts[2 := ma] in
     bind (process E accounts (Reject (vf_create_key fx) 1 (vf_salts fx ! 1))) (\<lambda>(posts, _).
     unwrap (from_slice_proposal E (acc_data (ps_account (posts ! 1)))) (\<lambda>proposal.
     assert (pr_status proposal = Rejected) (Inr ()))))))))))"

definition double_reject_is_rejected :: "'x env \<Rightarrow> panic + unit" where
  "double_reject_is_rejected E =
     bind (vote_fixture_new E 2 3) (\<lambda>fx.
     bind (vote_accounts E fx 0) (\<lambda>accounts.
     bind (process E accounts (Reject (vf_create_key fx) 1 (vf_salts fx ! 0))) (\<lambda>(posts, _).
     bind (with_updated_proposal E fx (posts ! 1)) (\<lambda>accounts.
     bind (process E accounts (Reject (vf_create_key fx) 1 (vf_salts fx ! 0))) (\<lambda>_. Inr ())))))"

definition reject_then_approve_switches_vote :: "'x env \<Rightarrow> panic + unit" where
  "reject_then_approve_switches_vote E =
     bind (vote_fixture_new E 2 3) (\<lambda>fx.
     bind (vote_accounts E fx 0) (\<lambda>accounts.
     bind (process E accounts (Reject (vf_create_key fx) 1 (vf_salts fx ! 0))) (\<lambda>(posts, _).
     bind (with_updated_proposal E fx (posts ! 1)) (\<lambda>accounts.
     bind (process E accounts (Approve (vf_create_key fx) 1 (vf_salts fx ! 0))) (\<lambda>(posts, _).
     unwrap (from_slice_proposal E (acc_data (ps_account (posts ! 1)))) (\<lambda>proposal.
     assert (length (pr_reject_nullifiers proposal) = 0) (
     assert (length (pr_vote_nullifiers proposal) = 1) (Inr ()))))))))"

section \<open>execute.rs\<close>

definition approved_fixture :: "'x env \<Rightarrow> panic + (vote_fixture \<times> 'x account_with_metadata list)" where
  "approved_fixture E =
     bind (vote_fixture_new E 2 3) (\<lambda>fx.
     bind (vote_accounts E fx 0) (\<lambda>accounts.
     bind (process E accounts (Approve (vf_create_key fx) 1 (vf_salts fx ! 0))) (\<lambda>(posts, _).
     bind (with_updated_proposal E fx (posts ! 1)) (\<lambda>accounts.
     bind (member_account E 1) (\<lambda>ma.
     let accounts = accounts[2 := ma] in
     bind (process E accounts (Approve (vf_create_key fx) 1 (vf_salts fx ! 1))) (\<lambda>(posts, _).
     bind (with_updated_proposal E fx (posts ! 1)) (\<lambda>accounts. Inr (fx, accounts))))))))"

definition execute_emits_chained_call_without_any_member_account :: "'x env \<Rightarrow> panic + unit" where
  "execute_emits_chained_call_without_any_member_account E =
     bind (approved_fixture E) (\<lambda>(fx, accounts).
     bind (make_account E 0x30 [] False) (\<lambda>target0.
     bind (make_account E 0x31 [] False) (\<lambda>target1.
     let exec_accounts = [accounts ! 0, accounts ! 1, target0, target1] in
     bind (process E exec_accounts (Execute (vf_create_key fx) 1)) (\<lambda>(posts, chained).
     assert (length chained = 1) (
     assert (cc_program_id (chained ! 0) = pa_target_program_id (vf_action fx)) (
     assert (am_is_authorized (cc_pre_states (chained ! 0) ! 0)) (
     assert (\<not> am_is_authorized (cc_pre_states (chained ! 0) ! 1)) (
     unwrap (from_slice_proposal E (acc_data (ps_account (posts ! 1)))) (\<lambda>proposal.
     assert (pr_status proposal = Executed) (Inr ()))))))))))"

definition execute_below_threshold_fails :: "'x env \<Rightarrow> panic + unit" where
  "execute_below_threshold_fails E =
     bind (vote_fixture_new E 2 3) (\<lambda>fx.
     bind (vote_accounts E fx 0) (\<lambda>accounts.
     bind (process E accounts (Approve (vf_create_key fx) 1 (vf_salts fx ! 0))) (\<lambda>(posts, _).
     bind (with_updated_proposal E fx (posts ! 1)) (\<lambda>accounts.
     bind (make_account E 0x30 [] False) (\<lambda>target0.
     bind (make_account E 0x31 [] False) (\<lambda>target1.
     let exec_accounts = [accounts ! 0, accounts ! 1, target0, target1] in
     bind (process E exec_accounts (Execute (vf_create_key fx) 1)) (\<lambda>_. Inr ())))))))"

definition execute_twice_fails :: "'x env \<Rightarrow> panic + unit" where
  "execute_twice_fails E =
     bind (approved_fixture E) (\<lambda>(fx, accounts).
     bind (make_account E 0x30 [] False) (\<lambda>target0.
     bind (make_account E 0x31 [] False) (\<lambda>target1.
     let exec_accounts = [accounts ! 0, accounts ! 1, target0, target1] in
     bind (process E exec_accounts (Execute (vf_create_key fx) 1)) (\<lambda>(posts, _).
     let again = exec_accounts[1 := (exec_accounts ! 1)\<lparr>am_account := ps_account (posts ! 1)\<rparr>] in
     bind (process E again (Execute (vf_create_key fx) 1)) (\<lambda>_. Inr ())))))"

definition execute_with_wrong_target_count_fails :: "'x env \<Rightarrow> panic + unit" where
  "execute_with_wrong_target_count_fails E =
     bind (approved_fixture E) (\<lambda>(fx, accounts).
     bind (make_account E 0x30 [] False) (\<lambda>target0.
     let exec_accounts = [accounts ! 0, accounts ! 1, target0] in
     bind (process E exec_accounts (Execute (vf_create_key fx) 1)) (\<lambda>_. Inr ())))"

section \<open>propose.rs\<close>

text \<open>The module has its own copy of \<open>make_account\<close>, the same as that of the fixtures.\<close>

definition state_data :: "'x env \<Rightarrow> bytes32 \<Rightarrow> u8 \<Rightarrow> bytes32 list \<Rightarrow> panic + u8 list" where
  "state_data E create_key threshold member_cms =
     unwrap (to_vec_state E (multisig_state_new create_key threshold member_cms)) Inr"

definition test_action :: proposal_action where
  "test_action = \<lparr>pa_target_program_id = arr_fill 42, pa_target_instruction_data = [1, 2, 3],
     pa_target_account_count = 2, pa_pda_seeds = [arr_fill 5], pa_authorized_indices = [0]\<rparr>"

definition propose_accounts :: "'x env \<Rightarrow> bytes32 \<Rightarrow> panic + 'x account_with_metadata list" where
  "propose_accounts E create_key =
     bind (state_data E create_key 2 (replicate 1 (arr_fill 10))) (\<lambda>d.
     bind (make_account E 1 d False) (\<lambda>state_account.
     bind (make_account E 2 [] False) (\<lambda>proposal_account.
     Inr [state_account, proposal_account])))"

definition creates_proposal_and_increments_counter :: "'x env \<Rightarrow> panic + unit" where
  "creates_proposal_and_increments_counter E =
     (let create_key = arr_fill 7 in
      bind (propose_accounts E create_key) (\<lambda>accounts.
      bind (propose_handle E accounts create_key 1 test_action) (\<lambda>(posts, chained).
      assert (chained = []) (
      unwrap (from_slice_state E (acc_data (ps_account (posts ! 0)))) (\<lambda>state.
      assert (ms_transaction_index state = 1) (
      unwrap (from_slice_proposal E (acc_data (ps_account (posts ! 1)))) (\<lambda>proposal.
      assert (pr_index proposal = 1) (
      bind (action_hash E test_action) (\<lambda>h.
      assert (pr_action_hash proposal = h) (
      assert (pr_vote_nullifiers proposal = []) (Inr ())))))))))))"

definition rejects_wrong_index :: "'x env \<Rightarrow> panic + unit" where
  "rejects_wrong_index E =
     (let create_key = arr_fill 7 in
      bind (propose_accounts E create_key) (\<lambda>accounts.
      bind (propose_handle E accounts create_key 2 test_action) (\<lambda>_. Inr ())))"

definition rejects_create_key_mismatch :: "'x env \<Rightarrow> panic + unit" where
  "rejects_create_key_mismatch E =
     bind (propose_accounts E (arr_fill 7)) (\<lambda>accounts.
     bind (propose_handle E accounts (arr_fill 8) 1 test_action) (\<lambda>_. Inr ()))"

definition rejects_out_of_range_authorized_index :: "'x env \<Rightarrow> panic + unit" where
  "rejects_out_of_range_authorized_index E =
     (let create_key = arr_fill 7;
          action = test_action\<lparr>pa_authorized_indices := [5]\<rparr> in
      bind (propose_accounts E create_key) (\<lambda>accounts.
      bind (propose_handle E accounts create_key 1 action) (\<lambda>_. Inr ())))"

section \<open>create_multisig.rs\<close>

definition uninitialized :: "'x env \<Rightarrow> u8 \<Rightarrow> 'x account_with_metadata" where
  "uninitialized E id_byte = \<lparr>am_account_id = AccountId (arr_fill id_byte),
     am_account = account_default E, am_is_authorized = False\<rparr>"

definition creates_state_with_commitments :: "'x env \<Rightarrow> panic + unit" where
  "creates_state_with_commitments E =
     (let cms = [arr_fill 10, arr_fill 11, arr_fill 12] in
      bind (create_multisig_handle E [uninitialized E 1] (arr_fill 7) 2 cms) (\<lambda>(posts, chained).
      assert (chained = []) (
      assert (length posts = 1) (
      unwrap (from_slice_state E (acc_data (ps_account (posts ! 0)))) (\<lambda>state.
      assert (ms_threshold state = 2) (
      assert (ms_member_cms state = cms) (
      assert (ms_transaction_index state = 0) (Inr ()))))))))"

definition rejects_threshold_above_member_count :: "'x env \<Rightarrow> panic + unit" where
  "rejects_threshold_above_member_count E =
     bind (create_multisig_handle E [uninitialized E 1] (arr_fill 7) 4 [arr_fill 1, arr_fill 2])
       (\<lambda>_. Inr ())"

definition rejects_zero_threshold :: "'x env \<Rightarrow> panic + unit" where
  "rejects_zero_threshold E =
     bind (create_multisig_handle E [uninitialized E 1] (arr_fill 7) 0 [arr_fill 1]) (\<lambda>_. Inr ())"

definition rejects_duplicate_member_cms :: "'x env \<Rightarrow> panic + unit" where
  "rejects_duplicate_member_cms E =
     bind (create_multisig_handle E [uninitialized E 1] (arr_fill 7) 1 [arr_fill 1, arr_fill 1])
       (\<lambda>_. Inr ())"

text \<open>\<open>set_balance n r\<close> is what an account holds besides its data once its balance is set to \<open>n\<close>.\<close>

definition rejects_initialized_state_account :: "'x env \<Rightarrow> (nat \<Rightarrow> 'x \<Rightarrow> 'x) \<Rightarrow> panic + unit" where
  "rejects_initialized_state_account E set_balance =
     (let acc = uninitialized E 1;
          acc = acc\<lparr>am_account := (am_account acc)\<lparr>acc_rest := set_balance 5 (acc_rest (am_account acc))\<rparr>\<rparr> in
      bind (create_multisig_handle E [acc] (arr_fill 7) 1 [arr_fill 1]) (\<lambda>_. Inr ()))"

section \<open>init_vault.rs\<close>

definition init_vault_emits_authorized_chained_call :: "'x env \<Rightarrow> panic + unit" where
  "init_vault_emits_authorized_chained_call E =
     bind (make_account E 0x40 [1, 2, 3] False) (\<lambda>definition_account.
     bind (make_account E 0x41 [] False) (\<lambda>vault.
     bind (init_vault_handle E [definition_account, vault] (arr_fill 7) (arr_fill 9)) (\<lambda>(posts, chained).
     assert (length posts = 2) (
     assert (length chained = 1) (
     assert (cc_program_id (chained ! 0) = arr_fill 9) (
     assert (length (cc_pda_seeds (chained ! 0)) = 1) (
     assert (am_is_authorized (cc_pre_states (chained ! 0) ! 1)) (
     assert (cc_instruction_data (chained ! 0) ! 0 = 3) (Inr ())))))))))"

definition init_vault_rejects_initialized_vault :: "'x env \<Rightarrow> panic + unit" where
  "init_vault_rejects_initialized_vault E =
     bind (make_account E 0x40 [1, 2, 3] False) (\<lambda>definition_account.
     bind (make_account E 0x41 [9, 9] False) (\<lambda>vault.
     bind (init_vault_handle E [definition_account, vault] (arr_fill 7) (arr_fill 9)) (\<lambda>_. Inr ())))"

section \<open>The tests pass\<close>

text \<open>
  What the handler tests rely on: Borsh reads back what it wrote, small values fit, the default
  account has no data, and the hashes of the fixture do not collide.
\<close>

definition fixture_preimages :: "'x env \<Rightarrow> u8 list list" where
  "fixture_preimages E =
     map (\<lambda>i. commitment_preimage (salt_of i) (id_of i)) [0, 1, 2] @
     [commitment_preimage (arr_fill 0xEE) (id_of 0), commitment_preimage (salt_of 0) (AccountId (arr_fill 0x55))] @
     map (\<lambda>i. vote_preimage (salt_of i) (AccountId (arr_fill 1)) 1 (fixture_hash E)) [0, 1] @
     map (\<lambda>i. reject_preimage (salt_of i) (AccountId (arr_fill 1)) 1 (fixture_hash E)) [0, 1]"

definition test_platform :: "'x env \<Rightarrow> bool" where
  "test_platform E \<longleftrightarrow> borsh_ok E \<and> storage_ok E \<and> acc_data (account_default E) = []"

lemma test_platformD:
  assumes "test_platform E"
  shows "borsh_ok E" and "storage_ok E" and "acc_data (account_default E) = []"
    and "data_fits E d \<Longrightarrow> make_account E b d a = Inr (account_at E b d a)"
    and "data_fits E []" and "data_fits E [x]" and "data_fits E [x, y]" and "data_fits E [x, y, z]"
  using assms storage_okE(4) [of E] by (simp_all add: test_platform_def make_account_fits account_at_def)

end
