(* ===== verification/Core_Tests.thy ===== *)
theory Core_Tests
  imports Test_Support Protocol
begin

text \<open>
  The unit tests of \<^verbatim>\<open>pms_core/src/lib.rs\<close>: commitments, nullifiers, the action hash and the
  program-derived addresses.  They compare hashes, so each passes where the strings it names do not
  collide.
\<close>

definition test_account_id :: "u8 \<Rightarrow> account_id" where
  "test_account_id byte = AccountId (arr_fill byte)"

definition member_commitment_is_deterministic_and_salt_sensitive :: "'x env \<Rightarrow> panic + unit" where
  "member_commitment_is_deterministic_and_salt_sensitive E =
     (let id = test_account_id 7 in
      bind (member_commitment E (arr_fill 1) id) (\<lambda>cm1.
      bind (member_commitment E (arr_fill 1) id) (\<lambda>cm2.
      bind (member_commitment E (arr_fill 2) id) (\<lambda>cm3.
      assert (cm1 = cm2) (
      assert (cm1 \<noteq> cm3) (
      bind (member_commitment E (arr_fill 1) (test_account_id 8)) (\<lambda>cm4.
      assert (cm1 \<noteq> cm4) (Inr ()))))))))"

definition vote_nullifier_unlinkable_across_proposals_but_stable_within :: "'x env \<Rightarrow> panic + unit" where
  "vote_nullifier_unlinkable_across_proposals_but_stable_within E =
     (let salt = arr_fill 3; msig = test_account_id 9; ah = arr_fill 4 in
      bind (vote_nullifier E salt msig 1 ah) (\<lambda>n1.
      bind (vote_nullifier E salt msig 1 ah) (\<lambda>n1_again.
      bind (vote_nullifier E salt msig 2 ah) (\<lambda>n2.
      require (n1 = n1_again)
        (Expect ''same member + proposal must collide (double-vote detection)'') (
      require (n1 \<noteq> n2) (Expect ''different proposals must produce unlinkable nullifiers'') (
      Inr ()))))))"

definition vote_and_reject_nullifiers_are_domain_separated :: "'x env \<Rightarrow> panic + unit" where
  "vote_and_reject_nullifiers_are_domain_separated E =
     (let salt = arr_fill 3; msig = test_account_id 9; ah = arr_fill 4 in
      bind (vote_nullifier E salt msig 1 ah) (\<lambda>v.
      bind (reject_nullifier E salt msig 1 ah) (\<lambda>r.
      assert (v \<noteq> r) (Inr ()))))"

definition nullifier_binds_to_instance_and_action :: "'x env \<Rightarrow> panic + unit" where
  "nullifier_binds_to_instance_and_action E =
     (let salt = arr_fill 3; ah = arr_fill 4 in
      bind (vote_nullifier E salt (test_account_id 1) 1 ah) (\<lambda>a.
      bind (vote_nullifier E salt (test_account_id 2) 1 ah) (\<lambda>b.
      require (a \<noteq> b) (Expect ''must not be replayable across multisig instances'') (
      bind (vote_nullifier E salt (test_account_id 1) 1 (arr_fill 4)) (\<lambda>c.
      bind (vote_nullifier E salt (test_account_id 1) 1 (arr_fill 5)) (\<lambda>d.
      require (c \<noteq> d) (Expect ''must not be replayable across different actions'') (
      Inr ())))))))"

definition hashed_action :: "u32 list \<Rightarrow> proposal_action" where
  "hashed_action words = \<lparr>pa_target_program_id = arr_fill 1, pa_target_instruction_data = words,
     pa_target_account_count = 2, pa_pda_seeds = [arr_fill 0], pa_authorized_indices = [0]\<rparr>"

definition action_hash_changes_with_content :: "'x env \<Rightarrow> panic + unit" where
  "action_hash_changes_with_content E =
     (let action = hashed_action [1, 2, 3] in
      bind (action_hash E action) (\<lambda>h1.
      let action = action\<lparr>pa_target_instruction_data := [1, 2, 4]\<rparr> in
      bind (action_hash E action) (\<lambda>h2.
      assert (h1 \<noteq> h2) (Inr ()))))"

definition pdas_are_distinct_per_kind_and_instance :: "'x env \<Rightarrow> panic + unit" where
  "pdas_are_distinct_per_kind_and_instance E =
     (let program_id = arr_fill 7; key_a = arr_fill 1; key_b = arr_fill 2 in
      bind (compute_multisig_state_pda E program_id key_a) (\<lambda>state_a.
      bind (compute_multisig_state_pda E program_id key_b) (\<lambda>state_b.
      assert (state_a \<noteq> state_b) (
      bind (compute_vault_pda E program_id key_a) (\<lambda>vault_a.
      assert (state_a \<noteq> vault_a) (
      bind (compute_proposal_pda E program_id key_a 1) (\<lambda>p1.
      bind (compute_proposal_pda E program_id key_a 2) (\<lambda>p2.
      assert (p1 \<noteq> p2) (Inr ())))))))))"

definition pda_matches_spel_formula :: "'x env \<Rightarrow> panic + unit" where
  "pda_matches_spel_formula E =
     (let program_id = arr_fill 7; create_key = arr_fill 9 :: bytes32;
          tag = buf_write 0 (as_bytes STATE_PDA_TAG) (replicate 32 0);
          hasher = [] @ tag @ arr_list create_key;
          combined = sha2_digest E hasher;
          expected = for_public_pda E program_id (PdaSeed combined) in
      bind (compute_multisig_state_pda E program_id create_key) (\<lambda>actual.
      assert (actual = expected) (Inr ())))"

section \<open>They pass\<close>

definition core_preimages :: "'x env \<Rightarrow> u8 list list" where
  "core_preimages E =
     [commitment_preimage (arr_fill 1) (test_account_id 7), commitment_preimage (arr_fill 2) (test_account_id 7),
      commitment_preimage (arr_fill 1) (test_account_id 8),
      vote_preimage (arr_fill 3) (test_account_id 9) 1 (arr_fill 4),
      vote_preimage (arr_fill 3) (test_account_id 9) 2 (arr_fill 4),
      reject_preimage (arr_fill 3) (test_account_id 9) 1 (arr_fill 4),
      vote_preimage (arr_fill 3) (test_account_id 1) 1 (arr_fill 4),
      vote_preimage (arr_fill 3) (test_account_id 2) 1 (arr_fill 4),
      vote_preimage (arr_fill 3) (test_account_id 1) 1 (arr_fill 5),
      action_preimage E (hashed_action [1, 2, 3]), action_preimage E (hashed_action [1, 2, 4])]"

lemma test_account_id_inject [simp]: "test_account_id a = test_account_id b \<longleftrightarrow> a = b"
  by (simp add: test_account_id_def)

lemma hash_tests_pass:
  assumes "collision_free E (core_preimages E)"
  shows "member_commitment_is_deterministic_and_salt_sensitive E = Inr ()"
    and "vote_nullifier_unlinkable_across_proposals_but_stable_within E = Inr ()"
    and "vote_and_reject_nullifiers_are_domain_separated E = Inr ()"
    and "nullifier_binds_to_instance_and_action E = Inr ()"
  using collision_free_neq [OF assms, of "commitment_preimage (arr_fill 1) (test_account_id 7)"
      "commitment_preimage (arr_fill 2) (test_account_id 7)"]
    collision_free_neq [OF assms, of "commitment_preimage (arr_fill 1) (test_account_id 7)"
      "commitment_preimage (arr_fill 1) (test_account_id 8)"]
    collision_free_neq [OF assms, of "vote_preimage (arr_fill 3) (test_account_id 9) 1 (arr_fill 4)"
      "vote_preimage (arr_fill 3) (test_account_id 9) 2 (arr_fill 4)"]
    collision_free_neq [OF assms, of "vote_preimage (arr_fill 3) (test_account_id 9) 1 (arr_fill 4)"
      "reject_preimage (arr_fill 3) (test_account_id 9) 1 (arr_fill 4)"]
    collision_free_neq [OF assms, of "vote_preimage (arr_fill 3) (test_account_id 1) 1 (arr_fill 4)"
      "vote_preimage (arr_fill 3) (test_account_id 2) 1 (arr_fill 4)"]
    collision_free_neq [OF assms, of "vote_preimage (arr_fill 3) (test_account_id 1) 1 (arr_fill 4)"
      "vote_preimage (arr_fill 3) (test_account_id 1) 1 (arr_fill 5)"]
  by (simp_all add: core_preimages_def commitment_preimage_inject nullifier_preimage_inject
      vote_reject_tags_differ member_cm_def vote_nf_def reject_nf_def Let_def
      member_commitment_is_deterministic_and_salt_sensitive_def
      vote_nullifier_unlinkable_across_proposals_but_stable_within_def
      vote_and_reject_nullifiers_are_domain_separated_def nullifier_binds_to_instance_and_action_def)

lemma action_hash_changes_with_content_passes:
  assumes "borsh_ok E" and "storage_ok E" and "collision_free E (core_preimages E)"
  shows "action_hash_changes_with_content E = Inr ()"
proof -
  let ?a = "hashed_action [1, 2, 3]" and ?b = "hashed_action [1, 2, 4]"
  have stored: "\<exists>b. to_vec_action E (hashed_action ws) = Some b" if "length ws \<le> 16" for ws
    using storage_okE(3) [OF assms(2), of "hashed_action ws"] that by (simp add: hashed_action_def)
  obtain x where x: "to_vec_action E ?a = Some x" using stored [of "[1, 2, 3]"] by auto
  obtain y where y: "to_vec_action E ?b = Some y" using stored [of "[1, 2, 4]"] by auto
  have "x \<noteq> y"
    using to_vec_action_inject [OF assms(1) x, of ?b] y by (auto simp: hashed_action_def)
  then have "hash_bytes E (action_preimage E ?a) \<noteq> hash_bytes E (action_preimage E ?b)"
    using collision_freeD [OF assms(3), of "action_preimage E ?a" "action_preimage E ?b"] x y
    by (auto simp: core_preimages_def action_preimage_def)
  moreover have "?a\<lparr>pa_target_instruction_data := [1, 2, 4]\<rparr> = ?b" by (simp add: hashed_action_def)
  ultimately show ?thesis
    using x y by (simp add: action_hash_changes_with_content_def action_hash_eq action_preimage_def Let_def)
qed

text \<open>The addresses differ where neither the seeds nor the ids made of them coincide.\<close>

definition core_pdas :: "pda_kind list" where
  "core_pdas = [StatePda (arr_fill 1), StatePda (arr_fill 2), VaultPda (arr_fill 1),
     ProposalPda (arr_fill 1) 1, ProposalPda (arr_fill 1) 2]"

definition seeds_separate :: "'x env \<Rightarrow> bool" where
  "seeds_separate E \<longleftrightarrow>
     inj_on (sha2_digest E) (pda_preimage ` set core_pdas) \<and>
     inj_on (for_public_pda E (arr_fill 7)) ((\<lambda>k. PdaSeed (sha2_digest E (pda_preimage k))) ` set core_pdas)"

lemma core_pdas_differ:
  assumes "seeds_separate E" and "p \<in> set core_pdas" and "q \<in> set core_pdas" and "p \<noteq> q"
  shows "for_public_pda E (arr_fill 7) (PdaSeed (sha2_digest E (pda_preimage p))) \<noteq>
    for_public_pda E (arr_fill 7) (PdaSeed (sha2_digest E (pda_preimage q)))"
proof
  assume "for_public_pda E (arr_fill 7) (PdaSeed (sha2_digest E (pda_preimage p))) =
    for_public_pda E (arr_fill 7) (PdaSeed (sha2_digest E (pda_preimage q)))"
  then have "sha2_digest E (pda_preimage p) = sha2_digest E (pda_preimage q)"
    using assms(1-3) inj_onD [of "for_public_pda E (arr_fill 7)"] unfolding seeds_separate_def by blast
  then have "pda_preimage p = pda_preimage q"
    using assms(1-3) inj_onD [of "sha2_digest E"] unfolding seeds_separate_def by blast
  with assms(4) show False by (simp only: pda_preimage_inject)
qed

lemma pdas_are_distinct_passes:
  assumes "seeds_separate E"
  shows "pdas_are_distinct_per_kind_and_instance E = Inr ()"
  using core_pdas_differ [OF assms, of "StatePda (arr_fill 1)" "StatePda (arr_fill 2)"]
    core_pdas_differ [OF assms, of "StatePda (arr_fill 1)" "VaultPda (arr_fill 1)"]
    core_pdas_differ [OF assms, of "ProposalPda (arr_fill 1) 1" "ProposalPda (arr_fill 1) 2"]
  by (simp add: pdas_are_distinct_per_kind_and_instance_def core_pdas_def Let_def
      compute_multisig_state_pda_def compute_vault_pda_def compute_proposal_pda_def
      del: pda_preimage.simps)

text \<open>The address formula of the SPEL framework needs no hypothesis: both sides hash the same bytes.\<close>

lemma pda_matches_spel_formula_passes: "pda_matches_spel_formula E = Inr ()"
  by (simp add: pda_matches_spel_formula_def compute_multisig_state_pda_def Let_def buf_write_def
      tag32_def arr_list_pad STATE_PDA_TAG_def)

end
