(* ===== verification/Test_Suite.thy ===== *)
theory Test_Suite
  imports Handler_Tests Core_Tests
begin

text \<open>
  The unit tests of the repository pass, whatever the platform's hashes and serialisers, as long as
  these keep their documented laws.  The tests were written against the program; that they
  hold of its model, with the same expectations, ties the two together.
\<close>

section \<open>Nullifiers and commitments of the fixture\<close>

lemma fixture_nfs_differ:
  assumes "collision_free E (fixture_preimages E)"
  shows "fixture_vnf E 0 \<noteq> fixture_vnf E (Suc 0)" and "fixture_rnf E 0 \<noteq> fixture_rnf E (Suc 0)"
  using collision_freeD [OF assms, of "vote_preimage (salt_of 0) (AccountId (arr_fill 1)) 1 (fixture_hash E)"
      "vote_preimage (salt_of 1) (AccountId (arr_fill 1)) 1 (fixture_hash E)"]
    collision_freeD [OF assms, of "reject_preimage (salt_of 0) (AccountId (arr_fill 1)) 1 (fixture_hash E)"
      "reject_preimage (salt_of 1) (AccountId (arr_fill 1)) 1 (fixture_hash E)"]
  by (auto simp: fixture_preimages_def vote_nf_def reject_nf_def nullifier_preimage_inject salt_of_def)

lemma strangers_not_committed:
  assumes "collision_free E (fixture_preimages E)"
  shows "member_cm E (arr_fill 0xEE) (id_of 0) \<notin> set (fixture_cms E 3)"
    and "member_cm E (salt_of 0) (AccountId (arr_fill 0x55)) \<notin> set (fixture_cms E 3)"
proof -
  have "hash_bytes E (commitment_preimage v a) \<noteq> hash_bytes E (commitment_preimage (salt_of i) (id_of i))"
    if "i < 3" and "(v, a) \<in> {(arr_fill 0xEE, id_of 0), (salt_of 0, AccountId (arr_fill 0x55))}"
    for v a and i :: nat
  proof -
    have "i = 0 \<or> i = 1 \<or> i = 2" using that(1) by auto
    then show ?thesis
      using collision_freeD [OF assms, of "commitment_preimage v a" "commitment_preimage (salt_of i) (id_of i)"] that(2)
      by (auto simp: fixture_preimages_def commitment_preimage_inject salt_of_def id_of_def)
  qed
  then show "member_cm E (arr_fill 0xEE) (id_of 0) \<notin> set (fixture_cms E 3)"
    and "member_cm E (salt_of 0) (AccountId (arr_fill 0x55)) \<notin> set (fixture_cms E 3)"
    by (auto simp: fixture_cms_def member_cm_def)
qed

section \<open>approve.rs and reject.rs\<close>

lemmas fixture_evals = vote_fixture_new_eq vote_accounts_eq with_updated_proposal_eq fixture_approve
  fixture_reject

lemma fixture_decodes:
  assumes "test_platform E" and "short_proposal p"
  shows "from_slice_proposal E (acc_data (am_account (fixture_pa E p))) = Some p"
  using fixture_holds_proposal [OF test_platformD(1,2) [OF assms(1)] assms(2)] by (simp add: holds_proposal_def)

lemma member_account_small: "i < 16 \<Longrightarrow> member_account E i = Inr (fixture_ma E i)"
  by (simp add: member_account_def fixture_ma_def)

lemma member_can_approve_anonymously_passes:
  assumes "test_platform E"
  shows "member_can_approve_anonymously E = Inr ()"
  using test_platformD(1,2) [OF assms]
  by (simp add: member_can_approve_anonymously_def fixture_evals fixture_decodes [OF assms] action_hash_fixture)

lemma double_vote_is_rejected_passes:
  assumes "test_platform E"
  shows "double_vote_is_rejected E = Inl (Pms ERR_DUPLICATE_VOTE)"
  using test_platformD(1,2) [OF assms]
  by (simp add: double_vote_is_rejected_def fixture_evals)

lemma two_members_reach_threshold_passes:
  assumes "test_platform E" and "collision_free E (fixture_preimages E)"
  shows "two_members_reach_threshold E = Inr ()"
  using test_platformD(1,2) [OF assms(1)] fixture_nfs_differ [OF assms(2)]
  by (simp add: two_members_reach_threshold_def fixture_evals fixture_decodes [OF assms(1)]
      member_account_small has_threshold_def numeral_2_eq_2)

lemma rejections_kill_unreachable_proposal_passes:
  assumes "test_platform E" and "collision_free E (fixture_preimages E)"
  shows "rejections_kill_unreachable_proposal E = Inr ()"
  using test_platformD(1,2) [OF assms(1)] fixture_nfs_differ [OF assms(2)]
  by (simp add: rejections_kill_unreachable_proposal_def fixture_evals fixture_decodes [OF assms(1)]
      member_account_small)

lemma double_reject_is_rejected_passes:
  assumes "test_platform E"
  shows "double_reject_is_rejected E = Inl (Pms ERR_DUPLICATE_REJECT)"
  using test_platformD(1,2) [OF assms]
  by (simp add: double_reject_is_rejected_def fixture_evals)

lemma reject_then_approve_switches_vote_passes:
  assumes "test_platform E"
  shows "reject_then_approve_switches_vote E = Inr ()"
  using test_platformD(1,2) [OF assms]
  by (simp add: reject_then_approve_switches_vote_def fixture_evals fixture_decodes [OF assms] retain_ne_def)

lemma fixture_refuses:
  assumes "test_platform E" and "common_vote_checks E accounts k i salt = Inl (Pms e)"
  shows "approve_handle E accounts k i salt = Inl (Pms e)"
  using assms(2) by (simp add: approve_handle_def)

lemma fixture_holds_fresh:
  assumes "test_platform E"
  shows "\<exists>s. holds_state E (fixture_sa E t 3) (arr_fill 7) s"
    and "holds_state E (fixture_sa E t 3) (arr_fill 7) s \<longleftrightarrow> s = fixture_state E t 3"
  using fixture_holds_state [OF test_platformD(1,2) [OF assms], of 3 t]
  by (auto dest: holds_state_unique)

lemma non_member_salt_is_rejected_passes:
  assumes "test_platform E" and "collision_free E (fixture_preimages E)"
  shows "non_member_salt_is_rejected E = Inl (Pms ERR_NOT_A_MEMBER)"
proof -
  have "approve_handle E [fixture_sa E 2 3, pa, fixture_ma E 0] (arr_fill 7) 1 (arr_fill 0xEE) =
      Inl (Pms ERR_NOT_A_MEMBER)" for pa
    using strangers_not_committed(1) [OF assms(2)]
    by (simp add: approve_error_iff common_vote_checks_Inl fixture_holds_fresh [OF assms(1)])
  then show ?thesis
    using test_platformD(1,2) [OF assms(1)] by (simp add: non_member_salt_is_rejected_def fixture_evals)
qed

lemma right_salt_wrong_account_is_rejected_passes:
  assumes "test_platform E" and "collision_free E (fixture_preimages E)"
  shows "right_salt_wrong_account_is_rejected E = Inl (Pms ERR_NOT_A_MEMBER)"
proof -
  have "approve_handle E [fixture_sa E 2 3, pa, account_at E 0x55 [] True] (arr_fill 7) 1 (salt_of 0) =
      Inl (Pms ERR_NOT_A_MEMBER)" for pa
    using strangers_not_committed(2) [OF assms(2)]
    by (simp add: approve_error_iff common_vote_checks_Inl fixture_holds_fresh [OF assms(1)])
  then show ?thesis
    using test_platformD(1,2,4,5) [OF assms(1)]
    by (simp add: right_salt_wrong_account_is_rejected_def fixture_evals numeral_2_eq_2 Let_def)
qed

lemma unauthorized_member_account_is_rejected_passes:
  assumes "test_platform E"
  shows "unauthorized_member_account_is_rejected E = Inl (Pms ERR_MEMBER_NOT_AUTHORIZED)"
proof -
  have "approve_handle E [sa, pa, (fixture_ma E 0)\<lparr>am_is_authorized := False\<rparr>] k i salt =
      Inl (Pms ERR_MEMBER_NOT_AUTHORIZED)" for sa pa k i salt
    by (simp add: approve_error_iff common_vote_checks_Inl)
  then show ?thesis
    using test_platformD(1,2) [OF assms]
    by (simp add: unauthorized_member_account_is_rejected_def fixture_evals numeral_2_eq_2 Let_def)
qed

section \<open>execute.rs\<close>

abbreviation approved_pa :: "'x env \<Rightarrow> 'x account_with_metadata" where
  "approved_pa E \<equiv> fixture_pa E (fixture_proposal E [fixture_vnf E 0, fixture_vnf E (Suc 0)] [] Active)"

lemma approved_fixture_eq:
  assumes "test_platform E" and "collision_free E (fixture_preimages E)"
  shows "approved_fixture E = Inr (fixture E 2 3, [fixture_sa E 2 3, approved_pa E, fixture_ma E 0])"
  using test_platformD(1,2) [OF assms(1)] fixture_nfs_differ [OF assms(2)]
  by (simp add: approved_fixture_def fixture_evals member_account_small numeral_2_eq_2 Let_def)

lemma fixture_executable:
  assumes "test_platform E" and "2 \<le> length vs" "length vs \<le> 16"
  shows "executable E (arr_fill 7) 1 (fixture_sa E 2 3) (fixture_pa E (fixture_proposal E vs [] Active))
    (fixture_state E 2 3) (fixture_proposal E vs [] Active)"
  using fixture_holds_state [OF test_platformD(1,2) [OF assms(1)], of 3 2]
    fixture_holds_proposal [OF test_platformD(1,2) [OF assms(1)], of "fixture_proposal E vs [] Active"] assms(2,3)
  by (simp add: executable_def)

lemma fixture_execute:
  assumes "test_platform E" and "2 \<le> length vs" "length vs \<le> 16" and "length ts = 2"
  shows "execute_handle E (fixture_sa E 2 3 # fixture_pa E (fixture_proposal E vs [] Active) # ts) (arr_fill 7) 1 =
    Inr (post_new (am_account (fixture_sa E 2 3)) #
           post_new (am_account (fixture_pa E (fixture_proposal E vs [] Executed))) #
           map (\<lambda>t. post_new (am_account t)) ts, [call_of fixture_action ts])"
proof -
  obtain b where "to_vec_proposal E (fixture_proposal E vs [] Executed) = Some b" and "data_fits E b"
    by (rule proposal_stored [OF test_platformD(2) [OF assms(1)], of "fixture_proposal E vs [] Executed"])
      (use assms(3) in simp_all)
  then show ?thesis
    using execute_handle_executable [OF fixture_executable [OF assms(1-3)], of ts b] assms(4)
    by (simp add: fixture_pa_def)
qed

lemma execute_emits_chained_call_passes:
  assumes "test_platform E" and "collision_free E (fixture_preimages E)"
  shows "execute_emits_chained_call_without_any_member_account E = Inr ()"
  using approved_fixture_eq [OF assms] test_platformD(4,5) [OF assms(1)]
  by (simp add: execute_emits_chained_call_without_any_member_account_def fixture_execute [OF assms(1)]
      fixture_decodes [OF assms(1)] call_of_def authorize_target_def Let_def)

lemma execute_below_threshold_fails_passes:
  assumes "test_platform E"
  shows "execute_below_threshold_fails E = Inl (Pms ERR_THRESHOLD_NOT_MET)"
proof -
  let ?p = "fixture_proposal E [fixture_vnf E 0] [] Active"
  have "execute_handle E (fixture_sa E 2 3 # fixture_pa E ?p # ts) (arr_fill 7) 1 =
      Inl (Pms ERR_THRESHOLD_NOT_MET)" for ts
    using fixture_holds_state [OF test_platformD(1,2) [OF assms], of 3 2]
      fixture_holds_proposal [OF test_platformD(1,2) [OF assms], of ?p]
    by (auto simp: execute_errors intro!: exI [of _ "fixture_state E 2 3"] exI [of _ ?p])
  then show ?thesis
    using test_platformD(1,2,4,5) [OF assms]
    by (simp add: execute_below_threshold_fails_def fixture_evals Let_def retain_ne_def)
qed

lemma execute_twice_fails_passes:
  assumes "test_platform E" and "collision_free E (fixture_preimages E)"
  shows "execute_twice_fails E = Inl (Pms ERR_PROPOSAL_NOT_ACTIVE)"
proof -
  let ?p = "fixture_proposal E [fixture_vnf E 0, fixture_vnf E (Suc 0)] [] Executed"
  have "holds_proposal E (fixture_pa E ?p) (arr_fill 7) 1 ?p"
    using fixture_holds_proposal [OF test_platformD(1,2) [OF assms(1)], of ?p] by simp
  from execute_not_active [OF fixture_holds_state [OF test_platformD(1,2) [OF assms(1)]] this]
  have "execute_handle E (fixture_sa E 2 3 # fixture_pa E ?p # ts) (arr_fill 7) 1 =
      Inl (Pms ERR_PROPOSAL_NOT_ACTIVE)" for ts
    by simp
  moreover have "(approved_pa E)\<lparr>am_account := am_account (fixture_pa E ?p)\<rparr> = fixture_pa E ?p"
    by (simp add: fixture_pa_def account_at_def)
  ultimately show ?thesis
    using approved_fixture_eq [OF assms] test_platformD(4,5) [OF assms(1)]
    by (simp add: execute_twice_fails_def fixture_execute [OF assms(1)] Let_def)
qed

lemma execute_with_wrong_target_count_fails_passes:
  assumes "test_platform E" and "collision_free E (fixture_preimages E)"
  shows "execute_with_wrong_target_count_fails E = Inl (Pms ERR_BAD_TARGET_COUNT)"
proof -
  have "execute_handle E [fixture_sa E 2 3, approved_pa E, t] (arr_fill 7) 1 = Inl (Pms ERR_BAD_TARGET_COUNT)" for t
    using fixture_executable [OF assms(1), of "[fixture_vnf E 0, fixture_vnf E (Suc 0)]"]
    by (auto simp: execute_errors intro!: exI [of _ "fixture_state E 2 3"]
        exI [of _ "fixture_proposal E [fixture_vnf E 0, fixture_vnf E (Suc 0)] [] Active"])
  then show ?thesis
    using approved_fixture_eq [OF assms] test_platformD(4,5) [OF assms(1)]
    by (simp add: execute_with_wrong_target_count_fails_def Let_def)
qed

section \<open>propose.rs\<close>

lemma propose_accounts_at:
  assumes "test_platform E"
  obtains s where "propose_accounts E k = Inr [s, account_at E 2 [] False]"
    and "holds_state E s k (multisig_state_new k 2 [arr_fill 10])"
    and "am_account (account_at E 2 [] False) = account_default E"
proof -
  let ?s = "multisig_state_new k 2 [arr_fill 10]"
  obtain b where b: "to_vec_state E ?s = Some b" "data_fits E b"
    using storage_okE(1) [OF test_platformD(2) [OF assms], of ?s] by (auto simp: multisig_state_new_def)
  have "(account_default E)\<lparr>acc_data := []\<rparr> = account_default E"
    using test_platformD(3) [OF assms] by (cases "account_default E") simp
  with b show ?thesis
    using test_platformD(4,5) [OF assms] borsh_okD(1) [OF test_platformD(1) [OF assms] b(1)]
    by (intro that [of "account_at E 1 b False"])
      (simp_all add: propose_accounts_def state_data_def holds_state_def multisig_state_new_def)
qed

lemma creates_proposal_and_increments_counter_passes:
  assumes "test_platform E"
  shows "creates_proposal_and_increments_counter E = Inr ()"
proof -
  let ?k = "arr_fill 7 :: bytes32" and ?s = "multisig_state_new (arr_fill 7) 2 [arr_fill 10]"
  note borsh = test_platformD(1) [OF assms] and store = test_platformD(2) [OF assms]
  have act: "test_action = fixture_action" by (simp add: test_action_def fixture_action_def)
  obtain sa where acc: "propose_accounts E ?k = Inr [sa, account_at E 2 [] False]"
    and s: "holds_state E sa ?k ?s" and d: "am_account (account_at E 2 [] False) = account_default E"
    by (rule propose_accounts_at [OF assms])
  obtain sb where sb: "to_vec_state E (?s\<lparr>ms_transaction_index := 1\<rparr>) = Some sb" "data_fits E sb"
    using storage_okE(1) [OF store, of "?s\<lparr>ms_transaction_index := 1\<rparr>"] by (auto simp: multisig_state_new_def)
  obtain pb where pb: "to_vec_proposal E (fixture_proposal E [] [] Active) = Some pb" "data_fits E pb"
    by (rule fresh_stored [OF store])
  have "add_u64 E (ms_transaction_index ?s) 1 = Inr 1"
    by (simp add: add_u64_def multisig_state_new_def)
  then show ?thesis
    using acc s d sb pb borsh_okD(1) [OF borsh sb(1)] borsh_okD(2) [OF borsh pb(1)]
      proposal_new_fixture [OF store] action_hash_fixture [OF store]
    by (simp add: creates_proposal_and_increments_counter_def propose_handle_def Let_def
        holds_state_def act)
qed

lemma rejects_wrong_index_passes:
  assumes "test_platform E"
  shows "rejects_wrong_index E = Inl (Pms ERR_BAD_PROPOSAL_INDEX)"
proof -
  obtain sa where acc: "propose_accounts E (arr_fill 7) = Inr [sa, account_at E 2 [] False]"
    and s: "holds_state E sa (arr_fill 7) (multisig_state_new (arr_fill 7) 2 [arr_fill 10])"
    and d: "am_account (account_at E 2 [] False) = account_default E"
    by (rule propose_accounts_at [OF assms])
  then show ?thesis
    by (simp add: rejects_wrong_index_def propose_handle_def Let_def holds_state_def add_u64_def
        multisig_state_new_def)
qed

lemma rejects_create_key_mismatch_passes:
  assumes "test_platform E"
  shows "rejects_create_key_mismatch E = Inl (Pms ERR_STATE_MISMATCH)"
proof -
  obtain sa where "propose_accounts E (arr_fill 7) = Inr [sa, account_at E 2 [] False]"
    and "holds_state E sa (arr_fill 7) (multisig_state_new (arr_fill 7) 2 [arr_fill 10])"
    by (rule propose_accounts_at [OF assms])
  then show ?thesis
    by (simp add: rejects_create_key_mismatch_def propose_handle_def Let_def holds_state_def)
qed

lemma rejects_out_of_range_authorized_index_passes:
  assumes "test_platform E"
  shows "rejects_out_of_range_authorized_index E = Inl (Pms ERR_BAD_AUTHORIZED_INDEX)"
proof -
  obtain sa where "propose_accounts E (arr_fill 7) = Inr [sa, account_at E 2 [] False]"
    and "holds_state E sa (arr_fill 7) (multisig_state_new (arr_fill 7) 2 [arr_fill 10])"
    and "am_account (account_at E 2 [] False) = account_default E"
    by (rule propose_accounts_at [OF assms])
  then show ?thesis
    by (simp add: rejects_out_of_range_authorized_index_def propose_handle_def Let_def holds_state_def
        add_u64_def multisig_state_new_def test_action_def)
qed

section \<open>create_multisig.rs and init_vault.rs\<close>

lemma creates_state_with_commitments_passes:
  assumes "test_platform E"
  shows "creates_state_with_commitments E = Inr ()"
proof -
  let ?s = "multisig_state_new (arr_fill 7) 2 [arr_fill 10, arr_fill 11, arr_fill 12]"
  obtain b where "to_vec_state E ?s = Some b" "data_fits E b"
    using storage_okE(1) [OF test_platformD(2) [OF assms], of ?s] by (auto simp: multisig_state_new_def)
  then show ?thesis
    using borsh_okD(1) [OF test_platformD(1) [OF assms], of ?s b]
    by (simp add: creates_state_with_commitments_def create_multisig_handle_def uninitialized_def
        Let_def check_duplicates_eq MAX_MEMBERS_def) (simp add: multisig_state_new_def)
qed

lemma create_multisig_refusals_pass:
  "rejects_threshold_above_member_count E = Inl (Pms ERR_BAD_THRESHOLD)"
  "rejects_zero_threshold E = Inl (Pms ERR_BAD_THRESHOLD)"
  "rejects_duplicate_member_cms E = Inl (Pms ERR_DUPLICATE_MEMBER)"
  by (simp_all add: rejects_threshold_above_member_count_def rejects_zero_threshold_def
      rejects_duplicate_member_cms_def uninitialized_def create_multisig_handle_def check_duplicates_eq
      MAX_MEMBERS_def Let_def)

lemma rejects_initialized_state_account_passes:
  assumes "set_balance 5 (acc_rest (account_default E)) \<noteq> acc_rest (account_default E)"
  shows "rejects_initialized_state_account E set_balance = Inl (Pms ERR_ALREADY_INITIALIZED)"
proof -
  let ?a = "account_default E"
  have "?a\<lparr>acc_rest := set_balance 5 (acc_rest ?a)\<rparr> \<noteq> ?a"
    using assms by (cases ?a) simp
  then show ?thesis
    by (simp add: rejects_initialized_state_account_def uninitialized_def create_multisig_handle_def Let_def)
qed

lemma init_vault_emits_authorized_chained_call_passes:
  assumes "test_platform E" and "risc0_to_vec E InitializeAccount = Some (3 # ws)"
  shows "init_vault_emits_authorized_chained_call E = Inr ()"
proof -
  have "(account_default E)\<lparr>acc_data := []\<rparr> = account_default E"
    using test_platformD(3) [OF assms(1)] by (cases "account_default E") simp
  then show ?thesis
    using test_platformD [OF assms(1)] assms(2)
    by (simp add: init_vault_emits_authorized_chained_call_def init_vault_handle_def Let_def
        token_initialize_account_instruction_def del: pda_preimage.simps)
qed

lemma init_vault_rejects_initialized_vault_passes:
  assumes "test_platform E"
  shows "init_vault_rejects_initialized_vault E = Inl (Pms ERR_PROPOSAL_EXISTS)"
proof -
  have "(account_default E)\<lparr>acc_data := [9, 9]\<rparr> \<noteq> account_default E"
    using test_platformD(3) [OF assms] by (cases "account_default E") auto
  then show ?thesis
    using test_platformD [OF assms]
    by (simp add: init_vault_rejects_initialized_vault_def init_vault_handle_def Let_def)
qed

section \<open>The suite\<close>

definition core_suite :: "'x env \<Rightarrow> test_case list" where
  "core_suite E =
    [(''member_commitment_is_deterministic_and_salt_sensitive'', None,
        member_commitment_is_deterministic_and_salt_sensitive E),
     (''vote_nullifier_unlinkable_across_proposals_but_stable_within'', None,
        vote_nullifier_unlinkable_across_proposals_but_stable_within E),
     (''vote_and_reject_nullifiers_are_domain_separated'', None,
        vote_and_reject_nullifiers_are_domain_separated E),
     (''nullifier_binds_to_instance_and_action'', None, nullifier_binds_to_instance_and_action E),
     (''action_hash_changes_with_content'', None, action_hash_changes_with_content E),
     (''pdas_are_distinct_per_kind_and_instance'', None, pdas_are_distinct_per_kind_and_instance E),
     (''pda_matches_spel_formula'', None, pda_matches_spel_formula E)]"

definition vote_suite :: "'x env \<Rightarrow> test_case list" where
  "vote_suite E =
    [(''member_can_approve_anonymously'', None, member_can_approve_anonymously E),
     (''double_vote_is_rejected'', Some ''PMS_E012'', double_vote_is_rejected E),
     (''non_member_salt_is_rejected'', Some ''PMS_E011'', non_member_salt_is_rejected E),
     (''right_salt_wrong_account_is_rejected'', Some ''PMS_E011'', right_salt_wrong_account_is_rejected E),
     (''unauthorized_member_account_is_rejected'', Some ''PMS_E010'',
        unauthorized_member_account_is_rejected E),
     (''two_members_reach_threshold'', None, two_members_reach_threshold E),
     (''rejections_kill_unreachable_proposal'', None, rejections_kill_unreachable_proposal E),
     (''double_reject_is_rejected'', Some ''PMS_E013'', double_reject_is_rejected E),
     (''reject_then_approve_switches_vote'', None, reject_then_approve_switches_vote E)]"

definition execute_suite :: "'x env \<Rightarrow> test_case list" where
  "execute_suite E =
    [(''execute_emits_chained_call_without_any_member_account'', None,
        execute_emits_chained_call_without_any_member_account E),
     (''execute_below_threshold_fails'', Some ''PMS_E014'', execute_below_threshold_fails E),
     (''execute_twice_fails'', Some ''PMS_E009'', execute_twice_fails E),
     (''execute_with_wrong_target_count_fails'', Some ''PMS_E015'', execute_with_wrong_target_count_fails E)]"

definition setup_suite :: "'x env \<Rightarrow> (nat \<Rightarrow> 'x \<Rightarrow> 'x) \<Rightarrow> test_case list" where
  "setup_suite E set_balance =
    [(''creates_proposal_and_increments_counter'', None, creates_proposal_and_increments_counter E),
     (''rejects_wrong_index'', Some ''PMS_E006'', rejects_wrong_index E),
     (''rejects_create_key_mismatch'', Some ''PMS_E004'', rejects_create_key_mismatch E),
     (''rejects_out_of_range_authorized_index'', Some ''PMS_E007'', rejects_out_of_range_authorized_index E),
     (''creates_state_with_commitments'', None, creates_state_with_commitments E),
     (''rejects_threshold_above_member_count'', Some ''PMS_E002'', rejects_threshold_above_member_count E),
     (''rejects_zero_threshold'', Some ''PMS_E002'', rejects_zero_threshold E),
     (''rejects_duplicate_member_cms'', Some ''PMS_E003'', rejects_duplicate_member_cms E),
     (''rejects_initialized_state_account'', Some ''PMS_E001'', rejects_initialized_state_account E set_balance),
     (''init_vault_emits_authorized_chained_call'', None, init_vault_emits_authorized_chained_call E),
     (''init_vault_rejects_initialized_vault'', Some ''PMS_E005'', init_vault_rejects_initialized_vault E)]"

definition test_suite :: "'x env \<Rightarrow> (nat \<Rightarrow> 'x \<Rightarrow> 'x) \<Rightarrow> test_case list" where
  "test_suite E set_balance = core_suite E @ vote_suite E @ execute_suite E @ setup_suite E set_balance"

lemma core_suite_passes:
  assumes "borsh_ok E" and "storage_ok E" and "collision_free E (core_preimages E)" and "seeds_separate E"
  shows "list_all test_passes (core_suite E)"
  using hash_tests_pass [OF assms(3)] action_hash_changes_with_content_passes [OF assms(1-3)]
    pdas_are_distinct_passes [OF assms(4)] pda_matches_spel_formula_passes [of E]
  by (simp add: core_suite_def)

lemma vote_suite_passes:
  assumes "test_platform E" and "collision_free E (fixture_preimages E)"
  shows "list_all test_passes (vote_suite E)"
  using member_can_approve_anonymously_passes [OF assms(1)] double_vote_is_rejected_passes [OF assms(1)]
    non_member_salt_is_rejected_passes [OF assms] right_salt_wrong_account_is_rejected_passes [OF assms]
    unauthorized_member_account_is_rejected_passes [OF assms(1)] two_members_reach_threshold_passes [OF assms]
    rejections_kill_unreachable_proposal_passes [OF assms] double_reject_is_rejected_passes [OF assms(1)]
    reject_then_approve_switches_vote_passes [OF assms(1)]
  by (simp add: vote_suite_def)

lemma execute_suite_passes:
  assumes "test_platform E" and "collision_free E (fixture_preimages E)"
  shows "list_all test_passes (execute_suite E)"
  using execute_emits_chained_call_passes [OF assms] execute_below_threshold_fails_passes [OF assms(1)]
    execute_twice_fails_passes [OF assms] execute_with_wrong_target_count_fails_passes [OF assms]
  by (simp add: execute_suite_def)

lemma setup_suite_passes:
  assumes "test_platform E" and "risc0_to_vec E InitializeAccount = Some (3 # ws)"
    and "set_balance 5 (acc_rest (account_default E)) \<noteq> acc_rest (account_default E)"
  shows "list_all test_passes (setup_suite E set_balance)"
  using creates_proposal_and_increments_counter_passes [OF assms(1)] rejects_wrong_index_passes [OF assms(1)]
    rejects_create_key_mismatch_passes [OF assms(1)] rejects_out_of_range_authorized_index_passes [OF assms(1)]
    creates_state_with_commitments_passes [OF assms(1)] create_multisig_refusals_pass [of E]
    rejects_initialized_state_account_passes [of set_balance, OF assms(3)]
    init_vault_emits_authorized_chained_call_passes [OF assms(1,2)]
    init_vault_rejects_initialized_vault_passes [OF assms(1)]
  by (simp add: setup_suite_def)

text \<open>
  C25: Every unit test of \<open>pms_core\<close> and \<open>multisig_program\<close> passes, the expected panics with
  the expected code, on every platform where Borsh reads back what it wrote, small values fit into
  accounts, the default account is empty, and the strings that the tests hash do not collide.
\<close>

theorem test_suite_passes:
  assumes "test_platform E" and "collision_free E (fixture_preimages E)"
    and "collision_free E (core_preimages E)" and "seeds_separate E"
    and "risc0_to_vec E InitializeAccount = Some (3 # ws)"
    and "set_balance 5 (acc_rest (account_default E)) \<noteq> acc_rest (account_default E)"
  shows "list_all test_passes (test_suite E set_balance)"
  using core_suite_passes [OF test_platformD(1,2) [OF assms(1)] assms(3,4)] vote_suite_passes [OF assms(1,2)]
    execute_suite_passes [OF assms(1,2)] setup_suite_passes [of _ _ set_balance, OF assms(1,5,6)]
  by (simp add: test_suite_def)

end
