(* ===== verification/Test_Witnesses.thy ===== *)
theory Test_Witnesses
  imports Test_Suite Sample
begin

text \<open>The unit tests on the sample platform, where what they rely on holds.\<close>

lemma storage_ok_sample: "storage_ok sample"
proof -
  have "\<exists>b. put_state s = Some b \<and> data_fits sample b" if "length (ms_member_cms s) \<le> 16" for s
    using sample_stores_state [OF that] by blast
  moreover have "\<exists>b. put_proposal p = Some b \<and> data_fits sample b" if "short_proposal p" for p
    using that sample_stores [of p]
    by (force simp: short_proposal_def s_small_def proposal_size_def action_size_def)
  moreover have "put_action a \<noteq> None"
    if "length (pa_target_instruction_data a) \<le> 16" "length (pa_pda_seeds a) \<le> 16"
      "length (pa_authorized_indices a) \<le> 16" for a
    by (rule put_action_total [of a]) (use that in \<open>simp_all add: action_size_def\<close>)
  ultimately show ?thesis by (simp add: storage_ok_def)
qed

lemma test_platform_sample: "test_platform sample"
  by (simp add: test_platform_def borsh_ok_sample storage_ok_sample)

lemma fixture_preimages_sample: "collision_free sample (fixture_preimages sample)"
  by code_simp

lemma core_preimages_sample: "collision_free sample (core_preimages sample)"
  by code_simp

lemma seeds_separate_sample: "seeds_separate sample"
proof -
  have "distinct (map digest (map pda_preimage core_pdas))" by code_simp
  then show ?thesis
    by (auto simp: seeds_separate_def distinct_map inj_on_def image_image)
qed

theorem test_suite_witness:
  "list_all test_passes (test_suite sample (\<lambda>n r. r + n)) \<and> length (test_suite sample (\<lambda>n r. r + n)) = 31"
  using test_suite_passes [OF test_platform_sample fixture_preimages_sample core_preimages_sample
      seeds_separate_sample, of "[]" "\<lambda>n r. r + n"]
  by (simp add: test_suite_def core_suite_def vote_suite_def execute_suite_def setup_suite_def)

end
