(* ===== verification/Bench_Witnesses.thy ===== *)
theory Bench_Witnesses
  imports Bench_Properties Cli_Sample Test_Witnesses
begin

text \<open>
  The benchmark on the sample machine, with an executor and a prover that run the guest on the vote
  they are given.
\<close>

definition b_encode :: "instruction \<Rightarrow> string + u32 list" where
  "b_encode ins = (case ins of
     Approve k i v \<Rightarrow> if k = arr_fill 7 \<and> i = 1 then Inr (map ucast (arr_list v)) else Inl ''not supported''
   | _ \<Rightarrow> Inl ''not supported'')"

text \<open>
  The prover refuses a mask, keys, a secret key or a membership proof that do not fit the accounts;
  on the sample machine public and secret key are the same number.
\<close>

definition b_prove ::
  "nat account_with_metadata list \<Rightarrow> u32 list \<Rightarrow> nat list \<Rightarrow> (nat \<times> nat) list \<Rightarrow> nat list \<Rightarrow>
     nat option list \<Rightarrow> 'w \<Rightarrow> (string + nat \<times> nat) \<times> 'w" where
  "b_prove pre words vis keys nsks proofs w =
     (if vis \<noteq> [0, 0, 1] \<or> map fst keys \<noteq> nsks \<or> proofs \<noteq> [None] \<or>
         map am_is_authorized pre \<noteq> [False, False, True] \<or>
         am_account_id (pre ! 2) \<noteq> account_id_of_npk c_sdk (nsks ! 0)
      then (Inl ''bad input'', w)
      else case arr_try_of (map ucast words) of
        None \<Rightarrow> (Inl ''undecodable'', w)
      | Some v \<Rightarrow> (case process sample pre (Approve (arr_fill 7) 1 v) of
          Inl _ \<Rightarrow> (Inl ''panic'', w) | Inr _ \<Rightarrow> (Inr (0, 0), w)))"

definition b_env :: "(nat, c_world, nat) bench_env" where
  "b_env = \<lparr>machine = c_env\<lparr>sdk := c_sdk\<lparr>serialize_instruction := b_encode,
       execute_and_prove := (\<lambda>pre words vis keys nsks proofs _ w. b_prove pre words vis keys nsks proofs w)\<rparr>\<rparr>,
     program_arg = (\<lambda>w. Some ''program''), manifest_dir = ''sdk'', debug_program_id = (\<lambda>_. ''id''),
     set_owner = (\<lambda>_. id), executor_env = (\<lambda>_ _ _. Some 0), run_executor = (\<lambda>_ _ w. (Inr (1, 1), w)),
     proof_bytes = (\<lambda>_. []), output_counts = (\<lambda>_. (2, 1, 1)), inner_receipt = (\<lambda>_. Some 0),
     receipt_verifies = (\<lambda>_ _. True)\<rparr>"

lemma b_env_simps [simp]:
  "guest_env (bench_sdk b_env) = sample" "serialize_instruction (bench_sdk b_env) = b_encode"
  "execute_and_prove (bench_sdk b_env) pre words vis keys nsks proofs program w =
     b_prove pre words vis keys nsks proofs w"
  "program_new (bench_sdk b_env) bytes = Inr (length bytes)"
  "inner_receipt b_env bs = Some 0" "receipt_verifies b_env r p"
  "npk (bench_sdk b_env) m = mi_keys m" "nsk (bench_sdk b_env) m = mi_keys m"
  "identity_account_id (bench_sdk b_env) m = account_id_of_npk c_sdk (mi_keys m)"
  by (simp_all add: b_env_def npk_def nsk_def identity_account_id_def c_sdk_def s_sdk_over_def)






end
