(* ===== verification/Spec2Isabelle.thy ===== *)
theory Spec2Isabelle
  imports Cli_Witnesses Ledger_Witnesses Race_Witnesses Bench_Witnesses
begin

text \<open>
  A verification of the private M-of-N multisig for the Logos execution zone (LEZ).

  The program.  A multisig is an account that holds a threshold M and N member commitments,
  \<open>hash(tag, salt, account id)\<close>.  Anyone may create one, propose a call on its behalf, and
  execute a proposal that has M approvals.  A member votes from a shielded account: it opens
  its commitment inside the platform's privacy circuit, and what goes on chain is a nullifier
  that is bound to the multisig, the proposal and the proposed action and says nothing else
  about the voter.  The guest program (\<^verbatim>\<open>multisig_program\<close>, on the data and the hash
  constructions of \<^verbatim>\<open>pms_core\<close>) is run by the platform on accounts it is given; the host-side
  \<^verbatim>\<open>sdk\<close> assembles those accounts, proves and submits; the \<^verbatim>\<open>cli\<close> is a front end to the SDK.

  Theories and code, from the bottom up (paths under \<^verbatim>\<open>src/\<close>):
  \<^item> Prelude: bytes, words in little-endian order, fixed-size arrays (the type \<open>arr\<close> for
    Rust's \<open>[T; N]\<close>), \<open>require\<close>/\<open>expect\<close>/\<open>bind\<close> for panicking code, \<open>Vec::retain\<close> and \<open>push\<close>.
  \<^item> Pms_Error (\<^verbatim>\<open>pms_core/src/error.rs\<close>), Pms_Types, Pms_State, Pms_Hash and Pms_Pda
    (\<^verbatim>\<open>pms_core/src/lib.rs\<close>): the error codes; the structs, enums and their methods with the
    invariants \<open>wf_state\<close> and \<open>wf_proposal\<close>; the commitment, nullifier and action hashes; the
    program-derived addresses.
  \<^item> Platform: the accounts and messages of \<^verbatim>\<open>nssa_core\<close> as far as the code names their fields,
    the parameters, and the locales \<open>codec\<close> and \<open>canonical_codec\<close> for serialisers.
    Borsh_Layout writes Borsh's wire format for the three stored types, shows that it keeps
    the laws of the locales and computes the size of a proposal account.
  \<^item> Create_Multisig, Propose_Handler, Approve_Handler, Reject_Handler, Execute_Handler and
    Init_Vault (one file of \<^verbatim>\<open>multisig_program/src/\<close> each): \<open>*_handle\<close> is the whole handler, from
    its accounts to the post-states and chained calls, or to the panic.  Vote_Side is the
    interface of the two vote handlers: each casts into one list of nullifiers and retracts
    from the other; the locale is interpreted at Approve and at Reject.
  \<^item> Dispatch (\<open>process\<close> of \<^verbatim>\<open>multisig_program/src/lib.rs\<close> and \<open>main\<close> of
    \<^verbatim>\<open>methods/guest/src/bin/private_multisig.rs\<close>) and Spel_Surface (the SPEL functions of
    \<^verbatim>\<open>multisig_program/src/lib.rs\<close>).
  \<^item> Ballot: the abstract specification, a vote with members as names, free of hashes and
    accounts.  Protocol: the inductive relations \<open>step\<close> and \<open>run\<close> of a multisig and one proposal
    under the guest's instructions, and the refinement of \<open>run\<close> to \<open>Ballot\<close>.  Safety and
    Liveness: what follows for every run.  Trust_Boundary: what the guest does not check
    itself, and what a vote reveals.
  \<^item> Races: two votes prepared against the same proposal account, of which one comes first.
  \<^item> Ledger: a multisig with all its proposals, as the relations \<open>transact\<close> and \<open>transacts\<close>; one
    proposal's view of them is a \<open>run\<close>.
  \<^item> Sdk and Sdk_Properties (\<^verbatim>\<open>sdk/src/lib.rs\<close>): identities, reads, the public operations, the
    private vote and the submission loop, over a record of the functions of other crates.
    Sdk_Chain puts the public operations, the guest and a chain of accounts together.
  \<^item> Cli_Text (the text forms of Rust's standard library), Cli (types, errors, files), Cli_Commands
    (token helpers, vote, status) and Cli_Main (the branches of \<open>main\<close>): \<^verbatim>\<open>cli/src/main.rs\<close>, over a
    record \<open>cli_env\<close> that adds files, terminal, environment and text formats to the SDK's.  Io_Wp
    is a weakest-precondition calculus for these computations; Cli_Properties, Cli_Effects and
    Cli_Guest hold what is proved of the commands, alone and together with SDK and guest.
  \<^item> Test_Support (\<^verbatim>\<open>multisig_program/src/test_support.rs\<close>), Core_Tests and Handler_Tests (the
    \<open>tests\<close> modules of \<^verbatim>\<open>pms_core\<close> and of the handlers): the repository's fixtures and its 31 unit
    tests, under their own names; Test_Suite shows that they pass.  Bench
    (\<^verbatim>\<open>sdk/examples/bench_prove.rs\<close>) is the proving benchmark, over a record \<open>bench_env\<close> that adds
    executor and verifier; Bench_Properties shows that it completes.
  \<^item> Sample is a concrete platform with a concrete multisig, Cli_Sample a machine to run \<open>pms\<close> on;
    Witnesses, Race_Witnesses, Ledger_Witnesses, Sdk_Witnesses, Cli_Witnesses, Test_Witnesses
    and Bench_Witnesses apply the theorems with hypotheses to them.

  State and operations.  The state of the guest is the data of two accounts: the Borsh
  encodings of a \<open>multisig_state\<close> and of a \<open>proposal\<close>.  An operation takes accounts and returns
  \<open>panic + (post-states, calls)\<close>; a panic is one of the documented errors (\<open>Pms e\<close>), another
  message, an arithmetic overflow or a slice index out of bounds (\<open>index_at\<close>, \<open>slice_from\<close>, with
  which the handlers name their accounts), and leaves the chain as it was.  Integers have the width of the
  source, \<open>usize\<close> values that count list elements are \<open>nat\<close>, with the borrow of a subtraction
  written out.  An SDK operation takes the world, and returns \<open>None\<close> if it never ends.

  Lemma groups.  \<open>*_accepts_iff\<close>: a handler accepts exactly under the conditions of its
  guards, with exactly these post-states and calls; \<open>*_errors\<close>: the error each failed guard
  reports; \<open>*_InrE\<close>: the elimination rules that the proofs about runs use; \<open>wf_*\<close>: the
  invariants.  Create, Propose, Approve, Reject and Execute are also related on whole runs:
  a run refines a run of the abstract ballot, so Execute happens at most once, after M
  distinct members have a standing approval, and never after a rejection, which happens
  exactly when a further vote leaves too few members for M approvals.  In the other direction
  M members can always bring a fresh proposal to execution.  \<open>*_retry\<close> and \<open>cast_cast\<close>: of two
  votes prepared on one proposal the second can be prepared again, and approvals commute up to
  the order of the nullifiers; only a rejection that closes the proposal makes the order matter.
  \<open>ledger_*\<close>: proposals do not
  interfere, accounts stay well typed, indices are consecutive.  \<open>accounted_*\<close>: each panic of a
  handler has its cause in the accounts and the instruction.  \<open>vote_view\<close>: a simulator that makes
  what a vote publishes from public data and one nullifier.  For the SDK: submission comes
  back, \<open>*_lands\<close>: what an operation submits ends up where the SDK's reads look for it,
  \<open>has_voted\<close> predicts the guest, and a
  vote that the guest refuses is never sent.  For the command line, \<open>settles_*\<close>: each routine
  comes back, and without a panic but that of a failed \<open>println!\<close>, hence \<open>main\<close> does; identity files read back, malformed keys
  have no effect, a proposed transfer spends from the vault whoever is named as its recipient,
  and the status report tells approvals from everything else.  \<open>*_passes\<close>: a unit test returns, or
  panics with the error it expects, on every platform with the documented laws; since the tests were
  written against the program, this also checks the model.  \<open>*_succeeds\<close>: the steps of the
  benchmark, whose statement is one the guest accepts.

  Parameters.  \<open>env\<close> holds what the guest takes from other crates: the two hash functions, PDA
  derivation, Borsh, the default account, the size limit of account data, the \<open>serde\<close>
  encoding of one token instruction, the overflow mode and the width of \<open>usize\<close>; \<open>sdk_env\<close> and
  \<open>cli_env\<close> do the same for the SDK and the command line.  Theorems that need Borsh to read
  back what it wrote assume \<open>borsh_ok\<close> (Borsh_Layout shows that the real format has the
  property), or \<open>platform_ok\<close> with it; \<open>text_ok\<close> and \<open>files_ok\<close> say the same of JSON, hexadecimal
  text and files.  No hash is assumed injective: theorems about distinct members assume that
  the finitely many strings a run hashes do not collide (\<open>collision_free\<close>, on an explicit list).
  In \<open>run\<close> and \<open>transacts\<close> the platform passes the multisig's own state account and a proposal's
  own account to every instruction; what happens otherwise is the subject of Trust_Boundary.
  There is no fuel anywhere; the two loops that may not end, the polling of \<open>submit_and_wait\<close>
  and of \<open>submit_public\<close>, are partial functions, and are proved to end when the clock runs.

  Conventions.  \<open>as_bytes\<close> is used at the ASCII tags of the source only.  The message of a
  panic out of \<open>expect\<close> on a \<open>Result\<close> is its text without the error appended by Rust.  A
  \<open>println!\<close> panics if standard output cannot be written (\<open>print_line\<close> may fail); theorems that need
  the output to be written say so (\<open>prints\<close>).  Logging in the SDK is left out.  The
  indices into fixed-size buffers (hash preimages) are constants within bounds, and plain.  Text
  with characters outside ASCII is written with ASCII ones (a hyphen for a dash or a middle dot, nothing for
  a pictograph).  \<open>to_vec\<close> of Borsh never fails on these types; the models keep the branch.

  Not modelled: \<^verbatim>\<open>idl-gen\<close> and \<^verbatim>\<open>methods\<close>' build script (one call into other crates each), the
  end-to-end tests (scripts against a running sequencer), the code that derive macros, \<open>clap\<close>
  and the SPEL framework generate, and the platform itself (privacy circuit, sequencer, claim
  checks), which is a parameter.  Sample's multisig has the shape of the unit tests' fixture and
  is not a translation of it.
\<close>

section \<open>From creation to execution\<close>

text \<open>
  C4: the whole life of a proposal succeeds.  After an accepted CreateMultisig and an accepted
  Propose on the account it wrote, any M members with distinct salts, authorised and opening M
  of the commitments given at creation, can all approve one after the other, and Execute then
  succeeds with the right number of targets and emits exactly the proposed call; provided the
  strings hashed for these members do not collide and the proposal account has room for M
  nullifiers.
\<close>

theorem lifecycle_succeeds:
  assumes E: "platform_ok E"
    and create: "process E [sa] (CreateMultisig k t cms) = Inr (posts, calls)"
    and open_it: "process E [with_post sa (posts ! 0), pa] (Propose k i tp ti tn seeds idxs) = Inr (posts', calls')"
    and p: "proposal_new E i k \<lparr>pa_target_program_id = tp, pa_target_instruction_data = ti,
      pa_target_account_count = tn, pa_pda_seeds = seeds, pa_authorized_indices = idxs\<rparr> = Inr p"
    and ms: "list_all (\<lambda>(v, ma). am_is_authorized ma \<and> member_cm E v (am_account_id ma) \<in> set cms) ms"
    and m: "length ms = unat t" "distinct (map fst ms)"
    and free: "collision_free E (hashed (am_account_id sa) i (pr_action_hash p)
      (map (\<lambda>(v, ma). (v, am_account_id ma)) ms))"
    and room: "room_for E p (length ms)" and ts: "length ts = unat tn"
  shows "\<exists>sa' pa' posts''.
    approve_all E k i (with_post (with_post sa (posts ! 0)) (posts' ! 0), with_post pa (posts' ! 1)) ms =
      Inr (sa', pa') \<and>
    process E (sa' # pa' # ts) (Execute k i) = Inr (posts'', [call_of (pr_action p) ts])"
proof -
  let ?s = "multisig_state_new k t cms"
  obtain b where b: "to_vec_state E ?s = Some b" "acc_data (ps_account (posts ! 0)) = b"
    and v: "valid_members t cms"
    using create by (auto elim!: create_multisig_handle_InrE)
  have "holds_state E (with_post sa (posts ! 0)) k ?s"
    using borsh_okD(1) [OF platform_ok_borsh [OF E] b(1)] b(2)
    by (simp add: holds_state_def multisig_state_new_def)
  moreover have "wf_state ?s" using v by (simp add: wf_state_new)
  ultimately have "proposed E ?s p (with_post (with_post sa (posts ! 0)) (posts' ! 0), with_post pa (posts' ! 1))"
    using open_it p by (blast intro: proposed.propose)
  moreover have fields: "ms_create_key ?s = k" "ms_threshold ?s = t" "ms_member_cms ?s = cms"
    by (simp_all add: multisig_state_new_def)
  moreover have "pr_index p = i" and "pa_target_account_count (pr_action p) = tn"
    using p by (auto simp: proposal_new_Inr)
  ultimately show ?thesis
    using members_can_execute [OF E, of ?s p _ _ ms ts] ms m free room ts by auto
qed

theorem lifecycle_witness:
  "\<exists>posts posts' sa pa posts''.
     process sample [s_account 1 []] (CreateMultisig s_key 2 s_cms) = Inr (posts, []) \<and>
     process sample [with_post (s_account 1 []) (posts ! 0), s_account 2 []]
       (Propose s_key 1 (arr_fill 42) [1, 2, 3] 2 [s_vault_seed] [0]) = Inr (posts', []) \<and>
     approve_all sample s_key 1 (with_post (with_post (s_account 1 []) (posts ! 0)) (posts' ! 0),
       with_post (s_account 2 []) (posts' ! 1)) (s_voters [0, 1]) = Inr (sa, pa) \<and>
     process sample (sa # pa # s_targets) (Execute s_key 1) = Inr (posts'', [call_of s_act s_targets])"
proof -
  obtain posts where create: "process sample [s_account 1 []] (CreateMultisig s_key 2 s_cms) = Inr (posts, [])"
    and sa: "with_post (s_account 1 []) (posts ! 0) = state_account s_state"
    using s_creates by auto
  obtain posts' where open_it: "process sample [with_post (s_account 1 []) (posts ! 0), s_account 2 []]
      (Propose s_key 1 (arr_fill 42) [1, 2, 3] 2 [s_vault_seed] [0]) = Inr (posts', [])"
    unfolding sa using s_proposes by (auto simp: s_act_def)
  have p: "proposal_new sample 1 s_key \<lparr>pa_target_program_id = arr_fill 42,
      pa_target_instruction_data = [1, 2, 3], pa_target_account_count = 2, pa_pda_seeds = [s_vault_seed],
      pa_authorized_indices = [0]\<rparr> = Inr s_prop"
    using action_hash_s_act by (simp add: proposal_new_def s_prop_def fresh_proposal_def flip: s_act_def)
  have m: "length (s_voters [0, 1]) = unat (2 :: u8)" "distinct (map fst (s_voters [0, 1]))"
    and room: "room_for sample s_prop (length (s_voters [0, 1]))"
    using s_distinct by (simp_all add: s_voters_def s_room)
  have free: "collision_free sample (hashed (am_account_id (s_account 1 [])) 1 (pr_action_hash s_prop)
      (map (\<lambda>(v, ma). (v, am_account_id ma)) (s_voters [0, 1])))"
    using s_free by simp
  have "length s_targets = unat (2 :: u8)" by simp
  from lifecycle_succeeds [OF platform_ok_sample create open_it p s_voters_ok [unfolded s_state_simps]
      m free room this] create open_it
  show ?thesis unfolding s_prop_simps by blast
qed

end
